(* ===== verification/Go_Strings.thy ===== *)
theory Go_Strings
  imports Main "HOL-Library.Char_ord" "HOL-Library.List_Lexorder" "HOL-Library.Sublist"
begin

text \<open>
  Prelude, part 1: Go strings and the functions of package strings that the
  services call. A Go string is a sequence of bytes and so is \<^typ>\<open>string\<close> here:
  a \<^typ>\<open>char\<close> is one byte, and a character outside ASCII is the bytes of its UTF-8
  encoding. Comparison is bytewise, as in Go (library theory List\_Lexorder).
  TrimSpace knows every rune that unicode.IsSpace accepts, by its encoding. ToLower and
  EqualFold map the ASCII letters and leave the bytes of all other runes alone: they are
  exact on ASCII text, which is what host names, component names, deployment modes and
  the other case-folded fields of the services hold.
\<close>

section \<open>Rules collected for the component theories\<close>

named_theorems go_defs \<open>definitions of Go library functions, unfolded to evaluate closed terms\<close>

section \<open>Trimming\<close>

text \<open>Remove, as long as there is one, a leading word of the list.\<close>

function strip_words :: "string list \<Rightarrow> string \<Rightarrow> string" where
  "strip_words ws s =
     (case find (\<lambda>w. w \<noteq> [] \<and> prefix w s) ws of
        None \<Rightarrow> s
      | Some w \<Rightarrow> strip_words ws (drop (length w) s))"
  by pat_completeness auto
termination
  by (relation "measure (\<lambda>(ws, s). length s)") (auto simp: find_Some_iff prefix_def)

declare strip_words.simps [simp del]

definition starts_with_word :: "string list \<Rightarrow> string \<Rightarrow> bool" where
  "starts_with_word ws s \<longleftrightarrow> (\<exists>w \<in> set ws. w \<noteq> [] \<and> prefix w s)"

text \<open>The UTF-8 encodings of the runes of unicode.IsSpace (property White\_Space).\<close>

definition space_runes :: "string list" where
  "space_runes =
     [[CHR 0x20], [CHR 0x0A], [CHR 0x09], [CHR 0x0D], [CHR 0x0B], [CHR 0x0C],
      [CHR 0xC2, CHR 0x85], [CHR 0xC2, CHR 0xA0], [CHR 0xE1, CHR 0x9A, CHR 0x80],
      [CHR 0xE2, CHR 0x80, CHR 0x80], [CHR 0xE2, CHR 0x80, CHR 0x81],
      [CHR 0xE2, CHR 0x80, CHR 0x82], [CHR 0xE2, CHR 0x80, CHR 0x83],
      [CHR 0xE2, CHR 0x80, CHR 0x84], [CHR 0xE2, CHR 0x80, CHR 0x85],
      [CHR 0xE2, CHR 0x80, CHR 0x86], [CHR 0xE2, CHR 0x80, CHR 0x87],
      [CHR 0xE2, CHR 0x80, CHR 0x88], [CHR 0xE2, CHR 0x80, CHR 0x89],
      [CHR 0xE2, CHR 0x80, CHR 0x8A], [CHR 0xE2, CHR 0x80, CHR 0xA8],
      [CHR 0xE2, CHR 0x80, CHR 0xA9], [CHR 0xE2, CHR 0x80, CHR 0xAF],
      [CHR 0xE2, CHR 0x81, CHR 0x9F], [CHR 0xE3, CHR 0x80, CHR 0x80]]"

text \<open>
  The last rune of a string is a space exactly when the string ends with one of these
  encodings: none of their proper suffixes starts a rune.
\<close>

definition trim_left :: "string list \<Rightarrow> string \<Rightarrow> string" where
  "trim_left ws s = strip_words ws s"

definition trim_right :: "string list \<Rightarrow> string \<Rightarrow> string" where
  "trim_right ws s = rev (strip_words (map rev ws) (rev s))"

definition TrimSpace :: "string \<Rightarrow> string" where
  "TrimSpace s = trim_right space_runes (trim_left space_runes s)"

text \<open>strings.Trim and strings.TrimRight with a one-byte cutset, strings.TrimSuffix.\<close>

definition Trim_byte :: "char \<Rightarrow> string \<Rightarrow> string" where
  "Trim_byte c s = trim_right [[c]] (trim_left [[c]] s)"

definition TrimRight_byte :: "char \<Rightarrow> string \<Rightarrow> string" where
  "TrimRight_byte c s = trim_right [[c]] s"

definition HasPrefix :: "string \<Rightarrow> string \<Rightarrow> bool" where
  "HasPrefix s p \<longleftrightarrow> prefix p s"

definition TrimSuffix :: "string \<Rightarrow> string \<Rightarrow> string" where
  "TrimSuffix s p = (if suffix p s then take (length s - length p) s else s)"

declare TrimSpace_def [go_defs] Trim_byte_def [go_defs] TrimRight_byte_def [go_defs]
  trim_left_def [go_defs] trim_right_def [go_defs] HasPrefix_def [go_defs]

subsection \<open>Laws of trimming\<close>

lemma find_starts_with_word:
  "find (\<lambda>w. w \<noteq> [] \<and> prefix w s) ws = None \<longleftrightarrow> \<not> starts_with_word ws s"
  by (auto simp: find_None_iff starts_with_word_def)

lemma strip_words_id: "\<not> starts_with_word ws s \<Longrightarrow> strip_words ws s = s"
  by (subst strip_words.simps) (simp add: find_starts_with_word [THEN iffD2])

lemma strip_words_stops: "\<not> starts_with_word ws (strip_words ws s)"
proof (induction ws s rule: strip_words.induct)
  case (1 ws s)
  then show ?case
    by (cases "find (\<lambda>w. w \<noteq> [] \<and> prefix w s) ws")
      (simp_all add: strip_words.simps [of ws s] find_starts_with_word [THEN iffD1])
qed

lemma strip_words_suffix: "suffix (strip_words ws s) s"
proof (induction ws s rule: strip_words.induct)
  case (1 ws s)
  show ?case
  proof (cases "find (\<lambda>w. w \<noteq> [] \<and> prefix w s) ws")
    case None
    then show ?thesis by (simp add: strip_words.simps [of ws s])
  next
    case (Some w)
    with 1 have "suffix (strip_words ws (drop (length w) s)) (drop (length w) s)" by blast
    also have "suffix (drop (length w) s) s" by (rule suffix_drop)
    finally show ?thesis using Some by (simp add: strip_words.simps [of ws s])
  qed
qed

lemma starts_with_word_prefix:
  "prefix s t \<Longrightarrow> starts_with_word ws s \<Longrightarrow> starts_with_word ws t"
  by (auto simp: starts_with_word_def intro: prefix_order.trans)

lemma trim_right_prefix: "prefix (trim_right ws s) s"
  using strip_words_suffix [of "map rev ws" "rev s"]
  by (simp add: trim_right_def suffix_to_prefix)

lemma trim_right_id: "\<not> starts_with_word (map rev ws) (rev s) \<Longrightarrow> trim_right ws s = s"
  by (simp add: trim_right_def strip_words_id)

lemma trim_right_stops: "\<not> starts_with_word (map rev ws) (rev (trim_right ws s))"
  by (simp add: trim_right_def strip_words_stops)

lemma trim_both_ends:
  "\<not> starts_with_word ws (trim_right ws (trim_left ws s))"
  using starts_with_word_prefix [OF trim_right_prefix, of ws] strip_words_stops [of ws s]
  unfolding trim_left_def by blast

lemma trim_trim:
  "trim_right ws (trim_left ws (trim_right ws (trim_left ws s))) = trim_right ws (trim_left ws s)"
  by (simp add: trim_left_def [of ws "trim_right ws (trim_left ws s)"] strip_words_id
      trim_both_ends trim_right_id trim_right_stops)

lemma TrimSpace_idem [simp]: "TrimSpace (TrimSpace s) = TrimSpace s"
  by (simp add: TrimSpace_def trim_trim)

lemma TrimSpace_Nil [simp]: "TrimSpace [] = []"
  by (simp add: TrimSpace_def trim_right_def trim_left_def strip_words_id starts_with_word_def)

lemma TrimSpace_sublist: "sublist (TrimSpace s) s"
proof -
  have "sublist (trim_left space_runes s) s"
    by (auto simp: trim_left_def intro: strip_words_suffix)
  moreover have "sublist (TrimSpace s) (trim_left space_runes s)"
    by (auto simp: TrimSpace_def intro: trim_right_prefix)
  ultimately show ?thesis
    by (meson sublist_order.order_trans)
qed

lemma set_TrimSpace: "set (TrimSpace s) \<subseteq> set s"
  using TrimSpace_sublist by (metis set_mono_sublist)

text \<open>A string of bytes none of which occurs in an encoding of a space is its own trim.\<close>

definition space_bytes :: "char set" where
  "space_bytes = \<Union> (set ` set space_runes)"

lemma starts_with_word_bytes: "starts_with_word ws s \<Longrightarrow> s \<noteq> [] \<and> hd s \<in> \<Union> (set ` set ws)"
  unfolding starts_with_word_def prefix_def
  by (metis UN_iff append_is_Nil_conv hd_append2 hd_in_set)

lemma TrimSpace_id:
  assumes "set s \<inter> space_bytes = {}"
  shows "TrimSpace s = s"
proof -
  have "\<not> starts_with_word space_runes s"
    using starts_with_word_bytes [of space_runes s] assms
    by (auto simp: space_bytes_def dest: hd_in_set)
  moreover have "\<not> starts_with_word (map rev space_runes) (rev s)"
    using starts_with_word_bytes [of "map rev space_runes" "rev s"] assms
    by (auto simp: space_bytes_def hd_rev dest: last_in_set)
  ultimately show ?thesis
    by (simp add: TrimSpace_def trim_left_def trim_right_id strip_words_id)
qed

section \<open>Case\<close>

definition lower_byte :: "char \<Rightarrow> char" where
  "lower_byte c =
     (let n = (of_char c :: nat) in if 65 \<le> n \<and> n \<le> 90 then char_of (n + 32) else c)"

definition ToLower :: "string \<Rightarrow> string" where
  "ToLower s = map lower_byte s"

definition EqualFold :: "string \<Rightarrow> string \<Rightarrow> bool" where
  "EqualFold s t \<longleftrightarrow> ToLower s = ToLower t"

lemma lower_byte_idem [simp]: "lower_byte (lower_byte c) = lower_byte c"
  by (simp add: lower_byte_def Let_def)

lemma ToLower_idem [simp]: "ToLower (ToLower s) = ToLower s"
  by (simp add: ToLower_def comp_def)

lemma ToLower_Nil_iff [simp]: "ToLower s = [] \<longleftrightarrow> s = []"
  by (simp add: ToLower_def)

lemma EqualFold_refl [simp]: "EqualFold s s"
  by (simp add: EqualFold_def)

lemma EqualFold_sym: "EqualFold s t \<longleftrightarrow> EqualFold t s"
  by (auto simp: EqualFold_def)

lemma EqualFold_trans: "EqualFold s t \<Longrightarrow> EqualFold t u \<Longrightarrow> EqualFold s u"
  by (simp add: EqualFold_def)

text \<open>Case does not matter to trimming: the encodings of spaces contain no letters.\<close>

definition caseless :: "char \<Rightarrow> bool" where
  "caseless c \<longleftrightarrow> (let n = (of_char c :: nat) in \<not> (65 \<le> n \<and> n \<le> 90) \<and> \<not> (97 \<le> n \<and> n \<le> 122))"

lemma lower_byte_caseless: "caseless c \<Longrightarrow> c = lower_byte d \<longleftrightarrow> c = d"
  by (auto simp: lower_byte_def caseless_def Let_def)

lemma prefix_lower:
  "list_all caseless w \<Longrightarrow> prefix w (map lower_byte s) \<longleftrightarrow> prefix w s"
proof (induction w arbitrary: s)
  case (Cons c w)
  then show ?case
    using lower_byte_caseless [of c] by (cases s) simp_all
qed simp

lemma strip_words_lower:
  "list_all (list_all caseless) ws \<Longrightarrow> strip_words ws (map lower_byte s) = map lower_byte (strip_words ws s)"
proof (induction ws s rule: strip_words.induct)
  case (1 ws s)
  have "prefix w (map lower_byte s) \<longleftrightarrow> prefix w s" if "w \<in> set ws" for w
    using 1(2) that by (auto simp: list_all_iff intro!: prefix_lower)
  then have same: "find (\<lambda>w. w \<noteq> [] \<and> prefix w (map lower_byte s)) ws = find (\<lambda>w. w \<noteq> [] \<and> prefix w s) ws"
    by (auto intro: find_cong)
  show ?case
  proof (cases "find (\<lambda>w. w \<noteq> [] \<and> prefix w s) ws")
    case None
    with same show ?thesis by (simp add: strip_words.simps [of ws s] strip_words.simps [of ws "map lower_byte s"])
  next
    case (Some w)
    with same 1 show ?thesis
      by (simp add: strip_words.simps [of ws s] strip_words.simps [of ws "map lower_byte s"] drop_map)
  qed
qed

lemma TrimSpace_ToLower: "TrimSpace (ToLower s) = ToLower (TrimSpace s)"
proof -
  have "list_all (list_all caseless) space_runes" "list_all (list_all caseless) (map rev space_runes)"
    by code_simp+
  then show ?thesis
    by (simp add: TrimSpace_def trim_left_def trim_right_def ToLower_def strip_words_lower rev_map)
qed

section \<open>Joining and printing\<close>

text \<open>strings.Join\<close>

fun Join :: "string list \<Rightarrow> string \<Rightarrow> string" where
  "Join [] sep = []"
| "Join [x] sep = x"
| "Join (x # y # ys) sep = x @ sep @ Join (y # ys) sep"

lemma Join_Nil_iff: "[] \<notin> set xs \<Longrightarrow> Join xs sep = [] \<longleftrightarrow> xs = []"
  by (induction xs sep rule: Join.induct) auto

text \<open>strconv.FormatInt in base 10, which strconv.Itoa and the verb \%d call.\<close>

definition digit :: "int \<Rightarrow> char" where
  "digit d = char_of (48 + d)"

function digits :: "int \<Rightarrow> string" where
  "digits n = (if n < 10 then [digit n] else digits (n div 10) @ [digit (n mod 10)])"
  by pat_completeness auto
termination
  by (relation "measure nat") auto

declare digits.simps [simp del]

definition FormatInt :: "int \<Rightarrow> string" where
  "FormatInt i = (if i < 0 then ''-'' @ digits (- i) else digits i)"

section \<open>Replacing and path elements\<close>

text \<open>
  strings.NewReplacer: at each position the first pair whose old text starts there, in the
  order of the arguments, is applied; the replaced text is not looked at again. (The pairs
  of the services have no empty old text.)
\<close>

function Replacer :: "(string \<times> string) list \<Rightarrow> string \<Rightarrow> string" where
  "Replacer pairs [] = []"
| "Replacer pairs (c # cs) =
     (case find (\<lambda>(old, new). old \<noteq> [] \<and> prefix old (c # cs)) pairs of
        None \<Rightarrow> c # Replacer pairs cs
      | Some (old, new) \<Rightarrow> new @ Replacer pairs (drop (length old) (c # cs)))"
  by pat_completeness auto
termination
  by (relation "measure (\<lambda>(pairs, s). length s)") (auto simp: find_Some_iff)

declare Replacer.simps(2) [simp del]

text \<open>path.Base\<close>

definition Base :: "string \<Rightarrow> string" where
  "Base path =
     (if path = [] then ''.''
      else let stripped = TrimRight_byte (CHR ''/'') path;
               elem = rev (takeWhile (\<lambda>c. c \<noteq> CHR ''/'') (rev stripped))
           in if elem = [] then ''/'' else elem)"

end
