(* ===== verification/Go_Numbers.thy ===== *)
theory Go_Numbers
  imports Go_Strings
begin

text \<open>
  Prelude, part 2: numbers. Go's int, int64 and time.Duration are 64-bit two's complement
  integers: a value is an \<^typ>\<open>int\<close>, and an operation that can leave the range goes
  through \<open>wrap64\<close>. A finite float64 is its significand and binary exponent (JSON
  cannot produce infinities or NaN). Conversion of a float64 out of the range of int64
  gives the value of the amd64 instruction, as the Dockerfiles build for amd64.
\<close>

section \<open>64-bit integers\<close>

definition min_int64 :: int where
  "min_int64 = - (2 ^ 63)"

definition max_int64 :: int where
  "max_int64 = 2 ^ 63 - 1"

definition in_int64 :: "int \<Rightarrow> bool" where
  "in_int64 i \<longleftrightarrow> min_int64 \<le> i \<and> i \<le> max_int64"

definition wrap64 :: "int \<Rightarrow> int" where
  "wrap64 i = (i + 2 ^ 63) mod 2 ^ 64 - 2 ^ 63"

lemma wrap64_range: "in_int64 (wrap64 i)"
  by (simp add: in_int64_def wrap64_def min_int64_def max_int64_def)

lemma wrap64_id: "in_int64 i \<Longrightarrow> wrap64 i = i"
  by (simp add: in_int64_def wrap64_def min_int64_def max_int64_def)

section \<open>strconv.Atoi\<close>

datatype num_error = ErrSyntax | ErrRange

definition digit_val :: "char \<Rightarrow> int option" where
  "digit_val c = (let n = (of_char c :: int) in if 48 \<le> n \<and> n \<le> 57 then Some (n - 48) else None)"

text \<open>The digit loop of strconv.ParseUint: a syntax error or an overflow stops the scan.\<close>

fun scan_digits :: "int \<Rightarrow> string \<Rightarrow> num_error + int" where
  "scan_digits n [] = Inr n"
| "scan_digits n (c # cs) =
     (case digit_val c of
        None \<Rightarrow> Inl ErrSyntax
      | Some d \<Rightarrow> if 2 ^ 64 \<le> 10 * n + d then Inl ErrRange else scan_digits (10 * n + d) cs)"

definition Atoi :: "string \<Rightarrow> num_error + int" where
  "Atoi s =
     (let neg = (s \<noteq> [] \<and> hd s = CHR ''-'');
          body = (if s \<noteq> [] \<and> (hd s = CHR ''-'' \<or> hd s = CHR ''+'') then tl s else s)
      in if body = [] then Inl ErrSyntax
         else case scan_digits 0 body of
           Inl e \<Rightarrow> Inl e
         | Inr n \<Rightarrow>
             if \<not> neg \<and> 2 ^ 63 \<le> n \<or> neg \<and> 2 ^ 63 < n then Inl ErrRange
             else Inr (if neg then - n else n))"

lemma digit_val_nonneg: "digit_val c = Some d \<Longrightarrow> 0 \<le> d"
  by (auto simp: digit_val_def Let_def split: if_splits)

lemma scan_digits_nonneg: "scan_digits n s = Inr m \<Longrightarrow> 0 \<le> n \<Longrightarrow> 0 \<le> m"
  by (induction n s rule: scan_digits.induct)
    (auto split: option.splits if_splits dest: digit_val_nonneg)

lemma Atoi_range: "Atoi s = Inr i \<Longrightarrow> in_int64 i"
  by (auto simp: Atoi_def Let_def in_int64_def min_int64_def max_int64_def
      split: if_splits sum.splits dest: scan_digits_nonneg)

subsection \<open>Printing and reading back\<close>

lemma digit_val_digit [simp]: "0 \<le> d \<Longrightarrow> d < 10 \<Longrightarrow> digit_val (digit d) = Some d"
  by (simp add: digit_val_def digit_def)

lemma digits_not_Nil [simp]: "digits n \<noteq> []"
  by (subst digits.simps) simp

lemma set_digits: "0 \<le> n \<Longrightarrow> set (digits n) \<subseteq> digit ` {0..<10}"
proof (induction n rule: digits.induct)
  case (1 n)
  then show ?case
    by (cases "n < 10") (auto simp: digits.simps [of n])
qed

definition decimal_bytes :: "char set" where
  "decimal_bytes = set ''0123456789''"

lemma digit_bytes: "digit ` {0..<10} = decimal_bytes"
proof -
  have "{0..<10} = {0, 1, 2, 3, 4, 5, 6, 7, 8, 9 :: int}"
    by (rule set_eqI) (simp, presburger)
  then show ?thesis by (simp add: digit_def char_of_def decimal_bytes_def bit_iff_odd)
qed

lemma scan_digits_append:
  "scan_digits n (s @ t) =
     (case scan_digits n s of Inl e \<Rightarrow> Inl e | Inr m \<Rightarrow> scan_digits m t)"
  by (induction n s rule: scan_digits.induct) (auto split: option.splits)

lemma scan_digits_digits: "0 \<le> n \<Longrightarrow> n < 2 ^ 64 \<Longrightarrow> scan_digits 0 (digits n) = Inr n"
proof (induction n rule: digits.induct)
  case (1 n)
  show ?case
  proof (cases "n < 10")
    case True
    with "1.prems" show ?thesis by (simp add: digits.simps [of n])
  next
    case False
    with 1 have "scan_digits 0 (digits (n div 10)) = Inr (n div 10)" by simp
    moreover have "10 * (n div 10) + n mod 10 = n" by simp
    ultimately show ?thesis
      using False "1.prems" by (simp add: digits.simps [of n] scan_digits_append)
  qed
qed

lemma hd_digits: "0 \<le> n \<Longrightarrow> hd (digits n) \<noteq> CHR ''-'' \<and> hd (digits n) \<noteq> CHR ''+''"
proof -
  assume "0 \<le> n"
  moreover have "hd (digits n) \<in> set (digits n)" by simp
  ultimately have "hd (digits n) \<in> decimal_bytes" using set_digits digit_bytes by blast
  then show ?thesis by (auto simp: decimal_bytes_def)
qed

lemma Atoi_FormatInt: "in_int64 i \<Longrightarrow> Atoi (FormatInt i) = Inr i"
  by (auto simp: Atoi_def FormatInt_def Let_def scan_digits_digits hd_digits
      in_int64_def min_int64_def max_int64_def)

lemma FormatInt_not_Nil [simp]: "FormatInt i \<noteq> []"
  by (simp add: FormatInt_def)

definition number_bytes :: "char set" where
  "number_bytes = insert (CHR ''-'') (insert (CHR ''.'') decimal_bytes)"

lemma set_digits_number: "0 \<le> n \<Longrightarrow> set (digits n) \<subseteq> number_bytes"
  using set_digits digit_bytes by (auto simp: number_bytes_def)

lemma number_bytes_no_space: "number_bytes \<inter> space_bytes = {}"
  by (auto simp: number_bytes_def space_bytes_def space_runes_def decimal_bytes_def)

lemma TrimSpace_number: "set s \<subseteq> number_bytes \<Longrightarrow> TrimSpace s = s"
  using number_bytes_no_space by (intro TrimSpace_id) blast

lemma set_FormatInt: "set (FormatInt i) \<subseteq> number_bytes"
  using set_digits_number [of i] set_digits_number [of "- i"]
  by (auto simp: FormatInt_def) (auto simp: number_bytes_def)

lemma TrimSpace_FormatInt [simp]: "TrimSpace (FormatInt i) = FormatInt i"
  by (rule TrimSpace_number) (rule set_FormatInt)

section \<open>float64\<close>

text \<open>\<open>F64 m e\<close> is the number m times 2 to the e.\<close>

datatype float64 = F64 (significand: int) (exponent: int)

definition wf_float64 :: "float64 \<Rightarrow> bool" where
  "wf_float64 x \<longleftrightarrow> \<bar>significand x\<bar> < 2 ^ 53 \<and> - 1074 \<le> exponent x \<and> exponent x \<le> 971"

text \<open>The test \<open>x == i\<close> for an integer constant or converted integer i.\<close>

definition float_eq_int :: "float64 \<Rightarrow> int \<Rightarrow> bool" where
  "float_eq_int x i \<longleftrightarrow>
     significand x * 2 ^ nat (exponent x) = i * 2 ^ nat (- exponent x)"

text \<open>The conversion int64(x): truncation, and the amd64 value when out of range.\<close>

definition float_to_int64 :: "float64 \<Rightarrow> int" where
  "float_to_int64 x =
     (let t = (if 0 \<le> exponent x then significand x * 2 ^ nat (exponent x)
               else sgn (significand x) * (\<bar>significand x\<bar> div 2 ^ nat (- exponent x)))
      in if in_int64 t then t else min_int64)"

lemma float_to_int64_range: "in_int64 (float_to_int64 x)"
  by (simp add: float_to_int64_def Let_def) (simp add: in_int64_def min_int64_def max_int64_def)

text \<open>
  The test \<open>x == float64(int64(x))\<close>. The conversion back to float64 is exact here: a
  truncated value of magnitude at least 2 to the 53 was an integral float64 to start with,
  and the out-of-range value is a power of two.
\<close>

definition is_integral :: "float64 \<Rightarrow> bool" where
  "is_integral x \<longleftrightarrow> float_eq_int x (float_to_int64 x)"

subsection \<open>strconv.FormatFloat(x, 'f', -1, 64)\<close>

text \<open>
  The shortest decimal that reads back as x. With the magnitude a normalised binary
  fraction, \<open>lower\<close> and \<open>upper\<close> bound the reals that round to it (inclusive when the
  significand is even); the digit positions are tried from the left until rounding down
  or up at that position stays inside the bounds.
\<close>

function normal_float :: "int \<Rightarrow> int \<Rightarrow> int \<times> int" where
  "normal_float m e = (if m < 2 ^ 52 \<and> - 1074 < e then normal_float (2 * m) (e - 1) else (m, e))"
  by pat_completeness auto
termination
  by (relation "measure (\<lambda>(m, e). nat (e + 1075))") auto

declare normal_float.simps [simp del]

text \<open>Comparison of a times 2 to the p with b times 10 to the k.\<close>

definition scale2 :: "int \<Rightarrow> int \<Rightarrow> int \<Rightarrow> int" where
  "scale2 a p k = a * 2 ^ nat p * 10 ^ nat (- k)"

definition scale10 :: "int \<Rightarrow> int \<Rightarrow> int \<Rightarrow> int" where
  "scale10 b k p = b * 10 ^ nat k * 2 ^ nat (- p)"

definition in_lower :: "int \<Rightarrow> int \<Rightarrow> int \<Rightarrow> int \<Rightarrow> bool" where
  "in_lower m e d k =
     (let (l, p) = (if m = 2 ^ 52 \<and> - 1074 < e then (4 * m - 1, e - 2) else (2 * m - 1, e - 1))
      in scale2 l p k < scale10 d k p \<or> even m \<and> scale2 l p k = scale10 d k p)"

definition in_upper :: "int \<Rightarrow> int \<Rightarrow> int \<Rightarrow> int \<Rightarrow> bool" where
  "in_upper m e d k =
     (let u = scale2 (2 * m + 1) (e - 1) k; v = scale10 d k (e - 1)
      in v < u \<or> even m \<and> v = u)"

definition round_at :: "int \<Rightarrow> int \<Rightarrow> int \<Rightarrow> int \<Rightarrow> int" where
  "round_at m e d k =
     (let x = scale2 (2 * m) e k; h = scale10 (2 * d + 1) k e
      in if x < h then d else if h < x then d + 1 else if even d then d else d + 1)"

fun shortest_from :: "nat \<Rightarrow> int \<Rightarrow> int \<Rightarrow> int \<Rightarrow> int \<times> int" where
  "shortest_from fuel m e k =
     (let d = scale2 m e k div scale10 1 k e; down = in_lower m e d k; up = in_upper m e (d + 1) k
      in if down \<and> up then (round_at m e d k, k)
         else if down then (d, k)
         else if up then (d + 1, k)
         else case fuel of 0 \<Rightarrow> (d, k) | Suc f \<Rightarrow> shortest_from f m e (k - 1))"

declare shortest_from.simps [simp del]

definition shortest :: "int \<Rightarrow> int \<Rightarrow> int \<times> int" where
  "shortest m e =
     (let (m', e') = normal_float m e;
          k = int (length (digits (scale2 m e 0 div scale10 1 0 e)))
      in shortest_from (nat (k + 1075)) m' e' k)"

definition zero_padded :: "nat \<Rightarrow> int \<Rightarrow> string" where
  "zero_padded w n = replicate (w - length (digits n)) (CHR ''0'') @ digits n"

definition fixed_notation :: "int \<Rightarrow> int \<Rightarrow> string" where
  "fixed_notation d k =
     (if 0 \<le> k then digits (d * 10 ^ nat k)
      else digits (d div 10 ^ nat (- k)) @ ''.'' @ zero_padded (nat (- k)) (d mod 10 ^ nat (- k)))"

definition FormatFloat :: "float64 \<Rightarrow> string" where
  "FormatFloat x =
     (let (d, k) = (if significand x = 0 then (0, 0) else shortest \<bar>significand x\<bar> (exponent x))
      in (if significand x < 0 then ''-'' else []) @ fixed_notation d k)"

lemma normal_float_nonneg: "0 \<le> m \<Longrightarrow> 0 \<le> fst (normal_float m e)"
proof (induction m e rule: normal_float.induct)
  case (1 m e)
  then show ?case by (simp add: normal_float.simps [of m e])
qed

lemma shortest_from_nonneg: "0 \<le> m \<Longrightarrow> 0 \<le> fst (shortest_from fuel m e k)"
proof (induction fuel m e k rule: shortest_from.induct)
  case (1 fuel m e k)
  have "0 \<le> scale2 m e k div scale10 1 k e"
    using "1.prems" by (intro pos_imp_zdiv_nonneg_iff [THEN iffD2]) (simp_all add: scale2_def scale10_def)
  with 1 show ?case
    by (simp add: shortest_from.simps [of fuel m e k] Let_def round_at_def split: nat.splits)
qed

lemma shortest_nonneg: "0 \<le> m \<Longrightarrow> 0 \<le> fst (shortest m e)"
  by (auto simp: shortest_def Let_def split: prod.splits
      dest: normal_float_nonneg [of m e] intro!: shortest_from_nonneg)

lemma set_fixed_notation: "0 \<le> d \<Longrightarrow> set (fixed_notation d k) \<subseteq> number_bytes"
proof -
  assume d: "0 \<le> d"
  have pad: "set (zero_padded w n) \<subseteq> number_bytes" if "0 \<le> n" for w n
    using set_digits_number [OF that]
    by (auto simp: zero_padded_def) (auto simp: number_bytes_def decimal_bytes_def)
  have "0 \<le> d div 10 ^ nat (- k)"
    using d by (simp add: pos_imp_zdiv_nonneg_iff)
  with d pad show ?thesis
    by (auto simp: fixed_notation_def dest!: subsetD [OF set_digits_number, rotated] subsetD [OF pad, rotated])
      (simp add: number_bytes_def)
qed

lemma set_FormatFloat: "set (FormatFloat x) \<subseteq> number_bytes"
proof -
  obtain d k where dk:
    "(if significand x = 0 then (0, 0) else shortest \<bar>significand x\<bar> (exponent x)) = (d, k)"
    by fastforce
  then have "0 \<le> d"
    using shortest_nonneg [of "\<bar>significand x\<bar>" "exponent x"] by (auto split: if_splits)
  then show ?thesis
    using set_fixed_notation [of d k] dk by (auto simp: FormatFloat_def) (simp add: number_bytes_def)
qed

lemma FormatFloat_not_Nil [simp]: "FormatFloat x \<noteq> []"
  by (simp add: FormatFloat_def fixed_notation_def split: prod.splits)

lemma TrimSpace_FormatFloat [simp]: "TrimSpace (FormatFloat x) = FormatFloat x"
  by (rule TrimSpace_number) (rule set_FormatFloat)

end
