(* ===== verification/Go_Maps.thy ===== *)
theory Go_Maps
  imports Main "HOL-Library.AList" "HOL-Library.Multiset"
begin

text \<open>
  Prelude, part 3: Go maps. A map is an association list with distinct keys
  (\<open>wf_map\<close>), in the order in which one range loop over it visits the keys. Go leaves
  that order open, so a result that is to be a function of the map has to be shown
  independent of it: \<open>same_map\<close> relates two lists that are the same map.
\<close>

type_synonym ('k, 'v) gomap = "('k \<times> 'v) list"

definition wf_map :: "('k, 'v) gomap \<Rightarrow> bool" where
  "wf_map m \<longleftrightarrow> distinct (map fst m)"

abbreviation map_get :: "('k, 'v) gomap \<Rightarrow> 'k \<Rightarrow> 'v option" where
  "map_get m k \<equiv> map_of m k"

abbreviation map_set :: "('k, 'v) gomap \<Rightarrow> 'k \<Rightarrow> 'v \<Rightarrow> ('k, 'v) gomap" where
  "map_set m k v \<equiv> AList.update k v m"

definition same_map :: "('k, 'v) gomap \<Rightarrow> ('k, 'v) gomap \<Rightarrow> bool" where
  "same_map m m' \<longleftrightarrow> map_of m = map_of m'"

lemma wf_map_Nil [simp]: "wf_map []"
  by (simp add: wf_map_def)

lemma wf_map_set [simp]: "wf_map m \<Longrightarrow> wf_map (map_set m k v)"
  by (simp add: wf_map_def distinct_update)

lemma map_get_set [simp]: "map_get (map_set m k v) = (map_get m)(k \<mapsto> v)"
  by (rule update_conv')

lemma wf_map_tl: "wf_map (p # m) \<Longrightarrow> wf_map m"
  by (simp add: wf_map_def)

lemma map_get_mem: "wf_map m \<Longrightarrow> (k, v) \<in> set m \<longleftrightarrow> map_get m k = Some v"
  by (simp add: wf_map_def)

lemma same_map_set: "wf_map m \<Longrightarrow> wf_map m' \<Longrightarrow> same_map m m' \<Longrightarrow> set m = set m'"
  by (auto simp: same_map_def map_get_mem)

lemma same_map_mset: "wf_map m \<Longrightarrow> wf_map m' \<Longrightarrow> same_map m m' \<Longrightarrow> mset m = mset m'"
  using same_map_set [of m m']
  by (simp add: wf_map_def set_eq_iff_mset_eq_distinct [symmetric] distinct_map)

section \<open>Loops over a map\<close>

text \<open>The copying loop \<open>for k, v := range m { c[k] = f v }\<close>, from a map c.\<close>

definition copy_into :: "('v \<Rightarrow> 'w) \<Rightarrow> ('k, 'v) gomap \<Rightarrow> ('k, 'w) gomap \<Rightarrow> ('k, 'w) gomap" where
  "copy_into f m c = fold (\<lambda>(k, v) c. map_set c k (f v)) m c"

lemma map_set_new: "k \<notin> fst ` set c \<Longrightarrow> map_set c k v = c @ [(k, v)]"
  by (induction c) auto

lemma copy_into_append:
  "wf_map m \<Longrightarrow> fst ` set m \<inter> fst ` set c = {} \<Longrightarrow> copy_into f m c = c @ map (\<lambda>(k, v). (k, f v)) m"
proof (induction m arbitrary: c)
  case Nil
  then show ?case by (simp add: copy_into_def)
next
  case (Cons p m)
  obtain k v where p: "p = (k, v)" by fastforce
  with Cons.prems have new: "k \<notin> fst ` set c" and fresh: "k \<notin> fst ` set m"
    by (auto simp: wf_map_def)
  have "copy_into f (p # m) c = copy_into f m (c @ [(k, f v)])"
    by (simp add: copy_into_def p map_set_new [OF new])
  also have "\<dots> = (c @ [(k, f v)]) @ map (\<lambda>(k, v). (k, f v)) m"
    using Cons.prems fresh p by (intro Cons.IH) (auto simp: wf_map_def)
  finally show ?case by (simp add: p)
qed

lemma copy_into_empty: "wf_map m \<Longrightarrow> copy_into f m [] = map (\<lambda>(k, v). (k, f v)) m"
  by (simp add: copy_into_append)

lemma copy_map_id: "wf_map m \<Longrightarrow> copy_into (\<lambda>v. v) m [] = m"
  by (simp add: copy_into_empty)

lemma wf_copy_into: "wf_map c \<Longrightarrow> wf_map (copy_into f m c)"
  by (induction m arbitrary: c) (auto simp: copy_into_def)

lemma wf_map_map: "wf_map (map (\<lambda>(k, v). (k, f v)) m) = wf_map m"
  by (simp add: wf_map_def comp_def case_prod_beta)

lemma map_get_map: "map_get (map (\<lambda>(k, v). (k, f v)) m) k = map_option f (map_get m k)"
  by (induction m) auto

text \<open>The index loop \<open>for _, x := range xs { m[key x] = val x }\<close>.\<close>

definition index_into :: "('a \<Rightarrow> 'k) \<Rightarrow> ('a \<Rightarrow> 'v) \<Rightarrow> 'a list \<Rightarrow> ('k, 'v) gomap \<Rightarrow> ('k, 'v) gomap" where
  "index_into key val xs m = fold (\<lambda>x m. map_set m (key x) (val x)) xs m"

text \<open>Later elements win: the map holds the last element of each key.\<close>

definition last_with :: "('a \<Rightarrow> 'k) \<Rightarrow> 'k \<Rightarrow> 'a list \<Rightarrow> 'a option" where
  "last_with key k xs = find (\<lambda>x. key x = k) (rev xs)"

lemma last_with_snoc:
  "last_with key k (xs @ [x]) = (if key x = k then Some x else last_with key k xs)"
  by (simp add: last_with_def)

lemma last_with_Nil [simp]: "last_with key k [] = None"
  by (simp add: last_with_def)

lemma last_with_SomeD: "last_with key k xs = Some x \<Longrightarrow> x \<in> set xs \<and> key x = k"
  unfolding last_with_def find_Some_iff by (metis nth_mem set_rev)

lemma last_with_None_iff: "last_with key k xs = None \<longleftrightarrow> k \<notin> key ` set xs"
  by (auto simp: last_with_def find_None_iff)

lemma last_with_distinct:
  assumes "distinct (map key xs)"
  shows "last_with key k xs = Some x \<longleftrightarrow> x \<in> set xs \<and> key x = k"
proof
  assume x: "x \<in> set xs \<and> key x = k"
  then obtain y where y: "last_with key k xs = Some y"
    using last_with_None_iff [of key k xs] by force
  then have "y \<in> set xs \<and> key y = k" by (rule last_with_SomeD)
  with x assms have "y = x" by (metis distinct_map inj_onD)
  with y show "last_with key k xs = Some x" by simp
qed (rule last_with_SomeD)

lemma wf_index_into: "wf_map m \<Longrightarrow> wf_map (index_into key val xs m)"
  by (induction xs arbitrary: m) (simp_all add: index_into_def)

lemma map_get_index_into:
  "map_get (index_into key val xs m) k =
     (case last_with key k xs of None \<Rightarrow> map_get m k | Some x \<Rightarrow> Some (val x))"
  by (induction xs rule: rev_induct) (simp_all add: index_into_def last_with_snoc)

lemma index_into_keys: "fst ` set (index_into key val xs m) = key ` set xs \<union> fst ` set m"
  by (induction xs arbitrary: m) (auto simp: index_into_def update_conv' dom_update)

lemma index_into_values: "(k, v) \<in> set (index_into key val xs []) \<Longrightarrow>
  \<exists>x. last_with key k xs = Some x \<and> v = val x"
  using map_get_mem [OF wf_index_into [of "[]" key val xs], of k v]
  by (simp add: map_get_index_into split: option.splits)

section \<open>Sorting the values of a map\<close>

text \<open>
  Sorting by a key that tells the elements apart has one result, whatever the algorithm
  and the order of the input: sort.Slice may be any function returning a sorted
  permutation.
\<close>

lemma sorted_by_key_unique:
  fixes key :: "'a \<Rightarrow> 'k::linorder"
  assumes "mset ys = mset xs" and "sorted (map key ys)" and "distinct (map key xs)"
  shows "ys = sort_key key xs"
proof -
  have "inj_on key (set xs)" using assms(3) by (simp add: distinct_map)
  then show ?thesis
    using sort_key_inj_key_eq [of xs ys key] assms(1,2) by simp
qed

end
