(* ===== verification/Go_Time.thy ===== *)
theory Go_Time
  imports Go_Numbers
begin

text \<open>
  Prelude, part 4: package time. A time.Time holds a wall clock, in nanoseconds since
  year 1 (so that the zero time is 0), and, when it comes straight from time.Now, a
  reading of the monotonic clock. UTC strips the monotonic reading, so a difference of
  two times that went through UTC is one of wall clocks and can be negative. A
  time.Duration is an int64 count of nanoseconds; Sub saturates.
\<close>

record gotime =
  wall :: int
  mono :: "int option"

definition zero_time :: gotime where
  "zero_time = \<lparr>wall = 0, mono = None\<rparr>"

definition IsZero :: "gotime \<Rightarrow> bool" where
  "IsZero t \<longleftrightarrow> wall t = 0"

definition UTC :: "gotime \<Rightarrow> gotime" where
  "UTC t = t\<lparr>mono := None\<rparr>"

definition saturate64 :: "int \<Rightarrow> int" where
  "saturate64 d = max min_int64 (min max_int64 d)"

definition Sub :: "gotime \<Rightarrow> gotime \<Rightarrow> int" where
  "Sub t u =
     (case (mono t, mono u) of
        (Some a, Some b) \<Rightarrow> saturate64 (a - b)
      | _ \<Rightarrow> saturate64 (wall t - wall u))"

definition After :: "gotime \<Rightarrow> gotime \<Rightarrow> bool" where
  "After t u \<longleftrightarrow>
     (case (mono t, mono u) of
        (Some a, Some b) \<Rightarrow> b < a
      | _ \<Rightarrow> wall u < wall t)"

text \<open>Duration.Milliseconds: integer division, which truncates towards zero.\<close>

definition Milliseconds :: "int \<Rightarrow> int" where
  "Milliseconds d = sgn d * (\<bar>d\<bar> div 1000000)"

text \<open>The Unix epoch is 62135596800 seconds after the zero time.\<close>

definition UnixNano :: "gotime \<Rightarrow> int" where
  "UnixNano t = wrap64 (wall t - 62135596800 * 10 ^ 9)"

lemma UTC_idem [simp]: "UTC (UTC t) = UTC t"
  by (simp add: UTC_def)

lemma wall_UTC [simp]: "wall (UTC t) = wall t"
  and mono_UTC [simp]: "mono (UTC t) = None"
  by (simp_all add: UTC_def)

lemma in_int64_saturate64: "in_int64 (saturate64 d)"
  by (simp add: in_int64_def saturate64_def min_int64_def max_int64_def)

lemma in_int64_Sub: "in_int64 (Sub t u)"
  by (simp add: Sub_def in_int64_saturate64 split: option.split)

lemma saturate64_ge: "0 < c \<Longrightarrow> in_int64 c \<Longrightarrow> c \<le> saturate64 d \<longleftrightarrow> c \<le> d"
  by (auto simp: saturate64_def in_int64_def min_int64_def max_int64_def)

lemma saturate64_mono: "d \<le> e \<Longrightarrow> saturate64 d \<le> saturate64 e"
  by (auto simp: saturate64_def)

text \<open>Against a positive int64 bound the saturation cannot be seen.\<close>

lemma Sub_wall_ge:
  "mono t = None \<Longrightarrow> 0 < c \<Longrightarrow> in_int64 c \<Longrightarrow> c \<le> Sub t u \<longleftrightarrow> c \<le> wall t - wall u"
  by (simp add: Sub_def saturate64_ge)

end
