(* ===== verification/Prelude.thy ===== *)
theory Prelude
  imports Go_Strings Go_Numbers Go_Maps Go_Time
begin

text \<open>
  Prelude: what every component theory imports. Besides the models of Go's library it
  holds the result type of a Go function that returns a value and an error, and lemmas
  on lists that several components share.
\<close>

section \<open>Results\<close>

text \<open>A pair of a value and an error, as \<open>Inr v\<close> when the error is nil and as \<open>Inl e\<close> else.\<close>

type_synonym ('e, 'a) result = "'e + 'a"

text \<open>The chain \<open>x, err := f(); if err != nil { return err }\<close>.\<close>

fun bind_result :: "('e, 'a) result \<Rightarrow> ('a \<Rightarrow> ('e, 'b) result) \<Rightarrow> ('e, 'b) result" where
  "bind_result (Inl e) f = Inl e"
| "bind_result (Inr x) f = f x"

lemma bind_result_Inr: "bind_result r f = Inr y \<longleftrightarrow> (\<exists>x. r = Inr x \<and> f x = Inr y)"
  by (cases r) auto

lemma bind_result_Inl: "bind_result r f = Inl e \<longleftrightarrow> r = Inl e \<or> (\<exists>x. r = Inr x \<and> f x = Inl e)"
  by (cases r) auto

lemmas bind_result_iffs = bind_result_Inr bind_result_Inl

text \<open>
  The validators collect messages: \<open>if c { errs = append(errs, msg) }\<close> for each check in
  turn, and fail with the joined messages when there are any.
\<close>

definition failed_checks :: "(bool \<times> string) list \<Rightarrow> string list" where
  "failed_checks cs = map snd (filter fst cs)"

lemma failed_checks_Nil [simp]: "failed_checks [] = []"
  and failed_checks_Cons [simp]:
    "failed_checks ((c, msg) # cs) = (if c then msg # failed_checks cs else failed_checks cs)"
  by (simp_all add: failed_checks_def)

lemma failed_checks_empty: "failed_checks cs = [] \<longleftrightarrow> (\<forall>(c, msg) \<in> set cs. \<not> c)"
  by (auto simp: failed_checks_def filter_empty_conv)

section \<open>Values of type interface\<close>

text \<open>
  The dynamic types an \<open>interface{}\<close> can have in the services. encoding/json produces
  nil, bool, float64, string, slices and maps; int and int64 are matched by the code too.
\<close>

datatype iface =
    VNil
  | VBool bool
  | VInt int
  | VInt64 int
  | VFloat64 float64
  | VString string
  | VSlice "iface list"
  | VMap "(string \<times> iface) list"

section \<open>Copies\<close>

text \<open>A copy of a pointer target, as the Clone methods make it.\<close>

definition clone_ptr :: "'a option \<Rightarrow> 'a option" where
  "clone_ptr p = (case p of None \<Rightarrow> None | Some v \<Rightarrow> Some v)"

text \<open>Go's copy writes the elements of the source over those of the destination.\<close>

definition go_copy :: "'a list \<Rightarrow> 'a list \<Rightarrow> 'a list" where
  "go_copy dst src =
     take (min (length dst) (length src)) src @ drop (min (length dst) (length src)) dst"

lemma clone_ptr_id [simp]: "clone_ptr p = p"
  by (simp add: clone_ptr_def split: option.split)

lemma go_copy_full [simp]: "length dst = length src \<Longrightarrow> go_copy dst src = src"
  by (simp add: go_copy_def)

section \<open>HTTP\<close>

text \<open>
  What sending a request can give: it cannot be built or executed, or an answer with a
  status, the bytes that can be read and the error reading ends with, if any.
\<close>

datatype http_answer =
    Build_failed string
  | Execute_failed string
  | Answer int string "string option"

section \<open>Programs that come to rest\<close>

text \<open>
  The contract of a step relation whose steps use up work and keep an invariant: a run is
  no longer than the work it starts with, and some run ends where no step is possible.
\<close>

locale settling =
  fixes step :: "'s \<Rightarrow> 's \<Rightarrow> bool"
    and work :: "'s \<Rightarrow> nat"
    and inv :: "'s \<Rightarrow> bool"
  assumes step_work: "step s s' \<Longrightarrow> work s' < work s"
    and step_inv: "step s s' \<Longrightarrow> inv s \<Longrightarrow> inv s'"
begin

lemma run_bounded: "(step ^^ n) s s' \<Longrightarrow> n + work s' \<le> work s"
proof (induction n arbitrary: s')
  case (Suc n)
  then obtain t where "(step ^^ n) s t" "step t s'" by auto
  with Suc.IH [of t] step_work [of t s'] show ?case by simp
qed simp

lemma run_keeps:
  assumes "(step ^^ n) s s'" and "inv s" and "Q s" and "\<And>t t'. step t t' \<Longrightarrow> inv t \<Longrightarrow> Q t \<Longrightarrow> Q t'"
  shows "inv s' \<and> Q s'"
  using assms(1)
proof (induction n arbitrary: s')
  case 0
  then show ?case using assms(2,3) by simp
next
  case (Suc n)
  then obtain t where "(step ^^ n) s t" "step t s'" by auto
  with Suc.IH [of t] step_inv assms(4) show ?case by blast
qed

lemma comes_to_rest: "\<exists>n s'. (step ^^ n) s s' \<and> (\<forall>s''. \<not> step s' s'')"
proof (induction "work s" arbitrary: s rule: less_induct)
  case less
  show ?case
  proof (cases "\<exists>t. step s t")
    case True
    then obtain t where t: "step s t" by blast
    from less.hyps [OF step_work [OF t]] obtain n s' where "(step ^^ n) t s'" "\<forall>s''. \<not> step s' s''" by blast
    with t relpowp_Suc_I2 show ?thesis by metis
  next
    case False
    then show ?thesis by (intro exI [of _ 0] exI [of _ s]) simp
  qed
qed

end

end
