(* ===== verification/Parser_Domain.thy ===== *)
theory Parser_Domain
  imports Prelude
begin

text \<open>
  ParserSvc, package domain (internal/domain/model.go): the desired state and its deep
  copies. A nil pointer is \<open>None\<close>. In a language of values a copy equals its original;
  what is left to show is that the copying loops lose nothing, which for the labels needs
  that they are a map.
\<close>

record DesiredWorkload_p =
  pw_Name :: string
  pw_Enabled :: bool
  pw_DeploymentMode :: string
  pw_Image :: string
  pw_Version :: "string option"
  pw_Port :: "int option"

record DesiredHost_p =
  ph_HostID :: string
  ph_FQDN :: string
  ph_IP :: string
  ph_Labels :: "(string, string) gomap"
  ph_Env :: string
  ph_ManagedBy :: string
  ph_Purpose :: string
  ph_Workloads :: "DesiredWorkload_p list"

record DesiredState_p =
  ps_Hosts :: "DesiredHost_p list"

record SnapshotMetadata =
  sm_LoadedAt :: gotime
  sm_ManifestMode :: string
  sm_ManifestPath :: string
  sm_FilesTotal :: nat
  sm_FilesLoaded :: nat
  sm_FilesBroken :: nat
  sm_FilesIgnored :: nat
  sm_HostsTotal :: nat
  sm_WorkloadsTotal :: nat
  sm_Ready :: bool
  sm_ReadyReason :: string

record Snapshot =
  sn_State :: DesiredState_p
  sn_Metadata :: SnapshotMetadata

section \<open>Clone\<close>

definition clone_workload_p :: "DesiredWorkload_p \<Rightarrow> DesiredWorkload_p" where
  "clone_workload_p w =
     (let port = clone_ptr (pw_Port w); version = clone_ptr (pw_Version w)
      in \<lparr>pw_Name = pw_Name w, pw_Enabled = pw_Enabled w,
          pw_DeploymentMode = pw_DeploymentMode w, pw_Image = pw_Image w,
          pw_Version = version, pw_Port = port\<rparr>)"

definition clone_host_p :: "DesiredHost_p \<Rightarrow> DesiredHost_p" where
  "clone_host_p h =
     (let labels = copy_into (\<lambda>v. v) (ph_Labels h) [];
          workloads = map clone_workload_p (ph_Workloads h)
      in \<lparr>ph_HostID = ph_HostID h, ph_FQDN = ph_FQDN h, ph_IP = ph_IP h, ph_Labels = labels,
          ph_Env = ph_Env h, ph_ManagedBy = ph_ManagedBy h, ph_Purpose = ph_Purpose h,
          ph_Workloads = workloads\<rparr>)"

definition clone_state_p :: "DesiredState_p \<Rightarrow> DesiredState_p" where
  "clone_state_p s = \<lparr>ps_Hosts = map clone_host_p (ps_Hosts s)\<rparr>"

definition clone_snapshot_p :: "Snapshot \<Rightarrow> Snapshot" where
  "clone_snapshot_p s = \<lparr>sn_State = clone_state_p (sn_State s), sn_Metadata = sn_Metadata s\<rparr>"

section \<open>Well-formed values and copies\<close>

definition wf_host_p :: "DesiredHost_p \<Rightarrow> bool" where
  "wf_host_p h \<longleftrightarrow> wf_map (ph_Labels h)"

definition wf_snapshot_p :: "Snapshot \<Rightarrow> bool" where
  "wf_snapshot_p s \<longleftrightarrow> list_all wf_host_p (ps_Hosts (sn_State s))"

lemma clone_workload_p_id [simp]: "clone_workload_p w = w"
  by (simp add: clone_workload_p_def)

lemma clone_host_p_HostID [simp]: "ph_HostID (clone_host_p h) = ph_HostID h"
  by (simp add: clone_host_p_def Let_def)

lemma clone_host_p_id: "wf_host_p h \<Longrightarrow> clone_host_p h = h"
  by (simp add: clone_host_p_def wf_host_p_def copy_map_id map_idI)

lemma clone_hosts_p_id: "list_all wf_host_p hs \<Longrightarrow> map clone_host_p hs = hs"
  by (rule map_idI) (auto simp: list_all_iff clone_host_p_id)

lemma clone_snapshot_p_id: "wf_snapshot_p s \<Longrightarrow> clone_snapshot_p s = s"
  by (simp add: clone_snapshot_p_def clone_state_p_def wf_snapshot_p_def clone_hosts_p_id)

end
