(* ===== verification/Parser_Manifest.thy ===== *)
theory Parser_Manifest
  imports Parser_Domain
begin

text \<open>
  ParserSvc, packages parser and validator: the part of a Structurizr workspace the
  service reads (internal/parser/structurizr.go), and the checks on hosts and workloads
  (internal/validator/validator.go). Decoding JSON into these structs is a parameter of
  \<open>ParseStructurizrManifest\<close>; the check that follows the decoding is modelled.
\<close>

section \<open>The manifest\<close>

record Container =
  ct_ID :: string
  ct_Name :: string
  ct_Technology :: string
  ct_Properties :: "(string, iface) gomap"

record SoftwareSystem =
  ss_ID :: string
  ss_Name :: string
  ss_Containers :: "Container list"

record ContainerInstance =
  ci_ID :: string
  ci_ContainerID :: string
  ci_Properties :: "(string, iface) gomap"

datatype DeploymentNode =
  DeploymentNode
    (dn_ID: string)
    (dn_Name: string)
    (dn_Environment: string)
    (dn_Properties: "(string, iface) gomap")
    (dn_ContainerInstances: "ContainerInstance list")
    (dn_Children: "DeploymentNode list")
    (dn_DeploymentNodes: "DeploymentNode list")

record StructurizrModel =
  md_DeploymentNodes :: "DeploymentNode list"
  md_SoftwareSystems :: "SoftwareSystem list"

record StructurizrManifest =
  mf_Model :: StructurizrModel

datatype parse_error = Unmarshal_error string | No_deployment_nodes

text \<open>\<open>unmarshal\<close> stands for json.Unmarshal into a StructurizrManifest.\<close>

definition ParseStructurizrManifest ::
  "(string \<Rightarrow> (string, StructurizrManifest) result) \<Rightarrow> string
     \<Rightarrow> (parse_error, StructurizrManifest) result" where
  "ParseStructurizrManifest unmarshal data =
     (case unmarshal data of
        Inl err \<Rightarrow> Inl (Unmarshal_error err)
      | Inr manifest \<Rightarrow>
          if length (md_DeploymentNodes (mf_Model manifest)) = 0 then Inl No_deployment_nodes
          else Inr manifest)"

definition ChildNodes :: "DeploymentNode \<Rightarrow> DeploymentNode list" where
  "ChildNodes d =
     (if length (dn_Children d) = 0 then dn_DeploymentNodes d
      else if length (dn_DeploymentNodes d) = 0 then dn_Children d
      else dn_Children d @ dn_DeploymentNodes d)"

lemma ChildNodes_append: "ChildNodes d = dn_Children d @ dn_DeploymentNodes d"
  by (simp add: ChildNodes_def)

lemma size_ChildNodes [termination_simp]: "c \<in> set (ChildNodes d) \<Longrightarrow> size c < size d"
  by (cases d) (auto simp: ChildNodes_append dest!: size_list_estimation' [OF _ order_refl, where f = size])

section \<open>Validation\<close>

definition ValidateHost :: "DesiredHost_p \<Rightarrow> string option" where
  "ValidateHost host =
     (let errs = failed_checks
        [(TrimSpace (ph_HostID host) = [], ''host_id is required''),
         (TrimSpace (ph_FQDN host) = [], ''fqdn is required''),
         (TrimSpace (ph_Env host) = [], ''env is required''),
         (TrimSpace (ph_ManagedBy host) = [], ''managed_by is required''),
         (TrimSpace (ph_Purpose host) = [], ''purpose is required'')]
      in if length errs > 0 then Some (Join errs ''; '') else None)"

definition ValidateWorkload :: "DesiredWorkload_p \<Rightarrow> string option" where
  "ValidateWorkload workload =
     (let errs = failed_checks
        [(TrimSpace (pw_Name workload) = [], ''workload name is required''),
         (TrimSpace (pw_DeploymentMode workload) = [], ''deployment_mode is required''),
         (EqualFold (TrimSpace (pw_DeploymentMode workload)) ''container''
            \<and> TrimSpace (pw_Image workload) = [],
          ''image is required when deployment_mode=container'')]
      in if length errs > 0 then Some (''invalid workload: '' @ Join errs ''; '') else None)"

lemma ValidateHost_None_iff:
  "ValidateHost host = None \<longleftrightarrow>
     TrimSpace (ph_HostID host) \<noteq> [] \<and> TrimSpace (ph_FQDN host) \<noteq> [] \<and>
     TrimSpace (ph_Env host) \<noteq> [] \<and> TrimSpace (ph_ManagedBy host) \<noteq> [] \<and>
     TrimSpace (ph_Purpose host) \<noteq> []"
  by (simp add: ValidateHost_def)

lemma ValidateWorkload_None_iff:
  "ValidateWorkload workload = None \<longleftrightarrow>
     TrimSpace (pw_Name workload) \<noteq> [] \<and> TrimSpace (pw_DeploymentMode workload) \<noteq> [] \<and>
     (EqualFold (TrimSpace (pw_DeploymentMode workload)) ''container''
        \<longrightarrow> TrimSpace (pw_Image workload) \<noteq> [])"
  by (simp add: ValidateWorkload_def)

end
