(* ===== verification/Parser_Mapper.thy ===== *)
theory Parser_Mapper
  imports Parser_Manifest
begin

text \<open>
  ParserSvc, package mapper (internal/mapper/mapper.go): from a Structurizr manifest to
  desired hosts and warnings. The error values keep the data that the code formats into
  the message. The \<open>result\<close> the code threads by pointer is passed and returned.
\<close>

section \<open>Normalisation of property values\<close>

datatype norm_error =
    Unsupported_type iface
  | Unsupported_boolean_value string
  | Unsupported_boolean_float float64
  | Unsupported_boolean_int int
  | Non_integer_number float64
  | Empty_numeric_value
  | Atoi_error num_error string

definition normalizeString :: "iface \<Rightarrow> (norm_error, string) result" where
  "normalizeString v =
     (case v of
        VString typed \<Rightarrow> Inr (TrimSpace typed)
      | VFloat64 typed \<Rightarrow>
          if is_integral typed then Inr (FormatInt (float_to_int64 typed))
          else Inr (FormatFloat typed)
      | VBool typed \<Rightarrow> if typed then Inr ''true'' else Inr ''false''
      | VInt typed \<Rightarrow> Inr (FormatInt typed)
      | VInt64 typed \<Rightarrow> Inr (FormatInt typed)
      | VNil \<Rightarrow> Inr []
      | _ \<Rightarrow> Inl (Unsupported_type v))"

definition normalizeBool :: "iface \<Rightarrow> (norm_error, bool) result" where
  "normalizeBool v =
     (case v of
        VBool typed \<Rightarrow> Inr typed
      | VString typed \<Rightarrow>
          (let normalized = ToLower (TrimSpace typed)
           in if normalized \<in> {''true'', ''1'', ''yes'', ''y''} then Inr True
              else if normalized \<in> {''false'', ''0'', ''no'', ''n''} then Inr False
              else Inl (Unsupported_boolean_value typed))
      | VFloat64 typed \<Rightarrow>
          if float_eq_int typed 1 then Inr True
          else if float_eq_int typed 0 then Inr False
          else Inl (Unsupported_boolean_float typed)
      | VInt typed \<Rightarrow>
          if typed = 1 then Inr True
          else if typed = 0 then Inr False
          else Inl (Unsupported_boolean_int typed)
      | _ \<Rightarrow> Inl (Unsupported_type v))"

definition normalizeInt :: "iface \<Rightarrow> (norm_error, int) result" where
  "normalizeInt v =
     (case v of
        VInt typed \<Rightarrow> Inr typed
      | VInt64 typed \<Rightarrow> Inr typed
      | VFloat64 typed \<Rightarrow>
          if \<not> is_integral typed then Inl (Non_integer_number typed)
          else Inr (float_to_int64 typed)
      | VString typed \<Rightarrow>
          (let normalized = TrimSpace typed
           in if normalized = [] then Inl Empty_numeric_value
              else case Atoi normalized of
                Inl err \<Rightarrow> Inl (Atoi_error err normalized)
              | Inr parsed \<Rightarrow> Inr parsed)
      | _ \<Rightarrow> Inl (Unsupported_type v))"

section \<open>Reading properties\<close>

datatype map_error =
    Is_required string
  | Key_error string norm_error
  | Container_not_found string
  | Invalid_port norm_error
  | Invalid_version norm_error
  | Invalid_fields string

definition getRequiredString ::
  "(string, iface) gomap \<Rightarrow> string \<Rightarrow> (map_error, string) result" where
  "getRequiredString properties key =
     (case map_get properties key of
        None \<Rightarrow> Inl (Is_required key)
      | Some value \<Rightarrow>
          (case normalizeString value of
             Inl err \<Rightarrow> Inl (Key_error key err)
           | Inr normalized \<Rightarrow>
               if normalized = [] then Inl (Is_required key) else Inr normalized))"

text \<open>Both results are kept: the callers of this one ignore the error.\<close>

definition getOptionalString ::
  "(string, iface) gomap \<Rightarrow> string \<Rightarrow> string \<times> map_error option" where
  "getOptionalString properties key =
     (case map_get properties key of
        None \<Rightarrow> ([], None)
      | Some value \<Rightarrow>
          (case normalizeString value of
             Inl err \<Rightarrow> ([], Some (Key_error key err))
           | Inr normalized \<Rightarrow> (normalized, None)))"

definition getRequiredBool ::
  "(string, iface) gomap \<Rightarrow> string \<Rightarrow> (map_error, bool) result" where
  "getRequiredBool properties key =
     (case map_get properties key of
        None \<Rightarrow> Inl (Is_required key)
      | Some value \<Rightarrow>
          (case normalizeBool value of
             Inl err \<Rightarrow> Inl (Key_error key err)
           | Inr normalized \<Rightarrow> Inr normalized))"

definition host_keys :: "string list" where
  "host_keys = [''host_id'', ''fqdn'', ''ip'', ''env'', ''managed_by'', ''purpose'']"

definition extract_label :: "string \<times> iface \<Rightarrow> (string, string) gomap \<Rightarrow> (string, string) gomap" where
  "extract_label p labels =
     (let (key, value) = p
      in if HasPrefix key ''structurizr.'' then labels
         else if key \<in> set host_keys then labels
         else case normalizeString value of
           Inl _ \<Rightarrow> labels
         | Inr normalized \<Rightarrow> if normalized = [] then labels else map_set labels key normalized)"

definition extractLabels ::
  "(string, iface) gomap \<Rightarrow> string \<Rightarrow> string \<Rightarrow> string \<Rightarrow> (string, string) gomap" where
  "extractLabels properties env managedBy purpose =
     (let labels0 = fold extract_label properties [];
          labels1 = (if env \<noteq> [] then map_set labels0 ''env'' env else labels0);
          labels2 = (if managedBy \<noteq> [] then map_set labels1 ''managed_by'' managedBy else labels1)
      in if purpose \<noteq> [] then map_set labels2 ''purpose'' purpose else labels2)"

section \<open>Hosts and workloads\<close>

definition mapHost :: "DeploymentNode \<Rightarrow> (map_error, DesiredHost_p) result" where
  "mapHost node =
     bind_result (getRequiredString (dn_Properties node) ''host_id'') (\<lambda>hostID.
     bind_result (getRequiredString (dn_Properties node) ''fqdn'') (\<lambda>fqdn.
     bind_result (getRequiredString (dn_Properties node) ''env'') (\<lambda>env.
     bind_result (getRequiredString (dn_Properties node) ''managed_by'') (\<lambda>managedBy.
     bind_result (getRequiredString (dn_Properties node) ''purpose'') (\<lambda>purpose.
       let ip = fst (getOptionalString (dn_Properties node) ''ip'');
           host = \<lparr>ph_HostID = hostID, ph_FQDN = fqdn, ph_IP = ip,
                   ph_Labels = extractLabels (dn_Properties node) env managedBy purpose,
                   ph_Env = env, ph_ManagedBy = managedBy, ph_Purpose = purpose,
                   ph_Workloads = []\<rparr>
       in case ValidateHost host of
            Some err \<Rightarrow> Inl (Invalid_fields err)
          | None \<Rightarrow> Inr host)))))"

definition map_port :: "(string, iface) gomap \<Rightarrow> (map_error, int option) result" where
  "map_port properties =
     (case map_get properties ''port'' of
        None \<Rightarrow> Inr None
      | Some portRaw \<Rightarrow>
          (case normalizeInt portRaw of
             Inl parseErr \<Rightarrow> Inl (Invalid_port parseErr)
           | Inr parsedPort \<Rightarrow> Inr (Some parsedPort)))"

definition map_version :: "(string, iface) gomap \<Rightarrow> (map_error, string option) result" where
  "map_version properties =
     (case map_get properties ''version'' of
        None \<Rightarrow> Inr None
      | Some versionRaw \<Rightarrow>
          (case normalizeString versionRaw of
             Inl parseErr \<Rightarrow> Inl (Invalid_version parseErr)
           | Inr parsedVersion \<Rightarrow> Inr (if parsedVersion \<noteq> [] then Some parsedVersion else None)))"

definition mapWorkload ::
  "ContainerInstance \<Rightarrow> (string, string) gomap \<Rightarrow> (map_error, DesiredWorkload_p) result" where
  "mapWorkload inst containerNamesByID =
     (let containerID = TrimSpace (ci_ContainerID inst)
      in case map_get containerNamesByID containerID of
           None \<Rightarrow> Inl (Container_not_found containerID)
         | Some name \<Rightarrow>
             if TrimSpace name = [] then Inl (Container_not_found containerID)
             else
               bind_result (getRequiredBool (ci_Properties inst) ''enabled'') (\<lambda>enabled.
               bind_result (getRequiredString (ci_Properties inst) ''deployment_mode'') (\<lambda>deploymentMode.
                 let image = fst (getOptionalString (ci_Properties inst) ''image'')
                 in
               bind_result (map_port (ci_Properties inst)) (\<lambda>port.
               bind_result (map_version (ci_Properties inst)) (\<lambda>version.
                 let workload = \<lparr>pw_Name = name, pw_Enabled = enabled,
                                 pw_DeploymentMode = deploymentMode, pw_Image = image,
                                 pw_Version = version, pw_Port = port\<rparr>
                 in case ValidateWorkload workload of
                      Some err \<Rightarrow> Inl (Invalid_fields err)
                    | None \<Rightarrow> Inr workload)))))"

section \<open>The manifest\<close>

datatype warning_message =
    Skip_deployment_node map_error
  | Skip_workload map_error

record Warning =
  wn_File :: string
  wn_NodeID :: string
  wn_HostID :: string
  wn_Workload :: string
  wn_Message :: warning_message

record MapResult =
  mr_Hosts :: "DesiredHost_p list"
  mr_Warnings :: "Warning list"
  mr_Workloads :: nat

definition add_container :: "Container \<Rightarrow> (string, string) gomap \<Rightarrow> (string, string) gomap" where
  "add_container container names =
     (let containerID = TrimSpace (ct_ID container)
      in if containerID = [] then names
         else map_set names containerID (TrimSpace (ct_Name container)))"

definition buildContainerMap :: "StructurizrManifest \<Rightarrow> (string, string) gomap" where
  "buildContainerMap manifest =
     fold (\<lambda>system names. fold add_container (ss_Containers system) names)
       (md_SoftwareSystems (mf_Model manifest)) []"

text \<open>One turn of the loop over the container instances of a node.\<close>

definition walk_instance ::
  "DeploymentNode \<Rightarrow> string \<Rightarrow> (string, string) gomap \<Rightarrow> ContainerInstance
     \<Rightarrow> DesiredHost_p \<times> MapResult \<Rightarrow> DesiredHost_p \<times> MapResult" where
  "walk_instance node sourceFile containerNamesByID inst acc =
     (let (host, result) = acc
      in case mapWorkload inst containerNamesByID of
           Inl err \<Rightarrow>
             (host, result\<lparr>mr_Warnings := mr_Warnings result @
                [\<lparr>wn_File = sourceFile, wn_NodeID = dn_ID node, wn_HostID = ph_HostID host,
                  wn_Workload = ci_ID inst, wn_Message = Skip_workload err\<rparr>]\<rparr>)
         | Inr workload \<Rightarrow>
             (host\<lparr>ph_Workloads := ph_Workloads host @ [workload]\<rparr>,
              result\<lparr>mr_Workloads := mr_Workloads result + 1\<rparr>))"

definition walk_node ::
  "DeploymentNode \<Rightarrow> string \<Rightarrow> (string, string) gomap \<Rightarrow> MapResult \<Rightarrow> MapResult" where
  "walk_node node sourceFile containerNamesByID result =
     (case mapHost node of
        Inl hostErr \<Rightarrow>
          result\<lparr>mr_Warnings := mr_Warnings result @
            [\<lparr>wn_File = sourceFile, wn_NodeID = dn_ID node, wn_HostID = [],
              wn_Workload = [], wn_Message = Skip_deployment_node hostErr\<rparr>]\<rparr>
      | Inr host0 \<Rightarrow>
          (let (host, result') =
             fold (walk_instance node sourceFile containerNamesByID) (dn_ContainerInstances node)
               (host0, result)
           in result'\<lparr>mr_Hosts := mr_Hosts result' @ [host]\<rparr>))"

function walkDeploymentNode ::
  "DeploymentNode \<Rightarrow> string \<Rightarrow> (string, string) gomap \<Rightarrow> MapResult \<Rightarrow> MapResult" where
  "walkDeploymentNode node sourceFile containerNamesByID result =
     fold (\<lambda>child r. walkDeploymentNode child sourceFile containerNamesByID r) (ChildNodes node)
       (walk_node node sourceFile containerNamesByID result)"
  by pat_completeness auto
termination
  by (relation "measure (\<lambda>(node, _). size node)") (auto simp: size_ChildNodes)

declare walkDeploymentNode.simps [simp del]

definition MapManifest :: "StructurizrManifest \<Rightarrow> string \<Rightarrow> MapResult" where
  "MapManifest manifest sourceFile =
     (let containerNamesByID = buildContainerMap manifest;
          result = \<lparr>mr_Hosts = [], mr_Warnings = [], mr_Workloads = 0\<rparr>
      in fold (\<lambda>node r. walkDeploymentNode node sourceFile containerNamesByID r)
           (md_DeploymentNodes (mf_Model manifest)) result)"

section \<open>What the walk computes\<close>

text \<open>
  The specification: the nodes in the order the recursion reaches them, and what each
  contributes on its own.
\<close>

function preorder :: "DeploymentNode \<Rightarrow> DeploymentNode list" where
  "preorder node = node # concat (map preorder (dn_Children node @ dn_DeploymentNodes node))"
  by pat_completeness auto
termination
  by (relation "measure size") (auto simp: size_ChildNodes ChildNodes_append [symmetric])

declare preorder.simps [simp del]

definition all_nodes :: "StructurizrManifest \<Rightarrow> DeploymentNode list" where
  "all_nodes manifest = concat (map preorder (md_DeploymentNodes (mf_Model manifest)))"

definition instance_workloads ::
  "(string, string) gomap \<Rightarrow> ContainerInstance \<Rightarrow> DesiredWorkload_p list" where
  "instance_workloads names i = (case mapWorkload i names of Inl _ \<Rightarrow> [] | Inr w \<Rightarrow> [w])"

definition node_workloads :: "(string, string) gomap \<Rightarrow> DeploymentNode \<Rightarrow> DesiredWorkload_p list" where
  "node_workloads names node = concat (map (instance_workloads names) (dn_ContainerInstances node))"

definition node_hosts :: "(string, string) gomap \<Rightarrow> DeploymentNode \<Rightarrow> DesiredHost_p list" where
  "node_hosts names node =
     (case mapHost node of
        Inl _ \<Rightarrow> []
      | Inr h \<Rightarrow> [h\<lparr>ph_Workloads := node_workloads names node\<rparr>])"

definition instance_warnings ::
  "string \<Rightarrow> (string, string) gomap \<Rightarrow> DeploymentNode \<Rightarrow> string \<Rightarrow> ContainerInstance \<Rightarrow> Warning list" where
  "instance_warnings file names node hostID i =
     (case mapWorkload i names of
        Inr _ \<Rightarrow> []
      | Inl err \<Rightarrow> [\<lparr>wn_File = file, wn_NodeID = dn_ID node, wn_HostID = hostID,
                      wn_Workload = ci_ID i, wn_Message = Skip_workload err\<rparr>])"

definition node_warnings :: "string \<Rightarrow> (string, string) gomap \<Rightarrow> DeploymentNode \<Rightarrow> Warning list" where
  "node_warnings file names node =
     (case mapHost node of
        Inl err \<Rightarrow> [\<lparr>wn_File = file, wn_NodeID = dn_ID node, wn_HostID = [],
                      wn_Workload = [], wn_Message = Skip_deployment_node err\<rparr>]
      | Inr h \<Rightarrow> concat (map (instance_warnings file names node (ph_HostID h)) (dn_ContainerInstances node)))"

definition extend_result :: "MapResult \<Rightarrow> DesiredHost_p list \<Rightarrow> Warning list \<Rightarrow> MapResult" where
  "extend_result r hosts warnings =
     r\<lparr>mr_Hosts := mr_Hosts r @ hosts, mr_Warnings := mr_Warnings r @ warnings,
       mr_Workloads := mr_Workloads r + sum_list (map (length \<circ> ph_Workloads) hosts)\<rparr>"

lemma extend_result_Nil [simp]: "extend_result r [] [] = r"
  by (simp add: extend_result_def)

lemma extend_result_append [simp]:
  "extend_result (extend_result r hs ws) hs' ws' = extend_result r (hs @ hs') (ws @ ws')"
  by (simp add: extend_result_def)

lemma mapHost_Workloads: "mapHost node = Inr h \<Longrightarrow> ph_Workloads h = []"
  by (auto simp: mapHost_def bind_result_iffs Let_def split: option.splits)

lemma fold_walk_instance:
  "fold (walk_instance node file names) is (h, r) =
     (h\<lparr>ph_Workloads := ph_Workloads h @
          concat (map (instance_workloads names) is)\<rparr>,
      r\<lparr>mr_Warnings := mr_Warnings r @ concat (map (instance_warnings file names node (ph_HostID h)) is),
        mr_Workloads := mr_Workloads r +
          length (concat (map (instance_workloads names) is))\<rparr>)"
proof (induction "is" arbitrary: h r)
  case Nil
  then show ?case by simp
next
  case (Cons i "is")
  then show ?case
    by (cases "mapWorkload i names")
      (simp_all add: walk_instance_def [of _ _ _ i] instance_warnings_def [of _ _ _ _ i]
        instance_workloads_def [of _ i])
qed

lemma walk_node_spec:
  "walk_node node file names r = extend_result r (node_hosts names node) (node_warnings file names node)"
  by (cases "mapHost node")
    (simp_all add: walk_node_def node_hosts_def node_warnings_def extend_result_def
      fold_walk_instance mapHost_Workloads node_workloads_def)

lemma walk_spec:
  "walkDeploymentNode node file names r =
     extend_result r (concat (map (node_hosts names) (preorder node)))
       (concat (map (node_warnings file names) (preorder node)))"
proof (induction "size node" arbitrary: node r rule: less_induct)
  case less
  have fold_children: "fold (\<lambda>child r. walkDeploymentNode child file names r) cs r =
      extend_result r (concat (map (node_hosts names) (concat (map preorder cs))))
        (concat (map (node_warnings file names) (concat (map preorder cs))))"
    if "set cs \<subseteq> set (ChildNodes node)" for cs r
    using that
    by (induction cs arbitrary: r) (simp_all add: less size_ChildNodes)
  show ?case
    by (simp add: walkDeploymentNode.simps [of node] preorder.simps [of node]
        fold_children walk_node_spec ChildNodes_append)
qed

lemma fold_walk_spec:
  "fold (\<lambda>node r. walkDeploymentNode node file names r) nodes r =
     extend_result r (concat (map (node_hosts names) (concat (map preorder nodes))))
       (concat (map (node_warnings file names) (concat (map preorder nodes))))"
  by (induction nodes arbitrary: r) (simp_all add: walk_spec)

section \<open>Lemmas on the pieces\<close>

lemma TrimSpace_bools [simp]: "TrimSpace ''true'' = ''true''" "TrimSpace ''false'' = ''false''"
  by code_simp+

lemma normalizeString_trimmed: "normalizeString v = Inr s \<Longrightarrow> TrimSpace s = s"
  by (auto simp: normalizeString_def split: iface.splits if_splits)

lemma getRequiredString_Inr:
  "getRequiredString properties key = Inr s \<Longrightarrow> s \<noteq> [] \<and> TrimSpace s = s"
  by (auto simp: getRequiredString_def dest: normalizeString_trimmed
      split: option.splits sum.splits if_splits)

lemma ValidateHost_required:
  assumes "getRequiredString p ''host_id'' = Inr a" "getRequiredString p ''fqdn'' = Inr b"
    "getRequiredString p ''env'' = Inr c" "getRequiredString p ''managed_by'' = Inr d"
    "getRequiredString p ''purpose'' = Inr e"
  shows "ValidateHost \<lparr>ph_HostID = a, ph_FQDN = b, ph_IP = ip, ph_Labels = ls, ph_Env = c,
           ph_ManagedBy = d, ph_Purpose = e, ph_Workloads = ws\<rparr> = None"
  using assms [THEN getRequiredString_Inr] by (simp add: ValidateHost_None_iff)

lemma mapHost_eq:
  "mapHost node =
     bind_result (getRequiredString (dn_Properties node) ''host_id'') (\<lambda>hostID.
     bind_result (getRequiredString (dn_Properties node) ''fqdn'') (\<lambda>fqdn.
     bind_result (getRequiredString (dn_Properties node) ''env'') (\<lambda>env.
     bind_result (getRequiredString (dn_Properties node) ''managed_by'') (\<lambda>managedBy.
     bind_result (getRequiredString (dn_Properties node) ''purpose'') (\<lambda>purpose.
       Inr \<lparr>ph_HostID = hostID, ph_FQDN = fqdn,
            ph_IP = fst (getOptionalString (dn_Properties node) ''ip''),
            ph_Labels = extractLabels (dn_Properties node) env managedBy purpose,
            ph_Env = env, ph_ManagedBy = managedBy, ph_Purpose = purpose, ph_Workloads = []\<rparr>)))))"
  by (cases "getRequiredString (dn_Properties node) ''host_id''";
      cases "getRequiredString (dn_Properties node) ''fqdn''";
      cases "getRequiredString (dn_Properties node) ''env''";
      cases "getRequiredString (dn_Properties node) ''managed_by''";
      cases "getRequiredString (dn_Properties node) ''purpose''")
    (simp_all add: mapHost_def ValidateHost_required Let_def)

lemma wf_fold_extract_label: "wf_map m \<Longrightarrow> wf_map (fold extract_label ps m)"
  by (induction ps arbitrary: m)
    (auto simp: extract_label_def split: sum.split)

lemma wf_extractLabels: "wf_map (extractLabels properties env managedBy purpose)"
  by (simp add: extractLabels_def Let_def wf_fold_extract_label)

lemma mapHost_valid:
  "mapHost node = Inr h \<Longrightarrow> ValidateHost h = None \<and> wf_host_p h"
  by (auto simp: mapHost_def bind_result_iffs Let_def wf_host_p_def wf_extractLabels
      split: option.splits)

lemma mapWorkload_valid:
  "mapWorkload i names = Inr w \<Longrightarrow>
     ValidateWorkload w = None \<and> map_get names (TrimSpace (ci_ContainerID i)) = Some (pw_Name w)"
  by (auto simp: mapWorkload_def bind_result_iffs Let_def split: option.splits if_splits)

text \<open>The value of a label that a property contributes by itself.\<close>

definition property_label :: "string \<Rightarrow> iface \<Rightarrow> string option" where
  "property_label key value =
     (if HasPrefix key ''structurizr.'' \<or> key \<in> set host_keys then None
      else case normalizeString value of
        Inl _ \<Rightarrow> None
      | Inr normalized \<Rightarrow> if normalized = [] then None else Some normalized)"

lemma extract_label_eq:
  "extract_label (key, value) labels =
     (case property_label key value of None \<Rightarrow> labels | Some l \<Rightarrow> map_set labels key l)"
  by (simp add: extract_label_def property_label_def split: sum.split)

lemma fold_extract_label_get:
  "wf_map ps \<Longrightarrow>
     map_get (fold extract_label ps m) k =
       (case Option.bind (map_get ps k) (property_label k) of None \<Rightarrow> map_get m k | Some l \<Rightarrow> Some l)"
proof (induction ps arbitrary: m)
  case Nil
  then show ?case by simp
next
  case (Cons p ps)
  obtain k' v where p: "p = (k', v)" by fastforce
  from Cons.prems p have "wf_map ps" and fresh: "map_get ps k' = None"
    by (auto simp: wf_map_def map_of_eq_None_iff)
  with Cons.IH [of "extract_label p m"] p show ?case
    by (auto simp: extract_label_eq split: option.split)
qed

lemma extractLabels_get:
  "wf_map ps \<Longrightarrow>
     map_get (extractLabels ps env managedBy purpose) k =
       (if k = ''purpose'' \<and> purpose \<noteq> [] then Some purpose
        else if k = ''managed_by'' \<and> managedBy \<noteq> [] then Some managedBy
        else if k = ''env'' \<and> env \<noteq> [] then Some env
        else Option.bind (map_get ps k) (property_label k))"
  by (auto simp: extractLabels_def Let_def fold_extract_label_get split: option.split)

section \<open>Properties\<close>

definition is_node_skip :: "Warning \<Rightarrow> bool" where
  "is_node_skip w = (case wn_Message w of Skip_deployment_node _ \<Rightarrow> True | Skip_workload _ \<Rightarrow> False)"

definition mapped_instances :: "StructurizrManifest \<Rightarrow> ContainerInstance list" where
  "mapped_instances manifest =
     concat (map dn_ContainerInstances (filter (\<lambda>n. \<not> isl (mapHost n)) (all_nodes manifest)))"

lemma MapManifest_eq:
  "MapManifest manifest file =
     (let names = buildContainerMap manifest;
          hosts = concat (map (node_hosts names) (all_nodes manifest))
      in \<lparr>mr_Hosts = hosts,
          mr_Warnings = concat (map (node_warnings file names) (all_nodes manifest)),
          mr_Workloads = sum_list (map (length \<circ> ph_Workloads) hosts)\<rparr>)"
  by (simp add: MapManifest_def Let_def fold_walk_spec extend_result_def all_nodes_def)

text \<open>
  C10: MapManifest walks the whole forest of deployment nodes in preorder, children
  before nested deployment nodes, and what it returns is the concatenation of what each
  node contributes on its own: the host with its workloads, or the warnings. The result
  threaded through the recursion, the early \<open>continue\<close>s and the counter compute
  exactly this.
\<close>
theorem MapManifest_spec:
  "MapManifest manifest file =
     (let names = buildContainerMap manifest;
          hosts = concat (map (node_hosts names) (all_nodes manifest))
      in \<lparr>mr_Hosts = hosts,
          mr_Warnings = concat (map (node_warnings file names) (all_nodes manifest)),
          mr_Workloads = sum_list (map (length \<circ> ph_Workloads) hosts)\<rparr>)"
  by (rule MapManifest_eq)

lemma node_counts:
  "length (node_hosts names n) + length (filter is_node_skip (node_warnings file names n)) = 1"
proof (cases "mapHost n")
  case (Inr h)
  have "filter is_node_skip (concat (map (instance_warnings file names n hostID) is)) = []" for hostID "is"
    by (induction "is") (auto simp: instance_warnings_def is_node_skip_def split: sum.split)
  with Inr show ?thesis by (simp add: node_hosts_def node_warnings_def)
qed (simp add: node_hosts_def node_warnings_def is_node_skip_def)

lemma instance_counts:
  "sum_list (map (length \<circ> ph_Workloads) (node_hosts names n)) +
     length (filter (\<lambda>w. \<not> is_node_skip w) (node_warnings file names n)) =
   (if isl (mapHost n) then 0 else length (dn_ContainerInstances n))"
proof (cases "mapHost n")
  case (Inr h)
  have "length (concat (map (instance_workloads names) is)) +
      length (filter (\<lambda>w. \<not> is_node_skip w) (concat (map (instance_warnings file names n hostID) is)))
      = length is" for hostID "is"
    by (induction "is")
      (auto simp: instance_warnings_def instance_workloads_def is_node_skip_def split: sum.split)
  with Inr show ?thesis by (simp add: node_hosts_def node_warnings_def node_workloads_def)
qed (simp add: node_hosts_def node_warnings_def is_node_skip_def)

text \<open>
  C32: nothing is dropped silently. Every deployment node gives one host or one
  skipped-node warning, and every container instance of a mapped node gives one workload
  or one skipped-workload warning; the workload counter of the result is the number of
  workloads in its hosts.
\<close>
theorem MapManifest_accounts:
  "let r = MapManifest manifest file;
       node_skips = filter is_node_skip (mr_Warnings r);
       workload_skips = filter (\<lambda>w. \<not> is_node_skip w) (mr_Warnings r)
   in length (mr_Hosts r) + length node_skips = length (all_nodes manifest)
      \<and> mr_Workloads r = sum_list (map (length \<circ> ph_Workloads) (mr_Hosts r))
      \<and> mr_Workloads r + length workload_skips = length (mapped_instances manifest)"
proof -
  let ?names = "buildContainerMap manifest"
  have "length (concat (map (node_hosts ?names) ns)) +
      length (filter is_node_skip (concat (map (node_warnings file ?names) ns))) = length ns" for ns
    using node_counts [of ?names _ "file"] by (induction ns) (simp_all add: algebra_simps)
  moreover have
    "sum_list (map (length \<circ> ph_Workloads) (concat (map (node_hosts ?names) ns))) +
       length (filter (\<lambda>w. \<not> is_node_skip w) (concat (map (node_warnings file ?names) ns))) =
     length (concat (map dn_ContainerInstances (filter (\<lambda>n. \<not> isl (mapHost n)) ns)))" for ns
  proof (induction ns)
    case (Cons n ns)
    then show ?case
      using instance_counts [of ?names n "file"]
      by (simp add: comp_def del: sum_list_eq_0_iff add_is_0 split: if_splits)
  qed simp
  ultimately show ?thesis
    by (simp add: MapManifest_eq Let_def mapped_instances_def)
qed

definition valid_desired_host :: "DesiredHost_p \<Rightarrow> bool" where
  "valid_desired_host h \<longleftrightarrow>
     ValidateHost h = None \<and> wf_host_p h \<and> list_all (\<lambda>w. ValidateWorkload w = None) (ph_Workloads h)"

lemma node_hosts_valid: "list_all valid_desired_host (node_hosts names n)"
proof (cases "mapHost n")
  case (Inr h)
  have "list_all (\<lambda>w. ValidateWorkload w = None) (node_workloads names n)"
    by (auto simp: node_workloads_def instance_workloads_def list_all_iff
        dest: mapWorkload_valid [OF sym] split: sum.splits)
  with mapHost_valid [OF Inr] Inr show ?thesis
    by (simp add: node_hosts_def valid_desired_host_def wf_host_p_def ValidateHost_None_iff)
qed (simp add: node_hosts_def)

text \<open>
  C33: every host that MapManifest returns passes ValidateHost, its labels are a map, and
  every one of its workloads passes ValidateWorkload (in particular a workload with
  deployment mode container has an image).
\<close>
theorem MapManifest_valid: "list_all valid_desired_host (mr_Hosts (MapManifest manifest file))"
  using node_hosts_valid by (auto simp: MapManifest_eq Let_def list_all_iff)

definition required_keys :: "string list" where
  "required_keys = [''host_id'', ''fqdn'', ''env'', ''managed_by'', ''purpose'']"

text \<open>
  MapHost fails exactly with the error of the first required property, in the order
  host_id, fqdn, env, managed_by, purpose, that is missing, blank or of an unsupported
  type. The call of ValidateHost at its end never fails.
\<close>
theorem mapHost_error_iff:
  "mapHost node = Inl e \<longleftrightarrow>
     (\<exists>k. find (\<lambda>k. isl (getRequiredString (dn_Properties node) k)) required_keys = Some k
        \<and> getRequiredString (dn_Properties node) k = Inl e)"
  by (cases "getRequiredString (dn_Properties node) ''host_id''";
      cases "getRequiredString (dn_Properties node) ''fqdn''";
      cases "getRequiredString (dn_Properties node) ''env''";
      cases "getRequiredString (dn_Properties node) ''managed_by''";
      cases "getRequiredString (dn_Properties node) ''purpose''")
    (simp_all add: mapHost_eq required_keys_def)

text \<open>
  The labels of a host do not depend on the order in which the range loop of
  extractLabels visits the properties, and the labels env, managed_by and purpose always
  carry the required values, whatever labels the properties give.
\<close>
theorem extractLabels_order:
  assumes "wf_map ps" and "wf_map ps'" and "same_map ps ps'"
  shows "same_map (extractLabels ps env managedBy purpose) (extractLabels ps' env managedBy purpose)
    \<and> (env \<noteq> [] \<longrightarrow> map_get (extractLabels ps env managedBy purpose) ''env'' = Some env)
    \<and> (managedBy \<noteq> [] \<longrightarrow>
         map_get (extractLabels ps env managedBy purpose) ''managed_by'' = Some managedBy)
    \<and> (purpose \<noteq> [] \<longrightarrow>
         map_get (extractLabels ps env managedBy purpose) ''purpose'' = Some purpose)"
  using assms by (auto simp: same_map_def extractLabels_get fun_eq_iff)

definition sample_properties :: "(string, iface) gomap" where
  "sample_properties =
     [(''host_id'', VString ''srv-001''), (''role'', VString '' db ''), (''env'', VString ''dev'')]"

theorem extractLabels_order_witness:
  "same_map (extractLabels sample_properties ''dev'' ''ops'' ''db'')
     (extractLabels (rev sample_properties) ''dev'' ''ops'' ''db'')"
proof -
  have "wf_map sample_properties" "wf_map (rev sample_properties)"
    by (simp_all add: wf_map_def sample_properties_def)
  moreover have "same_map sample_properties (rev sample_properties)"
    by (auto simp: same_map_def sample_properties_def fun_eq_iff)
  ultimately show ?thesis using extractLabels_order by blast
qed

text \<open>
  Printing a port and reading it back is the identity on the whole range of int: the
  text that normalizeString makes of an int is what normalizeInt turns into the same int.
\<close>
theorem normalizeInt_roundtrip:
  assumes "in_int64 n"
  shows "bind_result (normalizeString (VInt n)) (\<lambda>s. normalizeInt (VString s)) = Inr n"
  using assms by (simp add: normalizeString_def normalizeInt_def Atoi_FormatInt)

theorem normalizeInt_roundtrip_witness:
  "bind_result (normalizeString (VInt 9100)) (\<lambda>s. normalizeInt (VString s)) = Inr 9100"
  by (rule normalizeInt_roundtrip) (simp add: in_int64_def min_int64_def max_int64_def)

text \<open>
  Normalisation is idempotent: reading back the text of any property value that
  normalizeString accepts gives that text.
\<close>
theorem normalizeString_idem:
  "bind_result (normalizeString v) (\<lambda>s. normalizeString (VString s)) = normalizeString v"
  by (cases "normalizeString v")
    (auto simp: normalizeString_def [of "VString _"] dest: normalizeString_trimmed)

end
