(* ===== verification/Snapshot_Interface.thy ===== *)
theory Snapshot_Interface
  imports Prelude
begin

text \<open>
  The interface of the two in-memory stores (ParserSvc and InventorySvc, both
  internal/store/memory/store.go): a snapshot that is replaced as a whole, an index of its
  hosts by id, and a readiness flag. The mutex of the stores makes each operation one
  atomic step, so a run of a store is a list of operations. The laws are stated for
  snapshots whose maps are maps (\<open>wf_snap\<close>).
\<close>

datatype 'snap store_op = Op_Replace 'snap | Op_SetReady bool

fun run_op :: "('snap \<Rightarrow> 's \<Rightarrow> 's) \<Rightarrow> (bool \<Rightarrow> 's \<Rightarrow> 's) \<Rightarrow> 'snap store_op \<Rightarrow> 's \<Rightarrow> 's" where
  "run_op replace set_ready (Op_Replace snap) st = replace snap st"
| "run_op replace set_ready (Op_SetReady b) st = set_ready b st"

definition run_ops ::
  "('snap \<Rightarrow> 's \<Rightarrow> 's) \<Rightarrow> (bool \<Rightarrow> 's \<Rightarrow> 's) \<Rightarrow> 'snap store_op list \<Rightarrow> 's \<Rightarrow> 's" where
  "run_ops replace set_ready ops st = fold (run_op replace set_ready) ops st"

definition ops_wf :: "('snap \<Rightarrow> bool) \<Rightarrow> 'snap store_op list \<Rightarrow> bool" where
  "ops_wf wf_snap ops \<longleftrightarrow> (\<forall>snap. Op_Replace snap \<in> set ops \<longrightarrow> wf_snap snap)"

text \<open>What a reader has to see after a run: the last replacement and the last flag.\<close>

fun last_snapshot :: "'snap \<Rightarrow> 'snap store_op list \<Rightarrow> 'snap" where
  "last_snapshot s [] = s"
| "last_snapshot s (Op_Replace snap # ops) = last_snapshot snap ops"
| "last_snapshot s (Op_SetReady b # ops) = last_snapshot s ops"

fun last_ready :: "bool \<Rightarrow> 'snap store_op list \<Rightarrow> bool" where
  "last_ready r [] = r"
| "last_ready r (Op_Replace snap # ops) = last_ready r ops"
| "last_ready r (Op_SetReady b # ops) = last_ready b ops"

locale snapshot_store =
  fixes new_store :: 's
    and replace :: "'snap \<Rightarrow> 's \<Rightarrow> 's"
    and set_ready :: "bool \<Rightarrow> 's \<Rightarrow> 's"
    and get_snapshot :: "'s \<Rightarrow> 'snap"
    and get_host :: "'s \<Rightarrow> string \<Rightarrow> 'h option"
    and is_ready :: "'s \<Rightarrow> bool"
    and snapshot_hosts :: "'snap \<Rightarrow> 'h list"
    and host_id :: "'h \<Rightarrow> string"
    and wf_snap :: "'snap \<Rightarrow> bool"
  assumes snapshot_new: "snapshot_hosts (get_snapshot new_store) = []"
    and host_new: "get_host new_store i = None"
    and ready_new: "\<not> is_ready new_store"
    and snapshot_replace: "wf_snap s \<Longrightarrow> get_snapshot (replace s st) = s"
    and host_replace: "wf_snap s \<Longrightarrow> get_host (replace s st) i = last_with host_id i (snapshot_hosts s)"
    and ready_replace: "is_ready (replace s st) = is_ready st"
    and snapshot_set_ready: "get_snapshot (set_ready b st) = get_snapshot st"
    and host_set_ready: "get_host (set_ready b st) i = get_host st i"
    and ready_set_ready: "is_ready (set_ready b st) = b"
begin

lemmas store_laws = snapshot_replace host_replace ready_replace
  snapshot_set_ready host_set_ready ready_set_ready

text \<open>The index and the snapshot agree: the invariant of the store.\<close>

definition coherent :: "'s \<Rightarrow> bool" where
  "coherent st \<longleftrightarrow>
     (\<forall>i. get_host st i = last_with host_id i (snapshot_hosts (get_snapshot st)))"

lemma coherent_new: "coherent new_store"
  by (simp add: coherent_def snapshot_new host_new)

lemma coherent_run:
  "coherent st \<Longrightarrow> ops_wf wf_snap ops \<Longrightarrow> coherent (run_ops replace set_ready ops st)"
proof (induction ops arbitrary: st)
  case Nil
  then show ?case by (simp add: run_ops_def)
next
  case (Cons oper ops)
  have "coherent (run_op replace set_ready oper st)"
    using Cons.prems by (cases oper) (simp_all add: coherent_def store_laws ops_wf_def)
  moreover have "ops_wf wf_snap ops" using Cons.prems(2) by (simp add: ops_wf_def)
  ultimately have "coherent (run_ops replace set_ready ops (run_op replace set_ready oper st))"
    by (rule Cons.IH)
  then show ?case by (simp add: run_ops_def)
qed

lemma snapshot_run:
  "ops_wf wf_snap ops \<Longrightarrow>
     get_snapshot (run_ops replace set_ready ops st) = last_snapshot (get_snapshot st) ops"
proof (induction ops arbitrary: st)
  case (Cons oper ops)
  then show ?case by (cases oper) (simp_all add: run_ops_def store_laws ops_wf_def)
qed (simp add: run_ops_def)

lemma ready_run: "is_ready (run_ops replace set_ready ops st) = last_ready (is_ready st) ops"
proof (induction ops arbitrary: st)
  case (Cons oper ops)
  then show ?case by (cases oper) (simp_all add: run_ops_def store_laws)
qed (simp add: run_ops_def)

text \<open>After any run from a new store, all three readers agree with the history.\<close>

lemma readers_run:
  assumes "ops_wf wf_snap ops"
  defines "st \<equiv> run_ops replace set_ready ops new_store"
  shows "get_snapshot st = last_snapshot (get_snapshot new_store) ops
    \<and> get_host st i = last_with host_id i (snapshot_hosts (get_snapshot st))
    \<and> is_ready st = last_ready False ops"
  using assms coherent_run [OF coherent_new, of ops] snapshot_run [of ops new_store]
    ready_run [of ops new_store] ready_new
  by (simp add: coherent_def)

end

end
