(* ===== verification/Parser_Store.thy ===== *)
theory Parser_Store
  imports Parser_Domain Snapshot_Interface
begin

text \<open>
  ParserSvc, package memory (internal/store/memory/store.go), and its interpretation as a
  snapshot store.
\<close>

record Store_p =
  stp_snapshot :: Snapshot
  stp_hostsByID :: "(string, DesiredHost_p) gomap"
  stp_ready :: bool

definition zero_snapshot_p :: Snapshot where
  "zero_snapshot_p =
     \<lparr>sn_State = \<lparr>ps_Hosts = []\<rparr>,
      sn_Metadata = \<lparr>sm_LoadedAt = zero_time, sm_ManifestMode = [], sm_ManifestPath = [],
        sm_FilesTotal = 0, sm_FilesLoaded = 0, sm_FilesBroken = 0, sm_FilesIgnored = 0,
        sm_HostsTotal = 0, sm_WorkloadsTotal = 0, sm_Ready = False, sm_ReadyReason = []\<rparr>\<rparr>"

definition NewStore_p :: Store_p where
  "NewStore_p = \<lparr>stp_snapshot = zero_snapshot_p, stp_hostsByID = [], stp_ready = False\<rparr>"

definition Replace_p :: "Snapshot \<Rightarrow> Store_p \<Rightarrow> Store_p" where
  "Replace_p snapshot s =
     (let cloned = clone_snapshot_p snapshot;
          updatedHostsByID = index_into ph_HostID clone_host_p (ps_Hosts (sn_State cloned)) []
      in s\<lparr>stp_snapshot := cloned, stp_hostsByID := updatedHostsByID\<rparr>)"

definition SetReady_p :: "bool \<Rightarrow> Store_p \<Rightarrow> Store_p" where
  "SetReady_p ready s = s\<lparr>stp_ready := ready\<rparr>"

definition IsReady_p :: "Store_p \<Rightarrow> bool" where
  "IsReady_p s = stp_ready s"

definition GetSnapshot_p :: "Store_p \<Rightarrow> Snapshot" where
  "GetSnapshot_p s = clone_snapshot_p (stp_snapshot s)"

definition GetHost_p :: "Store_p \<Rightarrow> string \<Rightarrow> DesiredHost_p option" where
  "GetHost_p s hostID =
     (case map_get (stp_hostsByID s) hostID of
        None \<Rightarrow> None
      | Some host \<Rightarrow> Some (clone_host_p host))"

lemma GetHost_Replace_p:
  assumes "wf_snapshot_p snap"
  shows "GetHost_p (Replace_p snap s) i = last_with ph_HostID i (ps_Hosts (sn_State snap))"
proof -
  have wf: "wf_host_p h" if "last_with ph_HostID i (ps_Hosts (sn_State snap)) = Some h" for h
    using assms last_with_SomeD [OF that] by (auto simp: wf_snapshot_p_def list_all_iff)
  then show ?thesis
    using assms
    by (auto simp: GetHost_p_def Replace_p_def Let_def clone_snapshot_p_id map_get_index_into
        clone_host_p_id split: option.split)
qed

interpretation parser_store: snapshot_store NewStore_p Replace_p SetReady_p GetSnapshot_p
  GetHost_p IsReady_p "\<lambda>snap. ps_Hosts (sn_State snap)" ph_HostID wf_snapshot_p
  by unfold_locales
    (simp_all add: GetHost_Replace_p,
     simp_all add: NewStore_p_def Replace_p_def SetReady_p_def IsReady_p_def GetSnapshot_p_def
       GetHost_p_def zero_snapshot_p_def clone_snapshot_p_id clone_snapshot_p_def clone_state_p_def
       clone_hosts_p_id wf_snapshot_p_def Let_def)

end
