(* ===== verification/Parser_Load.thy ===== *)
theory Parser_Load
  imports Parser_Mapper Parser_Store
begin

text \<open>
  ParserSvc, package loader (internal/loader/manifest_loader.go) and the function
  loadDesiredState of package app (internal/app/app.go). The file system and the JSON
  decoder are parameters: \<open>stat\<close>, \<open>readDir\<close> and \<open>readFile\<close> return an error text or
  what the call of package os returns; log output is left out.
\<close>

section \<open>Package path/filepath\<close>

definition Ext :: "string \<Rightarrow> string" where
  "Ext path =
     (let base = takeWhile (\<lambda>c. c \<noteq> CHR ''/'') (rev path)
      in if CHR ''.'' \<in> set base then CHR ''.'' # rev (takeWhile (\<lambda>c. c \<noteq> CHR ''.'') base) else [])"

function split_slash :: "string \<Rightarrow> string list" where
  "split_slash s =
     (let rest = dropWhile (\<lambda>c. c \<noteq> CHR ''/'') s
      in takeWhile (\<lambda>c. c \<noteq> CHR ''/'') s # (if rest = [] then [] else split_slash (tl rest)))"
  by pat_completeness auto
termination
proof (relation "measure length")
  fix s rest :: string
  assume rest: "rest = dropWhile (\<lambda>c. c \<noteq> CHR ''/'') s" "rest \<noteq> []"
  then have "length (tl rest) < length rest" by simp
  also have "length rest \<le> length s" using rest(1) by (simp add: length_dropWhile_le)
  finally show "(tl rest, s) \<in> measure length" by simp
qed simp

declare split_slash.simps [simp del]

text \<open>filepath.Clean, on the elements of the path, innermost first.\<close>

definition clean_step :: "bool \<Rightarrow> string \<Rightarrow> string list \<Rightarrow> string list" where
  "clean_step rooted e out =
     (if e = [] \<or> e = ''.'' then out
      else if e = ''..'' then
        (if out \<noteq> [] \<and> hd out \<noteq> ''..'' then tl out else if rooted then out else e # out)
      else e # out)"

definition Clean :: "string \<Rightarrow> string" where
  "Clean path =
     (let rooted = HasPrefix path ''/'';
          body = Join (rev (fold (clean_step rooted) (split_slash path) [])) ''/''
      in if rooted then ''/'' @ body else if body = [] then ''.'' else body)"

definition Join_path :: "string \<Rightarrow> string \<Rightarrow> string" where
  "Join_path a b =
     (if a = [] then (if b = [] then [] else Clean b)
      else Clean (a @ ''/'' @ b))"

section \<open>Finding the manifest files\<close>

record FileSet =
  fs_JSONFiles :: "string list"
  fs_IgnoredFiles :: "string list"

definition isJSONFile :: "string \<Rightarrow> bool" where
  "isJSONFile path = EqualFold (Ext path) ''.json''"

text \<open>\<open>stat\<close> returns the IsDir bit of the file's info.\<close>

definition discoverFileMode ::
  "(string \<Rightarrow> (string, bool) result) \<Rightarrow> string \<Rightarrow> (string, FileSet) result" where
  "discoverFileMode stat path =
     (case stat path of
        Inl err \<Rightarrow> Inl (''stat manifest file: '' @ err)
      | Inr isDir \<Rightarrow>
          if isDir then Inl (''manifest file mode expects file, got directory: '' @ path)
          else if isJSONFile path then Inr \<lparr>fs_JSONFiles = [path], fs_IgnoredFiles = []\<rparr>
          else Inr \<lparr>fs_JSONFiles = [], fs_IgnoredFiles = [path]\<rparr>)"

text \<open>An entry of os.ReadDir: its name and its IsDir bit.\<close>

definition discover_entry :: "string \<Rightarrow> string \<times> bool \<Rightarrow> FileSet \<Rightarrow> FileSet" where
  "discover_entry path entry files =
     (let (name, isDir) = entry
      in if isDir then files
         else let fullPath = Join_path path name
              in if isJSONFile name
                 then files\<lparr>fs_JSONFiles := fs_JSONFiles files @ [fullPath]\<rparr>
                 else files\<lparr>fs_IgnoredFiles := fs_IgnoredFiles files @ [fullPath]\<rparr>)"

definition discoverDirectoryMode ::
  "(string \<Rightarrow> (string, bool) result) \<Rightarrow> (string \<Rightarrow> (string, (string \<times> bool) list) result)
     \<Rightarrow> string \<Rightarrow> (string, FileSet) result" where
  "discoverDirectoryMode stat readDir path =
     (case stat path of
        Inl err \<Rightarrow> Inl (''stat manifest directory: '' @ err)
      | Inr isDir \<Rightarrow>
          if \<not> isDir then Inl (''manifest directory mode expects directory, got file: '' @ path)
          else case readDir path of
            Inl err \<Rightarrow> Inl (''read manifest directory: '' @ err)
          | Inr entries \<Rightarrow>
              (let files = fold (discover_entry path) entries
                     \<lparr>fs_JSONFiles = [], fs_IgnoredFiles = []\<rparr>
               in Inr \<lparr>fs_JSONFiles = sort (fs_JSONFiles files),
                       fs_IgnoredFiles = sort (fs_IgnoredFiles files)\<rparr>))"

definition DiscoverFiles ::
  "(string \<Rightarrow> (string, bool) result) \<Rightarrow> (string \<Rightarrow> (string, (string \<times> bool) list) result)
     \<Rightarrow> string \<Rightarrow> string \<Rightarrow> (string, FileSet) result" where
  "DiscoverFiles stat readDir mode manifestPath =
     (let normalizedMode = ToLower (TrimSpace mode); normalizedPath = TrimSpace manifestPath
      in if normalizedPath = [] then Inl ''manifest path is required''
         else if normalizedMode = ''file'' then discoverFileMode stat normalizedPath
         else if normalizedMode = ''directory'' then discoverDirectoryMode stat readDir normalizedPath
         else Inl (''unsupported manifest mode: '' @ mode))"

definition LoadFile ::
  "(string \<Rightarrow> (string, string) result) \<Rightarrow> string \<Rightarrow> (string, string) result" where
  "LoadFile readFile path =
     (case readFile path of
        Inl err \<Rightarrow> Inl (''read file '' @ path @ '': '' @ err)
      | Inr data \<Rightarrow> Inr data)"

section \<open>Loading the desired state\<close>

record LoadState =
  ld_hostsByID :: "(string, DesiredHost_p) gomap"
  ld_loadedFiles :: nat
  ld_brokenFiles :: nat
  ld_warningsCount :: nat

definition load_one ::
  "(string \<Rightarrow> (string, string) result) \<Rightarrow> (string \<Rightarrow> (string, StructurizrManifest) result)
     \<Rightarrow> string \<Rightarrow> LoadState \<Rightarrow> LoadState" where
  "load_one readFile unmarshal filePath st =
     (case LoadFile readFile filePath of
        Inl err \<Rightarrow> st\<lparr>ld_brokenFiles := ld_brokenFiles st + 1\<rparr>
      | Inr fileData \<Rightarrow>
          (case ParseStructurizrManifest unmarshal fileData of
             Inl err \<Rightarrow> st\<lparr>ld_brokenFiles := ld_brokenFiles st + 1\<rparr>
           | Inr manifest \<Rightarrow>
               (let mapResult = MapManifest manifest filePath
                in st\<lparr>ld_warningsCount := ld_warningsCount st + length (mr_Warnings mapResult),
                      ld_hostsByID :=
                        index_into ph_HostID (\<lambda>host. host) (mr_Hosts mapResult) (ld_hostsByID st),
                      ld_loadedFiles := ld_loadedFiles st + 1\<rparr>)))"

definition load_files ::
  "(string \<Rightarrow> (string, string) result) \<Rightarrow> (string \<Rightarrow> (string, StructurizrManifest) result)
     \<Rightarrow> string list \<Rightarrow> LoadState" where
  "load_files readFile unmarshal jsonFiles =
     fold (load_one readFile unmarshal) jsonFiles
       \<lparr>ld_hostsByID = [], ld_loadedFiles = 0, ld_brokenFiles = 0, ld_warningsCount = 0\<rparr>"

text \<open>\<open>now\<close> is the reading of the clock for LoadedAt; sort.Slice is a sort by HostID.\<close>

definition loadDesiredState ::
  "(string \<Rightarrow> (string, string) result) \<Rightarrow> (string \<Rightarrow> (string, StructurizrManifest) result)
     \<Rightarrow> gotime \<Rightarrow> string list \<Rightarrow> string \<Rightarrow> string \<Rightarrow> nat \<Rightarrow> Snapshot" where
  "loadDesiredState readFile unmarshal now jsonFiles manifestMode manifestPath ignoredFiles =
     (let st = load_files readFile unmarshal jsonFiles;
          hosts = sort_key ph_HostID (map (\<lambda>(_, host). clone_host_p host) (ld_hostsByID st));
          workloadsTotal = fold (\<lambda>host n. n + length (ph_Workloads host)) hosts 0;
          ready = (ld_loadedFiles st > 0);
          readyReason = (if \<not> ready then ''no valid manifest files were loaded'' else [])
      in \<lparr>sn_State = \<lparr>ps_Hosts = hosts\<rparr>,
          sn_Metadata =
            \<lparr>sm_LoadedAt = UTC now, sm_ManifestMode = manifestMode, sm_ManifestPath = manifestPath,
             sm_FilesTotal = length jsonFiles + ignoredFiles,
             sm_FilesLoaded = ld_loadedFiles st, sm_FilesBroken = ld_brokenFiles st,
             sm_FilesIgnored = ignoredFiles, sm_HostsTotal = length hosts,
             sm_WorkloadsTotal = workloadsTotal, sm_Ready = ready, sm_ReadyReason = readyReason\<rparr>\<rparr>)"

text \<open>What Run does with the snapshot before it serves requests.\<close>

definition publish_snapshot :: "Snapshot \<Rightarrow> Store_p" where
  "publish_snapshot snapshot =
     SetReady_p (sm_Ready (sn_Metadata snapshot)) (Replace_p snapshot NewStore_p)"

section \<open>What loading computes\<close>

text \<open>The hosts of one file: none when it is broken.\<close>

definition file_manifest ::
  "(string \<Rightarrow> (string, string) result) \<Rightarrow> (string \<Rightarrow> (string, StructurizrManifest) result)
     \<Rightarrow> string \<Rightarrow> StructurizrManifest option" where
  "file_manifest readFile unmarshal file =
     (case LoadFile readFile file of
        Inl _ \<Rightarrow> None
      | Inr data \<Rightarrow> (case ParseStructurizrManifest unmarshal data of Inl _ \<Rightarrow> None | Inr m \<Rightarrow> Some m))"

definition file_hosts ::
  "(string \<Rightarrow> (string, string) result) \<Rightarrow> (string \<Rightarrow> (string, StructurizrManifest) result)
     \<Rightarrow> string \<Rightarrow> DesiredHost_p list" where
  "file_hosts readFile unmarshal file =
     (case file_manifest readFile unmarshal file of None \<Rightarrow> [] | Some m \<Rightarrow> mr_Hosts (MapManifest m file))"

definition loaded_hosts ::
  "(string \<Rightarrow> (string, string) result) \<Rightarrow> (string \<Rightarrow> (string, StructurizrManifest) result)
     \<Rightarrow> string list \<Rightarrow> DesiredHost_p list" where
  "loaded_hosts readFile unmarshal files = concat (map (file_hosts readFile unmarshal) files)"

definition parsed_files ::
  "(string \<Rightarrow> (string, string) result) \<Rightarrow> (string \<Rightarrow> (string, StructurizrManifest) result)
     \<Rightarrow> string list \<Rightarrow> string list" where
  "parsed_files readFile unmarshal files =
     filter (\<lambda>f. file_manifest readFile unmarshal f \<noteq> None) files"

lemma load_one_fields:
  "ld_hostsByID (load_one r u f st) = index_into ph_HostID (\<lambda>h. h) (file_hosts r u f) (ld_hostsByID st)
   \<and> ld_loadedFiles (load_one r u f st) =
       ld_loadedFiles st + (if file_manifest r u f = None then 0 else 1)
   \<and> ld_brokenFiles (load_one r u f st) =
       ld_brokenFiles st + (if file_manifest r u f = None then 1 else 0)"
  by (auto simp: load_one_def file_hosts_def file_manifest_def index_into_def Let_def
      split: sum.split)

lemma index_into_append:
  "index_into key val (xs @ ys) m = index_into key val ys (index_into key val xs m)"
  by (simp add: index_into_def)

lemma fold_load_one:
  "ld_hostsByID (fold (load_one r u) fs st) = index_into ph_HostID (\<lambda>h. h) (loaded_hosts r u fs) (ld_hostsByID st)
   \<and> ld_loadedFiles (fold (load_one r u) fs st) = ld_loadedFiles st + length (parsed_files r u fs)
   \<and> ld_brokenFiles (fold (load_one r u) fs st) =
       ld_brokenFiles st + (length fs - length (parsed_files r u fs))"
proof (induction fs arbitrary: st)
  case Nil
  then show ?case by (simp add: loaded_hosts_def parsed_files_def index_into_def)
next
  case (Cons f fs)
  have "length (parsed_files r u fs) \<le> length fs" by (simp add: parsed_files_def)
  moreover have "loaded_hosts r u (f # fs) = file_hosts r u f @ loaded_hosts r u fs"
    and "parsed_files r u (f # fs) =
      (if file_manifest r u f = None then parsed_files r u fs else f # parsed_files r u fs)"
    by (simp_all add: loaded_hosts_def parsed_files_def)
  ultimately show ?case
    using Cons.IH [of "load_one r u f st"] load_one_fields [of r u f st]
    by (simp add: index_into_append)
qed

lemmas load_files_fields =
  fold_load_one [where st = "\<lparr>ld_hostsByID = [], ld_loadedFiles = 0, ld_brokenFiles = 0,
    ld_warningsCount = 0\<rparr>", folded load_files_def, simplified]

lemma loaded_hosts_wf: "h \<in> set (loaded_hosts r u fs) \<Longrightarrow> valid_desired_host h"
proof -
  have "list_all valid_desired_host (mr_Hosts (MapManifest m f))" for m f
    using node_hosts_valid by (auto simp: MapManifest_def fold_walk_spec extend_result_def list_all_iff Let_def)
  then show "h \<in> set (loaded_hosts r u fs) \<Longrightarrow> valid_desired_host h"
    by (auto simp: loaded_hosts_def file_hosts_def list_all_iff split: option.splits)
qed

abbreviation host_index where
  "host_index r u fs \<equiv> index_into ph_HostID (\<lambda>h. h) (loaded_hosts r u fs) []"

lemma host_index_entry:
  "(k, h) \<in> set (host_index r u fs) \<longleftrightarrow> last_with ph_HostID k (loaded_hosts r u fs) = Some h"
  by (simp add: map_get_mem wf_index_into map_get_index_into split: option.split)

lemma host_index_clone: "map (\<lambda>(_, h). clone_host_p h) (host_index r u fs) = map snd (host_index r u fs)"
proof (rule map_cong [OF refl])
  fix p assume p: "p \<in> set (host_index r u fs)"
  obtain k h where kh: "p = (k, h)" by fastforce
  from p have "last_with ph_HostID k (loaded_hosts r u fs) = Some h"
    unfolding kh host_index_entry .
  then have "valid_desired_host (snd p)"
    using kh by (auto dest: last_with_SomeD loaded_hosts_wf)
  then show "(case p of (_, h) \<Rightarrow> clone_host_p h) = snd p"
    by (cases p) (simp add: valid_desired_host_def clone_host_p_id)
qed

lemma host_index_ids: "map (ph_HostID \<circ> snd) (host_index r u fs) = map fst (host_index r u fs)"
  by (rule map_cong [OF refl]) (auto simp: host_index_entry dest: last_with_SomeD)

lemma host_index_distinct: "distinct (map (ph_HostID \<circ> snd) (host_index r u fs))"
  using wf_index_into [of "[]" ph_HostID "\<lambda>h. h" "loaded_hosts r u fs"]
  by (simp add: host_index_ids wf_map_def)

abbreviation snapshot_hosts_p where
  "snapshot_hosts_p snap \<equiv> ps_Hosts (sn_State snap)"

lemma loadDesiredState_hosts:
  "snapshot_hosts_p (loadDesiredState r u now fs mode path ign) =
     sort_key ph_HostID (map snd (host_index r u fs))"
  by (simp add: loadDesiredState_def Let_def load_files_fields host_index_clone)

lemma load_hosts_mem:
  "h \<in> set (snapshot_hosts_p (loadDesiredState r u now fs mode path ign)) \<longleftrightarrow>
     last_with ph_HostID (ph_HostID h) (loaded_hosts r u fs) = Some h"
proof -
  have "h \<in> set (map snd (host_index r u fs)) \<longleftrightarrow> (\<exists>k. (k, h) \<in> set (host_index r u fs))"
    by force
  also have "\<dots> \<longleftrightarrow> last_with ph_HostID (ph_HostID h) (loaded_hosts r u fs) = Some h"
    unfolding host_index_entry using last_with_SomeD by metis
  finally show ?thesis by (simp add: loadDesiredState_hosts)
qed

lemma load_hosts_distinct:
  "distinct (map ph_HostID (snapshot_hosts_p (loadDesiredState r u now fs mode path ign)))"
proof -
  let ?hs = "map snd (host_index r u fs)"
  have "distinct (map ph_HostID ?hs)"
    using host_index_distinct by (simp add: comp_def)
  moreover have "mset (map ph_HostID (sort_key ph_HostID ?hs)) = mset (map ph_HostID ?hs)"
    by (simp only: mset_map mset_sort)
  ultimately show ?thesis
    by (metis loadDesiredState_hosts mset_eq_imp_distinct_iff)
qed

lemma load_snapshot_wf: "wf_snapshot_p (loadDesiredState r u now fs mode path ign)"
proof -
  have "valid_desired_host h"
    if "h \<in> set (snapshot_hosts_p (loadDesiredState r u now fs mode path ign))" for h
    using that unfolding load_hosts_mem by (blast dest: last_with_SomeD loaded_hosts_wf)
  then show ?thesis by (auto simp: wf_snapshot_p_def list_all_iff valid_desired_host_def)
qed

lemma last_with_load_hosts:
  "last_with ph_HostID i (snapshot_hosts_p (loadDesiredState r u now fs mode path ign)) =
     last_with ph_HostID i (loaded_hosts r u fs)"
proof (cases "last_with ph_HostID i (loaded_hosts r u fs)")
  case None
  have "ph_HostID h \<noteq> i" if "h \<in> set (snapshot_hosts_p (loadDesiredState r u now fs mode path ign))" for h
    using that None unfolding load_hosts_mem by auto
  then have "last_with ph_HostID i (snapshot_hosts_p (loadDesiredState r u now fs mode path ign)) = None"
    unfolding last_with_None_iff by blast
  with None show ?thesis by simp
next
  case (Some h)
  then have "ph_HostID h = i" by (blast dest: last_with_SomeD)
  with Some show ?thesis
    by (simp add: last_with_distinct [OF load_hosts_distinct] load_hosts_mem)
qed

section \<open>Properties\<close>

text \<open>
  C20: the desired state built from the manifests holds exactly one host per host id, in
  increasing order of the ids: the last host of that id over all files that parse, in
  file order. The hosts are valid and their copies lose nothing.
\<close>
theorem loadDesiredState_spec:
  "let hosts = ps_Hosts (sn_State (loadDesiredState readFile unmarshal now files mode path ignored))
   in sorted (map ph_HostID hosts) \<and> distinct (map ph_HostID hosts)
      \<and> list_all valid_desired_host hosts
      \<and> (\<forall>i. last_with ph_HostID i hosts = last_with ph_HostID i (loaded_hosts readFile unmarshal files))"
proof -
  have "list_all valid_desired_host
      (snapshot_hosts_p (loadDesiredState readFile unmarshal now files mode path ignored))"
    unfolding list_all_iff load_hosts_mem [of _ readFile unmarshal now files mode path ignored]
    by (auto simp: load_hosts_mem dest!: last_with_SomeD [THEN conjunct1] loaded_hosts_wf)
  then show ?thesis
    using load_hosts_distinct last_with_load_hosts
    by (simp add: Let_def loadDesiredState_hosts)
qed


definition broken_readFile :: "string \<Rightarrow> (string, string) result" where
  "broken_readFile path = Inl ''permission denied''"


text \<open>
  C34: the file counters of the metadata add up, the host and workload totals are those of
  the published hosts, and the state is ready exactly when at least one file parsed; the
  reason is empty exactly then.
\<close>
theorem loadDesiredState_metadata:
  "let s = loadDesiredState readFile unmarshal now files mode path ignored;
       md = sn_Metadata s; hosts = ps_Hosts (sn_State s)
   in sm_FilesTotal md = sm_FilesLoaded md + sm_FilesBroken md + sm_FilesIgnored md
      \<and> sm_FilesLoaded md = length (parsed_files readFile unmarshal files)
      \<and> sm_HostsTotal md = length hosts
      \<and> sm_WorkloadsTotal md = sum_list (map (length \<circ> ph_Workloads) hosts)
      \<and> (sm_Ready md \<longleftrightarrow> parsed_files readFile unmarshal files \<noteq> [])
      \<and> (sm_ReadyReason md = [] \<longleftrightarrow> sm_Ready md)"
proof -
  have total: "fold (\<lambda>host n. n + length (ph_Workloads host)) hs n =
      n + sum_list (map (length \<circ> ph_Workloads) hs)" for hs n
    by (induction hs arbitrary: n) simp_all
  have "length (parsed_files readFile unmarshal files) \<le> length files"
    by (simp add: parsed_files_def)
  then show ?thesis
    by (simp add: loadDesiredState_def Let_def load_files_fields total)
qed

text \<open>
  What the service answers after startup is what the manifests say: looking a host up
  by id in the published store gives the last loaded host of that id, or nothing when
  there is none, and the store is ready exactly when some manifest parsed.
\<close>
theorem publish_GetHost:
  "let st = publish_snapshot (loadDesiredState readFile unmarshal now files mode path ignored)
   in GetHost_p st i = last_with ph_HostID i (loaded_hosts readFile unmarshal files)
      \<and> IsReady_p st = (parsed_files readFile unmarshal files \<noteq> [])
      \<and> GetSnapshot_p st = loadDesiredState readFile unmarshal now files mode path ignored"
proof -
  let ?s = "loadDesiredState readFile unmarshal now files mode path ignored"
  have "sm_Ready (sn_Metadata ?s) = (parsed_files readFile unmarshal files \<noteq> [])"
    by (simp add: loadDesiredState_def Let_def load_files_fields)
  then show ?thesis
    using load_snapshot_wf [of readFile unmarshal now files mode path ignored]
    by (simp add: publish_snapshot_def parser_store.store_laws last_with_load_hosts)
qed

lemma fold_discover_entry:
  "fold (discover_entry path) entries files =
     \<lparr>fs_JSONFiles = fs_JSONFiles files @
        map (\<lambda>(n, _). Join_path path n) (filter (\<lambda>(n, d). \<not> d \<and> isJSONFile n) entries),
      fs_IgnoredFiles = fs_IgnoredFiles files @
        map (\<lambda>(n, _). Join_path path n) (filter (\<lambda>(n, d). \<not> d \<and> \<not> isJSONFile n) entries)\<rparr>"
  by (induction entries arbitrary: files) (auto simp: discover_entry_def Let_def)

text \<open>
  In directory mode DiscoverFiles returns, each in increasing order, the paths of the
  JSON entries and of the other entries of the directory that are not directories; no
  entry is lost and none is reported twice.
\<close>
theorem DiscoverFiles_directory:
  assumes "ToLower (TrimSpace mode) = ''directory''"
    and "TrimSpace dir = d" and "d \<noteq> []" and "stat d = Inr True" and "readDir d = Inr entries"
  shows "\<exists>fs. DiscoverFiles stat readDir mode dir = Inr fs
    \<and> sorted (fs_JSONFiles fs) \<and> sorted (fs_IgnoredFiles fs)
    \<and> mset (fs_JSONFiles fs) =
        {# Join_path d n. (n, isDir) \<in># filter_mset (\<lambda>(n, isDir). \<not> isDir \<and> isJSONFile n) (mset entries) #}
    \<and> mset (fs_JSONFiles fs) + mset (fs_IgnoredFiles fs) =
        {# Join_path d n. (n, isDir) \<in># filter_mset (\<lambda>(n, isDir). \<not> isDir) (mset entries) #}"
proof -
  have split: "mset (map f (filter (\<lambda>(n, d). \<not> d \<and> P n) es)) + mset (map f (filter (\<lambda>(n, d). \<not> d \<and> \<not> P n) es))
      = mset (map f (filter (\<lambda>(n, d). \<not> d) es))" for f :: "string \<times> bool \<Rightarrow> string" and P es
    by (induction es) auto
  from assms show ?thesis
    using split [of "\<lambda>(n, _). Join_path d n" isJSONFile entries]
    by (simp add: DiscoverFiles_def discoverDirectoryMode_def fold_discover_entry Let_def mset_filter)
qed

definition sample_stat :: "string \<Rightarrow> (string, bool) result" where
  "sample_stat path = (if path = ''/m'' then Inr True else Inl ''no such file'')"

definition sample_readDir :: "string \<Rightarrow> (string, (string \<times> bool) list) result" where
  "sample_readDir path =
     (if path = ''/m'' then Inr [(''b.json'', False), (''a.JSON'', False), (''old'', True), (''w.dsl'', False)]
      else Inl ''no such directory'')"

theorem DiscoverFiles_directory_witness:
  "\<exists>fs. DiscoverFiles sample_stat sample_readDir '' Directory'' ''/m'' = Inr fs
    \<and> sorted (fs_JSONFiles fs) \<and> sorted (fs_IgnoredFiles fs)"
proof -
  have "ToLower (TrimSpace '' Directory'') = ''directory''" "TrimSpace ''/m'' = ''/m''"
    by code_simp+
  then show ?thesis
    using DiscoverFiles_directory [of "'' Directory''" "''/m''" "''/m''" sample_stat sample_readDir]
    by (auto simp: sample_stat_def sample_readDir_def)
qed

end
