(* ===== verification/Parser_Service.thy ===== *)
theory Parser_Service
  imports Parser_Load
begin

text \<open>
  ParserSvc, package desiredstate (internal/service/desiredstate/service.go) and package
  httpapi (internal/transport/http): queries over the published snapshot and the handlers
  that answer them. A handler is a function of the store and the request to the status
  code and the payload; gin's routing and JSON rendering are not modelled.
\<close>

section \<open>Queries\<close>

record Query =
  qr_FQDN :: string
  qr_LabelFilters :: "(string, string) gomap"

definition matchFQDN :: "DesiredHost_p \<Rightarrow> string \<Rightarrow> bool" where
  "matchFQDN host fqdn =
     (let normalized = TrimSpace fqdn
      in if normalized = [] then True else EqualFold (ph_FQDN host) normalized)"

definition matchLabels :: "DesiredHost_p \<Rightarrow> (string, string) gomap \<Rightarrow> bool" where
  "matchLabels host filters =
     (if length filters = 0 then True
      else list_all (\<lambda>(key, expected).
             case map_get (ph_Labels host) key of
               None \<Rightarrow> False
             | Some actual \<Rightarrow> actual = expected) filters)"

definition FilterHosts :: "DesiredHost_p list \<Rightarrow> Query \<Rightarrow> DesiredHost_p list" where
  "FilterHosts hosts query =
     map clone_host_p
       (filter (\<lambda>host. matchFQDN host (qr_FQDN query) \<and> matchLabels host (qr_LabelFilters query)) hosts)"

definition ListHosts_p :: "Store_p \<Rightarrow> Query \<Rightarrow> DesiredHost_p list" where
  "ListHosts_p store query =
     (let snapshot = GetSnapshot_p store in FilterHosts (ps_Hosts (sn_State snapshot)) query)"

definition GetHostByID_p :: "Store_p \<Rightarrow> string \<Rightarrow> DesiredHost_p option" where
  "GetHostByID_p store hostID = GetHost_p store hostID"

section \<open>Transfer objects\<close>

record DesiredWorkloadDTO =
  pwd_Name :: string
  pwd_Enabled :: bool
  pwd_DeploymentMode :: string
  pwd_Image :: string
  pwd_Version :: "string option"
  pwd_Port :: "int option"

record DesiredHostDTO =
  phd_HostID :: string
  phd_FQDN :: string
  phd_IP :: string
  phd_Labels :: "(string, string) gomap"
  phd_Env :: string
  phd_ManagedBy :: string
  phd_Purpose :: string
  phd_Workloads :: "DesiredWorkloadDTO list"

record DesiredStateMetadata =
  dsm_LoadedAt :: gotime
  dsm_ManifestMode :: string
  dsm_ManifestPath :: string
  dsm_FilesTotal :: nat
  dsm_FilesLoaded :: nat
  dsm_FilesBroken :: nat
  dsm_FilesIgnored :: nat
  dsm_HostsTotal :: nat
  dsm_WorkloadsTotal :: nat
  dsm_Ready :: bool
  dsm_ReadyReason :: string

record DesiredStateDTO =
  dso_Hosts :: "DesiredHostDTO list"

record DesiredStateResponse =
  dsr_Metadata :: DesiredStateMetadata
  dsr_State :: DesiredStateDTO

record ReadinessResponse_p =
  rrp_Status :: string
  rrp_ReadyReason :: string
  rrp_LoadedFiles :: nat
  rrp_BrokenFiles :: nat
  rrp_HostsTotal :: nat

record HostsResponseMetadata_p =
  hmp_LoadedAt :: gotime
  hmp_TotalHosts :: nat
  hmp_ReturnedHosts :: nat
  hmp_WorkloadsTotal :: nat
  hmp_FilesLoaded :: nat
  hmp_FilesBroken :: nat

record HostResponseMetadata_p =
  hrp_LoadedAt :: gotime
  hrp_FilesLoaded :: nat
  hrp_FilesBroken :: nat

datatype payload_p =
    Health_p string
  | Readiness_p ReadinessResponse_p
  | APIError_p string
  | DesiredState_payload DesiredStateResponse
  | Hosts_p HostsResponseMetadata_p "DesiredHostDTO list"
  | Host_p HostResponseMetadata_p DesiredHostDTO

definition toDesiredWorkloadDTO :: "DesiredWorkload_p \<Rightarrow> DesiredWorkloadDTO" where
  "toDesiredWorkloadDTO w =
     \<lparr>pwd_Name = pw_Name w, pwd_Enabled = pw_Enabled w, pwd_DeploymentMode = pw_DeploymentMode w,
      pwd_Image = pw_Image w, pwd_Version = pw_Version w, pwd_Port = pw_Port w\<rparr>"

definition toDesiredHostDTO :: "DesiredHost_p \<Rightarrow> DesiredHostDTO" where
  "toDesiredHostDTO host =
     (let labels = copy_into (\<lambda>v. v) (ph_Labels host) [];
          workloads = map toDesiredWorkloadDTO (ph_Workloads host)
      in \<lparr>phd_HostID = ph_HostID host, phd_FQDN = ph_FQDN host, phd_IP = ph_IP host,
          phd_Labels = labels, phd_Env = ph_Env host, phd_ManagedBy = ph_ManagedBy host,
          phd_Purpose = ph_Purpose host, phd_Workloads = workloads\<rparr>)"

definition toDesiredStateResponse :: "Snapshot \<Rightarrow> DesiredStateResponse" where
  "toDesiredStateResponse snapshot =
     (let hosts = map toDesiredHostDTO (ps_Hosts (sn_State snapshot)); md = sn_Metadata snapshot
      in \<lparr>dsr_Metadata =
            \<lparr>dsm_LoadedAt = sm_LoadedAt md, dsm_ManifestMode = sm_ManifestMode md,
             dsm_ManifestPath = sm_ManifestPath md, dsm_FilesTotal = sm_FilesTotal md,
             dsm_FilesLoaded = sm_FilesLoaded md, dsm_FilesBroken = sm_FilesBroken md,
             dsm_FilesIgnored = sm_FilesIgnored md, dsm_HostsTotal = sm_HostsTotal md,
             dsm_WorkloadsTotal = sm_WorkloadsTotal md, dsm_Ready = sm_Ready md,
             dsm_ReadyReason = sm_ReadyReason md\<rparr>,
          dsr_State = \<lparr>dso_Hosts = hosts\<rparr>\<rparr>)"

section \<open>Handlers\<close>

definition Healthz_p :: "nat \<times> payload_p" where
  "Healthz_p = (200, Health_p ''ok'')"

definition Readyz_p :: "Store_p \<Rightarrow> nat \<times> payload_p" where
  "Readyz_p store =
     (let metadata = sn_Metadata (GetSnapshot_p store);
          payload = \<lparr>rrp_Status = ''ready'', rrp_ReadyReason = sm_ReadyReason metadata,
                     rrp_LoadedFiles = sm_FilesLoaded metadata,
                     rrp_BrokenFiles = sm_FilesBroken metadata,
                     rrp_HostsTotal = sm_HostsTotal metadata\<rparr>
      in if \<not> IsReady_p store then (503, Readiness_p (payload\<lparr>rrp_Status := ''not_ready''\<rparr>))
         else (200, Readiness_p payload))"

definition GetDesiredState :: "Store_p \<Rightarrow> nat \<times> payload_p" where
  "GetDesiredState store = (200, DesiredState_payload (toDesiredStateResponse (GetSnapshot_p store)))"

text \<open>One turn of the loop over the query values; the map has a list for each key.\<close>

definition parse_query_entry ::
  "string \<times> string list \<Rightarrow> (string, string) gomap \<times> string \<Rightarrow> (string, string) gomap \<times> string" where
  "parse_query_entry entry acc =
     (let (key, values) = entry; (filters, fqdn) = acc
      in if length values = 0 then acc
         else let value = TrimSpace (values ! 0)
              in if value = [] then acc
                 else if key = ''fqdn'' then (filters, value)
                 else (map_set filters key value, fqdn))"

definition parseHostQuery :: "(string, string list) gomap \<Rightarrow> Query" where
  "parseHostQuery url_query =
     (let (filters, fqdn) = fold parse_query_entry url_query ([], [])
      in \<lparr>qr_FQDN = fqdn, qr_LabelFilters = filters\<rparr>)"

definition ListHosts_handler_p :: "Store_p \<Rightarrow> (string, string list) gomap \<Rightarrow> nat \<times> payload_p" where
  "ListHosts_handler_p store url_query =
     (let query = parseHostQuery url_query;
          hosts = ListHosts_p store query;
          md = sn_Metadata (GetSnapshot_p store);
          hostDTOs = map toDesiredHostDTO hosts
      in (200, Hosts_p
            \<lparr>hmp_LoadedAt = sm_LoadedAt md, hmp_TotalHosts = sm_HostsTotal md,
             hmp_ReturnedHosts = length hostDTOs, hmp_WorkloadsTotal = sm_WorkloadsTotal md,
             hmp_FilesLoaded = sm_FilesLoaded md, hmp_FilesBroken = sm_FilesBroken md\<rparr> hostDTOs))"

definition GetHostByID_handler_p :: "Store_p \<Rightarrow> string \<Rightarrow> nat \<times> payload_p" where
  "GetHostByID_handler_p store param =
     (let hostID = TrimSpace param
      in case GetHostByID_p store hostID of
           None \<Rightarrow> (404, APIError_p ''host not found'')
         | Some host \<Rightarrow>
             (let md = sn_Metadata (GetSnapshot_p store)
              in (200, Host_p
                    \<lparr>hrp_LoadedAt = sm_LoadedAt md, hrp_FilesLoaded = sm_FilesLoaded md,
                     hrp_FilesBroken = sm_FilesBroken md\<rparr> (toDesiredHostDTO host))))"

section \<open>Lemmas\<close>

lemma matchLabels_iff:
  "matchLabels host filters \<longleftrightarrow> (\<forall>(k, v) \<in> set filters. map_get (ph_Labels host) k = Some v)"
  by (auto simp: matchLabels_def list_all_iff split: option.splits)

lemma FilterHosts_wf:
  "list_all wf_host_p hosts \<Longrightarrow>
     FilterHosts hosts q =
       filter (\<lambda>h. matchFQDN h (qr_FQDN q) \<and> matchLabels h (qr_LabelFilters q)) hosts"
  unfolding FilterHosts_def
  by (rule clone_hosts_p_id) (auto simp: list_all_iff)

lemma fold_parse_query_filters:
  "wf_map qs \<Longrightarrow>
     map_get (fst (fold parse_query_entry qs (fs, fq))) k =
       (case map_get qs k of
          None \<Rightarrow> map_get fs k
        | Some vs \<Rightarrow>
            if vs = [] \<or> TrimSpace (hd vs) = [] \<or> k = ''fqdn'' then map_get fs k
            else Some (TrimSpace (hd vs)))"
proof (induction qs arbitrary: fs fq)
  case Nil
  then show ?case by simp
next
  case (Cons p qs)
  obtain k' vs where p: "p = (k', vs)" by fastforce
  from Cons.prems p have "wf_map qs" and fresh: "map_get qs k' = None"
    by (auto simp: wf_map_def map_of_eq_None_iff)
  moreover obtain fs' fq' where step: "parse_query_entry p (fs, fq) = (fs', fq')" by fastforce
  ultimately show ?case
    using Cons.IH [of fs' fq'] p
    by (auto simp: parse_query_entry_def Let_def hd_conv_nth split: option.split if_splits)
qed

section \<open>Properties\<close>

text \<open>What a URL asks for under a key: its first value, trimmed, unless that is blank.\<close>

definition query_value :: "(string, string list) gomap \<Rightarrow> string \<Rightarrow> string option" where
  "query_value url_query k =
     (case map_get url_query k of
        Some (v # _) \<Rightarrow> if TrimSpace v = [] then None else Some (TrimSpace v)
      | _ \<Rightarrow> None)"

definition query_accepts :: "(string, string list) gomap \<Rightarrow> DesiredHost_p \<Rightarrow> bool" where
  "query_accepts url_query h \<longleftrightarrow>
     (case query_value url_query ''fqdn'' of None \<Rightarrow> True | Some f \<Rightarrow> EqualFold (ph_FQDN h) f) \<and>
     list_all (\<lambda>k. k = ''fqdn'' \<or>
        (case query_value url_query k of None \<Rightarrow> True | Some v \<Rightarrow> map_get (ph_Labels h) k = Some v))
       (map fst url_query)"

lemma query_value_eq:
  "query_value url_query k =
     (case map_get url_query k of
        None \<Rightarrow> None
      | Some vs \<Rightarrow> if vs = [] \<or> TrimSpace (hd vs) = [] then None else Some (TrimSpace (hd vs)))"
  by (auto simp: query_value_def split: option.split list.split)

lemma fold_parse_query_fqdn:
  "wf_map qs \<Longrightarrow>
     snd (fold parse_query_entry qs (fs, fq)) =
       (case query_value qs ''fqdn'' of None \<Rightarrow> fq | Some v \<Rightarrow> v)"
proof (induction qs arbitrary: fs fq)
  case Nil
  then show ?case by (simp add: query_value_eq)
next
  case (Cons p qs)
  obtain k' vs where p: "p = (k', vs)" by fastforce
  from Cons.prems p have "wf_map qs" and fresh: "map_get qs k' = None"
    by (auto simp: wf_map_def map_of_eq_None_iff)
  moreover obtain fs' fq' where step: "parse_query_entry p (fs, fq) = (fs', fq')" by fastforce
  ultimately show ?case
    using Cons.IH [of fs' fq'] p
    by (auto simp: parse_query_entry_def query_value_eq Let_def hd_conv_nth
        split: option.splits if_splits)
qed

lemma wf_fold_parse_query: "wf_map fs \<Longrightarrow> wf_map (fst (fold parse_query_entry qs (fs, fq)))"
proof (induction qs arbitrary: fs fq)
  case (Cons p qs)
  moreover obtain fs' fq' where step: "parse_query_entry p (fs, fq) = (fs', fq')" by fastforce
  moreover from step Cons.prems have "wf_map fs'"
    by (auto simp: parse_query_entry_def Let_def split: prod.splits if_splits)
  ultimately show ?case by simp
qed simp

lemma parseHostQuery_fields:
  assumes "wf_map url_query"
  shows "qr_FQDN (parseHostQuery url_query) = (case query_value url_query ''fqdn'' of None \<Rightarrow> [] | Some v \<Rightarrow> v)"
    and "map_get (qr_LabelFilters (parseHostQuery url_query)) k =
      (if k = ''fqdn'' then None else query_value url_query k)"
    and "wf_map (qr_LabelFilters (parseHostQuery url_query))"
proof -
  obtain fs fq where step: "fold parse_query_entry url_query ([], []) = (fs, fq)" by fastforce
  with assms show "qr_FQDN (parseHostQuery url_query) = (case query_value url_query ''fqdn'' of None \<Rightarrow> [] | Some v \<Rightarrow> v)"
    using fold_parse_query_fqdn [OF assms, of "[]" "[]"] by (simp add: parseHostQuery_def)
  from assms step show "map_get (qr_LabelFilters (parseHostQuery url_query)) k =
      (if k = ''fqdn'' then None else query_value url_query k)"
    using fold_parse_query_filters [OF assms, of "[]" "[]" k]
    by (simp add: parseHostQuery_def query_value_eq split: option.splits)
  from step show "wf_map (qr_LabelFilters (parseHostQuery url_query))"
    using wf_fold_parse_query [of "[]" url_query "[]"] by (simp add: parseHostQuery_def)
qed

lemma query_value_trimmed: "query_value url_query k = Some v \<Longrightarrow> TrimSpace v = v \<and> v \<noteq> []"
  by (auto simp: query_value_eq split: option.splits if_splits)

lemma query_accepts_iff:
  assumes "wf_map url_query"
  shows "matchFQDN h (qr_FQDN (parseHostQuery url_query))
      \<and> matchLabels h (qr_LabelFilters (parseHostQuery url_query)) \<longleftrightarrow> query_accepts url_query h"
proof -
  have "matchFQDN h (qr_FQDN (parseHostQuery url_query)) \<longleftrightarrow>
      (case query_value url_query ''fqdn'' of None \<Rightarrow> True | Some f \<Rightarrow> EqualFold (ph_FQDN h) f)"
    by (auto simp: matchFQDN_def parseHostQuery_fields [OF assms] dest: query_value_trimmed
        split: option.split)
  moreover have "(k, v) \<in> set (qr_LabelFilters (parseHostQuery url_query)) \<longleftrightarrow>
      k \<noteq> ''fqdn'' \<and> query_value url_query k = Some v" for k v
    using parseHostQuery_fields [OF assms] by (simp add: map_get_mem)
  moreover have "query_value url_query k = Some v \<Longrightarrow> k \<in> fst ` set url_query" for k v
    by (auto simp: query_value_def split: option.splits dest: map_of_SomeD intro: rev_image_eqI)
  ultimately show ?thesis
    by (force simp: query_accepts_def matchLabels_iff list_all_iff split: option.splits)
qed

lemma published_snapshot:
  "wf_snapshot_p s \<Longrightarrow> GetSnapshot_p (publish_snapshot s) = s"
  by (simp add: publish_snapshot_def parser_store.store_laws)


definition sample_host_p :: DesiredHost_p where
  "sample_host_p =
     \<lparr>ph_HostID = ''srv-001'', ph_FQDN = ''DB.example.org'', ph_IP = [], ph_Labels = [(''env'', ''dev'')],
      ph_Env = ''dev'', ph_ManagedBy = ''ops'', ph_Purpose = ''db'', ph_Workloads = []\<rparr>"

definition sample_snapshot_p :: Snapshot where
  "sample_snapshot_p = zero_snapshot_p\<lparr>sn_State := \<lparr>ps_Hosts = [sample_host_p]\<rparr>\<rparr>"


text \<open>
  The answer of GET /hosts does not depend on the order in which parseHostQuery ranges
  over the query values.
\<close>
theorem ListHosts_handler_order:
  assumes "wf_map url_query" and "wf_map url_query'" and "same_map url_query url_query'"
  shows "ListHosts_handler_p st url_query = ListHosts_handler_p st url_query'"
proof -
  have "query_value url_query = query_value url_query'"
    using assms(3) by (simp add: query_value_eq same_map_def fun_eq_iff)
  then have "query_accepts url_query h = query_accepts url_query' h" for h
    using same_map_set [OF assms] by (simp add: query_accepts_def list_all_iff)
  then have "FilterHosts hs (parseHostQuery url_query) = FilterHosts hs (parseHostQuery url_query')" for hs
    by (simp add: FilterHosts_def query_accepts_iff assms)
  then show ?thesis
    by (simp add: ListHosts_handler_p_def ListHosts_p_def)
qed

theorem ListHosts_handler_order_witness:
  "ListHosts_handler_p NewStore_p [(''fqdn'', [''a'']), (''env'', [''dev''])] =
     ListHosts_handler_p NewStore_p [(''env'', [''dev'']), (''fqdn'', [''a''])]"
  by (rule ListHosts_handler_order) (auto simp: wf_map_def same_map_def fun_eq_iff)

text \<open>
  GET /hosts/:host_id after startup answers 200 with the transfer object of the last
  loaded host of the trimmed id, and 404 exactly when no manifest gave such a host.
\<close>
theorem GetHostByID_handler_spec:
  "let st = publish_snapshot (loadDesiredState readFile unmarshal now files mode path ignored)
   in case last_with ph_HostID (TrimSpace param) (loaded_hosts readFile unmarshal files) of
        None \<Rightarrow> GetHostByID_handler_p st param = (404, APIError_p ''host not found'')
      | Some h \<Rightarrow> \<exists>md. GetHostByID_handler_p st param = (200, Host_p md (toDesiredHostDTO h))
          \<and> phd_HostID (toDesiredHostDTO h) = TrimSpace param"
proof -
  let ?st = "publish_snapshot (loadDesiredState readFile unmarshal now files mode path ignored)"
  have "GetHost_p ?st (TrimSpace param) = last_with ph_HostID (TrimSpace param) (loaded_hosts readFile unmarshal files)"
    using load_snapshot_wf [of readFile unmarshal now files mode path ignored]
    by (simp add: publish_snapshot_def parser_store.store_laws last_with_load_hosts)
  then show ?thesis
    by (auto simp: GetHostByID_handler_p_def GetHostByID_p_def toDesiredHostDTO_def Let_def
        split: option.split dest: last_with_SomeD)
qed

text \<open>
  After any run of replacements and readiness changes from a new store, GET /readyz
  answers 200 or 503 by the last flag set, every lookup by id finds the last host of that
  id in the last snapshot put, and GET /desired-state renders that snapshot; a reader never
  sees a mixture of two snapshots.
\<close>
theorem parser_store_history:
  assumes "ops_wf wf_snapshot_p ops"
  defines "st \<equiv> run_ops Replace_p SetReady_p ops NewStore_p"
    and "snap \<equiv> last_snapshot zero_snapshot_p ops"
  shows "fst (Readyz_p st) = (if last_ready False ops then 200 else 503)
    \<and> GetDesiredState st = (200, DesiredState_payload (toDesiredStateResponse snap))
    \<and> GetHost_p st i = last_with ph_HostID i (ps_Hosts (sn_State snap))"
proof -
  have "GetSnapshot_p NewStore_p = zero_snapshot_p"
    by (simp add: NewStore_p_def GetSnapshot_p_def clone_snapshot_p_def clone_state_p_def zero_snapshot_p_def)
  then show ?thesis
    using parser_store.readers_run [OF assms(1)]
    by (simp add: st_def snap_def Readyz_p_def GetDesiredState_def Let_def)
qed

theorem parser_store_history_witness:
  "fst (Readyz_p (run_ops Replace_p SetReady_p [Op_Replace sample_snapshot_p, Op_SetReady True] NewStore_p)) = 200"
  using parser_store_history [of "[Op_Replace sample_snapshot_p, Op_SetReady True]"]
  by (simp add: ops_wf_def wf_snapshot_p_def sample_snapshot_p_def zero_snapshot_p_def
      wf_host_p_def sample_host_p_def wf_map_def)

end
