(* ===== verification/Config_Common.thy ===== *)
theory Config_Common
  imports Prelude
begin

text \<open>
  What the config packages of the services share word for word: ResolvePath
  (internal/config/config.go). The package filepath and the file system are parameters.
\<close>

record Filesystem =
  fs_IsAbs :: "string \<Rightarrow> bool"
  fs_pathExists :: "string \<Rightarrow> bool"
  fs_Abs :: "string \<Rightarrow> (string, string) result"
  fs_Dir :: "string \<Rightarrow> string"
  fs_Join :: "string \<Rightarrow> string \<Rightarrow> string"

definition ResolvePath :: "Filesystem \<Rightarrow> string \<Rightarrow> string \<Rightarrow> (string, string) result" where
  "ResolvePath fs configFilePath configuredPath =
     (let configuredPath = TrimSpace configuredPath
      in if configuredPath = [] then Inl ''configured path is empty''
         else if fs_IsAbs fs configuredPath then Inr configuredPath
         else if fs_pathExists fs configuredPath then
           (case fs_Abs fs configuredPath of
              Inl err \<Rightarrow> Inl (''resolve absolute configured path: '' @ err)
            | Inr absPath \<Rightarrow> Inr absPath)
         else
           (case fs_Abs fs (fs_Join fs (fs_Dir fs configFilePath) configuredPath) of
              Inl err \<Rightarrow> Inl (''resolve config-relative path: '' @ err)
            | Inr absPath \<Rightarrow> Inr absPath))"

text \<open>
  config.Load, the same in the three services up to what normalises and validates: reading
  the file and filling the struct (viper) and filepath.Abs are parameters.
\<close>

definition Load_with ::
  "('c \<Rightarrow> 'c) \<Rightarrow> ('c \<Rightarrow> string option) \<Rightarrow> (string \<Rightarrow> (string, string) result)
     \<Rightarrow> (string \<Rightarrow> (string, 'c) result) \<Rightarrow> (string \<Rightarrow> (string, string) result)
     \<Rightarrow> string \<Rightarrow> (string, 'c \<times> string) result" where
  "Load_with prepare check readInConfig unmarshal filepathAbs path =
     (if TrimSpace path = [] then Inl ''config path is required''
      else case readInConfig path of
             Inl err \<Rightarrow> Inl (''read config: '' @ err)
           | Inr settings \<Rightarrow>
               (case unmarshal settings of
                  Inl err \<Rightarrow> Inl (''unmarshal config: '' @ err)
                | Inr cfg \<Rightarrow>
                    (case check (prepare cfg) of
                       Some err \<Rightarrow> Inl err
                     | None \<Rightarrow>
                         (case filepathAbs path of
                            Inl err \<Rightarrow> Inl (''resolve absolute config path: '' @ err)
                          | Inr absPath \<Rightarrow> Inr (prepare cfg, absPath)))))"

lemma Load_with_Inr:
  "Load_with prepare check rd um fabs path = Inr (cfg, absPath) \<Longrightarrow>
     \<exists>c. cfg = prepare c \<and> check cfg = None"
  by (auto simp: Load_with_def split: if_splits sum.splits option.splits)

text \<open>The validators that join their messages.\<close>

definition config_error :: "string list \<Rightarrow> string option" where
  "config_error errs = (if length errs > 0 then Some (''invalid config: '' @ Join errs ''; '') else None)"

lemma config_error_None [simp]: "config_error errs = None \<longleftrightarrow> errs = []"
  by (simp add: config_error_def)

end
