(* ===== verification/Parser_App.thy ===== *)
theory Parser_App
  imports Parser_Service Config_Common
begin

text \<open>
  ParserSvc, packages config (internal/config/config.go) after viper has filled the structs,
  and app (internal/app/app.go): from the configuration to the published snapshot.
\<close>

section \<open>The configuration\<close>

record ServerConfig_p =
  scp_Host :: string
  scp_Port :: int

record LoggingConfig_p =
  lcp_Level :: string

record ManifestsConfig =
  mc_Mode :: string
  mc_Path :: string

record Config_p =
  cp_Server :: ServerConfig_p
  cp_Logging :: LoggingConfig_p
  cp_Manifests :: ManifestsConfig

definition ManifestModeFile :: string where
  "ManifestModeFile = ''file''"

definition ManifestModeDirectory :: string where
  "ManifestModeDirectory = ''directory''"

text \<open>What viper fills in for a file that sets nothing; the path has no default.\<close>

definition setDefaults_p :: Config_p where
  "setDefaults_p =
     \<lparr>cp_Server = \<lparr>scp_Host = ''0.0.0.0'', scp_Port = 8080\<rparr>, cp_Logging = \<lparr>lcp_Level = ''info''\<rparr>,
      cp_Manifests = \<lparr>mc_Mode = ManifestModeDirectory, mc_Path = []\<rparr>\<rparr>"

definition normalize_p :: "Config_p \<Rightarrow> Config_p" where
  "normalize_p c =
     (let host = TrimSpace (scp_Host (cp_Server c)); level = ToLower (TrimSpace (lcp_Level (cp_Logging c)))
      in c\<lparr>cp_Server := (cp_Server c)\<lparr>scp_Host := if host = [] then ''0.0.0.0'' else host\<rparr>,
           cp_Logging := \<lparr>lcp_Level = if level = [] then ''info'' else level\<rparr>,
           cp_Manifests := \<lparr>mc_Mode = ToLower (TrimSpace (mc_Mode (cp_Manifests c))),
             mc_Path = TrimSpace (mc_Path (cp_Manifests c))\<rparr>\<rparr>)"

definition Validate_p :: "Config_p \<Rightarrow> string option" where
  "Validate_p c =
     config_error (failed_checks
       [(TrimSpace (scp_Host (cp_Server c)) = [], ''server.host is required''),
        (scp_Port (cp_Server c) \<le> 0 \<or> scp_Port (cp_Server c) > 65535, ''server.port must be in range [1..65535]''),
        (TrimSpace (lcp_Level (cp_Logging c)) = [], ''logging.level is required''),
        (mc_Mode (cp_Manifests c) \<noteq> ManifestModeFile \<and> mc_Mode (cp_Manifests c) \<noteq> ManifestModeDirectory,
         ''manifests.mode must be one of: file, directory''),
        (TrimSpace (mc_Path (cp_Manifests c)) = [], ''manifests.path is required'')])"

definition Load_config_p ::
  "(string \<Rightarrow> (string, string) result) \<Rightarrow> (string \<Rightarrow> (string, Config_p) result)
     \<Rightarrow> (string \<Rightarrow> (string, string) result) \<Rightarrow> string \<Rightarrow> (string, Config_p \<times> string) result" where
  "Load_config_p readInConfig unmarshal filepathAbs =
     Load_with normalize_p Validate_p readInConfig unmarshal filepathAbs"

section \<open>Starting the service\<close>

text \<open>The file system as the loader uses it, with the decoder of manifests.\<close>

record Manifests =
  mf_stat :: "string \<Rightarrow> (string, bool) result"
  mf_readDir :: "string \<Rightarrow> (string, (string \<times> bool) list) result"
  mf_readFile :: "string \<Rightarrow> (string, string) result"
  mf_unmarshal :: "string \<Rightarrow> (string, StructurizrManifest) result"

definition start_parser ::
  "Filesystem \<Rightarrow> Manifests \<Rightarrow> gotime \<Rightarrow> Config_p \<Rightarrow> string \<Rightarrow> (string, Store_p) result" where
  "start_parser fs mf now cfg cfgFilePath =
     (case ResolvePath fs cfgFilePath (mc_Path (cp_Manifests cfg)) of
        Inl err \<Rightarrow> Inl (''resolve manifests path: '' @ err)
      | Inr resolvedManifestPath \<Rightarrow>
          (case DiscoverFiles (mf_stat mf) (mf_readDir mf) (mc_Mode (cp_Manifests cfg)) resolvedManifestPath of
             Inl err \<Rightarrow> Inl (''discover manifests: '' @ err)
           | Inr files \<Rightarrow>
               Inr (publish_snapshot
                 (loadDesiredState (mf_readFile mf) (mf_unmarshal mf) now (fs_JSONFiles files)
                   (mc_Mode (cp_Manifests cfg)) resolvedManifestPath (length (fs_IgnoredFiles files))))))"

section \<open>Lemmas\<close>

lemma Load_config_p_Inr:
  assumes "Load_config_p rd um fabs path = Inr (cfg, absPath)"
  shows "mc_Mode (cp_Manifests cfg) \<in> {ManifestModeFile, ManifestModeDirectory}"
    and "mc_Path (cp_Manifests cfg) \<noteq> []" and "TrimSpace (mc_Path (cp_Manifests cfg)) = mc_Path (cp_Manifests cfg)"
proof -
  from assms obtain c where c: "cfg = normalize_p c" "Validate_p cfg = None"
    unfolding Load_config_p_def by (blast dest: Load_with_Inr)
  from c(2) show "mc_Mode (cp_Manifests cfg) \<in> {ManifestModeFile, ManifestModeDirectory}" "mc_Path (cp_Manifests cfg) \<noteq> []"
    by (auto simp: Validate_p_def split: if_splits)
  from c(1) show "TrimSpace (mc_Path (cp_Manifests cfg)) = mc_Path (cp_Manifests cfg)"
    by (simp add: normalize_p_def Let_def)
qed

lemma defaults_p:
  "Validate_p (normalize_p setDefaults_p) = Some ''invalid config: manifests.path is required''"
  by code_simp

text \<open>What the two modes do, once the mode is one of them.\<close>

definition discover :: "Manifests \<Rightarrow> string \<Rightarrow> string \<Rightarrow> (string, FileSet) result" where
  "discover mf mode path =
     (if mode = ManifestModeFile then discoverFileMode (mf_stat mf) path
      else discoverDirectoryMode (mf_stat mf) (mf_readDir mf) path)"

lemma DiscoverFiles_mode:
  assumes "mode \<in> {ManifestModeFile, ManifestModeDirectory}" and "TrimSpace path \<noteq> []"
  shows "DiscoverFiles (mf_stat mf) (mf_readDir mf) mode path = discover mf mode (TrimSpace path)"
proof -
  have "ToLower (TrimSpace ''file'') = ''file''" "ToLower (TrimSpace ''directory'') = ''directory''"
    by code_simp+
  with assms show ?thesis
    by (auto simp: DiscoverFiles_def discover_def ManifestModeFile_def ManifestModeDirectory_def)
qed

lemma publish_readiness:
  "IsReady_p (publish_snapshot (loadDesiredState readFile unmarshal now files mode path ignored))
     = (parsed_files readFile unmarshal files \<noteq> [])"
  "GetSnapshot_p (publish_snapshot (loadDesiredState readFile unmarshal now files mode path ignored))
     = loadDesiredState readFile unmarshal now files mode path ignored"
proof -
  let ?s = "loadDesiredState readFile unmarshal now files mode path ignored"
  have "sm_Ready (sn_Metadata ?s) = (parsed_files readFile unmarshal files \<noteq> [])"
    by (simp add: loadDesiredState_def Let_def load_files_fields)
  then show "IsReady_p (publish_snapshot ?s) = (parsed_files readFile unmarshal files \<noteq> [])"
    and "GetSnapshot_p (publish_snapshot ?s) = ?s"
    using load_snapshot_wf [of readFile unmarshal now files mode path ignored]
    by (simp_all add: publish_snapshot_def parser_store.store_laws)
qed

section \<open>Properties\<close>

text \<open>
  C28: a parser whose configuration is accepted fails to start only for reasons of the file
  system: its mode is one DiscoverFiles knows. When it starts, GET /readyz answers 200 if
  some manifest could be read and parsed and otherwise 503 with the reason, and the desired
  state it serves for good is the one loaded from exactly the files the mode finds.
\<close>
theorem parser_start:
  assumes "Load_config_p rd um fabs path = Inr (cfg, absPath)"
    and "ResolvePath fs absPath (mc_Path (cp_Manifests cfg)) = Inr resolved" and "TrimSpace resolved \<noteq> []"
  shows "case discover mf (mc_Mode (cp_Manifests cfg)) (TrimSpace resolved) of
      Inl err \<Rightarrow> start_parser fs mf now cfg absPath = Inl (''discover manifests: '' @ err)
    | Inr files \<Rightarrow>
        (let snap = loadDesiredState (mf_readFile mf) (mf_unmarshal mf) now (fs_JSONFiles files)
               (mc_Mode (cp_Manifests cfg)) resolved (length (fs_IgnoredFiles files));
             ready = (parsed_files (mf_readFile mf) (mf_unmarshal mf) (fs_JSONFiles files) \<noteq> []); md = sn_Metadata snap
         in \<exists>store. start_parser fs mf now cfg absPath = Inr store
            \<and> GetDesiredState store = (200, DesiredState_payload (toDesiredStateResponse snap))
            \<and> Readyz_p store = (if ready then 200 else 503,
                Readiness_p \<lparr>rrp_Status = if ready then ''ready'' else ''not_ready'',
                  rrp_ReadyReason = if ready then [] else ''no valid manifest files were loaded'',
                  rrp_LoadedFiles = sm_FilesLoaded md, rrp_BrokenFiles = sm_FilesBroken md,
                  rrp_HostsTotal = sm_HostsTotal md\<rparr>))"
proof -
  have reason: "sm_ReadyReason (sn_Metadata (loadDesiredState readFile unmarshal now files mode path ignored)) =
      (if parsed_files readFile unmarshal files \<noteq> [] then [] else ''no valid manifest files were loaded'')"
    for readFile unmarshal files mode path ignored
    by (simp add: loadDesiredState_def Let_def load_files_fields)
  have "DiscoverFiles (mf_stat mf) (mf_readDir mf) (mc_Mode (cp_Manifests cfg)) resolved =
      discover mf (mc_Mode (cp_Manifests cfg)) (TrimSpace resolved)"
    using Load_config_p_Inr(1) [OF assms(1)] assms(3) by (rule DiscoverFiles_mode)
  then show ?thesis
    by (auto simp: start_parser_def assms(2) publish_readiness GetDesiredState_def Readyz_p_def reason Let_def
        split: sum.split)
qed

definition sample_config_p :: Config_p where
  "sample_config_p =
     \<lparr>cp_Server = \<lparr>scp_Host = [], scp_Port = 8082\<rparr>, cp_Logging = \<lparr>lcp_Level = ''info''\<rparr>,
      cp_Manifests = \<lparr>mc_Mode = ''Directory '', mc_Path = ''/manifests''\<rparr>\<rparr>"

definition sample_paths :: Filesystem where
  "sample_paths = \<lparr>fs_IsAbs = (\<lambda>p. HasPrefix p ''/''), fs_pathExists = (\<lambda>p. True), fs_Abs = Inr,
     fs_Dir = (\<lambda>p. p), fs_Join = (\<lambda>a b. b)\<rparr>"

definition sample_manifests :: Manifests where
  "sample_manifests =
     \<lparr>mf_stat = (\<lambda>p. Inr True), mf_readDir = (\<lambda>p. Inr [(''a.json'', False), (''b.txt'', False)]),
      mf_readFile = (\<lambda>p. Inl ''permission denied''), mf_unmarshal = (\<lambda>d. Inl ''never'')\<rparr>"

theorem parser_start_witness:
  "\<exists>store. start_parser sample_paths sample_manifests zero_time (normalize_p sample_config_p) ''app.yaml'' = Inr store
     \<and> fst (Readyz_p store) = 503"
proof -
  have load: "Load_config_p (\<lambda>p. Inr []) (\<lambda>c. Inr sample_config_p) Inr ''app.yaml'' = Inr (normalize_p sample_config_p, ''app.yaml'')"
    by code_simp
  have path: "ResolvePath sample_paths ''app.yaml'' (mc_Path (cp_Manifests (normalize_p sample_config_p))) = Inr ''/manifests''"
    "TrimSpace ''/manifests'' = ''/manifests''"
    by code_simp+
  have "discover sample_manifests (mc_Mode (cp_Manifests (normalize_p sample_config_p))) ''/manifests'' =
      Inr \<lparr>fs_JSONFiles = [''/manifests/a.json''], fs_IgnoredFiles = [''/manifests/b.txt'']\<rparr>"
    by code_simp
  moreover have "parsed_files (mf_readFile sample_manifests) (mf_unmarshal sample_manifests) [''/manifests/a.json''] = []"
    by code_simp
  ultimately show ?thesis
    using parser_start [OF load path(1), of sample_manifests zero_time] path(2) by (auto simp: Let_def)
qed

end
