(* ===== verification/Inventory_Domain.thy ===== *)
theory Inventory_Domain
  imports Prelude
begin

text \<open>
  InventorySvc, package domain (internal/domain/model.go): hosts as the inventory reports
  them, their sources, and the deep copies. The two string types with constants are
  datatypes; their texts are what the API renders.
\<close>

datatype HostStatus = HostStatusOK | HostStatusPartial | HostStatusError | HostStatusBootstrapOnly

fun host_status_text :: "HostStatus \<Rightarrow> string" where
  "host_status_text HostStatusOK = ''ok''"
| "host_status_text HostStatusPartial = ''partial''"
| "host_status_text HostStatusError = ''error''"
| "host_status_text HostStatusBootstrapOnly = ''bootstrap_only''"

datatype SourceStatusType = SourceStatusOK | SourceStatusError | SourceStatusDisabled

fun source_status_text :: "SourceStatusType \<Rightarrow> string" where
  "source_status_text SourceStatusOK = ''ok''"
| "source_status_text SourceStatusError = ''error''"
| "source_status_text SourceStatusDisabled = ''disabled''"

text \<open>The labels of a seed come from YAML and may be nil.\<close>

record HostSeed =
  hs_ID :: string
  hs_FQDN :: string
  hs_Labels :: "(string, string) gomap option"

record Workload =
  iw_ID :: string
  iw_Name :: string
  iw_Image :: string
  iw_Runtime :: string
  iw_Source :: string
  iw_LastSeenAt :: "gotime option"

record SourceData =
  sd_Workloads :: "Workload list"
  sd_ObservedAt :: gotime

record SourceStatus =
  so_Source :: string
  so_Enabled :: bool
  so_Status :: SourceStatusType
  so_ObservedAt :: "gotime option"
  so_Error :: string

record Host =
  ih_ID :: string
  ih_FQDN :: string
  ih_Labels :: "(string, string) gomap"
  ih_Workloads :: "Workload list"
  ih_LastObservedAt :: "gotime option"
  ih_Status :: HostStatus
  ih_SourceStatus :: "(string, SourceStatus) gomap"
  ih_Errors :: "string list"

record InventoryMetadata =
  im_IsPartial :: bool
  im_TotalHosts :: nat
  im_FailedHosts :: nat
  im_LastSyncAt :: "gotime option"
  im_LastSuccessfulSyncAt :: "gotime option"
  im_LastFullSyncAt :: "gotime option"
  im_LastPartialSyncAt :: "gotime option"
  im_SyncDurationMs :: int

record InventorySnapshot =
  is_Hosts :: "Host list"
  is_Metadata :: InventoryMetadata

section \<open>Clone\<close>

definition Clone_host_i :: "Host \<Rightarrow> Host" where
  "Clone_host_i h =
     (let clonedLabels = copy_into (\<lambda>v. v) (ih_Labels h) [];
          clonedSourceStatus = copy_into (\<lambda>status. status\<lparr>so_ObservedAt := clone_ptr (so_ObservedAt status)\<rparr>)
            (ih_SourceStatus h) [];
          clonedErrors = go_copy (replicate (length (ih_Errors h)) []) (ih_Errors h);
          clonedWorkloads = map (\<lambda>w. w\<lparr>iw_LastSeenAt := clone_ptr (iw_LastSeenAt w)\<rparr>) (ih_Workloads h)
      in \<lparr>ih_ID = ih_ID h, ih_FQDN = ih_FQDN h, ih_Labels = clonedLabels, ih_Workloads = clonedWorkloads,
          ih_LastObservedAt = clone_ptr (ih_LastObservedAt h), ih_Status = ih_Status h,
          ih_SourceStatus = clonedSourceStatus, ih_Errors = clonedErrors\<rparr>)"

definition Clone_snapshot_i :: "InventorySnapshot \<Rightarrow> InventorySnapshot" where
  "Clone_snapshot_i s =
     (let clonedHosts = map Clone_host_i (is_Hosts s);
          md = is_Metadata s;
          metadata = md\<lparr>im_LastSyncAt := clone_ptr (im_LastSyncAt md),
            im_LastSuccessfulSyncAt := clone_ptr (im_LastSuccessfulSyncAt md),
            im_LastFullSyncAt := clone_ptr (im_LastFullSyncAt md),
            im_LastPartialSyncAt := clone_ptr (im_LastPartialSyncAt md)\<rparr>
      in \<lparr>is_Hosts = clonedHosts, is_Metadata = metadata\<rparr>)"

section \<open>Well-formed values and copies\<close>

definition wf_host_i :: "Host \<Rightarrow> bool" where
  "wf_host_i h \<longleftrightarrow> wf_map (ih_Labels h) \<and> wf_map (ih_SourceStatus h)"

definition wf_snapshot_i :: "InventorySnapshot \<Rightarrow> bool" where
  "wf_snapshot_i s \<longleftrightarrow> list_all wf_host_i (is_Hosts s)"

lemma Clone_host_i_id: "wf_host_i h \<Longrightarrow> Clone_host_i h = h"
  by (simp add: Clone_host_i_def wf_host_i_def copy_map_id)

lemma Clone_hosts_i_id: "list_all wf_host_i hs \<Longrightarrow> map Clone_host_i hs = hs"
  by (rule map_idI) (auto simp: list_all_iff Clone_host_i_id)

lemma Clone_snapshot_i_id: "wf_snapshot_i s \<Longrightarrow> Clone_snapshot_i s = s"
  by (simp add: Clone_snapshot_i_def wf_snapshot_i_def Clone_hosts_i_id Let_def)

end
