(* ===== verification/Inventory_Store.thy ===== *)
theory Inventory_Store
  imports Inventory_Domain Snapshot_Interface
begin

text \<open>
  InventorySvc, package memory (internal/store/memory/store.go): the same interface as the
  store of ParserSvc, and its interpretation.
\<close>

record Store_i =
  sti_snapshot :: InventorySnapshot
  sti_hostsByID :: "(string, Host) gomap"
  sti_ready :: bool

definition zero_metadata_i :: InventoryMetadata where
  "zero_metadata_i =
     \<lparr>im_IsPartial = False, im_TotalHosts = 0, im_FailedHosts = 0, im_LastSyncAt = None,
      im_LastSuccessfulSyncAt = None, im_LastFullSyncAt = None, im_LastPartialSyncAt = None,
      im_SyncDurationMs = 0\<rparr>"

definition NewStore_i :: Store_i where
  "NewStore_i =
     \<lparr>sti_snapshot = \<lparr>is_Hosts = [], is_Metadata = zero_metadata_i\<rparr>, sti_hostsByID = [], sti_ready = False\<rparr>"

definition Replace_i :: "InventorySnapshot \<Rightarrow> Store_i \<Rightarrow> Store_i" where
  "Replace_i snapshot s =
     (let clonedSnapshot = Clone_snapshot_i snapshot;
          hostsByID = index_into ih_ID Clone_host_i (is_Hosts clonedSnapshot) []
      in s\<lparr>sti_snapshot := clonedSnapshot, sti_hostsByID := hostsByID\<rparr>)"

definition GetSnapshot_i :: "Store_i \<Rightarrow> InventorySnapshot" where
  "GetSnapshot_i s = Clone_snapshot_i (sti_snapshot s)"

definition GetHost_i :: "Store_i \<Rightarrow> string \<Rightarrow> Host option" where
  "GetHost_i s hostID =
     (case map_get (sti_hostsByID s) hostID of
        None \<Rightarrow> None
      | Some host \<Rightarrow> Some (Clone_host_i host))"

definition SetReady_i :: "bool \<Rightarrow> Store_i \<Rightarrow> Store_i" where
  "SetReady_i ready s = s\<lparr>sti_ready := ready\<rparr>"

definition IsReady_i :: "Store_i \<Rightarrow> bool" where
  "IsReady_i s = sti_ready s"

lemma GetHost_Replace_i:
  assumes "wf_snapshot_i snap"
  shows "GetHost_i (Replace_i snap s) i = last_with ih_ID i (is_Hosts snap)"
proof -
  have wf: "wf_host_i h" if "last_with ih_ID i (is_Hosts snap) = Some h" for h
    using assms last_with_SomeD [OF that] by (auto simp: wf_snapshot_i_def list_all_iff)
  then show ?thesis
    using assms
    by (auto simp: GetHost_i_def Replace_i_def Let_def Clone_snapshot_i_id map_get_index_into
        Clone_host_i_id split: option.split)
qed

interpretation inventory_store: snapshot_store NewStore_i Replace_i SetReady_i GetSnapshot_i
  GetHost_i IsReady_i is_Hosts ih_ID wf_snapshot_i
  by unfold_locales
    (simp_all add: GetHost_Replace_i,
     simp_all add: NewStore_i_def Replace_i_def SetReady_i_def IsReady_i_def GetSnapshot_i_def
       GetHost_i_def Clone_snapshot_i_def Clone_hosts_i_id wf_snapshot_i_def Let_def)

end
