(* ===== verification/Inventory_Sync.thy ===== *)
theory Inventory_Sync
  imports Inventory_Store
begin

text \<open>
  InventorySvc, packages sources (internal/sources/source.go) and inventory
  (internal/service/inventory/service.go). A source is the record of its methods; calling
  one works on a world 'w, as do the clock and the context of a sync. Log output is left
  out.
\<close>

section \<open>Sources\<close>

record 'w HostSource =
  src_Name :: string
  src_Enabled :: bool
  src_CollectHost :: "HostSeed \<Rightarrow> 'w \<Rightarrow> (string, SourceData) result \<times> 'w"

definition PlaceholderSource :: "string \<Rightarrow> bool \<Rightarrow> 'w HostSource" where
  "PlaceholderSource sourceName isOn =
     \<lparr>src_Name = sourceName, src_Enabled = isOn,
      src_CollectHost = (\<lambda>host w.
        (Inl (''source \"'' @ sourceName @ ''\" is enabled but not implemented in MVP''), w))\<rparr>"

section \<open>The service\<close>

definition cloneLabels :: "(string, string) gomap option \<Rightarrow> (string, string) gomap" where
  "cloneLabels labels = copy_into (\<lambda>v. v) (case labels of None \<Rightarrow> [] | Some m \<Rightarrow> m) []"

definition cloneWorkloads :: "Workload list \<Rightarrow> Workload list" where
  "cloneWorkloads workloads =
     map (\<lambda>w. w\<lparr>iw_LastSeenAt := map_option UTC (iw_LastSeenAt w)\<rparr>) workloads"

definition timePtr :: "gotime \<Rightarrow> gotime option" where
  "timePtr v = Some (UTC v)"

definition NewService_i :: "HostSeed list \<Rightarrow> HostSeed list" where
  "NewService_i bootstrapHosts =
     map (\<lambda>host. \<lparr>hs_ID = TrimSpace (hs_ID host), hs_FQDN = TrimSpace (hs_FQDN host),
                  hs_Labels = Some (cloneLabels (hs_Labels host))\<rparr>) bootstrapHosts"

text \<open>What a sync gets from outside: the clock and the error of a context that is done.\<close>

record 'w SyncDeps =
  sy_now :: "'w \<Rightarrow> gotime \<times> 'w"
  sy_ctxErr :: "'w \<Rightarrow> string option"

text \<open>The host under construction and the counters of the loop over the sources.\<close>

record Collected =
  co_host :: Host
  co_enabled :: nat
  co_successful :: nat
  co_failed :: nat

definition set_source_status :: "string \<Rightarrow> SourceStatus \<Rightarrow> Host \<Rightarrow> Host" where
  "set_source_status name status h = h\<lparr>ih_SourceStatus := map_set (ih_SourceStatus h) name status\<rparr>"

definition collect_source ::
  "HostSeed \<Rightarrow> 'w HostSource \<Rightarrow> Collected \<times> 'w \<Rightarrow> Collected \<times> 'w" where
  "collect_source seed source acc =
     (let (c, w) = acc; sourceName = src_Name source
      in if \<not> src_Enabled source then
           (c\<lparr>co_host := set_source_status sourceName
                \<lparr>so_Source = sourceName, so_Enabled = False, so_Status = SourceStatusDisabled,
                 so_ObservedAt = None, so_Error = []\<rparr> (co_host c)\<rparr>, w)
         else
           (let c = c\<lparr>co_enabled := co_enabled c + 1\<rparr>; (data, w') = src_CollectHost source seed w
            in case data of
                 Inl err \<Rightarrow>
                   (let h = set_source_status sourceName
                          \<lparr>so_Source = sourceName, so_Enabled = True, so_Status = SourceStatusError,
                           so_ObservedAt = None, so_Error = err\<rparr> (co_host c)
                    in (c\<lparr>co_failed := co_failed c + 1,
                          co_host := h\<lparr>ih_Errors := ih_Errors h @ [sourceName @ '': '' @ err]\<rparr>\<rparr>, w'))
               | Inr d \<Rightarrow>
                   (let observedAt = UTC (sd_ObservedAt d);
                        h = set_source_status sourceName
                          \<lparr>so_Source = sourceName, so_Enabled = True, so_Status = SourceStatusOK,
                           so_ObservedAt = Some observedAt, so_Error = []\<rparr> (co_host c);
                        h = h\<lparr>ih_Workloads := ih_Workloads h @ cloneWorkloads (sd_Workloads d)\<rparr>;
                        h = (if (case ih_LastObservedAt h of None \<Rightarrow> True | Some l \<Rightarrow> After observedAt l)
                             then h\<lparr>ih_LastObservedAt := Some observedAt\<rparr> else h)
                    in (c\<lparr>co_successful := co_successful c + 1, co_host := h\<rparr>, w'))))"

definition host_status :: "Collected \<Rightarrow> HostStatus" where
  "host_status c =
     (if co_enabled c = 0 then HostStatusBootstrapOnly
      else if co_failed c > 0 \<and> co_successful c > 0 then HostStatusPartial
      else if co_failed c > 0 \<and> co_successful c = 0 then HostStatusError
      else HostStatusOK)"

definition new_host :: "HostSeed \<Rightarrow> Host" where
  "new_host seed =
     \<lparr>ih_ID = hs_ID seed, ih_FQDN = hs_FQDN seed, ih_Labels = cloneLabels (hs_Labels seed),
      ih_Workloads = [], ih_LastObservedAt = None, ih_Status = HostStatusBootstrapOnly,
      ih_SourceStatus = [], ih_Errors = []\<rparr>"

definition sync_host :: "'w HostSource list \<Rightarrow> HostSeed \<Rightarrow> 'w \<Rightarrow> Host \<times> 'w" where
  "sync_host sources seed w =
     (let (c, w') = fold (collect_source seed) sources
            (\<lparr>co_host = new_host seed, co_enabled = 0, co_successful = 0, co_failed = 0\<rparr>, w)
      in ((co_host c)\<lparr>ih_Status := host_status c\<rparr>, w'))"

text \<open>The loop over the seeds, with the failed hosts so far; a done context ends it.\<close>

fun sync_hosts ::
  "'w SyncDeps \<Rightarrow> 'w HostSource list \<Rightarrow> HostSeed list \<Rightarrow> Host list \<times> nat \<Rightarrow> 'w
     \<Rightarrow> (string, Host list \<times> nat) result \<times> 'w" where
  "sync_hosts deps sources [] acc w = (Inr acc, w)"
| "sync_hosts deps sources (seed # seeds) (hosts, failedHosts) w =
     (case sy_ctxErr deps w of
        Some err \<Rightarrow> (Inl err, w)
      | None \<Rightarrow>
          (let (host, w') = sync_host sources seed w;
               failed = (if ih_Status host \<in> {HostStatusPartial, HostStatusError}
                         then failedHosts + 1 else failedHosts)
           in sync_hosts deps sources seeds (hosts @ [host], failed) w'))"

definition sync_metadata ::
  "InventoryMetadata \<Rightarrow> Host list \<Rightarrow> nat \<Rightarrow> gotime \<Rightarrow> int \<Rightarrow> InventoryMetadata" where
  "sync_metadata previous hosts failedHosts finishedAt duration =
     (let isPartial = (failedHosts > 0)
      in \<lparr>im_IsPartial = isPartial, im_TotalHosts = length hosts, im_FailedHosts = failedHosts,
          im_LastSyncAt = timePtr finishedAt,
          im_LastSuccessfulSyncAt =
            (if length hosts > 0 then timePtr finishedAt else im_LastSuccessfulSyncAt previous),
          im_LastFullSyncAt = (if isPartial then im_LastFullSyncAt previous else timePtr finishedAt),
          im_LastPartialSyncAt = (if isPartial then timePtr finishedAt else im_LastPartialSyncAt previous),
          im_SyncDurationMs = Milliseconds duration\<rparr>)"

definition Sync ::
  "'w SyncDeps \<Rightarrow> 'w HostSource list \<Rightarrow> HostSeed list \<Rightarrow> Store_i \<times> 'w
     \<Rightarrow> string option \<times> Store_i \<times> 'w" where
  "Sync deps sources seeds state =
     (let (store, w) = state;
          (t0, w1) = sy_now deps w;
          startedAt = UTC t0;
          previousSnapshot = GetSnapshot_i store
      in case sync_hosts deps sources seeds ([], 0) w1 of
           (Inl err, w2) \<Rightarrow> (Some err, store, w2)
         | (Inr (hosts, failedHosts), w2) \<Rightarrow>
             (let (t1, w3) = sy_now deps w2;
                  finishedAt = UTC t1;
                  (t2, w4) = sy_now deps w3;
                  metadata = sync_metadata (is_Metadata previousSnapshot) hosts failedHosts finishedAt
                    (Sub t2 startedAt)
              in (None, Replace_i \<lparr>is_Hosts = hosts, is_Metadata = metadata\<rparr> store, w4)))"

section \<open>Queries\<close>

definition hostMatchesAllFilters :: "Host \<Rightarrow> (string, string) gomap \<Rightarrow> bool" where
  "hostMatchesAllFilters host filters =
     list_all (\<lambda>(key, expected).
       case map_get (ih_Labels host) key of None \<Rightarrow> False | Some actual \<Rightarrow> actual = expected) filters"

definition FilterHostsByLabels :: "Host list \<Rightarrow> (string, string) gomap \<Rightarrow> Host list" where
  "FilterHostsByLabels hosts filters =
     (if length filters = 0 then map Clone_host_i hosts
      else map Clone_host_i (filter (\<lambda>host. hostMatchesAllFilters host filters) hosts))"

definition ListHosts_i :: "Store_i \<Rightarrow> (string, string) gomap \<Rightarrow> Host list \<times> InventoryMetadata" where
  "ListHosts_i store labelFilters =
     (let snapshot = GetSnapshot_i store
      in (FilterHostsByLabels (is_Hosts snapshot) labelFilters, is_Metadata snapshot))"

definition GetHostByID_i :: "Store_i \<Rightarrow> string \<Rightarrow> Host option" where
  "GetHostByID_i store hostID = GetHost_i store hostID"

definition GetMetadata :: "Store_i \<Rightarrow> InventoryMetadata" where
  "GetMetadata store = is_Metadata (GetSnapshot_i store)"

section \<open>What one host looks like after a sync\<close>

text \<open>The answers of the sources for a host, in the order they are asked: None if disabled.\<close>

fun ask_sources ::
  "HostSeed \<Rightarrow> 'w HostSource list \<Rightarrow> 'w \<Rightarrow> (string \<times> (string, SourceData) result option) list \<times> 'w" where
  "ask_sources seed [] w = ([], w)"
| "ask_sources seed (s # ss) w =
     (if \<not> src_Enabled s then
        (let (rest, w') = ask_sources seed ss w in ((src_Name s, None) # rest, w'))
      else
        (let (a, w1) = src_CollectHost s seed w; (rest, w2) = ask_sources seed ss w1
         in ((src_Name s, Some a) # rest, w2)))"

definition answer_status :: "string \<Rightarrow> (string, SourceData) result option \<Rightarrow> SourceStatus" where
  "answer_status name a =
     (case a of
        None \<Rightarrow> \<lparr>so_Source = name, so_Enabled = False, so_Status = SourceStatusDisabled, so_ObservedAt = None, so_Error = []\<rparr>
      | Some (Inl e) \<Rightarrow> \<lparr>so_Source = name, so_Enabled = True, so_Status = SourceStatusError, so_ObservedAt = None, so_Error = e\<rparr>
      | Some (Inr d) \<Rightarrow> \<lparr>so_Source = name, so_Enabled = True, so_Status = SourceStatusOK,
          so_ObservedAt = Some (UTC (sd_ObservedAt d)), so_Error = []\<rparr>)"

definition answered :: "(string \<times> (string, SourceData) result option) list \<Rightarrow> SourceData list" where
  "answered as = concat (map (\<lambda>(_, a). case a of Some (Inr d) \<Rightarrow> [d] | _ \<Rightarrow> []) as)"

definition source_error :: "string \<Rightarrow> string \<Rightarrow> string" where
  "source_error name e = name @ '': '' @ e"

definition refusals :: "(string \<times> (string, SourceData) result option) list \<Rightarrow> string list" where
  "refusals as = concat (map (\<lambda>(n, a). case a of Some (Inl e) \<Rightarrow> [source_error n e] | _ \<Rightarrow> []) as)"

text \<open>The first of the latest observations.\<close>

definition later :: "gotime option \<Rightarrow> gotime \<Rightarrow> gotime option" where
  "later l t = (case l of None \<Rightarrow> Some t | Some u \<Rightarrow> if wall u < wall t then Some t else Some u)"

definition host_after :: "HostSeed \<Rightarrow> (string \<times> (string, SourceData) result option) list \<Rightarrow> Host" where
  "host_after seed as =
     \<lparr>ih_ID = hs_ID seed, ih_FQDN = hs_FQDN seed, ih_Labels = cloneLabels (hs_Labels seed),
      ih_Workloads = concat (map (cloneWorkloads \<circ> sd_Workloads) (answered as)),
      ih_LastObservedAt = fold (\<lambda>d l. later l (UTC (sd_ObservedAt d))) (answered as) None,
      ih_Status =
        (if answered as = [] \<and> refusals as = [] then HostStatusBootstrapOnly
         else if refusals as = [] then HostStatusOK
         else if answered as = [] then HostStatusError else HostStatusPartial),
      ih_SourceStatus = index_into fst (\<lambda>(n, a). answer_status n a) as [],
      ih_Errors = refusals as\<rparr>"

text \<open>The host of a partial run, with the counters, continued by further answers.\<close>

definition absorb :: "(string \<times> (string, SourceData) result option) list \<Rightarrow> Collected \<Rightarrow> Collected" where
  "absorb as c =
     c\<lparr>co_host := (co_host c)
         \<lparr>ih_Workloads := ih_Workloads (co_host c) @ concat (map (cloneWorkloads \<circ> sd_Workloads) (answered as)),
          ih_LastObservedAt := fold (\<lambda>d l. later l (UTC (sd_ObservedAt d))) (answered as)
            (ih_LastObservedAt (co_host c)),
          ih_SourceStatus := index_into fst (\<lambda>(n, a). answer_status n a) as (ih_SourceStatus (co_host c)),
          ih_Errors := ih_Errors (co_host c) @ refusals as\<rparr>,
       co_enabled := co_enabled c + length (answered as) + length (refusals as),
       co_successful := co_successful c + length (answered as),
       co_failed := co_failed c + length (refusals as)\<rparr>"

definition utc_observed :: "Collected \<Rightarrow> bool" where
  "utc_observed c \<longleftrightarrow> (\<forall>l. ih_LastObservedAt (co_host c) = Some l \<longrightarrow> mono l = None)"

lemma After_UTC: "mono l = None \<Longrightarrow> After (UTC t) l \<longleftrightarrow> wall l < wall t"
  by (simp add: After_def)

lemma answered_Cons [simp]:
  "answered ((n, a) # as) = (case a of Some (Inr d) \<Rightarrow> d # answered as | _ \<Rightarrow> answered as)"
  by (simp add: answered_def split: option.split sum.split)

lemma refusals_Cons [simp]:
  "refusals ((n, a) # as) = (case a of Some (Inl e) \<Rightarrow> source_error n e # refusals as | _ \<Rightarrow> refusals as)"
  by (simp add: refusals_def split: option.split sum.split)

lemma answered_Nil [simp]: "answered [] = []" and refusals_Nil [simp]: "refusals [] = []"
  by (simp_all add: answered_def refusals_def)

lemma absorb_Nil: "absorb [] c = c"
  by (simp add: absorb_def index_into_def)

lemma absorb_Cons: "absorb (p # as) c = absorb as (absorb [p] c)"
proof (cases p)
  case (Pair n a)
  show ?thesis
    by (simp add: Pair absorb_def index_into_def split: option.split sum.split)
qed

lemma collect_source_absorb:
  assumes "utc_observed c" and "collect_source seed s (c, w) = (c', w')"
  shows "\<exists>a. ask_sources seed [s] w = ([(src_Name s, a)], w') \<and> c' = absorb [(src_Name s, a)] c \<and> utc_observed c'"
proof (cases "src_Enabled s")
  case False
  with assms show ?thesis
    by (auto simp: collect_source_def absorb_def index_into_def answer_status_def set_source_status_def
        utc_observed_def Let_def)
next
  case True
  obtain a w1 where a: "src_CollectHost s seed w = (a, w1)" by (meson surj_pair)
  show ?thesis
  proof (cases a)
    case (Inl e)
    with assms True a show ?thesis
      by (auto simp: collect_source_def absorb_def index_into_def answer_status_def set_source_status_def
          utc_observed_def source_error_def Let_def)
  next
    case (Inr d)
    with assms True a show ?thesis
      by (cases "ih_LastObservedAt (co_host c)")
        (auto simp: collect_source_def absorb_def index_into_def answer_status_def set_source_status_def
          utc_observed_def later_def After_UTC Let_def)
  qed
qed

lemma fold_collect_source:
  assumes "utc_observed c" and "fold (collect_source seed) ss (c, w) = (c', w')"
  shows "\<exists>as. ask_sources seed ss w = (as, w') \<and> c' = absorb as c"
  using assms
proof (induction ss arbitrary: c w)
  case Nil
  then show ?case by (simp add: absorb_Nil)
next
  case (Cons s ss)
  obtain c1 w1 where step: "collect_source seed s (c, w) = (c1, w1)" by (meson surj_pair)
  from collect_source_absorb [OF Cons.prems(1) step] obtain a where
    a: "ask_sources seed [s] w = ([(src_Name s, a)], w1)" "c1 = absorb [(src_Name s, a)] c" "utc_observed c1"
    by blast
  from Cons.IH [OF a(3), of w1] Cons.prems(2) step obtain as where
    as: "ask_sources seed ss w1 = (as, w')" "c' = absorb as c1" by auto
  from a(1) as(1) have "ask_sources seed (s # ss) w = ((src_Name s, a) # as, w')"
    by (auto split: if_splits prod.splits)
  with as(2) a(2) show ?case by (metis absorb_Cons)
qed

lemma sync_host_after:
  "sync_host sources seed w = (let (as, w') = ask_sources seed sources w in (host_after seed as, w'))"
proof -
  let ?c = "\<lparr>co_host = new_host seed, co_enabled = 0, co_successful = 0, co_failed = 0\<rparr>"
  obtain c' w' where run: "fold (collect_source seed) sources (?c, w) = (c', w')" by (meson surj_pair)
  have "utc_observed ?c" by (simp add: utc_observed_def new_host_def)
  from fold_collect_source [OF this run] obtain as where
    "ask_sources seed sources w = (as, w')" "c' = absorb as ?c" by blast
  with run show ?thesis
    by (auto simp: sync_host_def host_after_def absorb_def new_host_def host_status_def Let_def)
qed

section \<open>What a sync publishes\<close>

fun hosts_after :: "'w HostSource list \<Rightarrow> HostSeed list \<Rightarrow> 'w \<Rightarrow> Host list \<times> 'w" where
  "hosts_after sources [] w = ([], w)"
| "hosts_after sources (seed # seeds) w =
     (let (as, w1) = ask_sources seed sources w; (hs, w2) = hosts_after sources seeds w1
      in (host_after seed as # hs, w2))"

definition failed_host :: "Host \<Rightarrow> bool" where
  "failed_host h \<longleftrightarrow> ih_Status h \<in> {HostStatusPartial, HostStatusError}"

lemma sync_hosts_Inr:
  "sync_hosts deps sources seeds (hosts, n) w = (Inr (hosts', n'), w') \<Longrightarrow>
     hosts_after sources seeds w = (drop (length hosts) hosts', w')
     \<and> take (length hosts) hosts' = hosts
     \<and> n' = n + length (filter failed_host (drop (length hosts) hosts'))"
proof (induction seeds arbitrary: hosts n w)
  case Nil
  then show ?case by simp
next
  case (Cons seed seeds)
  obtain as w1 where as: "ask_sources seed sources w = (as, w1)" by (meson surj_pair)
  let ?h = "host_after seed as"
  from Cons.prems as have "sync_hosts deps sources seeds
      (hosts @ [?h], if failed_host ?h then n + 1 else n) w1 = (Inr (hosts', n'), w')"
    by (auto simp: sync_host_after failed_host_def split: option.splits if_splits)
  note IH = Cons.IH [OF this]
  then have "hosts' = (hosts @ [?h]) @ drop (Suc (length hosts)) hosts'"
    by (metis append_take_drop_id length_append_singleton)
  then obtain rest where "hosts' = hosts @ ?h # rest" by simp
  with IH as show ?case by simp
qed

lemma fst_hosts_after_Cons:
  "fst (hosts_after sources (seed # seeds) w) =
     host_after seed (fst (ask_sources seed sources w))
       # fst (hosts_after sources seeds (snd (ask_sources seed sources w)))"
  by (simp split: prod.split)

lemma hosts_after_seeds:
  "map ih_ID (fst (hosts_after sources seeds w)) = map hs_ID seeds"
  "map ih_FQDN (fst (hosts_after sources seeds w)) = map hs_FQDN seeds"
  "map ih_Labels (fst (hosts_after sources seeds w)) = map (cloneLabels \<circ> hs_Labels) seeds"
  by (induction seeds arbitrary: w)
    (simp_all add: fst_hosts_after_Cons host_after_def del: hosts_after.simps(2))

lemma host_after_wf: "wf_host_i (host_after seed as)"
  by (simp add: wf_host_i_def host_after_def cloneLabels_def wf_copy_into wf_index_into)

lemma hosts_after_wf: "list_all wf_host_i (fst (hosts_after sources seeds w))"
  by (induction seeds arbitrary: w)
    (simp_all add: fst_hosts_after_Cons host_after_wf del: hosts_after.simps(2))

lemma Sync_cases:
  obtains (cancelled) err w' where "Sync deps sources seeds (store, w) = (Some err, store, w')"
  | (synced) w' d t where
      "Sync deps sources seeds (store, w) =
         (None, Replace_i \<lparr>is_Hosts = fst (hosts_after sources seeds (snd (sy_now deps w))),
            is_Metadata = sync_metadata (is_Metadata (GetSnapshot_i store))
              (fst (hosts_after sources seeds (snd (sy_now deps w))))
              (length (filter failed_host (fst (hosts_after sources seeds (snd (sy_now deps w))))))
              (UTC t) d\<rparr> store, w')"
proof -
  obtain t0 w1 where w1: "sy_now deps w = (t0, w1)" by (meson surj_pair)
  obtain r w2 where w2: "sync_hosts deps sources seeds ([], 0) w1 = (r, w2)" by (meson surj_pair)
  show thesis
  proof (cases r)
    case (Inl err)
    with w1 w2 show ?thesis by (intro cancelled) (simp add: Sync_def)
  next
    case (Inr p)
    obtain hosts n where p: "p = (hosts, n)" by fastforce
    with Inr w2 have "hosts_after sources seeds w1 = (hosts, w2) \<and> n = length (filter failed_host hosts)"
      using sync_hosts_Inr [of deps sources seeds "[]" 0 w1 hosts n w2] by simp
    moreover obtain t1 w3 where "sy_now deps w2 = (t1, w3)" by (meson surj_pair)
    moreover obtain t2 w4 where "sy_now deps w3 = (t2, w4)" by (meson surj_pair)
    ultimately show ?thesis
      using w1 w2 Inr p by (intro synced) (simp add: Sync_def Let_def)
  qed
qed

section \<open>Properties\<close>

text \<open>
  C30: What one host looks like after a sync, from the answers of the sources alone: the
  workloads of the sources that answered, in the order of the sources; one error text per
  source that failed; one status per source name; the first of the latest observations; and
  the status is bootstrap_only when no source is enabled, ok when none failed, error when
  all failed and partial otherwise.
\<close>
theorem sync_host_spec:
  "sync_host sources seed w = (let (answers, w') = ask_sources seed sources w in (host_after seed answers, w'))"
  by (rule sync_host_after)


end
