(* ===== verification/Inventory_Cadvisor.thy ===== *)
theory Inventory_Cadvisor
  imports Inventory_Sync
begin

text \<open>
  InventorySvc, package cadvisor (internal/sources/cadvisor): the client of the cAdvisor
  API, the decoding of its answers, and their mapping to workloads. The HTTP request and
  json.Unmarshal into the four shapes the client tries are parameters. sort.Slice is a
  stable sort here; \<open>NormalizeContainers_order\<close> shows when that cannot matter.
\<close>

section \<open>Configuration and answers\<close>

record CAdvisorConfig =
  cf_IsEnabled :: bool
  cf_IncludeSystemWorkloads :: bool
  cf_Scheme :: string
  cf_Port :: int
  cf_BasePath :: string
  cf_ContainersPath :: string
  cf_Timeout :: int
  cf_URLTemplate :: string

record containerSpec =
  csp_Image :: string

record containerStat =
  cst_Timestamp :: gotime

record containerInfo =
  cn_Name :: string
  cn_Aliases :: "string list"
  cn_Namespace :: string
  cn_Spec :: containerSpec
  cn_Stats :: "containerStat list"

section \<open>The client\<close>

definition buildURL :: "CAdvisorConfig \<Rightarrow> string \<Rightarrow> string" where
  "buildURL cfg fqdn =
     Replacer
       [(''{{scheme}}'', TrimSpace (cf_Scheme cfg)),
        (''{{fqdn}}'', TrimSpace fqdn),
        (''{{port}}'', FormatInt (cf_Port cfg)),
        (''{{basePath}}'', cf_BasePath cfg),
        (''{{containersPath}}'', cf_ContainersPath cfg)]
       (cf_URLTemplate cfg)"

definition hasContainerPayload :: "containerInfo \<Rightarrow> bool" where
  "hasContainerPayload v =
     (if TrimSpace (cn_Name v) \<noteq> [] then True
      else if length (cn_Aliases v) > 0 then True
      else if TrimSpace (cn_Namespace v) \<noteq> [] then True
      else if TrimSpace (csp_Image (cn_Spec v)) \<noteq> [] then True
      else if length (cn_Stats v) > 0 then True
      else False)"

text \<open>json.Unmarshal into each of the shapes: None is an error.\<close>

record Unmarshal =
  un_list :: "string \<Rightarrow> containerInfo list option"
  un_map :: "string \<Rightarrow> (string, containerInfo) gomap option"
  un_single :: "string \<Rightarrow> containerInfo option"
  un_error :: "string \<Rightarrow> (string \<times> string) option"

definition decodeContainersResponse ::
  "Unmarshal \<Rightarrow> string \<Rightarrow> (string, containerInfo list) result" where
  "decodeContainersResponse un body =
     (case un_list un body of
        Some listResponse \<Rightarrow> Inr listResponse
      | None \<Rightarrow>
     (case un_map un body of
        Some mapResponse \<Rightarrow>
          (let keys = sort (map fst mapResponse)
           in Inr (map (\<lambda>key.
                let item = the (map_get mapResponse key)
                in if TrimSpace (cn_Name item) = [] then item\<lparr>cn_Name := key\<rparr> else item) keys))
      | None \<Rightarrow>
     (case (case un_single un body of
              Some single \<Rightarrow> if hasContainerPayload single then Some single else None
            | None \<Rightarrow> None) of
        Some single \<Rightarrow>
          Inr [if TrimSpace (cn_Name single) = [] then single\<lparr>cn_Name := ''/''\<rparr> else single]
      | None \<Rightarrow>
          (let message = (case un_error un body of
                 Some (err, msg) \<Rightarrow> if TrimSpace err = [] then TrimSpace msg else TrimSpace err
               | None \<Rightarrow> [])
           in if message \<noteq> [] then Inl (''cadvisor api error: '' @ message)
              else Inl (''unsupported cadvisor response format: '' @ TrimSpace body)))))"

definition FetchContainers ::
  "(string \<Rightarrow> 'w \<Rightarrow> http_answer \<times> 'w) \<Rightarrow> Unmarshal \<Rightarrow> CAdvisorConfig \<Rightarrow> string \<Rightarrow> 'w
     \<Rightarrow> (string, containerInfo list) result \<times> 'w" where
  "FetchContainers get un cfg fqdn w =
     (let url = buildURL cfg fqdn; (answer, w') = get url w
      in (case answer of
            Build_failed err \<Rightarrow> Inl (''build request: '' @ err)
          | Execute_failed err \<Rightarrow> Inl (''execute request: '' @ err)
          | Answer statusCode bytes readErr \<Rightarrow>
              if statusCode \<noteq> 200 then
                Inl (''unexpected status '' @ FormatInt statusCode @ '' from '' @ url @ '': ''
                  @ TrimSpace (take 512 bytes))
              else case readErr of
                Some err \<Rightarrow> Inl (''read response body: '' @ err)
              | None \<Rightarrow>
                  (case decodeContainersResponse un bytes of
                     Inl err \<Rightarrow> Inl (''decode response: '' @ err)
                   | Inr payload \<Rightarrow> Inr payload), w'))"

section \<open>The mapper\<close>

definition sourceName :: string where
  "sourceName = ''cadvisor''"

definition pickWorkloadID :: "string \<Rightarrow> string list \<Rightarrow> string" where
  "pickWorkloadID key aliases =
     (case find (\<lambda>alias. TrimSpace alias \<noteq> []) aliases of
        Some alias \<Rightarrow> TrimSpace alias
      | None \<Rightarrow> if key = [] then ''unknown'' else key)"

definition pickWorkloadName :: "string \<Rightarrow> string list \<Rightarrow> string" where
  "pickWorkloadName key aliases =
     (case find (\<lambda>alias. TrimSpace alias \<noteq> [] \<and> Trim_byte (CHR ''/'') (TrimSpace alias) \<noteq> []) aliases of
        Some alias \<Rightarrow> Base (Trim_byte (CHR ''/'') (TrimSpace alias))
      | None \<Rightarrow>
          (let cleaned = Trim_byte (CHR ''/'') key
           in if cleaned = [] then ''unknown'' else Base cleaned))"

definition pickRuntime :: "string \<Rightarrow> string" where
  "pickRuntime namespace =
     (let namespace = TrimSpace namespace in if namespace = [] then ''unknown'' else namespace)"

definition pickLastSeen :: "containerStat list \<Rightarrow> gotime option" where
  "pickLastSeen stats =
     (if length stats = 0 then None
      else let last_time = cst_Timestamp (stats ! (length stats - 1))
           in if IsZero last_time then None else Some (UTC last_time))"

definition normalize_container ::
  "containerInfo \<Rightarrow> Workload list \<times> gotime \<Rightarrow> Workload list \<times> gotime" where
  "normalize_container container acc =
     (let (workloads, latestTimestamp) = acc;
          name = TrimSpace (cn_Name container);
          name = (if name = [] then ''/'' else name)
      in if name = ''/'' then acc
         else
           (let workloadID = pickWorkloadID name (cn_Aliases container);
                workloadName = pickWorkloadName name (cn_Aliases container);
                lastSeen = pickLastSeen (cn_Stats container);
                latestTimestamp = (case lastSeen of
                    None \<Rightarrow> latestTimestamp
                  | Some t \<Rightarrow> if After t latestTimestamp then t else latestTimestamp)
            in (workloads @
                  [\<lparr>iw_ID = workloadID, iw_Name = workloadName,
                    iw_Image = TrimSpace (csp_Image (cn_Spec container)),
                    iw_Runtime = pickRuntime (cn_Namespace container), iw_Source = sourceName,
                    iw_LastSeenAt = lastSeen\<rparr>], latestTimestamp)))"

definition NormalizeContainers :: "containerInfo list \<Rightarrow> Workload list \<times> gotime" where
  "NormalizeContainers response =
     (if length response = 0 then ([], zero_time)
      else let items = sort_key (\<lambda>c. TrimSpace (cn_Name c)) response
           in fold normalize_container items ([], zero_time))"

definition isLikelySystemWorkload :: "Workload \<Rightarrow> bool" where
  "isLikelySystemWorkload workload =
     (let image = TrimSpace (iw_Image workload); runtime = TrimSpace (ToLower (iw_Runtime workload))
      in image = [] \<and> (runtime = [] \<or> runtime = ''unknown''))"

definition FilterWorkloads :: "Workload list \<Rightarrow> bool \<Rightarrow> Workload list" where
  "FilterWorkloads workloads includeSystemWorkloads =
     (if includeSystemWorkloads then workloads
      else filter (\<lambda>w. \<not> isLikelySystemWorkload w) workloads)"

section \<open>The source\<close>

definition CollectHost ::
  "('w \<Rightarrow> gotime \<times> 'w) \<Rightarrow> (string \<Rightarrow> 'w \<Rightarrow> http_answer \<times> 'w) \<Rightarrow> Unmarshal \<Rightarrow> CAdvisorConfig
     \<Rightarrow> HostSeed \<Rightarrow> 'w \<Rightarrow> (string, SourceData) result \<times> 'w" where
  "CollectHost now get un cfg host w =
     (if \<not> cf_IsEnabled cfg then (Inl (''source '' @ sourceName @ '' is disabled''), w)
      else
        (let (start, w1) = now w; (containers, w2) = FetchContainers get un cfg (hs_FQDN host) w1
         in case containers of
              Inl err \<Rightarrow> (Inl err, w2)
            | Inr cs \<Rightarrow>
                (let workloads = fst (NormalizeContainers cs);
                     workloads = FilterWorkloads workloads (cf_IncludeSystemWorkloads cfg);
                     (t, w3) = now w2;
                     (_, w4) = now w3
                 in (Inr \<lparr>sd_Workloads = workloads, sd_ObservedAt = UTC t\<rparr>, w4))))"

definition NewSource ::
  "('w \<Rightarrow> gotime \<times> 'w) \<Rightarrow> (string \<Rightarrow> 'w \<Rightarrow> http_answer \<times> 'w) \<Rightarrow> Unmarshal \<Rightarrow> CAdvisorConfig
     \<Rightarrow> 'w HostSource" where
  "NewSource now get un cfg =
     \<lparr>src_Name = sourceName, src_Enabled = cf_IsEnabled cfg, src_CollectHost = CollectHost now get un cfg\<rparr>"

text \<open>The sources that app.Run builds.\<close>

definition buildSources ::
  "('w \<Rightarrow> gotime \<times> 'w) \<Rightarrow> (string \<Rightarrow> 'w \<Rightarrow> http_answer \<times> 'w) \<Rightarrow> Unmarshal \<Rightarrow> CAdvisorConfig
     \<Rightarrow> bool \<Rightarrow> bool \<Rightarrow> 'w HostSource list" where
  "buildSources now get un cfg netbox other =
     [NewSource now get un cfg, PlaceholderSource ''netbox'' netbox, PlaceholderSource ''otherSources'' other]"

section \<open>What the mapper computes\<close>

definition container_workload :: "containerInfo \<Rightarrow> Workload" where
  "container_workload c =
     (let name = TrimSpace (cn_Name c)
      in \<lparr>iw_ID = pickWorkloadID name (cn_Aliases c), iw_Name = pickWorkloadName name (cn_Aliases c),
          iw_Image = TrimSpace (csp_Image (cn_Spec c)), iw_Runtime = pickRuntime (cn_Namespace c),
          iw_Source = sourceName, iw_LastSeenAt = pickLastSeen (cn_Stats c)\<rparr>)"

definition root_container :: "containerInfo \<Rightarrow> bool" where
  "root_container c \<longleftrightarrow> TrimSpace (cn_Name c) \<in> {[], ''/''}"

lemma normalize_container_step:
  "\<exists>t'. normalize_container c (ws, t) = (if root_container c then ws else ws @ [container_workload c], t')"
  by (simp add: normalize_container_def root_container_def container_workload_def Let_def)

lemma fold_normalize_container:
  "fst (fold normalize_container cs (ws, t)) =
     ws @ map container_workload (filter (\<lambda>c. \<not> root_container c) cs)"
proof (induction cs arbitrary: ws t)
  case (Cons c cs)
  obtain t' where "normalize_container c (ws, t) = (if root_container c then ws else ws @ [container_workload c], t')"
    using normalize_container_step by blast
  then show ?case by (simp add: Cons.IH)
qed simp

lemma NormalizeContainers_eq:
  "fst (NormalizeContainers response) =
     map container_workload (filter (\<lambda>c. \<not> root_container c) (sort_key (\<lambda>c. TrimSpace (cn_Name c)) response))"
  by (simp add: NormalizeContainers_def fold_normalize_container)

lemma sort_map_keys:
  assumes "wf_map m" and "wf_map m'" and "same_map m m'"
  shows "sort (map fst m) = sort (map fst m')"
  using same_map_mset [OF assms] by (metis mset_map properties_for_sort mset_sort sorted_sort)

section \<open>Properties\<close>

text \<open>
  C40: The workloads of a host are, in the order of their trimmed names, one for every
  container except the root one; without system workloads exactly those stay that have an
  image or a known runtime. Nothing else is dropped or added.
\<close>
theorem NormalizeContainers_spec:
  "let ws = fst (NormalizeContainers response);
       cs = filter (\<lambda>c. \<not> root_container c) (sort_key (\<lambda>c. TrimSpace (cn_Name c)) response)
   in ws = map container_workload cs
      \<and> mset cs = filter_mset (\<lambda>c. \<not> root_container c) (mset response)
      \<and> sorted (map (\<lambda>c. TrimSpace (cn_Name c)) cs)
      \<and> FilterWorkloads ws True = ws
      \<and> FilterWorkloads ws False =
          filter (\<lambda>w. \<not> (iw_Image w = [] \<and> TrimSpace (ToLower (iw_Runtime w)) \<in> {[], ''unknown''})) ws"
proof -
  have "isLikelySystemWorkload w \<longleftrightarrow> iw_Image w = [] \<and> TrimSpace (ToLower (iw_Runtime w)) \<in> {[], ''unknown''}"
    if "w \<in> set (fst (NormalizeContainers response))" for w
    using that by (auto simp: NormalizeContainers_eq isLikelySystemWorkload_def container_workload_def Let_def)
  then have "filter (\<lambda>w. \<not> isLikelySystemWorkload w) (fst (NormalizeContainers response)) =
      filter (\<lambda>w. \<not> (iw_Image w = [] \<and> TrimSpace (ToLower (iw_Runtime w)) \<in> {[], ''unknown''}))
        (fst (NormalizeContainers response))"
    by (intro filter_cong) auto
  then show ?thesis
    by (simp add: NormalizeContainers_eq mset_filter sorted_filter Let_def FilterWorkloads_def)
qed

lemma sort_names_order:
  assumes "mset cs = mset cs'" and "distinct (map (\<lambda>c. TrimSpace (cn_Name c)) cs)"
    and "sorted (map (\<lambda>c. TrimSpace (cn_Name c)) sorted_cs)" and "mset sorted_cs = mset cs"
  shows "sorted_cs = sort_key (\<lambda>c. TrimSpace (cn_Name c)) cs'"
proof -
  have "distinct (map (\<lambda>c. TrimSpace (cn_Name c)) cs')"
    using assms(1,2) by (metis mset_map mset_eq_imp_distinct_iff)
  then show ?thesis using sorted_by_key_unique assms(1,3,4) by metis
qed

text \<open>
  With names that differ after trimming, neither the sorting algorithm behind sort.Slice
  nor the order of the answer matters: every sorted arrangement of the containers is the one
  the mapper works on.
\<close>
theorem NormalizeContainers_order:
  assumes "mset cs = mset cs'" and "distinct (map (\<lambda>c. TrimSpace (cn_Name c)) cs)"
    and "sorted (map (\<lambda>c. TrimSpace (cn_Name c)) sorted_cs)" and "mset sorted_cs = mset cs"
  shows "fst (NormalizeContainers cs') = map container_workload (filter (\<lambda>c. \<not> root_container c) sorted_cs)"
  using sort_names_order [OF assms] by (simp add: NormalizeContainers_eq)

text \<open>
  An answer in the form of a JSON object is decoded to the same list whatever the order
  in which the client ranges over it: one container per key, in the order of the keys, which
  stand in for blank names.
\<close>
theorem decode_map_order:
  assumes "wf_map m" and "wf_map m'" and "same_map m m'"
    and "un_list un body = None" and "un_map un body = Some m"
  shows "\<exists>cs. decodeContainersResponse un body = Inr cs
    \<and> decodeContainersResponse (un\<lparr>un_map := \<lambda>_. Some m'\<rparr>) body = Inr cs
    \<and> length cs = length m"
proof -
  have "length m = length m'" using same_map_mset [OF assms(1-3)] by (metis size_mset)
  then show ?thesis
    using sort_map_keys [OF assms(1-3)] assms(3-5)
    by (simp add: decodeContainersResponse_def same_map_def)
qed

text \<open>
  With the default template the URL is put together from the configuration and the
  trimmed host name, whatever bytes these hold; no value is expanded a second time.
\<close>
theorem buildURL_default:
  assumes "cf_URLTemplate cfg = ''{{scheme}}://{{fqdn}}:{{port}}{{basePath}}{{containersPath}}''"
  shows "buildURL cfg fqdn =
    TrimSpace (cf_Scheme cfg) @ ''://'' @ TrimSpace fqdn @ '':'' @ FormatInt (cf_Port cfg)
      @ cf_BasePath cfg @ cf_ContainersPath cfg"
  by (simp add: buildURL_def assms Replacer.simps)

definition sample_cadvisor_config :: CAdvisorConfig where
  "sample_cadvisor_config =
     \<lparr>cf_IsEnabled = True, cf_IncludeSystemWorkloads = False, cf_Scheme = ''http'', cf_Port = 8080,
      cf_BasePath = ''/api/v1.3'', cf_ContainersPath = ''/subcontainers/'', cf_Timeout = 5000000000,
      cf_URLTemplate = ''{{scheme}}://{{fqdn}}:{{port}}{{basePath}}{{containersPath}}''\<rparr>"

theorem buildURL_default_witness:
  "buildURL sample_cadvisor_config '' srv-1 '' = ''http://srv-1:8080/api/v1.3/subcontainers/''"
proof -
  have "TrimSpace ''http'' = ''http''" "TrimSpace '' srv-1 '' = ''srv-1''" "FormatInt 8080 = ''8080''"
    by code_simp+
  then show ?thesis
    using buildURL_default [of sample_cadvisor_config "'' srv-1 ''"] by (simp add: sample_cadvisor_config_def)
qed

end
