(* ===== verification/Inventory_Bootstrap.thy ===== *)
theory Inventory_Bootstrap
  imports Inventory_Sync
begin

text \<open>
  InventorySvc, package selfprovisioning (internal/bootstrap/selfprovisioning/loader.go):
  the seeds of the inventory and their validation. Reading the file and decoding YAML are
  parameters. The verb \%q is a parameter too: it escapes bytes that are not printable.
\<close>

definition requiredLabels :: "string list" where
  "requiredLabels = [''managed_by'', ''purpose'', ''env'']"

text \<open>The ids and names seen so far, and the errors.\<close>

record Validation =
  vl_seenIDs :: "string list"
  vl_seenFQDN :: "string list"
  vl_errs :: "string list"

definition host_field :: "nat \<Rightarrow> string \<Rightarrow> string" where
  "host_field i rest = ''hosts['' @ FormatInt (int i) @ '']'' @ rest"

definition validate_seed ::
  "(string \<Rightarrow> string) \<Rightarrow> nat \<times> HostSeed \<Rightarrow> Validation \<Rightarrow> Validation" where
  "validate_seed quote entry v =
     (let (i, host) = entry; ID = TrimSpace (hs_ID host); FQDN = TrimSpace (hs_FQDN host);
          v = (if ID = [] then v\<lparr>vl_errs := vl_errs v @ [host_field i ''.id is required'']\<rparr>
               else (if ID \<in> set (vl_seenIDs v)
                     then v\<lparr>vl_errs := vl_errs v @ [host_field i (''.id is duplicated: '' @ quote ID)]\<rparr> else v)
                    \<lparr>vl_seenIDs := ID # vl_seenIDs v\<rparr>);
          v = (if FQDN = [] then v\<lparr>vl_errs := vl_errs v @ [host_field i ''.fqdn is required'']\<rparr>
               else (if FQDN \<in> set (vl_seenFQDN v)
                     then v\<lparr>vl_errs := vl_errs v @ [host_field i (''.fqdn is duplicated: '' @ quote FQDN)]\<rparr> else v)
                    \<lparr>vl_seenFQDN := FQDN # vl_seenFQDN v\<rparr>)
      in case hs_Labels host of
           None \<Rightarrow> v\<lparr>vl_errs := vl_errs v @ [host_field i ''.labels is required'']\<rparr>
         | Some labels \<Rightarrow>
             v\<lparr>vl_errs := vl_errs v @ map (\<lambda>l. host_field i (''.labels.'' @ l @ '' is required''))
                 (filter (\<lambda>l. case map_get labels l of None \<Rightarrow> True | Some x \<Rightarrow> TrimSpace x = []) requiredLabels)\<rparr>)"

definition validate :: "(string \<Rightarrow> string) \<Rightarrow> HostSeed list \<Rightarrow> string option" where
  "validate quote hosts =
     (if length hosts = 0 then Some ''selfProvisioning must contain at least one host''
      else
        (let v = fold (validate_seed quote) (enumerate 0 hosts)
               \<lparr>vl_seenIDs = [], vl_seenFQDN = [], vl_errs = []\<rparr>
         in if length (vl_errs v) > 0
            then Some (''invalid selfProvisioning config: '' @ Join (vl_errs v) ''; '')
            else None))"

definition Load_seeds ::
  "(string \<Rightarrow> (string, string) result) \<Rightarrow> (string \<Rightarrow> (string, HostSeed list) result)
     \<Rightarrow> (string \<Rightarrow> string) \<Rightarrow> string \<Rightarrow> (string, HostSeed list) result" where
  "Load_seeds readFile unmarshal quote path =
     (case readFile path of
        Inl err \<Rightarrow> Inl (''read selfProvisioning file: '' @ err)
      | Inr content \<Rightarrow>
          (case unmarshal content of
             Inl err \<Rightarrow> Inl (''unmarshal selfProvisioning: '' @ err)
           | Inr hosts \<Rightarrow>
               (case validate quote hosts of
                  Some err \<Rightarrow> Inl err
                | None \<Rightarrow> Inr hosts)))"

section \<open>What a valid list of seeds is\<close>

definition seed_complete :: "HostSeed \<Rightarrow> bool" where
  "seed_complete h \<longleftrightarrow> TrimSpace (hs_ID h) \<noteq> [] \<and> TrimSpace (hs_FQDN h) \<noteq> [] \<and>
     (case hs_Labels h of
        None \<Rightarrow> False
      | Some labels \<Rightarrow>
          list_all (\<lambda>l. case map_get labels l of None \<Rightarrow> False | Some x \<Rightarrow> TrimSpace x \<noteq> []) requiredLabels)"

lemma validate_seed_ok:
  "vl_errs (validate_seed quote (i, h) v) = [] \<longleftrightarrow>
     vl_errs v = [] \<and> seed_complete h \<and> TrimSpace (hs_ID h) \<notin> set (vl_seenIDs v)
     \<and> TrimSpace (hs_FQDN h) \<notin> set (vl_seenFQDN v)"
  by (auto simp: validate_seed_def seed_complete_def Let_def filter_empty_conv list_all_iff
      split: option.splits if_splits)

lemma validate_seed_seen:
  assumes "seed_complete h"
  shows "vl_seenIDs (validate_seed quote (i, h) v) = TrimSpace (hs_ID h) # vl_seenIDs v"
    and "vl_seenFQDN (validate_seed quote (i, h) v) = TrimSpace (hs_FQDN h) # vl_seenFQDN v"
  using assms by (auto simp: validate_seed_def seed_complete_def Let_def split: option.split)

lemma validate_seed_keeps:
  "vl_errs v \<noteq> [] \<Longrightarrow> vl_errs (validate_seed quote p v) \<noteq> []"
  by (cases p) (simp add: validate_seed_ok)

lemma fold_validate_seed_keeps:
  "vl_errs v \<noteq> [] \<Longrightarrow> vl_errs (fold (validate_seed quote) ps v) \<noteq> []"
  by (induction ps arbitrary: v) (simp_all add: validate_seed_keeps)

lemma fold_validate_seed:
  "vl_errs (fold (validate_seed quote) (enumerate n hosts) v) = [] \<longleftrightarrow>
     vl_errs v = [] \<and> list_all seed_complete hosts
     \<and> distinct (map (TrimSpace \<circ> hs_ID) hosts) \<and> set (map (TrimSpace \<circ> hs_ID) hosts) \<inter> set (vl_seenIDs v) = {}
     \<and> distinct (map (TrimSpace \<circ> hs_FQDN) hosts) \<and> set (map (TrimSpace \<circ> hs_FQDN) hosts) \<inter> set (vl_seenFQDN v) = {}"
proof (induction hosts arbitrary: n v)
  case (Cons h hosts)
  let ?v = "validate_seed quote (n, h) v"
  show ?case
  proof (cases "vl_errs ?v = []")
    case True
    then have "seed_complete h" by (simp add: validate_seed_ok)
    with True show ?thesis
      using validate_seed_ok [of quote n h v] validate_seed_seen [OF \<open>seed_complete h\<close>, of quote n v]
      by (auto simp: Cons.IH)
  next
    case False
    with fold_validate_seed_keeps [OF False, of quote "enumerate (Suc n) hosts"] show ?thesis
      using validate_seed_ok [of quote n h v] by (auto simp: comp_def)
  qed
qed simp

section \<open>Properties\<close>

text \<open>
  The seeds are accepted exactly when there is at least one, every one has an id, a
  name, and the labels managed_by, purpose and env with values that are not blank, and no
  two have the same trimmed id or the same trimmed name.
\<close>
theorem validate_iff:
  "validate quote hosts = None \<longleftrightarrow>
     hosts \<noteq> [] \<and> list_all seed_complete hosts
     \<and> distinct (map (TrimSpace \<circ> hs_ID) hosts) \<and> distinct (map (TrimSpace \<circ> hs_FQDN) hosts)"
  by (auto simp: validate_def Let_def fold_validate_seed)

end
