(* ===== verification/Inventory_Api.thy ===== *)
theory Inventory_Api
  imports Inventory_Sync
begin

text \<open>
  InventorySvc, package httpapi (internal/transport/http): the transfer objects and the
  handlers, as functions of the store and the request to the status code and the payload.
\<close>

section \<open>Transfer objects\<close>

record ReadinessResponse_i =
  rri_Status :: string
  rri_IsPartial :: bool
  rri_LastSyncAt :: "gotime option"

record HostsResponseMetadata_i =
  hmi_IsPartial :: bool
  hmi_TotalHosts :: nat
  hmi_ReturnedHosts :: nat
  hmi_FailedHosts :: nat
  hmi_LastSyncAt :: "gotime option"
  hmi_LastSuccessfulSyncAt :: "gotime option"
  hmi_LastFullSyncAt :: "gotime option"
  hmi_LastPartialSyncAt :: "gotime option"
  hmi_SyncDurationMs :: int

record WorkloadDTO =
  wdt_ID :: string
  wdt_Name :: string
  wdt_Image :: string
  wdt_Runtime :: string
  wdt_Source :: string
  wdt_LastSeenAt :: "gotime option"

record SourceStatusDTO =
  sdt_Source :: string
  sdt_Enabled :: bool
  sdt_Status :: SourceStatusType
  sdt_ObservedAt :: "gotime option"
  sdt_Error :: string

record HostDTO =
  hdt_ID :: string
  hdt_FQDN :: string
  hdt_Labels :: "(string, string) gomap"
  hdt_Workloads :: "WorkloadDTO list"
  hdt_LastObservedAt :: "gotime option"
  hdt_Status :: HostStatus
  hdt_SourceStatus :: "(string, SourceStatusDTO) gomap"
  hdt_Errors :: "string list"

datatype payload_i =
    Health_i string
  | Readiness_i ReadinessResponse_i
  | APIError_i string
  | Hosts_i HostsResponseMetadata_i "HostDTO list"
  | Host_i bool "gotime option" HostDTO

definition toSourceStatusDTO :: "SourceStatus \<Rightarrow> SourceStatusDTO" where
  "toSourceStatusDTO s =
     \<lparr>sdt_Source = so_Source s, sdt_Enabled = so_Enabled s, sdt_Status = so_Status s,
      sdt_ObservedAt = map_option UTC (so_ObservedAt s), sdt_Error = so_Error s\<rparr>"

definition toWorkloadDTO :: "Workload \<Rightarrow> WorkloadDTO" where
  "toWorkloadDTO w =
     \<lparr>wdt_ID = iw_ID w, wdt_Name = iw_Name w, wdt_Image = iw_Image w, wdt_Runtime = iw_Runtime w,
      wdt_Source = iw_Source w, wdt_LastSeenAt = map_option UTC (iw_LastSeenAt w)\<rparr>"

definition toHostDTO :: "Host \<Rightarrow> HostDTO" where
  "toHostDTO host =
     (let sourceStatuses = copy_into toSourceStatusDTO (ih_SourceStatus host) [];
          workloads = map toWorkloadDTO (ih_Workloads host);
          labels = copy_into (\<lambda>v. v) (ih_Labels host) [];
          errors = go_copy (replicate (length (ih_Errors host)) []) (ih_Errors host)
      in \<lparr>hdt_ID = ih_ID host, hdt_FQDN = ih_FQDN host, hdt_Labels = labels, hdt_Workloads = workloads,
          hdt_LastObservedAt = map_option UTC (ih_LastObservedAt host), hdt_Status = ih_Status host,
          hdt_SourceStatus = sourceStatuses, hdt_Errors = errors\<rparr>)"

definition toHostsResponseMetadata :: "InventoryMetadata \<Rightarrow> nat \<Rightarrow> HostsResponseMetadata_i" where
  "toHostsResponseMetadata md returnedHosts =
     \<lparr>hmi_IsPartial = im_IsPartial md, hmi_TotalHosts = im_TotalHosts md, hmi_ReturnedHosts = returnedHosts,
      hmi_FailedHosts = im_FailedHosts md, hmi_LastSyncAt = im_LastSyncAt md,
      hmi_LastSuccessfulSyncAt = im_LastSuccessfulSyncAt md, hmi_LastFullSyncAt = im_LastFullSyncAt md,
      hmi_LastPartialSyncAt = im_LastPartialSyncAt md, hmi_SyncDurationMs = im_SyncDurationMs md\<rparr>"

section \<open>Handlers\<close>

definition Healthz_i :: "nat \<times> payload_i" where
  "Healthz_i = (200, Health_i ''ok'')"

text \<open>
  The handlers read the store in steps, and a sync may come in between: a handler that calls
  the service twice has the store as it is at each call.
\<close>

definition Readyz_i :: "Store_i \<Rightarrow> Store_i \<Rightarrow> nat \<times> payload_i" where
  "Readyz_i store store' =
     (let metadata = GetMetadata store
      in if \<not> IsReady_i store' then
           (503, Readiness_i \<lparr>rri_Status = ''not_ready'', rri_IsPartial = im_IsPartial metadata,
              rri_LastSyncAt = im_LastSyncAt metadata\<rparr>)
         else
           (200, Readiness_i \<lparr>rri_Status = ''ready'', rri_IsPartial = im_IsPartial metadata,
              rri_LastSyncAt = im_LastSyncAt metadata\<rparr>))"

definition parse_label_filter ::
  "string \<times> string list \<Rightarrow> (string, string) gomap \<Rightarrow> (string, string) gomap" where
  "parse_label_filter entry filters =
     (let (key, values) = entry
      in if length values = 0 then filters
         else let v = TrimSpace (values ! 0)
              in if v = [] then filters else map_set filters key v)"

definition parseLabelFilters :: "(string, string list) gomap \<Rightarrow> (string, string) gomap" where
  "parseLabelFilters url_query = fold parse_label_filter url_query []"

definition ListHosts_handler_i :: "Store_i \<Rightarrow> (string, string list) gomap \<Rightarrow> nat \<times> payload_i" where
  "ListHosts_handler_i store url_query =
     (let filters = parseLabelFilters url_query;
          (hosts, metadata) = ListHosts_i store filters;
          hostDTOs = map toHostDTO hosts
      in (200, Hosts_i (toHostsResponseMetadata metadata (length hostDTOs)) hostDTOs))"

definition GetHost_handler_i :: "Store_i \<Rightarrow> Store_i \<Rightarrow> string \<Rightarrow> nat \<times> payload_i" where
  "GetHost_handler_i store store' param =
     (let hostID = TrimSpace param
      in case GetHostByID_i store hostID of
           None \<Rightarrow> (404, APIError_i ''host not found'')
         | Some host \<Rightarrow>
             (let metadata = GetMetadata store'
              in (200, Host_i (im_IsPartial metadata) (im_LastSyncAt metadata) (toHostDTO host))))"

section \<open>Lemmas\<close>

text \<open>The label a URL asks for under a key: its first value, trimmed, unless that is blank.\<close>

definition filter_value :: "(string, string list) gomap \<Rightarrow> string \<Rightarrow> string option" where
  "filter_value url_query k =
     (case map_get url_query k of
        Some (v # _) \<Rightarrow> if TrimSpace v = [] then None else Some (TrimSpace v)
      | _ \<Rightarrow> None)"

definition labels_accept :: "(string, string list) gomap \<Rightarrow> Host \<Rightarrow> bool" where
  "labels_accept url_query h \<longleftrightarrow>
     list_all (\<lambda>k. case filter_value url_query k of None \<Rightarrow> True | Some v \<Rightarrow> map_get (ih_Labels h) k = Some v)
       (map fst url_query)"

lemma fold_parse_label_filter:
  "wf_map qs \<Longrightarrow>
     map_get (fold parse_label_filter qs fs) k =
       (case filter_value qs k of None \<Rightarrow> map_get fs k | Some v \<Rightarrow> Some v)"
proof (induction qs arbitrary: fs)
  case Nil
  then show ?case by (simp add: filter_value_def)
next
  case (Cons p qs)
  obtain k' vs where p: "p = (k', vs)" by fastforce
  from Cons.prems p have "wf_map qs" and fresh: "map_get qs k' = None"
    by (auto simp: wf_map_def map_of_eq_None_iff)
  with Cons.IH [of "parse_label_filter p fs"] p show ?case
    by (cases vs) (auto simp: parse_label_filter_def filter_value_def Let_def split: option.split)
qed

lemma wf_fold_parse_label_filter: "wf_map fs \<Longrightarrow> wf_map (fold parse_label_filter qs fs)"
  by (induction qs arbitrary: fs) (auto simp: parse_label_filter_def Let_def)

lemma hostMatchesAllFilters_parse:
  assumes "wf_map url_query"
  shows "hostMatchesAllFilters h (parseLabelFilters url_query) \<longleftrightarrow> labels_accept url_query h"
proof -
  have "(k, v) \<in> set (parseLabelFilters url_query) \<longleftrightarrow> filter_value url_query k = Some v" for k v
    using wf_fold_parse_label_filter [of "[]" url_query] fold_parse_label_filter [OF assms, of "[]" k]
    by (simp add: parseLabelFilters_def map_get_mem split: option.splits)
  moreover have "filter_value url_query k = Some v \<Longrightarrow> k \<in> fst ` set url_query" for k v
    by (auto simp: filter_value_def split: option.splits dest: map_of_SomeD intro: rev_image_eqI)
  ultimately show ?thesis
    by (force simp: hostMatchesAllFilters_def labels_accept_def list_all_iff split: option.splits)
qed

lemma FilterHostsByLabels_wf:
  "list_all wf_host_i hosts \<Longrightarrow>
     FilterHostsByLabels hosts filters = filter (\<lambda>h. hostMatchesAllFilters h filters) hosts"
proof -
  assume wf: "list_all wf_host_i hosts"
  then have "list_all wf_host_i (filter P hosts)" for P by (auto simp: list_all_iff)
  with wf show ?thesis
    by (simp add: FilterHostsByLabels_def Clone_hosts_i_id hostMatchesAllFilters_def)
qed

section \<open>Properties\<close>

text \<open>
  After a snapshot is published GET /api/v1/hosts returns, in order, exactly the hosts
  whose labels have all the values the URL asks for (the first value of each key, trimmed;
  blank ones ask for nothing), with the metadata of the same snapshot.
\<close>
theorem ListHosts_handler_i_spec:
  assumes "wf_map url_query" and "wf_snapshot_i snap"
  shows "ListHosts_handler_i (Replace_i snap store) url_query =
    (let found = filter (labels_accept url_query) (is_Hosts snap)
     in (200, Hosts_i (toHostsResponseMetadata (is_Metadata snap) (length found)) (map toHostDTO found)))"
  using assms
  by (simp add: ListHosts_handler_i_def ListHosts_i_def inventory_store.store_laws FilterHostsByLabels_wf
      wf_snapshot_i_def hostMatchesAllFilters_parse [OF assms(1)] Let_def)

definition sample_host_i :: Host where
  "sample_host_i =
     \<lparr>ih_ID = ''h1'', ih_FQDN = ''h1.local'', ih_Labels = [(''env'', ''dev'')], ih_Workloads = [],
      ih_LastObservedAt = None, ih_Status = HostStatusOK, ih_SourceStatus = [], ih_Errors = []\<rparr>"

theorem ListHosts_handler_i_spec_witness:
  "\<exists>md. ListHosts_handler_i (Replace_i \<lparr>is_Hosts = [sample_host_i], is_Metadata = zero_metadata_i\<rparr> NewStore_i)
     [(''env'', ['' dev'']), (''purpose'', [[]])] = (200, Hosts_i md [toHostDTO sample_host_i])"
proof -
  let ?url = "[(''env'', ['' dev'']), (''purpose'', [[]])]"
  let ?snap = "\<lparr>is_Hosts = [sample_host_i], is_Metadata = zero_metadata_i\<rparr>"
  have "wf_map ?url" "wf_snapshot_i ?snap"
    by (simp_all add: wf_map_def wf_snapshot_i_def wf_host_i_def sample_host_i_def)
  moreover have "filter (labels_accept ?url) (is_Hosts ?snap) = [sample_host_i]"
    by code_simp
  ultimately show ?thesis
    using ListHosts_handler_i_spec [of ?url ?snap NewStore_i] by simp
qed

end
