(* ===== verification/Scheduler.thy ===== *)
theory Scheduler
  imports Prelude
begin

text \<open>
  Package scheduler of InventorySvc and DriftDetectorSvc (internal/scheduler/scheduler.go,
  the same code twice). The events are what the select statement picks, in order: a tick of
  the ticker or the end of the context; when both are ready it may pick either. A task is a
  step on a state 's that may fail with an error, which is only logged.
\<close>

datatype sched_event = Tick | Done

text \<open>The loop says whether it has returned; without an event it waits.\<close>

fun scheduler_loop :: "('s \<Rightarrow> string option \<times> 's) \<Rightarrow> sched_event list \<Rightarrow> 's \<Rightarrow> bool \<times> 's" where
  "scheduler_loop task [] s = (False, s)"
| "scheduler_loop task (Done # events) s = (True, s)"
| "scheduler_loop task (Tick # events) s =
     (case task s of
        (Some err, s') \<Rightarrow> scheduler_loop task events s'
      | (None, s') \<Rightarrow> scheduler_loop task events s')"

definition Start_scheduler ::
  "int \<Rightarrow> ('s \<Rightarrow> string option \<times> 's) \<Rightarrow> sched_event list \<Rightarrow> 's \<Rightarrow> bool \<times> 's" where
  "Start_scheduler interval task events s =
     (if interval \<le> 0 then (True, s) else scheduler_loop task events s)"

section \<open>What it runs\<close>

definition ticks :: "sched_event list \<Rightarrow> nat" where
  "ticks events = length (takeWhile (\<lambda>e. e = Tick) events)"

lemma ticks_simps [simp]:
  "ticks [] = 0" "ticks (Done # events) = 0" "ticks (Tick # events) = Suc (ticks events)"
  by (simp_all add: ticks_def)

text \<open>One run of the task per tick before the context ends, whatever the runs answer.\<close>

lemma scheduler_loop_eq:
  "scheduler_loop task events s = (Done \<in> set events, ((\<lambda>s. snd (task s)) ^^ ticks events) s)"
proof (induction task events s rule: scheduler_loop.induct)
  case (3 task events s)
  then show ?case
    by (cases "task s"; cases "fst (task s)") (simp_all add: funpow_Suc_right del: funpow.simps)
qed simp_all

text \<open>The contract of a task: it keeps an invariant of the state.\<close>

locale periodic_task =
  fixes task :: "'s \<Rightarrow> string option \<times> 's"
    and keep :: "'s \<Rightarrow> bool"
  assumes task_keeps: "keep s \<Longrightarrow> keep (snd (task s))"
begin

lemma funpow_keeps: "keep s \<Longrightarrow> keep (((\<lambda>s. snd (task s)) ^^ n) s)"
  by (induction n) (simp_all add: task_keeps)

lemma scheduler_keeps: "keep s \<Longrightarrow> keep (snd (Start_scheduler interval task events s))"
  by (simp add: Start_scheduler_def scheduler_loop_eq funpow_keeps)

end

end
