(* ===== verification/Inventory_App.thy ===== *)
theory Inventory_App
  imports Inventory_Cadvisor Inventory_Bootstrap Inventory_Api Config_Common Scheduler
begin

text \<open>
  InventorySvc, packages config (internal/config/config.go) after viper has filled the
  structs, and app (internal/app/app.go): from the configuration to the first sync, and what
  the scheduler and the handlers see afterwards.
\<close>

section \<open>The configuration\<close>

record ServerConfig_i =
  sci_Port :: int

record LoggingConfig_i =
  lci_Level :: string

record SyncConfig =
  syc_Interval :: int

record BootstrapConfig =
  bc_SelfProvisioningPath :: string

record ToggleOnlySource =
  ts_IsEnabled :: bool

record SourcesConfig =
  sr_CAdvisor :: CAdvisorConfig
  sr_NetBox :: ToggleOnlySource
  sr_OtherSources :: ToggleOnlySource

record Config_i =
  ci_Server :: ServerConfig_i
  ci_Logging :: LoggingConfig_i
  ci_Sync :: SyncConfig
  ci_Sources :: SourcesConfig
  ci_Bootstrap :: BootstrapConfig

definition defaultCAdvisorURLTemplate :: string where
  "defaultCAdvisorURLTemplate = ''{{scheme}}://{{fqdn}}:{{port}}{{basePath}}{{containersPath}}''"

text \<open>What viper fills in for a file that sets nothing; the bootstrap file has no default.\<close>

definition setDefaults_i :: Config_i where
  "setDefaults_i =
     \<lparr>ci_Server = \<lparr>sci_Port = 8080\<rparr>, ci_Logging = \<lparr>lci_Level = ''info''\<rparr>, ci_Sync = \<lparr>syc_Interval = 30 * 10 ^ 9\<rparr>,
      ci_Sources =
        \<lparr>sr_CAdvisor =
           \<lparr>cf_IsEnabled = False, cf_IncludeSystemWorkloads = False, cf_Scheme = ''http'', cf_Port = 8080,
            cf_BasePath = ''/api/v1.3'', cf_ContainersPath = ''/subcontainers/'', cf_Timeout = 5 * 10 ^ 9,
            cf_URLTemplate = defaultCAdvisorURLTemplate\<rparr>,
         sr_NetBox = \<lparr>ts_IsEnabled = False\<rparr>, sr_OtherSources = \<lparr>ts_IsEnabled = False\<rparr>\<rparr>,
      ci_Bootstrap = \<lparr>bc_SelfProvisioningPath = []\<rparr>\<rparr>"

definition leading_slash :: "string \<Rightarrow> string" where
  "leading_slash path = (if \<not> HasPrefix path ''/'' then ''/'' @ path else path)"

definition normalizeCAdvisorConfig :: "CAdvisorConfig \<Rightarrow> CAdvisorConfig" where
  "normalizeCAdvisorConfig cfg =
     (let scheme = TrimSpace (cf_Scheme cfg);
          basePath = (if cf_BasePath cfg = [] then ''/'' else cf_BasePath cfg);
          containersPath = (if cf_ContainersPath cfg = [] then ''/subcontainers/'' else cf_ContainersPath cfg)
      in cfg\<lparr>cf_Scheme := if scheme = [] then ''http'' else scheme,
             cf_BasePath := TrimSuffix (leading_slash basePath) ''/'',
             cf_ContainersPath := leading_slash containersPath,
             cf_URLTemplate := if TrimSpace (cf_URLTemplate cfg) = [] then defaultCAdvisorURLTemplate
               else cf_URLTemplate cfg\<rparr>)"

definition normalize_i :: "Config_i \<Rightarrow> Config_i" where
  "normalize_i c =
     c\<lparr>ci_Sources := (ci_Sources c)\<lparr>sr_CAdvisor := normalizeCAdvisorConfig (sr_CAdvisor (ci_Sources c))\<rparr>\<rparr>"

definition Validate_i :: "Config_i \<Rightarrow> string option" where
  "Validate_i c =
     (let port = sci_Port (ci_Server c); cad = sr_CAdvisor (ci_Sources c);
          errs =
            failed_checks
              [(port \<le> 0 \<or> port > 65535, ''server.port must be in range [1..65535]''),
               (syc_Interval (ci_Sync c) \<le> 0, ''sync.interval must be > 0''),
               (TrimSpace (lci_Level (ci_Logging c)) = [], ''logging.level is required''),
               (TrimSpace (bc_SelfProvisioningPath (ci_Bootstrap c)) = [], ''bootstrap.selfProvisioningPath is required'')]
            @ (if cf_IsEnabled cad then
                 failed_checks
                   [(cf_Port cad \<le> 0 \<or> cf_Port cad > 65535, ''sources.cadvisor.port must be in range [1..65535]''),
                    (cf_Timeout cad \<le> 0, ''sources.cadvisor.timeout must be > 0''),
                    (TrimSpace (cf_URLTemplate cad) = [],
                     ''sources.cadvisor.urlTemplate is required when cAdvisor is enabled'')]
               else [])
      in config_error errs)"

definition Load_config_i ::
  "(string \<Rightarrow> (string, string) result) \<Rightarrow> (string \<Rightarrow> (string, Config_i) result)
     \<Rightarrow> (string \<Rightarrow> (string, string) result) \<Rightarrow> string \<Rightarrow> (string, Config_i \<times> string) result" where
  "Load_config_i readInConfig unmarshal filepathAbs =
     Load_with normalize_i Validate_i readInConfig unmarshal filepathAbs"

section \<open>Starting the service\<close>

text \<open>What the running service works with: its sources, its seeds and its store.\<close>

record 'w Running =
  rn_sources :: "'w HostSource list"
  rn_bootstrapHosts :: "HostSeed list"
  rn_store :: Store_i

definition start_inventory ::
  "'w SyncDeps \<Rightarrow> (string \<Rightarrow> 'w \<Rightarrow> http_answer \<times> 'w) \<Rightarrow> Unmarshal \<Rightarrow> Filesystem
     \<Rightarrow> (string \<Rightarrow> (string, HostSeed list) result) \<Rightarrow> Config_i \<Rightarrow> string \<Rightarrow> 'w
     \<Rightarrow> (string, 'w Running) result \<times> 'w" where
  "start_inventory deps get un fs load_seeds cfg cfgFilePath w =
     (case ResolvePath fs cfgFilePath (bc_SelfProvisioningPath (ci_Bootstrap cfg)) of
        Inl err \<Rightarrow> (Inl (''resolve selfProvisioning path: '' @ err), w)
      | Inr selfProvisioningPath \<Rightarrow>
          (case load_seeds selfProvisioningPath of
             Inl err \<Rightarrow> (Inl (''load selfProvisioning: '' @ err), w)
           | Inr hostSeeds \<Rightarrow>
               (let hostSources = buildSources (sy_now deps) get un (sr_CAdvisor (ci_Sources cfg))
                      (ts_IsEnabled (sr_NetBox (ci_Sources cfg)))
                      (ts_IsEnabled (sr_OtherSources (ci_Sources cfg)));
                    seeds = NewService_i hostSeeds
                in case Sync deps hostSources seeds (NewStore_i, w) of
                     (Some err, store, w') \<Rightarrow> (Inl (''initial sync failed: '' @ err), w')
                   | (None, store, w') \<Rightarrow>
                       (Inr \<lparr>rn_sources = hostSources, rn_bootstrapHosts = seeds, rn_store = SetReady_i True store\<rparr>, w'))))"

section \<open>The URL of a normalised configuration\<close>

lemma leading_slash_prefix: "HasPrefix (leading_slash path) ''/''"
  by (simp add: leading_slash_def HasPrefix_def)

lemma leading_slash_ConsE:
  obtains rest where "leading_slash path = CHR ''/'' # rest"
  using leading_slash_prefix [of path] by (auto simp: HasPrefix_def prefix_def)

lemma TrimSuffix_slash: "TrimSuffix (CHR ''/'' # s) ''/'' = [] \<or> HasPrefix (TrimSuffix (CHR ''/'' # s) ''/'') ''/''"
  by (cases s rule: rev_cases) (auto simp: TrimSuffix_def HasPrefix_def suffix_def)

lemma TrimSuffix_leading_slash:
  "TrimSuffix (leading_slash path) ''/'' = [] \<or> HasPrefix (TrimSuffix (leading_slash path) ''/'') ''/''"
  by (rule leading_slash_ConsE [of path]) (simp only: TrimSuffix_slash)

text \<open>The defaults lack the path of the bootstrap file and nothing else.\<close>

lemma defaults_i:
  "Validate_i (normalize_i setDefaults_i) = Some ''invalid config: bootstrap.selfProvisioningPath is required''"
  "TrimSpace path \<noteq> [] \<Longrightarrow> Validate_i (normalize_i (setDefaults_i\<lparr>ci_Bootstrap := \<lparr>bc_SelfProvisioningPath = path\<rparr>\<rparr>)) = None"
proof -
  have "TrimSpace ''info'' \<noteq> []" by code_simp
  then show "TrimSpace path \<noteq> [] \<Longrightarrow> Validate_i (normalize_i (setDefaults_i\<lparr>ci_Bootstrap := \<lparr>bc_SelfProvisioningPath = path\<rparr>\<rparr>)) = None"
    by (simp add: Validate_i_def normalize_i_def normalizeCAdvisorConfig_def setDefaults_i_def Let_def)
qed code_simp

section \<open>The invariant of the running service\<close>

definition serving :: "HostSeed list \<Rightarrow> Store_i \<Rightarrow> bool" where
  "serving seeds store \<longleftrightarrow> IsReady_i store \<and> inventory_store.coherent store
     \<and> wf_snapshot_i (GetSnapshot_i store)
     \<and> map ih_ID (is_Hosts (GetSnapshot_i store)) = map hs_ID seeds
     \<and> map ih_FQDN (is_Hosts (GetSnapshot_i store)) = map hs_FQDN seeds"

text \<open>Publishing the hosts of the seeds makes any store serving, once it is ready.\<close>

lemma Replace_serving:
  "IsReady_i store \<Longrightarrow> serving seeds (Replace_i \<lparr>is_Hosts = fst (hosts_after sources seeds w), is_Metadata = md\<rparr> store)"
  "serving seeds (SetReady_i True (Replace_i \<lparr>is_Hosts = fst (hosts_after sources seeds w), is_Metadata = md\<rparr> store))"
proof -
  have wf: "wf_snapshot_i \<lparr>is_Hosts = fst (hosts_after sources seeds w), is_Metadata = md\<rparr>"
    by (simp add: wf_snapshot_i_def hosts_after_wf)
  show "IsReady_i store \<Longrightarrow> serving seeds (Replace_i \<lparr>is_Hosts = fst (hosts_after sources seeds w), is_Metadata = md\<rparr> store)"
    "serving seeds (SetReady_i True (Replace_i \<lparr>is_Hosts = fst (hosts_after sources seeds w), is_Metadata = md\<rparr> store))"
    using wf by (simp_all add: serving_def inventory_store.coherent_def inventory_store.store_laws hosts_after_seeds)
qed

lemma Sync_serving: "serving seeds store \<Longrightarrow> serving seeds (fst (snd (Sync deps sources seeds (store, w))))"
  by (cases rule: Sync_cases [of deps sources seeds store w])
    (simp_all add: Replace_serving(1) serving_def [of seeds store])

lemma Sync_first_serving:
  "Sync deps sources seeds (store, w) = (None, store', w') \<Longrightarrow> serving seeds (SetReady_i True store')"
  by (cases rule: Sync_cases [of deps sources seeds store w]) (auto intro: Replace_serving(2))

text \<open>The task of the scheduler keeps it, also when the context is done.\<close>

interpretation inventory_schedule: periodic_task "Sync deps sources seeds" "\<lambda>(store, w). serving seeds store"
  for deps :: "'w SyncDeps" and sources and seeds
  by unfold_locales (simp add: case_prod_beta, metis Sync_serving prod.collapse)

text \<open>What the handlers answer from a serving store.\<close>

lemma serving_host:
  assumes "serving seeds store" and "distinct (map hs_ID seeds)"
    and "list_all (\<lambda>seed. TrimSpace (hs_ID seed) = hs_ID seed) seeds"
  shows "list_all2 (\<lambda>seed host.
      GetHost_handler_i store store' (hs_ID seed) =
        (200, Host_i (im_IsPartial (GetMetadata store')) (im_LastSyncAt (GetMetadata store')) (toHostDTO host))
      \<and> ih_ID host = hs_ID seed \<and> ih_FQDN host = hs_FQDN seed) seeds (is_Hosts (GetSnapshot_i store))"
proof -
  let ?hosts = "is_Hosts (GetSnapshot_i store)"
  from assms(1) have eqs: "map ih_ID ?hosts = map hs_ID seeds" "map ih_FQDN ?hosts = map hs_FQDN seeds"
    and index: "GetHost_i store i = last_with ih_ID i ?hosts" for i
    by (simp_all add: serving_def inventory_store.coherent_def)
  from eqs(1) have len: "length ?hosts = length seeds" by (metis length_map)
  from assms(2) eqs(1) have "distinct (map ih_ID ?hosts)" by simp
  note found = last_with_distinct [OF this]
  show ?thesis
    unfolding list_all2_conv_all_nth
  proof (intro conjI allI impI)
    fix k assume k: "k < length seeds"
    from eqs k len show id: "ih_ID (?hosts ! k) = hs_ID (seeds ! k)" "ih_FQDN (?hosts ! k) = hs_FQDN (seeds ! k)"
      by (metis nth_map)+
    with index found k len have "GetHost_i store (hs_ID (seeds ! k)) = Some (?hosts ! k)" by simp
    with assms(3) k show "GetHost_handler_i store store' (hs_ID (seeds ! k)) =
        (200, Host_i (im_IsPartial (GetMetadata store')) (im_LastSyncAt (GetMetadata store')) (toHostDTO (?hosts ! k)))"
      by (simp add: GetHost_handler_i_def GetHostByID_i_def list_all_length Let_def)
  qed (simp add: len)
qed

text \<open>Whom it does not know it reports as not found.\<close>

lemma serving_unknown:
  assumes "serving seeds store" and "TrimSpace param \<notin> hs_ID ` set seeds"
  shows "GetHost_handler_i store store' param = (404, APIError_i ''host not found'')"
proof -
  from assms(1) have "ih_ID ` set (is_Hosts (GetSnapshot_i store)) = hs_ID ` set seeds"
    unfolding serving_def by (metis set_map)
  moreover from assms(1) have "GetHost_i store i = last_with ih_ID i (is_Hosts (GetSnapshot_i store))" for i
    by (simp add: serving_def inventory_store.coherent_def)
  ultimately have "GetHost_i store (TrimSpace param) = None" using assms(2) by (simp add: last_with_None_iff)
  then show ?thesis by (simp add: GetHost_handler_i_def GetHostByID_i_def Let_def)
qed

lemma NewService_i_ids:
  "map hs_ID (NewService_i hosts) = map (TrimSpace \<circ> hs_ID) hosts"
  "map hs_FQDN (NewService_i hosts) = map (TrimSpace \<circ> hs_FQDN) hosts"
  "list_all (\<lambda>seed. TrimSpace (hs_ID seed) = hs_ID seed) (NewService_i hosts)"
  "NewService_i hosts = [] \<longleftrightarrow> hosts = []"
  by (simp_all add: NewService_i_def list_all_iff)

text \<open>A list of seeds that the bootstrap accepted.\<close>

definition accepted_seeds :: "HostSeed list \<Rightarrow> bool" where
  "accepted_seeds hosts \<longleftrightarrow> hosts \<noteq> [] \<and> list_all seed_complete hosts
     \<and> distinct (map (TrimSpace \<circ> hs_ID) hosts) \<and> distinct (map (TrimSpace \<circ> hs_FQDN) hosts)"

lemma Load_seeds_Inr:
  "Load_seeds readFile unmarshal quote path = Inr hosts \<Longrightarrow> accepted_seeds hosts"
  using fold_validate_seed [of quote 0 hosts "\<lparr>vl_seenIDs = [], vl_seenFQDN = [], vl_errs = []\<rparr>"]
  by (auto simp: Load_seeds_def validate_def accepted_seeds_def Let_def split: sum.splits option.splits if_splits)

lemma start_inventory_Inr:
  assumes "start_inventory deps get un fs load_seeds cfg cfgFilePath w = (Inr run, w')"
  obtains path hosts store where "load_seeds path = Inr hosts" and "rn_bootstrapHosts run = NewService_i hosts"
    and "Sync deps (rn_sources run) (NewService_i hosts) (NewStore_i, w) = (None, store, w')"
    and "rn_store run = SetReady_i True store"
  using assms by (auto simp: start_inventory_def Let_def split: sum.splits prod.splits option.splits)

text \<open>The store after so many ticks of the scheduler.\<close>

definition store_at :: "'w SyncDeps \<Rightarrow> 'w Running \<Rightarrow> 'w \<Rightarrow> nat \<Rightarrow> Store_i" where
  "store_at deps run w n =
     fst (((\<lambda>st. snd (Sync deps (rn_sources run) (rn_bootstrapHosts run) st)) ^^ n) (rn_store run, w))"

lemma store_at_serving:
  assumes "serving (rn_bootstrapHosts run) (rn_store run)"
  shows "serving (rn_bootstrapHosts run) (store_at deps run w n)"
  using inventory_schedule.funpow_keeps [of "rn_bootstrapHosts run" "(rn_store run, w)" n deps "rn_sources run"] assms
  by (simp add: store_at_def case_prod_beta)

lemma scheduled_store:
  "fst (snd (Start_scheduler interval (Sync deps (rn_sources run) (rn_bootstrapHosts run)) events (rn_store run, w))) =
     store_at deps run w (if interval \<le> 0 then 0 else ticks events)"
  by (simp add: Start_scheduler_def scheduler_loop_eq store_at_def)

lemma start_inventory_serving:
  assumes "start_inventory deps get un fs (Load_seeds readFile unmarshal quote) cfg cfgFilePath w = (Inr run, w')"
  shows "serving (rn_bootstrapHosts run) (rn_store run)" and "rn_bootstrapHosts run \<noteq> []"
    and "distinct (map hs_ID (rn_bootstrapHosts run))"
    and "list_all (\<lambda>seed. TrimSpace (hs_ID seed) = hs_ID seed) (rn_bootstrapHosts run)"
proof -
  from start_inventory_Inr [OF assms] obtain path hosts store0 where
    load: "Load_seeds readFile unmarshal quote path = Inr hosts" and seeds: "rn_bootstrapHosts run = NewService_i hosts"
    and sync: "Sync deps (rn_sources run) (NewService_i hosts) (NewStore_i, w) = (None, store0, w')"
    and store0: "rn_store run = SetReady_i True store0" by blast
  from Sync_first_serving [OF sync] show "serving (rn_bootstrapHosts run) (rn_store run)" by (simp add: seeds store0)
  from Load_seeds_Inr [OF load] show "rn_bootstrapHosts run \<noteq> []" "distinct (map hs_ID (rn_bootstrapHosts run))"
    "list_all (\<lambda>seed. TrimSpace (hs_ID seed) = hs_ID seed) (rn_bootstrapHosts run)"
    by (simp_all add: accepted_seeds_def seeds NewService_i_ids)
qed

section \<open>Properties\<close>

text \<open>
  C14: once app.Run has got past the first sync, the inventory is ready and stays ready, also
  for requests that a sync overtakes. Let a handler make its first call after n ticks and
  its second after m, whether the syncs fail or not: GET /readyz answers 200; for every host
  of the bootstrap file, in its order, the snapshot has a host with its id and name, and GET
  /api/v1/hosts/:id shows that host as the first call found it, with the metadata of the
  second; under any other id there is 404.
\<close>
theorem inventory_serves:
  assumes "start_inventory deps get un fs (Load_seeds readFile unmarshal quote) cfg cfgFilePath w = (Inr run, w')"
  shows "let before = store_at deps run w' n; now = store_at deps run w' m
    in fst (snd (Start_scheduler (syc_Interval (ci_Sync cfg)) (Sync deps (rn_sources run) (rn_bootstrapHosts run)) events
         (rn_store run, w'))) = store_at deps run w' (if syc_Interval (ci_Sync cfg) \<le> 0 then 0 else ticks events)
    \<and> fst (Readyz_i before now) = 200 \<and> rn_bootstrapHosts run \<noteq> []
    \<and> list_all2 (\<lambda>seed host.
        GetHost_handler_i before now (hs_ID seed) =
          (200, Host_i (im_IsPartial (GetMetadata now)) (im_LastSyncAt (GetMetadata now)) (toHostDTO host))
        \<and> ih_ID host = hs_ID seed \<and> ih_FQDN host = hs_FQDN seed)
      (rn_bootstrapHosts run) (is_Hosts (GetSnapshot_i before))
    \<and> (if TrimSpace param \<in> hs_ID ` set (rn_bootstrapHosts run) then True
       else GetHost_handler_i before now param = (404, APIError_i ''host not found''))"
proof -
  note start = start_inventory_serving [OF assms]
  note serving = store_at_serving [OF start(1), of deps w']
  from serving [of m] have "fst (Readyz_i (store_at deps run w' n) (store_at deps run w' m)) = 200"
    by (simp add: Readyz_i_def serving_def Let_def)
  with start(2) serving_host [OF serving start(3,4)] serving_unknown [OF serving] show ?thesis
    by (simp add: scheduled_store Let_def)
qed

definition sample_sync :: "int SyncDeps" where
  "sample_sync = \<lparr>sy_now = (\<lambda>w. (\<lparr>wall = w * 1000000000, mono = None\<rparr>, w + 1)), sy_ctxErr = (\<lambda>w. None)\<rparr>"

definition sample_fs :: Filesystem where
  "sample_fs = \<lparr>fs_IsAbs = (\<lambda>p. HasPrefix p ''/''), fs_pathExists = (\<lambda>p. False), fs_Abs = Inr,
     fs_Dir = (\<lambda>p. ''/etc''), fs_Join = (\<lambda>a b. a @ ''/'' @ b)\<rparr>"

definition no_unmarshal :: Unmarshal where
  "no_unmarshal = \<lparr>un_list = (\<lambda>b. None), un_map = (\<lambda>b. None), un_single = (\<lambda>b. None), un_error = (\<lambda>b. None)\<rparr>"

definition sample_config_i :: Config_i where
  "sample_config_i =
     \<lparr>ci_Server = \<lparr>sci_Port = 8080\<rparr>, ci_Logging = \<lparr>lci_Level = ''info''\<rparr>,
      ci_Sync = \<lparr>syc_Interval = 30000000000\<rparr>,
      ci_Sources = \<lparr>sr_CAdvisor = sample_cadvisor_config, sr_NetBox = \<lparr>ts_IsEnabled = False\<rparr>,
        sr_OtherSources = \<lparr>ts_IsEnabled = True\<rparr>\<rparr>,
      ci_Bootstrap = \<lparr>bc_SelfProvisioningPath = ''hosts.yaml''\<rparr>\<rparr>"

definition sample_seed :: HostSeed where
  "sample_seed = \<lparr>hs_ID = '' h1'', hs_FQDN = ''h1.local'',
     hs_Labels = Some [(''managed_by'', ''a''), (''purpose'', ''b''), (''env'', ''dev'')]\<rparr>"

abbreviation sample_start :: "(string, int Running) result \<times> int" where
  "sample_start \<equiv> start_inventory sample_sync (\<lambda>url w. (Execute_failed ''refused'', w)) no_unmarshal sample_fs
     (Load_seeds (\<lambda>p. Inr p) (\<lambda>c. Inr [sample_seed]) (\<lambda>s. s)) sample_config_i ''/etc/app.yaml'' 0"

theorem inventory_serves_witness:
  "\<exists>run w'. sample_start = (Inr run, w')
     \<and> fst (Readyz_i (store_at sample_sync run w' 1) (store_at sample_sync run w' 2)) = 200
     \<and> GetHost_handler_i (store_at sample_sync run w' 1) (store_at sample_sync run w' 2) ''h2'' = (404, APIError_i ''host not found'')"
proof -
  have "case fst sample_start of Inl e \<Rightarrow> False | Inr run \<Rightarrow> map hs_ID (rn_bootstrapHosts run) = [''h1'']" by code_simp
  then obtain run w' where start: "sample_start = (Inr run, w')" and ids: "map hs_ID (rn_bootstrapHosts run) = [''h1'']"
    by (cases sample_start; cases "fst sample_start") auto
  from ids have "hs_ID ` set (rn_bootstrapHosts run) = {''h1''}" by (metis list.set(1) list.set(2) set_map)
  moreover have "TrimSpace ''h2'' = ''h2''" by code_simp
  ultimately show ?thesis
    using start inventory_serves [OF start, of 1 2 "[]" "''h2''"] by (simp add: Let_def)
qed

text \<open>
  With the default template, which a blank one stands for, the URL asked for a host is
  put together from the normalised configuration and the trimmed name whatever bytes these
  hold: the scheme is not empty, the base path is empty or starts with a slash and the
  containers path starts with one, so host and port end where the path begins; no value is
  expanded a second time.
\<close>
theorem cadvisor_url:
  assumes "cf_URLTemplate (normalizeCAdvisorConfig cfg) = defaultCAdvisorURLTemplate"
  shows "\<exists>scheme base path.
    buildURL (normalizeCAdvisorConfig cfg) fqdn =
      scheme @ ''://'' @ TrimSpace fqdn @ '':'' @ FormatInt (cf_Port cfg) @ base @ path
    \<and> scheme \<noteq> [] \<and> TrimSpace scheme = scheme \<and> (if base = [] then True else HasPrefix base ''/'') \<and> HasPrefix path ''/''"
proof -
  let ?cfg = "normalizeCAdvisorConfig cfg"
  have "cf_BasePath ?cfg = TrimSuffix (leading_slash (if cf_BasePath cfg = [] then ''/'' else cf_BasePath cfg)) ''/''"
    by (simp add: normalizeCAdvisorConfig_def Let_def)
  with TrimSuffix_leading_slash have base: "if cf_BasePath ?cfg = [] then True else HasPrefix (cf_BasePath ?cfg) ''/''"
    by metis
  have path: "HasPrefix (cf_ContainersPath ?cfg) ''/''"
    by (simp add: normalizeCAdvisorConfig_def leading_slash_prefix Let_def)
  have http: "TrimSpace ''http'' = ''http''" by code_simp
  have scheme: "TrimSpace (cf_Scheme ?cfg) = cf_Scheme ?cfg \<and> cf_Scheme ?cfg \<noteq> []"
    by (simp add: normalizeCAdvisorConfig_def Let_def http)
  have port: "cf_Port ?cfg = cf_Port cfg" by (simp add: normalizeCAdvisorConfig_def Let_def)
  have "buildURL ?cfg fqdn = cf_Scheme ?cfg @ ''://'' @ TrimSpace fqdn @ '':'' @ FormatInt (cf_Port cfg)
      @ cf_BasePath ?cfg @ cf_ContainersPath ?cfg"
    using buildURL_default [of ?cfg fqdn] assms scheme port by (simp add: defaultCAdvisorURLTemplate_def)
  then show ?thesis using base path scheme by blast
qed

theorem cadvisor_url_witness:
  "cf_URLTemplate (normalizeCAdvisorConfig (sample_cadvisor_config\<lparr>cf_URLTemplate := '' ''\<rparr>)) = defaultCAdvisorURLTemplate
   \<and> (\<exists>scheme base path. buildURL (normalizeCAdvisorConfig (sample_cadvisor_config\<lparr>cf_URLTemplate := '' ''\<rparr>)) ''srv'' =
        scheme @ ''://'' @ TrimSpace ''srv'' @ '':'' @ FormatInt 8080 @ base @ path \<and> HasPrefix path ''/'')"
proof -
  let ?cfg = "sample_cadvisor_config\<lparr>cf_URLTemplate := '' ''\<rparr>"
  have template: "cf_URLTemplate (normalizeCAdvisorConfig ?cfg) = defaultCAdvisorURLTemplate" by code_simp
  have "cf_Port ?cfg = 8080" by (simp add: sample_cadvisor_config_def)
  with template cadvisor_url [OF template, of "''srv''"] show ?thesis by auto
qed

end
