(* ===== verification/Drift_Domain.thy ===== *)
theory Drift_Domain
  imports Prelude
begin

text \<open>
  DriftDetectorSvc, package domain (internal/domain/model.go): desired and actual state as
  the detector sees them, what a detector reports, and the result of a detection cycle.
  A Component is a Go string type. Counters that the service only increments are natural
  numbers; numbers that come out of JSON are integers.
\<close>

type_synonym Component = string

definition ComponentNodeExporter :: Component where
  "ComponentNodeExporter = ''node_exporter''"

definition ComponentCadvisor :: Component where
  "ComponentCadvisor = ''cadvisor''"

definition ParseComponent :: "string \<Rightarrow> (string, Component) result" where
  "ParseComponent v =
     (let normalized = ToLower (TrimSpace v)
      in if normalized = ComponentNodeExporter then Inr ComponentNodeExporter
         else if normalized = ComponentCadvisor then Inr ComponentCadvisor
         else Inl (''unsupported component: '' @ v))"

section \<open>Desired state\<close>

record DesiredMetadata =
  dmd_Ready :: bool
  dmd_ReadyReason :: string
  dmd_FilesLoaded :: int
  dmd_FilesBroken :: int
  dmd_HostsTotal :: int
  dmd_WorkloadsTotal :: int
  dmd_LoadedAt :: "gotime option"

record DesiredWorkload_d =
  dw_Name :: string
  dw_Enabled :: bool
  dw_DeploymentMode :: string
  dw_Image :: string
  dw_Version :: "string option"
  dw_Port :: "int option"

record DesiredHost_d =
  dh_HostID :: string
  dh_FQDN :: string
  dh_Labels :: "(string, string) gomap"
  dh_Workloads :: "DesiredWorkload_d list"

record DesiredState_d =
  dst_Hosts :: "DesiredHost_d list"
  dst_Metadata :: DesiredMetadata

definition DesiredWorkload_of :: "DesiredHost_d \<Rightarrow> Component \<Rightarrow> DesiredWorkload_d option" where
  "DesiredWorkload_of h cmp =
     find (\<lambda>workload. EqualFold (TrimSpace (dw_Name workload)) cmp) (dh_Workloads h)"

section \<open>Actual state\<close>

record ActualMetadata =
  amd_IsPartial :: bool
  amd_TotalHosts :: int
  amd_FailedHosts :: int
  amd_LastSyncAt :: "gotime option"

record ActualSourceStatus =
  asr_Source :: string
  asr_Enabled :: bool
  asr_Status :: string
  asr_Error :: string

record ActualWorkload =
  aw_Name :: string

record ActualHost =
  ah_HostID :: string
  ah_FQDN :: string
  ah_Labels :: "(string, string) gomap"
  ah_Status :: string
  ah_Workloads :: "ActualWorkload list"
  ah_SourceStatus :: "(string, ActualSourceStatus) gomap"

record ActualState =
  ast_Hosts :: "ActualHost list"
  ast_Metadata :: ActualMetadata

definition HasWorkload :: "ActualHost \<Rightarrow> Component \<Rightarrow> bool" where
  "HasWorkload h cmp =
     list_ex (\<lambda>workload. EqualFold (TrimSpace (aw_Name workload)) cmp) (ah_Workloads h)"

definition IsSourceHealthy :: "ActualHost \<Rightarrow> string \<Rightarrow> bool" where
  "IsSourceHealthy h source =
     (case map_get (ah_SourceStatus h) source of
        None \<Rightarrow> False
      | Some status \<Rightarrow>
          if \<not> asr_Enabled status then False
          else EqualFold (TrimSpace (asr_Status status)) ''ok'')"

section \<open>Detector results\<close>

record DriftFinding =
  df_Component :: Component
  df_HostID :: string
  df_FQDN :: string
  df_Reason :: string

record ReconcileCommand =
  rc_HostID :: string
  rc_FQDN :: string
  rc_Component :: Component
  rc_CorrelationID :: string
  rc_Parameters :: "(string, iface) gomap"

record ReconcileAccepted =
  ra_RequestID :: string
  ra_AcceptedAt :: "gotime option"
  ra_Component :: Component
  ra_FQDN :: string
  ra_CorrelationID :: string

record DetectorResult =
  dr_Component :: Component
  dr_Applicable :: bool
  dr_MissingActualData :: bool
  dr_MissingActualHost :: bool
  dr_Drift :: bool
  dr_SkipReason :: string
  dr_Finding :: "DriftFinding option"
  dr_ReconcileCommand :: "ReconcileCommand option"

section \<open>Results of a cycle\<close>

record DetectionStats =
  ds_DesiredHosts :: nat
  ds_ComparedHosts :: nat
  ds_SkippedHostsNoActualHost :: nat
  ds_SkippedHostsNoActualData :: nat
  ds_DriftsFound :: nat
  ds_ReconcileSent :: nat
  ds_ReconcileSuppressed :: nat
  ds_Errors :: nat

record DetectionStageTimings =
  tm_InventoryFetchMs :: int
  tm_ParserFetchMs :: int
  tm_DriftComparisonMs :: int
  tm_ReconcileDispatchMs :: int

record DetectionCycleResult =
  cr_CycleID :: string
  cr_Trigger :: string
  cr_StartedAt :: gotime
  cr_FinishedAt :: gotime
  cr_DurationMs :: int
  cr_StageTimings :: DetectionStageTimings
  cr_Partial :: bool
  cr_InventoryMarkedPartial :: bool
  cr_ParserReady :: bool
  cr_Stats :: DetectionStats
  cr_Warnings :: "string list"
  cr_ErrorMessages :: "string list"

definition Clone_result :: "DetectionCycleResult \<Rightarrow> DetectionCycleResult" where
  "Clone_result r =
     (let clonedWarnings = go_copy (replicate (length (cr_Warnings r)) []) (cr_Warnings r);
          clonedErrors = go_copy (replicate (length (cr_ErrorMessages r)) []) (cr_ErrorMessages r)
      in \<lparr>cr_CycleID = cr_CycleID r, cr_Trigger = cr_Trigger r, cr_StartedAt = cr_StartedAt r,
          cr_FinishedAt = cr_FinishedAt r, cr_DurationMs = cr_DurationMs r,
          cr_StageTimings = cr_StageTimings r, cr_Partial = cr_Partial r,
          cr_InventoryMarkedPartial = cr_InventoryMarkedPartial r,
          cr_ParserReady = cr_ParserReady r, cr_Stats = cr_Stats r,
          cr_Warnings = clonedWarnings, cr_ErrorMessages = clonedErrors\<rparr>)"

definition zero_stats :: DetectionStats where
  "zero_stats =
     \<lparr>ds_DesiredHosts = 0, ds_ComparedHosts = 0, ds_SkippedHostsNoActualHost = 0,
      ds_SkippedHostsNoActualData = 0, ds_DriftsFound = 0, ds_ReconcileSent = 0,
      ds_ReconcileSuppressed = 0, ds_Errors = 0\<rparr>"

definition zero_timings :: DetectionStageTimings where
  "zero_timings =
     \<lparr>tm_InventoryFetchMs = 0, tm_ParserFetchMs = 0, tm_DriftComparisonMs = 0,
      tm_ReconcileDispatchMs = 0\<rparr>"

definition zero_result :: DetectionCycleResult where
  "zero_result =
     \<lparr>cr_CycleID = [], cr_Trigger = [], cr_StartedAt = zero_time, cr_FinishedAt = zero_time,
      cr_DurationMs = 0, cr_StageTimings = zero_timings, cr_Partial = False,
      cr_InventoryMarkedPartial = False, cr_ParserReady = False, cr_Stats = zero_stats,
      cr_Warnings = [], cr_ErrorMessages = []\<rparr>"

section \<open>Lemmas\<close>

lemma Clone_result_id [simp]: "Clone_result r = r"
  by (simp add: Clone_result_def)

lemma ParseComponent_Inr_iff:
  "ParseComponent v = Inr c \<longleftrightarrow>
     c = ToLower (TrimSpace v) \<and> c \<in> {ComponentNodeExporter, ComponentCadvisor}"
  by (auto simp: ParseComponent_def Let_def)

lemma DesiredWorkload_of_SomeD:
  "DesiredWorkload_of h cmp = Some w \<Longrightarrow>
     w \<in> set (dh_Workloads h) \<and> EqualFold (TrimSpace (dw_Name w)) cmp"
  unfolding DesiredWorkload_of_def find_Some_iff by (metis nth_mem)

lemma IsSourceHealthy_iff:
  "IsSourceHealthy h source \<longleftrightarrow>
     (\<exists>st. map_get (ah_SourceStatus h) source = Some st \<and> asr_Enabled st
        \<and> EqualFold (TrimSpace (asr_Status st)) ''ok'')"
  by (auto simp: IsSourceHealthy_def split: option.split)

end
