(* ===== verification/Drift_Clients.thy ===== *)
theory Drift_Clients
  imports Drift_Domain
begin

text \<open>
  DriftDetectorSvc, packages inventory, parser and reconciler under internal/clients: HTTP
  clients with retries. Sending a request, waiting between attempts, and encoding and
  decoding JSON are parameters; the retry loop, which the three clients share word for word,
  is one definition, and its contract is the locale \<open>attempts\<close>.
\<close>

section \<open>The retry loop\<close>

record RetryConfig =
  rt_MaxAttempts :: int
  rt_Backoff :: int

record 'w Transport =
  tr_send :: "string \<Rightarrow> string option \<Rightarrow> 'w \<Rightarrow> http_answer \<times> 'w"
  tr_wait :: "int \<Rightarrow> 'w \<Rightarrow> bool \<times> 'w"
  tr_ctxErr :: "'w \<Rightarrow> string"

definition shouldRetry :: "int \<Rightarrow> bool" where
  "shouldRetry statusCode = (if statusCode = 0 then True else 500 \<le> statusCode)"

definition sleepWithContext :: "'w Transport \<Rightarrow> int \<Rightarrow> 'w \<Rightarrow> bool \<times> 'w" where
  "sleepWithContext tr delay w = (if delay \<le> 0 then (True, w) else tr_wait tr delay w)"

text \<open>
  The loop with n attempts left; lastErr is the error so far. \<open>Inl (False, e)\<close> is an error
  that is still to be wrapped, \<open>Inl (True, e)\<close> the error of the context. After no attempt at
  all lastErr is nil, which the verb \%w renders as shown.
\<close>

fun attempt_loop ::
  "'w Transport \<Rightarrow> ('w \<Rightarrow> (int \<times> string, 'a) result \<times> 'w) \<Rightarrow> int \<Rightarrow> nat \<Rightarrow> string \<Rightarrow> 'w
     \<Rightarrow> (bool \<times> string, 'a) result \<times> 'w" where
  "attempt_loop tr call backoff 0 lastErr w = (Inl (False, lastErr), w)"
| "attempt_loop tr call backoff (Suc n) lastErr w =
     (case call w of
        (Inr state, w1) \<Rightarrow> (Inr state, w1)
      | (Inl (statusCode, err), w1) \<Rightarrow>
          if \<not> shouldRetry statusCode \<or> n = 0 then (Inl (False, err), w1)
          else (case sleepWithContext tr backoff w1 of
                  (False, w2) \<Rightarrow> (Inl (True, tr_ctxErr tr w2), w2)
                | (True, w2) \<Rightarrow> attempt_loop tr call backoff n err w2))"

definition with_retries ::
  "'w Transport \<Rightarrow> ('w \<Rightarrow> (int \<times> string, 'a) result \<times> 'w) \<Rightarrow> RetryConfig \<Rightarrow> string \<Rightarrow> 'w
     \<Rightarrow> (string, 'a) result \<times> 'w" where
  "with_retries tr call retry what w =
     (let (r, w') = attempt_loop tr call (rt_Backoff retry) (nat (rt_MaxAttempts retry)) ''%!w(<nil>)'' w
      in (case r of
            Inr state \<Rightarrow> Inr state
          | Inl (context_done, err) \<Rightarrow> Inl (if context_done then err else what @ '': '' @ err), w'))"

text \<open>One request: the body is read whole before the status is looked at.\<close>

definition request_once ::
  "'w Transport \<Rightarrow> int \<Rightarrow> (string \<Rightarrow> (string, 'a) result) \<Rightarrow> string \<Rightarrow> string option \<Rightarrow> 'w
     \<Rightarrow> (int \<times> string, 'a) result \<times> 'w" where
  "request_once tr expected decode url body w =
     (let (answer, w') = tr_send tr url body w
      in (case answer of
            Build_failed err \<Rightarrow> Inl (0, err)
          | Execute_failed err \<Rightarrow> Inl (0, err)
          | Answer statusCode bytes readErr \<Rightarrow>
              (case readErr of
                 Some err \<Rightarrow> Inl (statusCode, ''read response body: '' @ err)
               | None \<Rightarrow>
                   if statusCode \<noteq> expected then
                     Inl (statusCode, ''unexpected status '' @ FormatInt statusCode @ '': '' @ TrimSpace bytes)
                   else (case decode bytes of
                           Inl err \<Rightarrow> Inl (statusCode, ''decode response: '' @ err)
                         | Inr payload \<Rightarrow> Inr payload)), w'))"

section \<open>The inventory client\<close>

record hostsMetadataDTO =
  hm_IsPartial :: bool
  hm_TotalHosts :: int
  hm_FailedHosts :: int
  hm_LastSyncAt :: "gotime option"

record workloadDTO =
  wd_Name :: string

record sourceStatusDTO =
  ssd_Source :: string
  ssd_Enabled :: bool
  ssd_Status :: string
  ssd_Error :: string

record hostDTO =
  hd_ID :: string
  hd_FQDN :: string
  hd_Labels :: "(string, string) gomap"
  hd_Status :: string
  hd_Workloads :: "workloadDTO list"
  hd_SourceStatus :: "(string, sourceStatusDTO) gomap"

record hostsResponse =
  hr_Metadata :: hostsMetadataDTO
  hr_Hosts :: "hostDTO list"

definition toActualHost :: "hostDTO \<Rightarrow> ActualHost" where
  "toActualHost host =
     (let labels = copy_into (\<lambda>v. v) (hd_Labels host) [];
          workloads = map (\<lambda>workload. \<lparr>aw_Name = wd_Name workload\<rparr>) (hd_Workloads host);
          sourceStatuses = copy_into (\<lambda>s. \<lparr>asr_Source = ssd_Source s, asr_Enabled = ssd_Enabled s,
            asr_Status = ssd_Status s, asr_Error = ssd_Error s\<rparr>) (hd_SourceStatus host) []
      in \<lparr>ah_HostID = hd_ID host, ah_FQDN = hd_FQDN host, ah_Labels = labels, ah_Status = hd_Status host,
          ah_Workloads = workloads, ah_SourceStatus = sourceStatuses\<rparr>)"

definition toDomain_actual :: "hostsResponse \<Rightarrow> ActualState" where
  "toDomain_actual r =
     \<lparr>ast_Hosts = map toActualHost (hr_Hosts r),
      ast_Metadata = \<lparr>amd_IsPartial = hm_IsPartial (hr_Metadata r), amd_TotalHosts = hm_TotalHosts (hr_Metadata r),
        amd_FailedHosts = hm_FailedHosts (hr_Metadata r), amd_LastSyncAt = hm_LastSyncAt (hr_Metadata r)\<rparr>\<rparr>"

record ClientConfig =
  cl_BaseURL :: string
  cl_Path :: string
  cl_Timeout :: int
  cl_Retry :: RetryConfig

definition fetchOnce_inventory ::
  "'w Transport \<Rightarrow> (string \<Rightarrow> (string, hostsResponse) result) \<Rightarrow> string \<Rightarrow> 'w
     \<Rightarrow> (int \<times> string, ActualState) result \<times> 'w" where
  "fetchOnce_inventory tr unmarshal url =
     request_once tr 200 (\<lambda>body. bind_result (unmarshal body) (\<lambda>p. Inr (toDomain_actual p))) url None"

definition FetchActualState ::
  "'w Transport \<Rightarrow> (string \<Rightarrow> (string, hostsResponse) result) \<Rightarrow> ClientConfig \<Rightarrow> 'w
     \<Rightarrow> (string, ActualState) result \<times> 'w" where
  "FetchActualState tr unmarshal cfg w =
     (let url = cl_BaseURL cfg @ cl_Path cfg
      in with_retries tr (fetchOnce_inventory tr unmarshal url) (cl_Retry cfg)
           ''fetch inventory actual state'' w)"

section \<open>The parser client\<close>

record desiredMetadataDTO =
  dm_Ready :: bool
  dm_ReadyReason :: string
  dm_FilesLoaded :: int
  dm_FilesBroken :: int
  dm_HostsTotal :: int
  dm_WorkloadsTotal :: int
  dm_LoadedAt :: "gotime option"

record desiredWorkloadDTO =
  dwd_Name :: string
  dwd_Enabled :: bool
  dwd_DeploymentMode :: string
  dwd_Image :: string
  dwd_Version :: "string option"
  dwd_Port :: "int option"

record desiredHostDTO =
  dhd_HostID :: string
  dhd_FQDN :: string
  dhd_Labels :: "(string, string) gomap"
  dhd_Workloads :: "desiredWorkloadDTO list"

record desiredStateDTO =
  dsd_Hosts :: "desiredHostDTO list"

record desiredStateResponse =
  dsp_Metadata :: desiredMetadataDTO
  dsp_State :: desiredStateDTO

definition toDesiredHost :: "desiredHostDTO \<Rightarrow> DesiredHost_d" where
  "toDesiredHost host =
     (let labels = copy_into (\<lambda>v. v) (dhd_Labels host) [];
          workloads = map (\<lambda>w. \<lparr>dw_Name = dwd_Name w, dw_Enabled = dwd_Enabled w,
            dw_DeploymentMode = dwd_DeploymentMode w, dw_Image = dwd_Image w, dw_Version = dwd_Version w,
            dw_Port = dwd_Port w\<rparr>) (dhd_Workloads host)
      in \<lparr>dh_HostID = dhd_HostID host, dh_FQDN = dhd_FQDN host, dh_Labels = labels, dh_Workloads = workloads\<rparr>)"

definition toDomain_desired :: "desiredStateResponse \<Rightarrow> DesiredState_d" where
  "toDomain_desired r =
     (let md = dsp_Metadata r
      in \<lparr>dst_Hosts = map toDesiredHost (dsd_Hosts (dsp_State r)),
          dst_Metadata = \<lparr>dmd_Ready = dm_Ready md, dmd_ReadyReason = dm_ReadyReason md,
            dmd_FilesLoaded = dm_FilesLoaded md, dmd_FilesBroken = dm_FilesBroken md,
            dmd_HostsTotal = dm_HostsTotal md, dmd_WorkloadsTotal = dm_WorkloadsTotal md,
            dmd_LoadedAt = dm_LoadedAt md\<rparr>\<rparr>)"

definition fetchOnce_parser ::
  "'w Transport \<Rightarrow> (string \<Rightarrow> (string, desiredStateResponse) result) \<Rightarrow> string \<Rightarrow> 'w
     \<Rightarrow> (int \<times> string, DesiredState_d) result \<times> 'w" where
  "fetchOnce_parser tr unmarshal url =
     request_once tr 200 (\<lambda>body. bind_result (unmarshal body) (\<lambda>p. Inr (toDomain_desired p))) url None"

definition FetchDesiredState ::
  "'w Transport \<Rightarrow> (string \<Rightarrow> (string, desiredStateResponse) result) \<Rightarrow> ClientConfig \<Rightarrow> 'w
     \<Rightarrow> (string, DesiredState_d) result \<times> 'w" where
  "FetchDesiredState tr unmarshal cfg w =
     (let url = cl_BaseURL cfg @ cl_Path cfg
      in with_retries tr (fetchOnce_parser tr unmarshal url) (cl_Retry cfg)
           ''fetch parser desired state'' w)"

section \<open>The reconciler client\<close>

record reconcileRequest =
  rq_HostID :: string
  rq_FQDN :: string
  rq_Component :: string
  rq_CorrelationID :: string
  rq_Parameters :: "(string, iface) gomap"

record reconcileAcceptedResponse =
  rr_RequestID :: string
  rr_AcceptedAt :: "gotime option"
  rr_Component :: string
  rr_FQDN :: string
  rr_CorrelationID :: string

definition toDomain_accepted :: "reconcileAcceptedResponse \<Rightarrow> ReconcileAccepted" where
  "toDomain_accepted r =
     (let component = (case ParseComponent (rr_Component r) of Inl _ \<Rightarrow> [] | Inr c \<Rightarrow> c)
      in \<lparr>ra_RequestID = rr_RequestID r, ra_AcceptedAt = rr_AcceptedAt r, ra_Component = component,
          ra_FQDN = rr_FQDN r, ra_CorrelationID = rr_CorrelationID r\<rparr>)"

definition sendOnce ::
  "'w Transport \<Rightarrow> (string \<Rightarrow> (string, reconcileAcceptedResponse) result) \<Rightarrow> string \<Rightarrow> string \<Rightarrow> 'w
     \<Rightarrow> (int \<times> string, ReconcileAccepted) result \<times> 'w" where
  "sendOnce tr unmarshal url body =
     request_once tr 202 (\<lambda>b. bind_result (unmarshal b) (\<lambda>p. Inr (toDomain_accepted p))) url (Some body)"

definition SendReconcile ::
  "'w Transport \<Rightarrow> (reconcileRequest \<Rightarrow> (string, string) result)
     \<Rightarrow> (string \<Rightarrow> (string, reconcileAcceptedResponse) result) \<Rightarrow> ClientConfig \<Rightarrow> ReconcileCommand \<Rightarrow> 'w
     \<Rightarrow> (string, ReconcileAccepted) result \<times> 'w" where
  "SendReconcile tr marshal unmarshal cfg command w =
     (let url = cl_BaseURL cfg @ cl_Path cfg;
          payload = \<lparr>rq_HostID = rc_HostID command, rq_FQDN = rc_FQDN command,
            rq_Component = rc_Component command, rq_CorrelationID = rc_CorrelationID command,
            rq_Parameters = rc_Parameters command\<rparr>
      in case marshal payload of
           Inl err \<Rightarrow> (Inl (''marshal reconcile request: '' @ err), w)
         | Inr body \<Rightarrow>
             with_retries tr (sendOnce tr unmarshal url body) (cl_Retry cfg) ''send reconcile command'' w)"

lemmas once_defs = fetchOnce_inventory_def fetchOnce_parser_def sendOnce_def

section \<open>The contract of the loop\<close>

text \<open>
  A client whose calls can be counted in the world: each call of the client is one request,
  waiting is none.
\<close>

locale attempts =
  fixes tr :: "'w Transport"
    and call :: "'w \<Rightarrow> (int \<times> string, 'a) result \<times> 'w"
    and requests :: "'w \<Rightarrow> nat"
  assumes call_counts: "call w = (r, w') \<Longrightarrow> requests w' = Suc (requests w)"
    and wait_counts: "tr_wait tr d w = (b, w') \<Longrightarrow> requests w' = requests w"
begin

lemma sleep_counts: "sleepWithContext tr d w = (b, w') \<Longrightarrow> requests w' = requests w"
  by (auto simp: sleepWithContext_def wait_counts split: if_splits)

text \<open>At least one request, at most n, and only one when the first answer is final.\<close>

lemma loop_counts:
  assumes "attempt_loop tr call backoff (Suc n) e w = (r, w')"
  shows "requests w < requests w' \<and> requests w' \<le> requests w + Suc n"
  using assms
proof (induction n arbitrary: e w)
  case 0
  then show ?case
    by (auto split: prod.splits sum.splits dest: call_counts)
next
  case (Suc n)
  obtain a w1 where a: "call w = (a, w1)" by (meson surj_pair)
  obtain b w2 where b: "sleepWithContext tr backoff w1 = (b, w2)" by (meson surj_pair)
  have counts: "requests w1 = Suc (requests w)" "requests w2 = requests w1"
    using call_counts [OF a] sleep_counts [OF b] by simp_all
  show ?case
  proof (cases "\<exists>status err. a = Inl (status, err) \<and> shouldRetry status \<and> b")
    case True
    then obtain status err where "a = Inl (status, err)" "shouldRetry status" b by blast
    with Suc.prems a b have "attempt_loop tr call backoff (Suc n) err w2 = (r, w')"
      by (simp del: attempt_loop.simps add: attempt_loop.simps(2) [of tr call backoff "Suc n"])
    from Suc.IH [OF this] counts show ?thesis by simp
  next
    case False
    with Suc.prems a b have "w' = w1 \<or> w' = w2"
      by (auto simp del: attempt_loop.simps simp: attempt_loop.simps(2) [of tr call backoff "Suc n"]
          split: sum.splits if_splits bool.splits)
    with counts show ?thesis by auto
  qed
qed

lemma loop_final:
  assumes "call w = (a, w1)" and "case a of Inr x \<Rightarrow> True | Inl (status, err) \<Rightarrow> \<not> shouldRetry status"
    and "attempt_loop tr call backoff (Suc n) e w = (r, w')"
  shows "requests w' = Suc (requests w) \<and> (case a of Inr x \<Rightarrow> r = Inr x | Inl (status, err) \<Rightarrow> r = Inl (False, err))"
  using assms call_counts [OF assms(1)] by (auto split: sum.splits prod.splits)

text \<open>A result is the answer of some call.\<close>

lemma loop_result:
  "attempt_loop tr call backoff n e w = (Inr x, w') \<Longrightarrow> \<exists>v. call v = (Inr x, w')"
proof (induction n arbitrary: e w)
  case (Suc n)
  then show ?case
    by (auto split: prod.splits sum.splits if_splits bool.splits)
qed simp

lemma retries_counts:
  assumes "with_retries tr call retry what w = (r, w')" and "0 < rt_MaxAttempts retry"
  shows "requests w < requests w' \<and> int (requests w') \<le> int (requests w) + rt_MaxAttempts retry"
proof -
  obtain n where n: "nat (rt_MaxAttempts retry) = Suc n"
    using assms(2) by (metis gr0_implies_Suc zero_less_nat_eq)
  from assms(1) obtain r' where "attempt_loop tr call (rt_Backoff retry) (Suc n) ''%!w(<nil>)'' w = (r', w')"
    by (auto simp: with_retries_def n split: prod.splits)
  from loop_counts [OF this] n assms(2) show ?thesis by linarith
qed

end

section \<open>Counting requests\<close>

definition counting :: "'w Transport \<Rightarrow> ('w \<times> nat) Transport" where
  "counting tr =
     \<lparr>tr_send = (\<lambda>url body (w, n). let (a, w') = tr_send tr url body w in (a, (w', Suc n))),
      tr_wait = (\<lambda>d (w, n). let (b, w') = tr_wait tr d w in (b, (w', n))),
      tr_ctxErr = (\<lambda>(w, n). tr_ctxErr tr w)\<rparr>"

interpretation client: attempts "counting tr" "request_once (counting tr) expected decode url body" snd
  for tr :: "'w Transport" and expected :: int and decode :: "string \<Rightarrow> (string, 'a) result"
    and url :: string and body :: "string option"
  by unfold_locales (auto simp: counting_def request_once_def Let_def split: prod.splits)

lemma counted_bound:
  fixes w :: 'w
  assumes "0 < rt_MaxAttempts retry"
  shows "0 < snd (snd (with_retries (counting tr) (request_once (counting tr) expected decode url body) retry what (w, 0)))"
      (is "0 < snd (snd ?run)")
    and "int (snd (snd (with_retries (counting tr) (request_once (counting tr) expected decode url body) retry what (w, 0))))
      \<le> rt_MaxAttempts retry"
proof -
  obtain r w' where run: "?run = (r, w')" by (meson surj_pair)
  from client.retries_counts [OF run assms] run
  show "0 < snd (snd ?run)" "int (snd (snd ?run)) \<le> rt_MaxAttempts retry" by simp_all
qed

text \<open>One request is final when it is answered with a status below 500, or decoded.\<close>

lemma with_retries_final:
  fixes w :: 'w
  assumes "0 < rt_MaxAttempts retry" and "tr_send tr url body w = (Answer status bytes readErr, w')"
    and "0 < status" and "status < 500"
  shows "with_retries (counting tr) (request_once (counting tr) expected decode url body) retry what (w, 0)
    = (case fst (request_once tr expected decode url body w) of
         Inr x \<Rightarrow> Inr x | Inl (s, err) \<Rightarrow> Inl (what @ '': '' @ err), (w', 1))"
proof -
  obtain n where n: "nat (rt_MaxAttempts retry) = Suc n"
    using assms(1) by (metis gr0_implies_Suc zero_less_nat_eq)
  show ?thesis
    using assms(2-4)
    by (auto simp: with_retries_def n request_once_def counting_def shouldRetry_def split: option.split sum.split)
qed

section \<open>Properties\<close>


definition refusing_transport :: "unit Transport" where
  "refusing_transport =
     \<lparr>tr_send = (\<lambda>url body w. (Execute_failed ''connection refused'', w)), tr_wait = (\<lambda>d w. (True, w)),
      tr_ctxErr = (\<lambda>w. ''context canceled'')\<rparr>"

definition two_attempts :: ClientConfig where
  "two_attempts = \<lparr>cl_BaseURL = ''http://localhost:8083'', cl_Path = ''/api/v1/reconcile'', cl_Timeout = 5000000000,
     cl_Retry = \<lparr>rt_MaxAttempts = 2, rt_Backoff = 0\<rparr>\<rparr>"


text \<open>
  C29: An answer with a status below 500 is final. A reconcile command that the reconciler
  answers so is sent exactly once, however many attempts are configured; and it counts as
  accepted only if the status is 202, the body was read, and the body decodes.
\<close>
theorem SendReconcile_final:
  fixes w :: 'w
  assumes "0 < rt_MaxAttempts (cl_Retry cfg)"
    and "marshal \<lparr>rq_HostID = rc_HostID command, rq_FQDN = rc_FQDN command, rq_Component = rc_Component command,
      rq_CorrelationID = rc_CorrelationID command, rq_Parameters = rc_Parameters command\<rparr> = Inr body"
    and "tr_send tr (cl_BaseURL cfg @ cl_Path cfg) (Some body) w = (Answer status bytes readErr, w')"
    and "0 < status" and "status < 500"
  shows "snd (SendReconcile (counting tr) marshal unmarshal cfg command (w, 0)) = (w', 1)
    \<and> (case fst (SendReconcile (counting tr) marshal unmarshal cfg command (w, 0)) of
         Inr accepted \<Rightarrow> status = 202 \<and> readErr = None
           \<and> (case unmarshal bytes of Inr p \<Rightarrow> accepted = toDomain_accepted p | Inl e \<Rightarrow> False)
       | Inl e \<Rightarrow> \<not> (status = 202 \<and> readErr = None \<and> (case unmarshal bytes of Inr p \<Rightarrow> True | Inl e \<Rightarrow> False)))"
  using assms(1,2,4,5)
  by (simp add: SendReconcile_def once_defs with_retries_final [OF assms(1,3-5)])
    (auto simp: request_once_def assms(3) bind_result_iffs split: option.split sum.split)

definition rejecting_transport :: "unit Transport" where
  "rejecting_transport =
     \<lparr>tr_send = (\<lambda>url body w. (Answer 409 ''busy'' None, w)), tr_wait = (\<lambda>d w. (True, w)),
      tr_ctxErr = (\<lambda>w. ''context canceled'')\<rparr>"

definition sample_command :: ReconcileCommand where
  "sample_command = \<lparr>rc_HostID = ''h1'', rc_FQDN = ''h1.example'', rc_Component = ComponentCadvisor,
     rc_CorrelationID = ''c1'', rc_Parameters = []\<rparr>"

theorem SendReconcile_final_witness:
  "SendReconcile (counting rejecting_transport) (\<lambda>p. Inr (rq_HostID p)) (\<lambda>b. Inl b) two_attempts sample_command ((), 0)
   = (Inl ''send reconcile command: unexpected status 409: busy'', ((), 1))"
proof -
  let ?run = "SendReconcile (counting rejecting_transport) (\<lambda>p. Inr (rq_HostID p)) (\<lambda>b. Inl b) two_attempts sample_command ((), 0)"
  have "snd ?run = ((), 1)"
    using SendReconcile_final [of two_attempts "\<lambda>p. Inr (rq_HostID p)" sample_command "''h1''" rejecting_transport
        "()" 409 "''busy''" None "()" "\<lambda>b. Inl b"]
    by (simp add: two_attempts_def sample_command_def rejecting_transport_def)
  moreover have "fst ?run = Inl ''send reconcile command: unexpected status 409: busy''"
    by code_simp
  ultimately show ?thesis by (simp add: prod_eq_iff)
qed

section \<open>How long a call can take\<close>

text \<open>
  What the client relies on: http.Client.Timeout bounds an exchange, with the reading of the
  body, and a timer bounds a wait; \<open>clock\<close> is the time in the world.
\<close>

definition punctual :: "('w \<Rightarrow> int) \<Rightarrow> int \<Rightarrow> 'w Transport \<Rightarrow> bool" where
  "punctual clock timeout tr \<longleftrightarrow>
     (\<forall>url body w. clock (snd (tr_send tr url body w)) \<le> clock w + timeout)
     \<and> (\<forall>d w. clock (snd (tr_wait tr d w)) \<le> clock w + d)"

lemma punctual_once:
  "punctual clock timeout tr \<Longrightarrow> clock (snd (request_once tr expected decode url body w)) \<le> clock w + timeout"
  by (auto simp: punctual_def request_once_def Let_def split: prod.split) (metis snd_conv)

lemma punctual_sleep:
  "punctual clock timeout tr \<Longrightarrow> clock (snd (sleepWithContext tr d w)) \<le> clock w + max 0 d"
  by (simp add: punctual_def sleepWithContext_def max_def)

lemma attempt_loop_time:
  assumes "punctual clock timeout tr" and "0 \<le> timeout"
    and call: "\<And>w. clock (snd (call w)) \<le> clock w + timeout"
  shows "clock (snd (attempt_loop tr call backoff (Suc n) e w))
    \<le> clock w + int (Suc n) * timeout + int n * max 0 backoff"
proof (induction n arbitrary: e w)
  case 0
  show ?case using call [of w] by (auto split: prod.split sum.split)
next
  case (Suc n)
  obtain a w1 where a: "call w = (a, w1)" by (meson surj_pair)
  obtain b w2 where b: "sleepWithContext tr backoff w1 = (b, w2)" by (meson surj_pair)
  have times: "clock w1 \<le> clock w + timeout" "clock w2 \<le> clock w1 + max 0 backoff"
    using call [of w] punctual_sleep [OF assms(1), of backoff w1] by (simp_all add: a b)
  let ?run = "attempt_loop tr call backoff (Suc (Suc n)) e w"
  have rest: "0 \<le> int (Suc n) * timeout + int n * max 0 backoff" using assms(2) by simp
  have total: "int (Suc (Suc n)) * timeout + int (Suc n) * max 0 backoff =
      timeout + max 0 backoff + (int (Suc n) * timeout + int n * max 0 backoff)"
    by (simp add: algebra_simps)
  have "snd ?run = w1 \<or> snd ?run = w2 \<or> (\<exists>err. ?run = attempt_loop tr call backoff (Suc n) err w2)"
    using a b
    by (auto simp del: attempt_loop.simps simp: attempt_loop.simps(2) [of tr call backoff "Suc n"]
        split: sum.splits bool.splits)
  then show ?case
  proof (elim disjE exE)
    fix err assume "?run = attempt_loop tr call backoff (Suc n) err w2"
    with Suc.IH [of err w2] times total show ?thesis by simp
  qed (use times total rest in simp_all)
qed

lemma with_retries_time:
  assumes "punctual clock timeout tr" and "0 < timeout" and "0 < rt_MaxAttempts retry" and "0 \<le> rt_Backoff retry"
  shows "clock (snd (with_retries tr (request_once tr expected decode url body) retry what w))
    \<le> clock w + (rt_MaxAttempts retry * timeout + (rt_MaxAttempts retry - 1) * rt_Backoff retry)"
proof -
  obtain n where n: "nat (rt_MaxAttempts retry) = Suc n"
    using assms(3) by (metis gr0_implies_Suc zero_less_nat_eq)
  then have m: "rt_MaxAttempts retry = int (Suc n)" by linarith
  have "clock (snd (attempt_loop tr (request_once tr expected decode url body) (rt_Backoff retry) (Suc n) ''%!w(<nil>)'' w))
      \<le> clock w + int (Suc n) * timeout + int n * max 0 (rt_Backoff retry)"
    using assms(2) by (intro attempt_loop_time [OF assms(1)]) (simp_all add: punctual_once [OF assms(1)])
  then show ?thesis
    using assms(4) by (simp only: with_retries_def n case_prod_beta Let_def snd_conv) (simp add: m)
qed


definition slow_transport :: "int Transport" where
  "slow_transport =
     \<lparr>tr_send = (\<lambda>url body w. (Answer 503 ''later'' None, w + 5000000000)), tr_wait = (\<lambda>d w. (True, w + d)),
      tr_ctxErr = (\<lambda>w. ''context canceled'')\<rparr>"


end
