(* ===== verification/Drift_Detectors.thy ===== *)
theory Drift_Detectors
  imports Drift_Domain
begin

text \<open>
  DriftDetectorSvc, package detectors (internal/detectors): the detector interface, the two
  detectors and their registry. An interface value is the record of its methods.
\<close>

section \<open>The interface and its helpers\<close>

record Detector =
  det_Component :: Component
  det_Detect :: "string \<Rightarrow> DesiredHost_d \<Rightarrow> ActualHost \<Rightarrow> DetectorResult"

definition workloadSourceCadvisor :: string where
  "workloadSourceCadvisor = ''cadvisor''"

definition buildCorrelationID :: "string \<Rightarrow> Component \<Rightarrow> string \<Rightarrow> string" where
  "buildCorrelationID cycleID cmp fqdn =
     cycleID @ '':'' @ cmp @ '':'' @ ToLower (TrimSpace fqdn)"

definition resolveTargetFQDN :: "DesiredHost_d \<Rightarrow> ActualHost \<Rightarrow> string" where
  "resolveTargetFQDN desired actual =
     (if TrimSpace (dh_FQDN desired) \<noteq> [] then TrimSpace (dh_FQDN desired)
      else TrimSpace (ah_FQDN actual))"

definition no_result :: "Component \<Rightarrow> DetectorResult" where
  "no_result cmp =
     \<lparr>dr_Component = cmp, dr_Applicable = False, dr_MissingActualData = False,
      dr_MissingActualHost = False, dr_Drift = False, dr_SkipReason = [], dr_Finding = None,
      dr_ReconcileCommand = None\<rparr>"

section \<open>The node_exporter detector\<close>

definition Detect_node_exporter :: "string \<Rightarrow> DesiredHost_d \<Rightarrow> ActualHost \<Rightarrow> DetectorResult" where
  "Detect_node_exporter cycleID desired actual =
     (let result = no_result ComponentNodeExporter
      in case DesiredWorkload_of desired ComponentNodeExporter of
           None \<Rightarrow> result
         | Some desiredWorkload \<Rightarrow>
             if \<not> dw_Enabled desiredWorkload then result
             else if \<not> EqualFold (TrimSpace (dw_DeploymentMode desiredWorkload)) ''container'' then result
             else
               (let result = result\<lparr>dr_Applicable := True\<rparr>
                in if \<not> IsSourceHealthy actual workloadSourceCadvisor
                   then result\<lparr>dr_MissingActualData := True,
                               dr_SkipReason := ''cadvisor source data is not healthy''\<rparr>
                   else if HasWorkload actual ComponentNodeExporter then result
                   else
                     (let targetFQDN = resolveTargetFQDN desired actual;
                          hostID = (if TrimSpace (dh_HostID desired) = [] then TrimSpace (ah_HostID actual)
                                    else TrimSpace (dh_HostID desired));
                          parameters0 = (if TrimSpace (dw_Image desiredWorkload) \<noteq> []
                            then map_set [] ''node_exporter_image'' (VString (TrimSpace (dw_Image desiredWorkload)))
                            else []);
                          parameters = (case dw_Port desiredWorkload of
                              None \<Rightarrow> parameters0
                            | Some port \<Rightarrow> map_set parameters0 ''node_exporter_port'' (VInt port))
                      in result\<lparr>dr_Drift := True,
                           dr_Finding := Some
                             \<lparr>df_Component = ComponentNodeExporter, df_HostID = hostID, df_FQDN = targetFQDN,
                              df_Reason = ''component is required in desired state but missing in actual state''\<rparr>,
                           dr_ReconcileCommand := Some
                             \<lparr>rc_HostID = hostID, rc_FQDN = targetFQDN, rc_Component = ComponentNodeExporter,
                              rc_CorrelationID = buildCorrelationID cycleID ComponentNodeExporter targetFQDN,
                              rc_Parameters = parameters\<rparr>,
                           dr_SkipReason := ''drift detected for '' @ ComponentNodeExporter\<rparr>)))"

definition NewNodeExporterDetector :: Detector where
  "NewNodeExporterDetector =
     \<lparr>det_Component = ComponentNodeExporter, det_Detect = Detect_node_exporter\<rparr>"

section \<open>The cadvisor detector\<close>

definition Detect_cadvisor :: "string \<Rightarrow> DesiredHost_d \<Rightarrow> ActualHost \<Rightarrow> DetectorResult" where
  "Detect_cadvisor cycleID desired actual =
     (let result = no_result ComponentCadvisor
      in case DesiredWorkload_of desired ComponentCadvisor of
           None \<Rightarrow> result
         | Some desiredWorkload \<Rightarrow>
             if \<not> dw_Enabled desiredWorkload then result
             else if \<not> EqualFold (TrimSpace (dw_DeploymentMode desiredWorkload)) ''container'' then result
             else
               (let result = result\<lparr>dr_Applicable := True\<rparr>;
                    targetFQDN = resolveTargetFQDN desired actual;
                    hostID = (if TrimSpace (dh_HostID desired) = [] then TrimSpace (ah_HostID actual)
                              else TrimSpace (dh_HostID desired));
                    parameters0 = (if TrimSpace (dw_Image desiredWorkload) \<noteq> []
                      then map_set [] ''cadvisor_image'' (VString (TrimSpace (dw_Image desiredWorkload)))
                      else []);
                    parameters = (case dw_Port desiredWorkload of
                        None \<Rightarrow> parameters0
                      | Some port \<Rightarrow> map_set parameters0 ''cadvisor_port'' (VInt port));
                    command = \<lparr>rc_HostID = hostID, rc_FQDN = targetFQDN, rc_Component = ComponentCadvisor,
                      rc_CorrelationID = buildCorrelationID cycleID ComponentCadvisor targetFQDN,
                      rc_Parameters = parameters\<rparr>
                in if \<not> IsSourceHealthy actual workloadSourceCadvisor
                   then result\<lparr>dr_Drift := True,
                          dr_Finding := Some
                            \<lparr>df_Component = ComponentCadvisor, df_HostID = hostID, df_FQDN = targetFQDN,
                             df_Reason = ''cadvisor source is not healthy, bootstrap reconcile is required''\<rparr>,
                          dr_ReconcileCommand := Some command,
                          dr_SkipReason := ''bootstrap reconcile requested for cadvisor''\<rparr>
                   else if HasWorkload actual ComponentCadvisor then result
                   else result\<lparr>dr_Drift := True,
                          dr_Finding := Some
                            \<lparr>df_Component = ComponentCadvisor, df_HostID = hostID, df_FQDN = targetFQDN,
                             df_Reason = ''component is required in desired state but missing in actual state''\<rparr>,
                          dr_ReconcileCommand := Some command,
                          dr_SkipReason := ''drift detected for cadvisor''\<rparr>))"

definition NewCadvisorDetector :: Detector where
  "NewCadvisorDetector = \<lparr>det_Component = ComponentCadvisor, det_Detect = Detect_cadvisor\<rparr>"

section \<open>The registry\<close>

record Registry =
  reg_detectors :: "(Component, Detector) gomap"

definition NewRegistry :: "Detector list \<Rightarrow> Registry" where
  "NewRegistry items = \<lparr>reg_detectors = index_into det_Component (\<lambda>d. d) items []\<rparr>"

definition Get_detector :: "Registry \<Rightarrow> Component \<Rightarrow> Detector option" where
  "Get_detector r cmp = map_get (reg_detectors r) cmp"

definition Components_of :: "Registry \<Rightarrow> Component list" where
  "Components_of r = sort (map fst (reg_detectors r))"

text \<open>The registry that app.Run builds.\<close>

definition app_registry :: Registry where
  "app_registry = NewRegistry [NewNodeExporterDetector, NewCadvisorDetector]"

section \<open>What the detectors compute\<close>

text \<open>The desired state wants the component on the host, in a container.\<close>

definition wanted_workload :: "DesiredHost_d \<Rightarrow> Component \<Rightarrow> DesiredWorkload_d option" where
  "wanted_workload d cmp =
     (case DesiredWorkload_of d cmp of
        None \<Rightarrow> None
      | Some w \<Rightarrow>
          if dw_Enabled w \<and> EqualFold (TrimSpace (dw_DeploymentMode w)) ''container''
          then Some w else None)"

text \<open>The command for a wanted workload: parameters for the image and the port, if given.\<close>

definition expected_command ::
  "string \<Rightarrow> Component \<Rightarrow> DesiredHost_d \<Rightarrow> ActualHost \<Rightarrow> DesiredWorkload_d \<Rightarrow> ReconcileCommand" where
  "expected_command cycleID cmp d a w =
     (let fqdn = resolveTargetFQDN d a
      in \<lparr>rc_HostID = (if TrimSpace (dh_HostID d) = [] then TrimSpace (ah_HostID a) else TrimSpace (dh_HostID d)),
          rc_FQDN = fqdn, rc_Component = cmp,
          rc_CorrelationID = cycleID @ '':'' @ cmp @ '':'' @ ToLower fqdn,
          rc_Parameters =
            (if TrimSpace (dw_Image w) = [] then [] else [(cmp @ ''_image'', VString (TrimSpace (dw_Image w)))])
            @ (case dw_Port w of None \<Rightarrow> [] | Some port \<Rightarrow> [(cmp @ ''_port'', VInt port)])\<rparr>)"

lemma resolveTargetFQDN_trimmed [simp]: "TrimSpace (resolveTargetFQDN d a) = resolveTargetFQDN d a"
  by (simp add: resolveTargetFQDN_def)

lemma expected_command_eq:
  "expected_command cycleID cmp d a w =
     \<lparr>rc_HostID = (if TrimSpace (dh_HostID d) = [] then TrimSpace (ah_HostID a) else TrimSpace (dh_HostID d)),
      rc_FQDN = resolveTargetFQDN d a, rc_Component = cmp,
      rc_CorrelationID = buildCorrelationID cycleID cmp (resolveTargetFQDN d a),
      rc_Parameters =
        (let parameters = (if TrimSpace (dw_Image w) \<noteq> []
             then map_set [] (cmp @ ''_image'') (VString (TrimSpace (dw_Image w))) else [])
         in case dw_Port w of None \<Rightarrow> parameters | Some port \<Rightarrow> map_set parameters (cmp @ ''_port'') (VInt port))\<rparr>"
  by (simp add: expected_command_def buildCorrelationID_def Let_def split: option.split)

text \<open>A verdict of drift with its finding and command.\<close>

definition drift_result ::
  "DetectorResult \<Rightarrow> string \<Rightarrow> string \<Rightarrow> ReconcileCommand \<Rightarrow> DetectorResult" where
  "drift_result r reason skip c =
     r\<lparr>dr_Drift := True,
       dr_Finding := Some \<lparr>df_Component = rc_Component c, df_HostID = rc_HostID c, df_FQDN = rc_FQDN c,
                           df_Reason = reason\<rparr>,
       dr_ReconcileCommand := Some c, dr_SkipReason := skip\<rparr>"

lemma Detect_node_exporter_eq:
  "Detect_node_exporter cycleID d a =
     (case wanted_workload d ComponentNodeExporter of
        None \<Rightarrow> no_result ComponentNodeExporter
      | Some w \<Rightarrow>
          (let r = (no_result ComponentNodeExporter)\<lparr>dr_Applicable := True\<rparr>
           in if \<not> IsSourceHealthy a workloadSourceCadvisor
              then r\<lparr>dr_MissingActualData := True, dr_SkipReason := ''cadvisor source data is not healthy''\<rparr>
              else if HasWorkload a ComponentNodeExporter then r
              else drift_result r ''component is required in desired state but missing in actual state''
                     (''drift detected for '' @ ComponentNodeExporter)
                     (expected_command cycleID ComponentNodeExporter d a w)))"
proof (cases "wanted_workload d ComponentNodeExporter")
  case None
  then show ?thesis
    by (auto simp: Detect_node_exporter_def wanted_workload_def Let_def split: option.splits if_splits)
next
  case (Some w)
  then have "DesiredWorkload_of d ComponentNodeExporter = Some w" "dw_Enabled w"
    "EqualFold (TrimSpace (dw_DeploymentMode w)) ''container''"
    by (auto simp: wanted_workload_def split: option.splits if_splits)
  with Some show ?thesis
    by (cases "dw_Port w") (simp_all add: Detect_node_exporter_def drift_result_def expected_command_eq Let_def ComponentNodeExporter_def
        cong: if_cong split del: if_split)
qed

lemma Detect_cadvisor_eq:
  "Detect_cadvisor cycleID d a =
     (case wanted_workload d ComponentCadvisor of
        None \<Rightarrow> no_result ComponentCadvisor
      | Some w \<Rightarrow>
          (let r = (no_result ComponentCadvisor)\<lparr>dr_Applicable := True\<rparr>;
               c = expected_command cycleID ComponentCadvisor d a w
           in if \<not> IsSourceHealthy a workloadSourceCadvisor
              then drift_result r ''cadvisor source is not healthy, bootstrap reconcile is required''
                     ''bootstrap reconcile requested for cadvisor'' c
              else if HasWorkload a ComponentCadvisor then r
              else drift_result r ''component is required in desired state but missing in actual state''
                     ''drift detected for cadvisor'' c))"
proof (cases "wanted_workload d ComponentCadvisor")
  case None
  then show ?thesis
    by (auto simp: Detect_cadvisor_def wanted_workload_def Let_def split: option.splits if_splits)
next
  case (Some w)
  then have "DesiredWorkload_of d ComponentCadvisor = Some w" "dw_Enabled w"
    "EqualFold (TrimSpace (dw_DeploymentMode w)) ''container''"
    by (auto simp: wanted_workload_def split: option.splits if_splits)
  with Some show ?thesis
    by (cases "dw_Port w") (simp_all add: Detect_cadvisor_def drift_result_def expected_command_eq Let_def ComponentCadvisor_def
        cong: if_cong split del: if_split)
qed

lemma expected_command_fields:
  "rc_Component (expected_command cycleID cmp d a w) = cmp"
  "rc_FQDN (expected_command cycleID cmp d a w) = resolveTargetFQDN d a"
  "rc_CorrelationID (expected_command cycleID cmp d a w) = buildCorrelationID cycleID cmp (resolveTargetFQDN d a)"
  by (simp_all add: expected_command_eq)

lemma wanted_workload_iff:
  "wanted_workload d cmp \<noteq> None \<longleftrightarrow>
     (\<exists>w. DesiredWorkload_of d cmp = Some w \<and> dw_Enabled w
        \<and> EqualFold (TrimSpace (dw_DeploymentMode w)) ''container'')"
  by (simp add: wanted_workload_def split: option.split)

section \<open>The contract of a detector\<close>

text \<open>What the detection service relies on.\<close>

locale detector =
  fixes cmp :: Component
    and detect :: "string \<Rightarrow> DesiredHost_d \<Rightarrow> ActualHost \<Rightarrow> DetectorResult"
  assumes component: "dr_Component (detect cid d a) = cmp"
    and applicable: "dr_Applicable (detect cid d a) \<longleftrightarrow>
      (\<exists>w. DesiredWorkload_of d cmp = Some w \<and> dw_Enabled w
         \<and> EqualFold (TrimSpace (dw_DeploymentMode w)) ''container'')"
    and missing_applicable: "dr_MissingActualData (detect cid d a) \<Longrightarrow> dr_Applicable (detect cid d a)"
    and drift_applicable: "dr_Drift (detect cid d a) \<Longrightarrow> dr_Applicable (detect cid d a)"
    and drift_not_missing: "dr_Drift (detect cid d a) \<Longrightarrow> \<not> dr_MissingActualData (detect cid d a)"
    and command_iff: "dr_Drift (detect cid d a) \<longleftrightarrow> dr_ReconcileCommand (detect cid d a) \<noteq> None"
    and command: "dr_ReconcileCommand (detect cid d a) = Some c \<Longrightarrow>
      rc_Component c = cmp \<and> rc_FQDN c = resolveTargetFQDN d a
      \<and> rc_CorrelationID c = buildCorrelationID cid cmp (rc_FQDN c)"
    and in_sync: "IsSourceHealthy a workloadSourceCadvisor \<Longrightarrow> HasWorkload a cmp \<Longrightarrow>
      \<not> dr_Drift (detect cid d a) \<and> \<not> dr_MissingActualData (detect cid d a)"
    and missing_workload: "IsSourceHealthy a workloadSourceCadvisor \<Longrightarrow> \<not> HasWorkload a cmp \<Longrightarrow>
      dr_Drift (detect cid d a) = dr_Applicable (detect cid d a)"
begin

text \<open>A detector says one of four things: nothing, no data, in sync, drift with a command.\<close>

lemma verdict:
  obtains "\<not> dr_Applicable (detect cid d a)" "\<not> dr_MissingActualData (detect cid d a)"
      "\<not> dr_Drift (detect cid d a)"
  | "dr_Applicable (detect cid d a)" "dr_MissingActualData (detect cid d a)" "\<not> dr_Drift (detect cid d a)"
  | "dr_Applicable (detect cid d a)" "\<not> dr_MissingActualData (detect cid d a)" "\<not> dr_Drift (detect cid d a)"
  | c where "dr_Applicable (detect cid d a)" "\<not> dr_MissingActualData (detect cid d a)"
      "dr_Drift (detect cid d a)" "dr_ReconcileCommand (detect cid d a) = Some c" "rc_Component c = cmp"
  using missing_applicable drift_applicable drift_not_missing command_iff command by blast

text \<open>With healthy data, drift means: wanted in a container and not there.\<close>

lemma drift_iff:
  assumes "IsSourceHealthy a workloadSourceCadvisor"
  shows "dr_Drift (detect cid d a) \<longleftrightarrow> dr_Applicable (detect cid d a) \<and> \<not> HasWorkload a cmp"
  using assms in_sync missing_workload drift_applicable by blast

end

lemmas detect_eqs = Detect_node_exporter_eq Detect_cadvisor_eq drift_result_def no_result_def
  expected_command_fields Let_def

interpretation node_exporter: detector ComponentNodeExporter Detect_node_exporter
  by unfold_locales (auto simp: detect_eqs wanted_workload_iff [symmetric] split: option.splits if_splits)

interpretation cadvisor: detector ComponentCadvisor Detect_cadvisor
  by unfold_locales (auto simp: detect_eqs wanted_workload_iff [symmetric] split: option.splits if_splits)

section \<open>Properties\<close>

text \<open>
  The node_exporter detector on every branch. It has no opinion unless an enabled
  workload of that name is wanted in a container; without healthy cAdvisor data it reports
  missing data and no drift; with such data it reports drift exactly when the component
  does not run there, and the command then names the host, a correlation id and the image
  and port of the desired workload.
\<close>
theorem Detect_node_exporter_spec:
  "let r = Detect_node_exporter cycleID d a
   in dr_Component r = ComponentNodeExporter \<and>
      (case wanted_workload d ComponentNodeExporter of
         None \<Rightarrow> r = no_result ComponentNodeExporter
       | Some w \<Rightarrow>
           dr_Applicable r
           \<and> dr_MissingActualData r = (\<not> IsSourceHealthy a ''cadvisor'')
           \<and> dr_Drift r = (IsSourceHealthy a ''cadvisor'' \<and> \<not> HasWorkload a ComponentNodeExporter)
           \<and> dr_ReconcileCommand r =
               (if dr_Drift r then Some (expected_command cycleID ComponentNodeExporter d a w) else None))"
  by (simp add: detect_eqs workloadSourceCadvisor_def split: option.split)

text \<open>
  C39: the cadvisor detector on every branch. When cadvisor is wanted in a container it
  reports drift with a command exactly when the cAdvisor source of the host is not healthy
  (the bootstrap case, which includes a host without any data) or the component does not
  run there; it never reports missing data.
\<close>
theorem Detect_cadvisor_spec:
  "let r = Detect_cadvisor cycleID d a
   in dr_Component r = ComponentCadvisor \<and> \<not> dr_MissingActualData r \<and>
      (case wanted_workload d ComponentCadvisor of
         None \<Rightarrow> r = no_result ComponentCadvisor
       | Some w \<Rightarrow>
           dr_Applicable r
           \<and> dr_Drift r = (\<not> (IsSourceHealthy a ''cadvisor'' \<and> HasWorkload a ComponentCadvisor))
           \<and> dr_ReconcileCommand r =
               (if dr_Drift r then Some (expected_command cycleID ComponentCadvisor d a w) else None))"
  by (simp add: detect_eqs workloadSourceCadvisor_def split: option.split)

lemma Get_NewRegistry: "Get_detector (NewRegistry items) cmp = last_with det_Component cmp items"
  by (simp add: Get_detector_def NewRegistry_def map_get_index_into split: option.split)

text \<open>
  A registry finds for a component the last detector given for it and nothing for a
  component without one, and lists every component it knows once, in increasing order.
\<close>
theorem NewRegistry_spec:
  "Get_detector (NewRegistry items) cmp = last_with det_Component cmp items
   \<and> sorted (Components_of (NewRegistry items)) \<and> distinct (Components_of (NewRegistry items))
   \<and> set (Components_of (NewRegistry items)) = det_Component ` set items"
  using wf_index_into [of "[]" det_Component "\<lambda>d. d" items]
  by (simp add: Get_NewRegistry)
    (simp add: Components_of_def NewRegistry_def wf_map_def index_into_keys [of _ _ _ "[]", simplified])

lemma Get_app_registry:
  "Get_detector app_registry cmp =
     (if cmp = ComponentCadvisor then Some NewCadvisorDetector
      else if cmp = ComponentNodeExporter then Some NewNodeExporterDetector else None)"
  by (auto simp: app_registry_def Get_NewRegistry last_with_def NewNodeExporterDetector_def
      NewCadvisorDetector_def ComponentNodeExporter_def ComponentCadvisor_def)

end
