(* ===== verification/Drift_Cooldown.thy ===== *)
theory Drift_Cooldown
  imports Drift_Domain
begin

text \<open>
  DriftDetectorSvc, package cooldown (internal/cooldown/store.go): when a reconcile
  request for a key was last sent, and whether the next one may go. Its interface as the
  detection service uses it is the locale \<open>cooldown_store\<close>, with the theorem that sends
  guarded by it are a cooldown apart.
\<close>

record CooldownStore =
  cst_lastSent :: "(string, gotime) gomap"

definition NewStore_cd :: CooldownStore where
  "NewStore_cd = \<lparr>cst_lastSent = []\<rparr>"

definition BuildKey :: "Component \<Rightarrow> string \<Rightarrow> string" where
  "BuildKey cmp fqdn = ToLower cmp @ ''|'' @ ToLower (TrimSpace fqdn)"

definition CanSend :: "string \<Rightarrow> gotime \<Rightarrow> int \<Rightarrow> CooldownStore \<Rightarrow> bool \<times> int" where
  "CanSend key now cooldown s =
     (if cooldown \<le> 0 then (True, 0)
      else case map_get (cst_lastSent s) key of
        None \<Rightarrow> (True, 0)
      | Some last_time \<Rightarrow>
          (let elapsed = Sub now last_time
           in if cooldown \<le> elapsed then (True, 0) else (False, wrap64 (cooldown - elapsed))))"

definition MarkSent :: "string \<Rightarrow> gotime \<Rightarrow> CooldownStore \<Rightarrow> CooldownStore" where
  "MarkSent key at s = s\<lparr>cst_lastSent := map_set (cst_lastSent s) key (UTC at)\<rparr>"

section \<open>The interface\<close>

text \<open>
  A request: its key, the clock reading taken for it and whether the receiver accepted it.
  \<open>guarded_send\<close> is what the service does with one; it reports the accepted ones.
\<close>

definition guarded_send ::
  "(string \<Rightarrow> gotime \<Rightarrow> int \<Rightarrow> 's \<Rightarrow> bool \<times> int) \<Rightarrow> (string \<Rightarrow> gotime \<Rightarrow> 's \<Rightarrow> 's) \<Rightarrow> int
     \<Rightarrow> string \<times> gotime \<times> bool \<Rightarrow> 's \<times> (string \<times> gotime) list \<Rightarrow> 's \<times> (string \<times> gotime) list" where
  "guarded_send can_send mark_sent cooldown request acc =
     (let (key, now, accepted) = request; (s, sent) = acc
      in if fst (can_send key now cooldown s) \<and> accepted
         then (mark_sent key now s, sent @ [(key, now)]) else acc)"

text \<open>Two sends in this order: for the same key the later one is at least c later.\<close>

definition apart :: "int \<Rightarrow> string \<times> gotime \<Rightarrow> string \<times> gotime \<Rightarrow> bool" where
  "apart c p q \<longleftrightarrow> fst p = fst q \<longrightarrow> c \<le> wall (snd q) - wall (snd p)"

definition spaced :: "int \<Rightarrow> (string \<times> gotime) list \<Rightarrow> bool" where
  "spaced c sent \<longleftrightarrow> sorted_wrt (apart c) sent"

lemma spaced_snoc: "spaced c (sent @ [q]) \<longleftrightarrow> spaced c sent \<and> (\<forall>p \<in> set sent. apart c p q)"
  by (simp add: spaced_def sorted_wrt_append)

locale cooldown_store =
  fixes can_send :: "string \<Rightarrow> gotime \<Rightarrow> int \<Rightarrow> 's \<Rightarrow> bool \<times> int"
    and mark_sent :: "string \<Rightarrow> gotime \<Rightarrow> 's \<Rightarrow> 's"
    and last_sent :: "'s \<Rightarrow> string \<Rightarrow> gotime option"
  assumes can_send_iff: "fst (can_send key now c s) \<longleftrightarrow>
      c \<le> 0 \<or> (case last_sent s key of None \<Rightarrow> True | Some l \<Rightarrow> c \<le> Sub now l)"
    and last_sent_mark: "last_sent (mark_sent key t s) = (last_sent s)(key \<mapsto> UTC t)"
begin

text \<open>The sends so far are apart, and the store knows the latest send of each key.\<close>

definition tracks :: "int \<Rightarrow> 's \<times> (string \<times> gotime) list \<Rightarrow> bool" where
  "tracks c = (\<lambda>(s, sent). spaced c sent \<and>
     (\<forall>(k, t) \<in> set sent. \<exists>l. last_sent s k = Some l \<and> mono l = None \<and> wall t \<le> wall l))"

lemma tracks_guarded_send:
  assumes c: "0 < c" "in_int64 c" and tracks: "tracks c (s, sent)" and now: "mono now = None"
  shows "tracks c (guarded_send can_send mark_sent c (key, now, ok) (s, sent))"
proof (cases "fst (can_send key now c s) \<and> ok")
  case True
  have later: "c \<le> wall now - wall t" if "(key, t) \<in> set sent" for t
  proof -
    from tracks that obtain l where l: "last_sent s key = Some l" "wall t \<le> wall l"
      by (auto simp: tracks_def)
    then have "c \<le> wall now - wall l"
      using True c by (simp add: can_send_iff Sub_wall_ge [OF now c])
    with l show ?thesis by simp
  qed
  then have "\<forall>p \<in> set sent. apart c p (key, now)" by (auto simp: apart_def)
  moreover have "\<exists>l. last_sent (mark_sent key now s) k = Some l \<and> mono l = None \<and> wall t \<le> wall l"
    if "(k, t) \<in> set (sent @ [(key, now)])" for k t
    using that tracks later c(1) by (fastforce simp: tracks_def last_sent_mark)
  ultimately show ?thesis
    using True tracks by (auto simp: guarded_send_def tracks_def spaced_snoc)
qed (use tracks in \<open>auto simp: guarded_send_def\<close>)

text \<open>Whatever is asked and whatever the receiver answers, accepted sends are apart.\<close>

lemma sends_spaced:
  assumes "0 < c" "in_int64 c" and "list_all (\<lambda>(_, now, _). mono now = None) requests"
    and "tracks c (s, sent)"
  shows "tracks c (fold (guarded_send can_send mark_sent c) requests (s, sent))"
  using assms(3,4)
proof (induction requests arbitrary: s sent)
  case (Cons r requests)
  obtain key now ok where r: "r = (key, now, ok)" by (cases r)
  obtain s' sent' where step: "guarded_send can_send mark_sent c r (s, sent) = (s', sent')" by fastforce
  with Cons.prems r tracks_guarded_send [OF assms(1,2), of s sent now key ok]
  show ?case by (simp add: Cons.IH)
qed simp

lemma tracks_Nil: "tracks c (s, [])"
  by (simp add: tracks_def spaced_def)

text \<open>A key that was never sent may go, and so may one whose cooldown is over.\<close>

lemma can_send_after:
  assumes "0 < c" "in_int64 c" "mono now = None"
  shows "fst (can_send key now c (mark_sent key t s)) \<longleftrightarrow> c \<le> wall now - wall t"
  using assms by (simp add: can_send_iff last_sent_mark Sub_wall_ge)

end

interpretation cooldown: cooldown_store CanSend MarkSent "\<lambda>s. map_get (cst_lastSent s)"
  by unfold_locales (simp_all add: CanSend_def MarkSent_def Let_def fun_eq_iff split: option.split)

section \<open>Properties\<close>

lemma ToLower_append: "ToLower (s @ t) = ToLower s @ ToLower t"
  by (simp add: ToLower_def)

text \<open>
  A key stands for a component and a host name up to case and surrounding space, as
  long as the component name has no bar in it: two such keys are equal exactly when both
  agree. So one component never suppresses the other, nor one host another.
\<close>
theorem BuildKey_eq_iff:
  assumes "CHR ''|'' \<notin> set (ToLower c)" and "CHR ''|'' \<notin> set (ToLower c')"
  shows "BuildKey c f = BuildKey c' f' \<longleftrightarrow> EqualFold c c' \<and> EqualFold (TrimSpace f) (TrimSpace f')"
proof -
  have "xs @ CHR ''|'' # ys = xs' @ CHR ''|'' # ys' \<longleftrightarrow> xs = xs' \<and> ys = ys'"
    if "CHR ''|'' \<notin> set xs" "CHR ''|'' \<notin> set xs'" for xs xs' ys ys' :: string
    using that by (auto simp: append_eq_append_conv2 Cons_eq_append_conv append_eq_Cons_conv)
  with assms show ?thesis by (simp add: BuildKey_def EqualFold_def)
qed

theorem BuildKey_eq_iff_witness:
  "BuildKey ComponentCadvisor '' Host-1'' = BuildKey ''CADVISOR'' ''host-1''
   \<and> BuildKey ComponentCadvisor ''host-1'' \<noteq> BuildKey ComponentNodeExporter ''host-1''"
proof -
  have no_bar: "CHR ''|'' \<notin> set (ToLower ComponentCadvisor)"
    "CHR ''|'' \<notin> set (ToLower ''CADVISOR'')" "CHR ''|'' \<notin> set (ToLower ComponentNodeExporter)"
    by code_simp+
  moreover have "EqualFold ComponentCadvisor ''CADVISOR''"
    "EqualFold (TrimSpace '' Host-1'') (TrimSpace ''host-1'')"
    "\<not> EqualFold ComponentCadvisor ComponentNodeExporter"
    by code_simp+
  ultimately show ?thesis by (simp add: BuildKey_eq_iff)
qed

text \<open>
  Right after a send at time t the store answers as the cooldown says: with a positive
  cooldown a request at a wall-clock time \<open>now\<close> may go exactly when at least the cooldown
  has passed since t, other keys are not affected, and the remaining time reported for a
  refused request is what is missing, as long as that fits in a Duration.
\<close>
theorem CanSend_after_MarkSent:
  assumes "0 < c" and "in_int64 c" and "mono now = None"
  shows "(fst (CanSend key now c (MarkSent key t s)) \<longleftrightarrow> c \<le> wall now - wall t)
    \<and> (key' \<noteq> key \<longrightarrow> CanSend key' now c (MarkSent key t s) = CanSend key' now c s)
    \<and> (wall now - wall t < c \<longrightarrow> in_int64 (wall now - wall t) \<longrightarrow> in_int64 (c - (wall now - wall t)) \<longrightarrow>
         snd (CanSend key now c (MarkSent key t s)) = c - (wall now - wall t))"
proof (intro conjI impI)
  show "fst (CanSend key now c (MarkSent key t s)) \<longleftrightarrow> c \<le> wall now - wall t"
    by (rule cooldown.can_send_after [OF assms])
  show "key' \<noteq> key \<Longrightarrow> CanSend key' now c (MarkSent key t s) = CanSend key' now c s"
    by (simp add: CanSend_def MarkSent_def)
  assume "wall now - wall t < c" "in_int64 (wall now - wall t)" "in_int64 (c - (wall now - wall t))"
  moreover from this(2) have "Sub now (UTC t) = wall now - wall t"
    using assms(3) by (simp add: Sub_def saturate64_def in_int64_def)
  ultimately show "snd (CanSend key now c (MarkSent key t s)) = c - (wall now - wall t)"
    using assms(1) by (simp add: CanSend_def MarkSent_def wrap64_id)
qed

theorem CanSend_after_MarkSent_witness:
  "fst (CanSend ''cadvisor|h'' \<lparr>wall = 5000, mono = None\<rparr> 3000
     (MarkSent ''cadvisor|h'' \<lparr>wall = 1000, mono = Some 7\<rparr> NewStore_cd))"
  using CanSend_after_MarkSent [of 3000 "\<lparr>wall = 5000, mono = None\<rparr>" "''cadvisor|h''"
      "\<lparr>wall = 1000, mono = Some 7\<rparr>" NewStore_cd "''x''"]
  by (simp add: in_int64_def min_int64_def max_int64_def)

end
