(* ===== verification/Drift_Detection.thy ===== *)
theory Drift_Detection
  imports Drift_Detectors Drift_Cooldown
begin

text \<open>
  DriftDetectorSvc, package detection (internal/service/detection/service.go). What the
  service calls through interfaces is the record \<open>Deps\<close>: the clock and the clients work
  on a world 'w, the cooldown store is a value of type 'c. Each call returns the changed
  world, so the order of clock readings and requests is the one of the code. Log output
  is left out.
\<close>

section \<open>The service and what it calls\<close>

record ('w, 'c) Deps =
  dep_now :: "'w \<Rightarrow> gotime \<times> 'w"
  dep_FetchActualState :: "'w \<Rightarrow> (string, ActualState) result \<times> 'w"
  dep_FetchDesiredState :: "'w \<Rightarrow> (string, DesiredState_d) result \<times> 'w"
  dep_SendReconcile :: "ReconcileCommand \<Rightarrow> 'w \<Rightarrow> (string, ReconcileAccepted) result \<times> 'w"
  dep_CanSend :: "string \<Rightarrow> gotime \<Rightarrow> int \<Rightarrow> 'c \<Rightarrow> bool \<times> int"
  dep_MarkSent :: "string \<Rightarrow> gotime \<Rightarrow> 'c \<Rightarrow> 'c"

record 'c Service_d =
  sv_registry :: Registry
  sv_cooldownStore :: 'c
  sv_reconcileCooldown :: int
  sv_enabledComponents :: "Component list"
  sv_running :: bool
  sv_ready :: bool
  sv_lastResult :: DetectionCycleResult
  sv_hasResult :: bool

definition NewService_d :: "Registry \<Rightarrow> 'c \<Rightarrow> int \<Rightarrow> Component list \<Rightarrow> 'c Service_d" where
  "NewService_d registry cooldownStore reconcileCooldown enabledComponents =
     \<lparr>sv_registry = registry, sv_cooldownStore = cooldownStore,
      sv_reconcileCooldown = reconcileCooldown, sv_enabledComponents = [] @ enabledComponents,
      sv_running = False, sv_ready = False, sv_lastResult = zero_result, sv_hasResult = False\<rparr>"

datatype cycle_error =
    ErrCycleAlreadyRunning
  | Fetch_actual_state string
  | Fetch_desired_state string

definition since :: "('w, 'c) Deps \<Rightarrow> gotime \<Rightarrow> 'w \<Rightarrow> int \<times> 'w" where
  "since deps t w = (let (now, w') = dep_now deps w in (Sub now t, w'))"

section \<open>Matching hosts\<close>

definition index_actual_host ::
  "ActualHost \<Rightarrow> (string, ActualHost) gomap \<times> (string, ActualHost) gomap
     \<Rightarrow> (string, ActualHost) gomap \<times> (string, ActualHost) gomap" where
  "index_actual_host host acc =
     (let (hostsByID, hostsByFQDN) = acc;
          hostID = ToLower (TrimSpace (ah_HostID host));
          hostsByID = (if hostID \<noteq> [] then map_set hostsByID hostID host else hostsByID);
          fqdn = ToLower (TrimSpace (ah_FQDN host));
          hostsByFQDN = (if fqdn \<noteq> [] then map_set hostsByFQDN fqdn host else hostsByFQDN)
      in (hostsByID, hostsByFQDN))"

definition indexActualHosts ::
  "ActualHost list \<Rightarrow> (string, ActualHost) gomap \<times> (string, ActualHost) gomap" where
  "indexActualHosts hosts = fold index_actual_host hosts ([], [])"

definition lookupActualHost ::
  "DesiredHost_d \<Rightarrow> (string, ActualHost) gomap \<Rightarrow> (string, ActualHost) gomap \<Rightarrow> ActualHost option" where
  "lookupActualHost desiredHost hostsByID hostsByFQDN =
     (let hostID = ToLower (TrimSpace (dh_HostID desiredHost));
          fqdn = ToLower (TrimSpace (dh_FQDN desiredHost));
          by_fqdn = (if fqdn \<noteq> [] then map_get hostsByFQDN fqdn else None)
      in if hostID \<noteq> [] then
           (case map_get hostsByID hostID of
              Some host \<Rightarrow> Some host
            | None \<Rightarrow> by_fqdn)
         else by_fqdn)"

section \<open>The loops of a cycle\<close>

record ('w, 'c) Loop =
  lp_world :: 'w
  lp_store :: 'c
  lp_result :: DetectionCycleResult
  lp_compareTimer :: gotime
  lp_compareDuration :: int
  lp_dispatchDuration :: int

definition upd_stats ::
  "(DetectionStats \<Rightarrow> DetectionStats) \<Rightarrow> DetectionCycleResult \<Rightarrow> DetectionCycleResult" where
  "upd_stats f r = r\<lparr>cr_Stats := f (cr_Stats r)\<rparr>"

definition add_error :: "string \<Rightarrow> DetectionCycleResult \<Rightarrow> DetectionCycleResult" where
  "add_error message r =
     upd_stats (\<lambda>s. s\<lparr>ds_Errors := ds_Errors s + 1\<rparr>) r\<lparr>cr_ErrorMessages := cr_ErrorMessages r @ [message]\<rparr>"

definition add_warning :: "string \<Rightarrow> DetectionCycleResult \<Rightarrow> DetectionCycleResult" where
  "add_warning message r = r\<lparr>cr_Warnings := cr_Warnings r @ [message]\<rparr>"

text \<open>The last part of the inner loop: from the command of a drift to its bookkeeping.\<close>

definition dispatch ::
  "('w, 'c) Deps \<Rightarrow> int \<Rightarrow> ReconcileCommand \<Rightarrow> ('w, 'c) Loop \<Rightarrow> ('w, 'c) Loop" where
  "dispatch deps cooldown command st =
     (let key = BuildKey (rc_Component command) (rc_FQDN command);
          (t, w1) = dep_now deps (lp_world st);
          now = UTC t;
          (canSend, remaining) = dep_CanSend deps key now cooldown (lp_store st)
      in if \<not> canSend then
           st\<lparr>lp_world := w1,
              lp_result := upd_stats (\<lambda>s. s\<lparr>ds_ReconcileSuppressed := ds_ReconcileSuppressed s + 1\<rparr>) (lp_result st)\<rparr>
         else
           (let (compared, w2) = since deps (lp_compareTimer st) w1;
                (sendStarted, w3) = dep_now deps w2;
                (answer, w4) = dep_SendReconcile deps command w3;
                (sendDuration, w5) = since deps sendStarted w4;
                (compareTimer, w6) = dep_now deps w5;
                st = st\<lparr>lp_world := w6, lp_compareTimer := compareTimer,
                       lp_compareDuration := wrap64 (lp_compareDuration st + compared),
                       lp_dispatchDuration := wrap64 (lp_dispatchDuration st + sendDuration)\<rparr>
            in case answer of
                 Inl sendErr \<Rightarrow>
                   st\<lparr>lp_result := add_error (''reconcile send failed for '' @ rc_Component command @ '' on ''
                        @ rc_FQDN command @ '': '' @ sendErr) (lp_result st)\<rparr>
               | Inr accepted \<Rightarrow>
                   st\<lparr>lp_store := dep_MarkSent deps key now (lp_store st),
                      lp_result := upd_stats (\<lambda>s. s\<lparr>ds_ReconcileSent := ds_ReconcileSent s + 1\<rparr>) (lp_result st)\<rparr>))"

text \<open>One turn of the loop over the enabled components; the flag is hostSkippedNoData.\<close>

definition detect_component ::
  "('w, 'c) Deps \<Rightarrow> Registry \<Rightarrow> int \<Rightarrow> string \<Rightarrow> DesiredHost_d \<Rightarrow> ActualHost \<Rightarrow> Component
     \<Rightarrow> ('w, 'c) Loop \<times> bool \<Rightarrow> ('w, 'c) Loop \<times> bool" where
  "detect_component deps registry cooldown cycleID desiredHost actualHost cmp acc =
     (let (st, hostSkippedNoData) = acc
      in case Get_detector registry cmp of
           None \<Rightarrow>
             (st\<lparr>lp_result := add_error (''detector not found for component: '' @ cmp) (lp_result st)\<rparr>,
              hostSkippedNoData)
         | Some d \<Rightarrow>
             (let detectionResult = det_Detect d cycleID desiredHost actualHost
              in if \<not> dr_Applicable detectionResult then (st, hostSkippedNoData)
                 else if dr_MissingActualData detectionResult then
                   (let r0 = (lp_result st)\<lparr>cr_Partial := True\<rparr>;
                        r1 = (if \<not> hostSkippedNoData
                              then upd_stats (\<lambda>s. s\<lparr>ds_SkippedHostsNoActualData := ds_SkippedHostsNoActualData s + 1\<rparr>) r0
                              else r0);
                        r2 = (if TrimSpace (dr_SkipReason detectionResult) \<noteq> []
                              then add_warning (cmp @ '' on '' @ dh_FQDN desiredHost @ '' skipped: ''
                                     @ dr_SkipReason detectionResult) r1
                              else r1)
                    in (st\<lparr>lp_result := r2\<rparr>, True))
                 else if \<not> dr_Drift detectionResult then (st, hostSkippedNoData)
                 else
                   (let st = st\<lparr>lp_result := upd_stats (\<lambda>s. s\<lparr>ds_DriftsFound := ds_DriftsFound s + 1\<rparr>) (lp_result st)\<rparr>
                    in case dr_ReconcileCommand detectionResult of
                         None \<Rightarrow>
                           (st\<lparr>lp_result := add_error (''detector '' @ cmp
                                @ '' reported drift without reconcile command'') (lp_result st)\<rparr>,
                            hostSkippedNoData)
                       | Some command \<Rightarrow> (dispatch deps cooldown command st, hostSkippedNoData))))"

text \<open>One turn of the loop over the desired hosts.\<close>

definition process_host ::
  "('w, 'c) Deps \<Rightarrow> 'c Service_d \<Rightarrow> string \<Rightarrow> (string, ActualHost) gomap \<Rightarrow> (string, ActualHost) gomap
     \<Rightarrow> DesiredHost_d \<Rightarrow> ('w, 'c) Loop \<Rightarrow> ('w, 'c) Loop" where
  "process_host deps s cycleID hostsByID hostsByFQDN desiredHost st =
     (case lookupActualHost desiredHost hostsByID hostsByFQDN of
        None \<Rightarrow>
          st\<lparr>lp_result := add_warning (''actual host is missing for desired host_id='' @ dh_HostID desiredHost
               @ '' fqdn='' @ dh_FQDN desiredHost)
               (upd_stats (\<lambda>s. s\<lparr>ds_SkippedHostsNoActualHost := ds_SkippedHostsNoActualHost s + 1\<rparr>)
                 (lp_result st\<lparr>cr_Partial := True\<rparr>))\<rparr>
      | Some actualHost \<Rightarrow>
          fst (fold (detect_component deps (sv_registry s) (sv_reconcileCooldown s) cycleID desiredHost actualHost)
                 (sv_enabledComponents s)
                 (st\<lparr>lp_result := upd_stats (\<lambda>s. s\<lparr>ds_ComparedHosts := ds_ComparedHosts s + 1\<rparr>) (lp_result st)\<rparr>,
                  False)))"

section \<open>A cycle\<close>

definition finishResult ::
  "('w, 'c) Deps \<Rightarrow> DetectionCycleResult \<Rightarrow> 'w \<Rightarrow> DetectionCycleResult \<times> 'w" where
  "finishResult deps r w =
     (let (finished, w1) = dep_now deps w;
          (duration, w2) = since deps (cr_StartedAt r) w1
      in (r\<lparr>cr_FinishedAt := UTC finished, cr_DurationMs := Milliseconds duration\<rparr>, w2))"

text \<open>What the metadata of the two states say about the cycle.\<close>

definition note_metadata :: "ActualMetadata \<Rightarrow> DesiredMetadata \<Rightarrow> DetectionCycleResult \<Rightarrow> DetectionCycleResult" where
  "note_metadata am dm r =
     (let r = r\<lparr>cr_InventoryMarkedPartial := amd_IsPartial am, cr_ParserReady := dmd_Ready dm\<rparr>;
          r = (if amd_IsPartial am
               then add_warning ''inventory metadata marked response as partial'' (r\<lparr>cr_Partial := True\<rparr>)
               else r)
      in if \<not> dmd_Ready dm
         then add_warning
                (if TrimSpace (dmd_ReadyReason dm) \<noteq> [] then ''parser not ready: '' @ dmd_ReadyReason dm
                 else ''parser not ready'')
                (r\<lparr>cr_Partial := True\<rparr>)
         else r)"

definition new_result :: "gotime \<Rightarrow> string \<Rightarrow> DetectionCycleResult" where
  "new_result startedAt trigger =
     zero_result\<lparr>cr_CycleID := FormatInt (UnixNano startedAt), cr_Trigger := trigger, cr_StartedAt := startedAt\<rparr>"

text \<open>The part after both fetches: the loops and the closing of the result.\<close>

definition compare_states ::
  "('w, 'c) Deps \<Rightarrow> 'c Service_d \<Rightarrow> ActualState \<Rightarrow> DesiredState_d \<Rightarrow> DetectionCycleResult \<Rightarrow> 'w
     \<Rightarrow> DetectionCycleResult \<times> 'c \<times> 'w" where
  "compare_states deps s actualState desiredState r w =
     (let r = note_metadata (ast_Metadata actualState) (dst_Metadata desiredState) r;
          (hostsByID, hostsByFQDN) = indexActualHosts (ast_Hosts actualState);
          r = upd_stats (\<lambda>st. st\<lparr>ds_DesiredHosts := length (dst_Hosts desiredState)\<rparr>) r;
          (compareTimer, w1) = dep_now deps w;
          st = fold (process_host deps s (cr_CycleID r) hostsByID hostsByFQDN) (dst_Hosts desiredState)
                 \<lparr>lp_world = w1, lp_store = sv_cooldownStore s, lp_result = r, lp_compareTimer = compareTimer,
                  lp_compareDuration = 0, lp_dispatchDuration = 0\<rparr>;
          (compared, w2) = since deps (lp_compareTimer st) (lp_world st);
          timings = (cr_StageTimings (lp_result st))
            \<lparr>tm_DriftComparisonMs := Milliseconds (wrap64 (lp_compareDuration st + compared)),
             tm_ReconcileDispatchMs := Milliseconds (lp_dispatchDuration st)\<rparr>;
          (r, w3) = finishResult deps (lp_result st\<lparr>cr_StageTimings := timings\<rparr>) w2
      in (r, lp_store st, w3))"

definition runCycle ::
  "('w, 'c) Deps \<Rightarrow> 'c Service_d \<Rightarrow> string \<Rightarrow> 'w
     \<Rightarrow> (DetectionCycleResult \<times> cycle_error option) \<times> 'c \<times> 'w" where
  "runCycle deps s trigger w0 =
     (let (t, w1) = dep_now deps w0;
          r = new_result (UTC t) trigger;
          (inventoryFetchStarted, w2) = dep_now deps w1;
          (actual, w3) = dep_FetchActualState deps w2;
          (inventoryTime, w4) = since deps inventoryFetchStarted w3;
          r = r\<lparr>cr_StageTimings := (cr_StageTimings r)\<lparr>tm_InventoryFetchMs := Milliseconds inventoryTime\<rparr>\<rparr>
      in case actual of
           Inl err \<Rightarrow>
             (let (r, w5) = finishResult deps (add_error (''inventory fetch failed: '' @ err) r) w4
              in ((r, Some (Fetch_actual_state err)), sv_cooldownStore s, w5))
         | Inr actualState \<Rightarrow>
             (let (parserFetchStarted, w5) = dep_now deps w4;
                  (desired, w6) = dep_FetchDesiredState deps w5;
                  (parserTime, w7) = since deps parserFetchStarted w6;
                  r = r\<lparr>cr_StageTimings := (cr_StageTimings r)\<lparr>tm_ParserFetchMs := Milliseconds parserTime\<rparr>\<rparr>
              in case desired of
                   Inl err \<Rightarrow>
                     (let (r, w8) = finishResult deps (add_error (''parser fetch failed: '' @ err) r) w7
                      in ((r, Some (Fetch_desired_state err)), sv_cooldownStore s, w8))
                 | Inr desiredState \<Rightarrow>
                     (let (r, store, w8) = compare_states deps s actualState desiredState r w7
                      in ((r, None), store, w8))))"

section \<open>The service\<close>

definition beginCycle :: "'c Service_d \<Rightarrow> bool \<times> 'c Service_d" where
  "beginCycle s = (if sv_running s then (False, s) else (True, s\<lparr>sv_running := True\<rparr>))"

definition finishCycle :: "'c Service_d \<Rightarrow> 'c Service_d" where
  "finishCycle s = s\<lparr>sv_running := False\<rparr>"

definition persistResult :: "DetectionCycleResult \<Rightarrow> bool \<Rightarrow> 'c Service_d \<Rightarrow> 'c Service_d" where
  "persistResult r markReady s =
     (let s = s\<lparr>sv_lastResult := Clone_result r, sv_hasResult := True\<rparr>
      in if markReady then s\<lparr>sv_ready := True\<rparr> else s)"

definition RunCycle ::
  "('w, 'c) Deps \<Rightarrow> string \<Rightarrow> 'c Service_d \<times> 'w
     \<Rightarrow> (DetectionCycleResult \<times> cycle_error option) \<times> 'c Service_d \<times> 'w" where
  "RunCycle deps trigger state =
     (let (s, w) = state; (begun, s) = beginCycle s
      in if \<not> begun then ((zero_result, Some ErrCycleAlreadyRunning), s, w)
         else
           (let ((r, err), store, w') = runCycle deps s trigger w;
                s = persistResult r (err = None) (s\<lparr>sv_cooldownStore := store\<rparr>)
            in ((r, err), finishCycle s, w')))"

definition IsReady_d :: "'c Service_d \<Rightarrow> bool" where
  "IsReady_d s = sv_ready s"

definition LastCycleResult :: "'c Service_d \<Rightarrow> DetectionCycleResult \<times> bool" where
  "LastCycleResult s =
     (if \<not> sv_hasResult s then (zero_result, False) else (Clone_result (sv_lastResult s), True))"

end
