(* ===== verification/Drift_Cycle.thy ===== *)
theory Drift_Cycle
  imports Drift_Detection
begin

text \<open>
  What a detection cycle computes. The loops of the detection service are described by a
  verdict for each pair of a matched host and an enabled component, which does not depend
  on the clock, the store or the receiver; the statistics of a cycle are then sums over
  these pairs.
\<close>

section \<open>Matching\<close>

definition normal_name :: "string \<Rightarrow> string" where
  "normal_name s = ToLower (TrimSpace s)"

text \<open>The actual host for a desired one: the last of that id, else the last of that name.\<close>

definition actual_host :: "ActualHost list \<Rightarrow> DesiredHost_d \<Rightarrow> ActualHost option" where
  "actual_host hosts d =
     (let find_by = (\<lambda>key k. if k = [] then None else last_with (\<lambda>h. normal_name (key h)) k hosts)
      in case find_by ah_HostID (normal_name (dh_HostID d)) of
           Some a \<Rightarrow> Some a
         | None \<Rightarrow> find_by ah_FQDN (normal_name (dh_FQDN d)))"

lemma last_with_filter:
  "P k \<Longrightarrow> last_with key k (filter (\<lambda>x. P (key x)) xs) = last_with key k xs"
  by (induction xs rule: rev_induct) (auto simp: last_with_snoc)

lemmas last_with_named =
  last_with_filter [where P = "\<lambda>k. k \<noteq> []" and key = "\<lambda>h. normal_name (ah_HostID h)"]
  last_with_filter [where P = "\<lambda>k. k \<noteq> []" and key = "\<lambda>h. normal_name (ah_FQDN h)"]

lemma fold_index_actual_host:
  "fold index_actual_host hosts (m, n) =
     (index_into (\<lambda>h. normal_name (ah_HostID h)) (\<lambda>h. h) (filter (\<lambda>h. normal_name (ah_HostID h) \<noteq> []) hosts) m,
      index_into (\<lambda>h. normal_name (ah_FQDN h)) (\<lambda>h. h) (filter (\<lambda>h. normal_name (ah_FQDN h) \<noteq> []) hosts) n)"
  by (induction hosts arbitrary: m n)
    (simp_all add: index_actual_host_def normal_name_def index_into_def Let_def)

lemma lookup_actual_host:
  "indexActualHosts hosts = (m, n) \<Longrightarrow> lookupActualHost d m n = actual_host hosts d"
  by (cases "normal_name (dh_HostID d) = []"; cases "normal_name (dh_FQDN d) = []")
    (auto simp: indexActualHosts_def fold_index_actual_host lookupActualHost_def actual_host_def
      Let_def map_get_index_into last_with_named
      normal_name_def [symmetric] split: option.splits)

definition compared_hosts :: "ActualHost list \<Rightarrow> DesiredHost_d list \<Rightarrow> (DesiredHost_d \<times> ActualHost) list" where
  "compared_hosts actual desired =
     concat (map (\<lambda>d. case actual_host actual d of None \<Rightarrow> [] | Some a \<Rightarrow> [(d, a)]) desired)"

lemma length_compared_hosts: "length (compared_hosts actual desired) \<le> length desired"
  by (induction desired) (auto simp: compared_hosts_def split: option.split)

section \<open>Verdicts\<close>

datatype verdict =
    V_Unregistered
  | V_Nothing
  | V_No_data string
  | V_No_command
  | V_Drift ReconcileCommand

definition component_verdict ::
  "Registry \<Rightarrow> string \<Rightarrow> DesiredHost_d \<Rightarrow> ActualHost \<Rightarrow> Component \<Rightarrow> verdict" where
  "component_verdict registry cycleID d a cmp =
     (case Get_detector registry cmp of
        None \<Rightarrow> V_Unregistered
      | Some det \<Rightarrow>
          (let r = det_Detect det cycleID d a
           in if \<not> dr_Applicable r then V_Nothing
              else if dr_MissingActualData r then V_No_data (dr_SkipReason r)
              else if \<not> dr_Drift r then V_Nothing
              else case dr_ReconcileCommand r of None \<Rightarrow> V_No_command | Some c \<Rightarrow> V_Drift c))"

fun is_drift :: "verdict \<Rightarrow> bool" where
  "is_drift V_No_command = True"
| "is_drift (V_Drift c) = True"
| "is_drift _ = False"

fun is_no_data :: "verdict \<Rightarrow> bool" where
  "is_no_data (V_No_data reason) = True"
| "is_no_data _ = False"

abbreviation set_result :: "(DetectionCycleResult \<Rightarrow> DetectionCycleResult) \<Rightarrow> ('w, 'c) Loop \<Rightarrow> ('w, 'c) Loop" where
  "set_result f st \<equiv> st\<lparr>lp_result := f (lp_result st)\<rparr>"

text \<open>What the code does with each verdict.\<close>

definition no_data_result :: "string \<Rightarrow> string \<Rightarrow> string \<Rightarrow> bool \<Rightarrow> DetectionCycleResult \<Rightarrow> DetectionCycleResult" where
  "no_data_result cmp fqdn reason skipped r =
     (let r1 = (if skipped then r\<lparr>cr_Partial := True\<rparr>
                else upd_stats (\<lambda>s. s\<lparr>ds_SkippedHostsNoActualData := ds_SkippedHostsNoActualData s + 1\<rparr>) (r\<lparr>cr_Partial := True\<rparr>))
      in if TrimSpace reason \<noteq> [] then add_warning (cmp @ '' on '' @ fqdn @ '' skipped: '' @ reason) r1 else r1)"

abbreviation count_drift :: "DetectionCycleResult \<Rightarrow> DetectionCycleResult" where
  "count_drift \<equiv> upd_stats (\<lambda>s. s\<lparr>ds_DriftsFound := ds_DriftsFound s + 1\<rparr>)"

lemma detect_component_verdict:
  "detect_component deps registry cd cid d a cmp (st, skipped) =
     (case component_verdict registry cid d a cmp of
        V_Unregistered \<Rightarrow> (set_result (add_error (''detector not found for component: '' @ cmp)) st, skipped)
      | V_Nothing \<Rightarrow> (st, skipped)
      | V_No_data reason \<Rightarrow> (set_result (no_data_result cmp (dh_FQDN d) reason skipped) st, True)
      | V_No_command \<Rightarrow>
          (set_result (\<lambda>r. add_error (''detector '' @ cmp @ '' reported drift without reconcile command'') (count_drift r)) st,
           skipped)
      | V_Drift c \<Rightarrow> (dispatch deps cd c (set_result count_drift st), skipped))"
  by (simp add: detect_component_def component_verdict_def no_data_result_def Let_def split: option.split)

section \<open>Dispatching\<close>

text \<open>A dispatch is suppressed, fails or is accepted; only the last touches the store.\<close>

definition dispatch_key :: "ReconcileCommand \<Rightarrow> string" where
  "dispatch_key c = BuildKey (rc_Component c) (rc_FQDN c)"

lemma dispatch_cases:
  obtains (suppressed) t where
      "\<not> fst (dep_CanSend deps (dispatch_key c) (UTC t) cd (lp_store st))"
      "lp_store (dispatch deps cd c st) = lp_store st"
      "lp_result (dispatch deps cd c st) =
         upd_stats (\<lambda>s. s\<lparr>ds_ReconcileSuppressed := ds_ReconcileSuppressed s + 1\<rparr>) (lp_result st)"
  | (failed) t e where
      "fst (dep_CanSend deps (dispatch_key c) (UTC t) cd (lp_store st))"
      "lp_store (dispatch deps cd c st) = lp_store st"
      "lp_result (dispatch deps cd c st) = add_error e (lp_result st)"
  | (sent) t where
      "fst (dep_CanSend deps (dispatch_key c) (UTC t) cd (lp_store st))"
      "lp_store (dispatch deps cd c st) = dep_MarkSent deps (dispatch_key c) (UTC t) (lp_store st)"
      "lp_result (dispatch deps cd c st) =
         upd_stats (\<lambda>s. s\<lparr>ds_ReconcileSent := ds_ReconcileSent s + 1\<rparr>) (lp_result st)"
proof -
  obtain t w1 where t: "dep_now deps (lp_world st) = (t, w1)" by fastforce
  show thesis
  proof (cases "fst (dep_CanSend deps (dispatch_key c) (UTC t) cd (lp_store st))")
    case False
    with t show ?thesis
      by (intro suppressed [of t]) (auto simp: dispatch_def dispatch_key_def Let_def split: prod.splits)
  next
    case True
    obtain compared w2 where w2: "since deps (lp_compareTimer st) w1 = (compared, w2)" by fastforce
    obtain sendStarted w3 where w3: "dep_now deps w2 = (sendStarted, w3)" by fastforce
    obtain answer w4 where w4: "dep_SendReconcile deps c w3 = (answer, w4)" by fastforce
    note eval = t w2 w3 w4 dispatch_def dispatch_key_def Let_def
    show ?thesis
    proof (cases answer)
      case (Inl e)
      with True show ?thesis
        by (intro failed [of t]) (auto simp: eval split: prod.splits)
    next
      case (Inr x)
      with True show ?thesis
        by (intro sent [of t]) (auto simp: eval split: prod.splits)
    qed
  qed
qed

section \<open>Counting\<close>

text \<open>What the loops leave alone once the result is set up.\<close>

definition header :: "DetectionCycleResult \<Rightarrow> string \<times> string \<times> gotime \<times> bool \<times> bool \<times> nat" where
  "header r = (cr_CycleID r, cr_Trigger r, cr_StartedAt r, cr_InventoryMarkedPartial r, cr_ParserReady r,
     ds_DesiredHosts (cr_Stats r))"

definition handled :: "DetectionStats \<Rightarrow> nat" where
  "handled s = ds_ReconcileSent s + ds_ReconcileSuppressed s + ds_Errors s"

lemmas result_defs = upd_stats_def add_error_def add_warning_def no_data_result_def header_def handled_def

text \<open>From r to r': drifts found, drifts and errors handled, one message per error.\<close>

definition counts :: "nat \<Rightarrow> nat \<Rightarrow> DetectionCycleResult \<Rightarrow> DetectionCycleResult \<Rightarrow> bool" where
  "counts drifts handled_more r r' \<longleftrightarrow>
     header r' = header r
     \<and> ds_ComparedHosts (cr_Stats r') = ds_ComparedHosts (cr_Stats r)
     \<and> ds_SkippedHostsNoActualHost (cr_Stats r') = ds_SkippedHostsNoActualHost (cr_Stats r)
     \<and> ds_DriftsFound (cr_Stats r') = ds_DriftsFound (cr_Stats r) + drifts
     \<and> handled (cr_Stats r') = handled (cr_Stats r) + handled_more
     \<and> ds_Errors (cr_Stats r') + length (cr_ErrorMessages r) = ds_Errors (cr_Stats r) + length (cr_ErrorMessages r')"

lemma counts_trans: "counts d h r r' \<Longrightarrow> counts d' h' r' r'' \<Longrightarrow> counts (d + d') (h + h') r r''"
  by (simp add: counts_def)

lemma dispatch_counts:
  "counts 0 1 (lp_result st) (lp_result (dispatch deps cd c st))
   \<and> cr_Partial (lp_result (dispatch deps cd c st)) = cr_Partial (lp_result st)
   \<and> ds_SkippedHostsNoActualData (cr_Stats (lp_result (dispatch deps cd c st))) =
       ds_SkippedHostsNoActualData (cr_Stats (lp_result st))"
  by (rule dispatch_cases [of deps c cd st]) (simp_all add: counts_def result_defs)

fun verdict_handled :: "verdict \<Rightarrow> nat" where
  "verdict_handled V_Unregistered = 1"
| "verdict_handled V_Nothing = 0"
| "verdict_handled (V_No_data reason) = 0"
| "verdict_handled V_No_command = 1"
| "verdict_handled (V_Drift c) = 1"

lemma no_data_counts: "counts 0 0 r (no_data_result cmp fqdn reason skipped r)"
  by (cases skipped; cases "TrimSpace reason = []") (simp_all add: counts_def result_defs)

lemma detect_component_counts:
  assumes "detect_component deps registry cd cid d a cmp (st, skipped) = (st', skipped')"
    and "component_verdict registry cid d a cmp = v"
  shows "counts (of_bool (is_drift v)) (verdict_handled v) (lp_result st) (lp_result st')"
    and "skipped' = (skipped \<or> is_no_data v)"
    and "cr_Partial (lp_result st') = (cr_Partial (lp_result st) \<or> is_no_data v)"
    and "ds_SkippedHostsNoActualData (cr_Stats (lp_result st')) =
      ds_SkippedHostsNoActualData (cr_Stats (lp_result st)) + of_bool (is_no_data v \<and> \<not> skipped)"
proof -
  have drift: "counts 1 0 r (count_drift r)" for r
    by (simp add: counts_def result_defs)
  note dispatch = dispatch_counts [of "set_result count_drift st" deps cd]
  have sent: "counts 0 1 (count_drift (lp_result st)) (lp_result (dispatch deps cd c (set_result count_drift st)))" for c
    using dispatch [of c] by simp
  show "counts (of_bool (is_drift v)) (verdict_handled v) (lp_result st) (lp_result st')"
  proof (cases v)
    case (V_Drift c)
    with assms show ?thesis
      using counts_trans [OF drift sent, of c] by (auto simp: detect_component_verdict)
  next
    case (V_No_data reason)
    with assms show ?thesis by (auto simp: detect_component_verdict no_data_counts)
  qed (use assms in \<open>auto simp: detect_component_verdict counts_def result_defs\<close>)
  show "skipped' = (skipped \<or> is_no_data v)"
    using assms by (cases v) (auto simp: detect_component_verdict)
  show "cr_Partial (lp_result st') = (cr_Partial (lp_result st) \<or> is_no_data v)"
    using assms dispatch by (cases v) (auto simp: detect_component_verdict result_defs Let_def)
  show "ds_SkippedHostsNoActualData (cr_Stats (lp_result st')) =
      ds_SkippedHostsNoActualData (cr_Stats (lp_result st)) + of_bool (is_no_data v \<and> \<not> skipped)"
    using assms dispatch by (cases v) (auto simp: detect_component_verdict result_defs Let_def)
qed

text \<open>All the enabled components of one host.\<close>

definition host_drifts :: "Registry \<Rightarrow> string \<Rightarrow> Component list \<Rightarrow> DesiredHost_d \<times> ActualHost \<Rightarrow> nat" where
  "host_drifts registry cycleID cs p =
     length (filter (\<lambda>c. is_drift (component_verdict registry cycleID (fst p) (snd p) c)) cs)"

definition host_no_data :: "Registry \<Rightarrow> string \<Rightarrow> Component list \<Rightarrow> DesiredHost_d \<times> ActualHost \<Rightarrow> bool" where
  "host_no_data registry cycleID cs p \<longleftrightarrow>
     list_ex (\<lambda>c. is_no_data (component_verdict registry cycleID (fst p) (snd p) c)) cs"

definition unregistered :: "Registry \<Rightarrow> Component list \<Rightarrow> nat" where
  "unregistered registry cs = length (filter (\<lambda>c. Get_detector registry c = None) cs)"

lemma host_drifts_Cons:
  "host_drifts registry cid (c # cs) p =
     of_bool (is_drift (component_verdict registry cid (fst p) (snd p) c)) + host_drifts registry cid cs p"
  by (simp add: host_drifts_def)

lemma unregistered_Cons:
  "unregistered registry (c # cs) = of_bool (Get_detector registry c = None) + unregistered registry cs"
  by (simp add: unregistered_def)

lemma verdict_handled_eq:
  "verdict_handled (component_verdict registry cid d a c) =
     of_bool (is_drift (component_verdict registry cid d a c)) + of_bool (Get_detector registry c = None)"
  by (simp add: component_verdict_def Let_def split: option.split)

lemma fold_detect_component:
  assumes "fold (detect_component deps registry cd cid d a) cs (st, skipped) = (st', skipped')"
  shows "counts (host_drifts registry cid cs (d, a))
      (host_drifts registry cid cs (d, a) + unregistered registry cs) (lp_result st) (lp_result st')
    \<and> skipped' = (skipped \<or> host_no_data registry cid cs (d, a))
    \<and> cr_Partial (lp_result st') = (cr_Partial (lp_result st) \<or> host_no_data registry cid cs (d, a))
    \<and> ds_SkippedHostsNoActualData (cr_Stats (lp_result st')) =
        ds_SkippedHostsNoActualData (cr_Stats (lp_result st))
        + of_bool (host_no_data registry cid cs (d, a) \<and> \<not> skipped)"
  using assms
proof (induction cs arbitrary: st skipped)
  case Nil
  then show ?case
    by (simp add: counts_def host_drifts_def host_no_data_def unregistered_def)
next
  case (Cons c cs)
  obtain st1 sk1 where step: "detect_component deps registry cd cid d a c (st, skipped) = (st1, sk1)"
    by fastforce
  note one = detect_component_counts [OF step refl]
  from Cons.prems step have "fold (detect_component deps registry cd cid d a) cs (st1, sk1) = (st', skipped')"
    by simp
  note rest = Cons.IH [OF this]
  have "counts (host_drifts registry cid (c # cs) (d, a))
      (host_drifts registry cid (c # cs) (d, a) + unregistered registry (c # cs)) (lp_result st) (lp_result st')"
    using counts_trans [OF one(1) rest [THEN conjunct1]]
    by (simp add: verdict_handled_eq host_drifts_Cons unregistered_Cons ac_simps)
  moreover have "host_no_data registry cid (c # cs) (d, a) \<longleftrightarrow>
      is_no_data (component_verdict registry cid d a c) \<or> host_no_data registry cid cs (d, a)"
    by (simp add: host_no_data_def)
  ultimately show ?case using one rest by auto
qed

section \<open>The loop over the hosts\<close>

definition cycle_drifts :: "Registry \<Rightarrow> string \<Rightarrow> Component list \<Rightarrow> (DesiredHost_d \<times> ActualHost) list \<Rightarrow> nat" where
  "cycle_drifts registry cycleID cs pairs = sum_list (map (host_drifts registry cycleID cs) pairs)"

lemma compared_hosts_Cons:
  "compared_hosts hosts (d # ds) =
     (case actual_host hosts d of None \<Rightarrow> compared_hosts hosts ds | Some a \<Rightarrow> (d, a) # compared_hosts hosts ds)"
  by (simp add: compared_hosts_def split: option.split)

text \<open>A component gives at most one drift on a host, and none without a detector.\<close>

lemma host_drifts_bound: "host_drifts registry cid cs p + unregistered registry cs \<le> length cs"
proof (induction cs)
  case (Cons c cs)
  have "\<not> (is_drift (component_verdict registry cid (fst p) (snd p) c) \<and> Get_detector registry c = None)"
    by (cases "Get_detector registry c") (auto simp: component_verdict_def)
  with Cons show ?case by (auto simp: host_drifts_Cons unregistered_Cons of_bool_def)
qed (simp add: host_drifts_def unregistered_def)

lemma cycle_drifts_bound:
  "cycle_drifts registry cid cs pairs + length pairs * unregistered registry cs \<le> length pairs * length cs"
proof (induction pairs)
  case (Cons p pairs)
  with host_drifts_bound [of registry cid cs p] show ?case by (simp add: cycle_drifts_def)
qed (simp add: cycle_drifts_def)

text \<open>What the hosts contribute to the result, from r to r'.\<close>

definition report ::
  "Registry \<Rightarrow> string \<Rightarrow> Component list \<Rightarrow> ActualHost list \<Rightarrow> DesiredHost_d list
     \<Rightarrow> DetectionCycleResult \<Rightarrow> DetectionCycleResult \<Rightarrow> bool" where
  "report registry cycleID cs hosts ds r r' \<longleftrightarrow>
     (let pairs = compared_hosts hosts ds; s = cr_Stats r; s' = cr_Stats r'
      in header r' = header r
         \<and> ds_ComparedHosts s' = ds_ComparedHosts s + length pairs
         \<and> ds_ComparedHosts s' + ds_SkippedHostsNoActualHost s' =
             ds_ComparedHosts s + ds_SkippedHostsNoActualHost s + length ds
         \<and> ds_SkippedHostsNoActualData s' =
             ds_SkippedHostsNoActualData s + length (filter (host_no_data registry cycleID cs) pairs)
         \<and> ds_DriftsFound s' = ds_DriftsFound s + cycle_drifts registry cycleID cs pairs
         \<and> handled s' = handled s + cycle_drifts registry cycleID cs pairs + length pairs * unregistered registry cs
         \<and> ds_Errors s' + length (cr_ErrorMessages r) = ds_Errors s + length (cr_ErrorMessages r')
         \<and> (cr_Partial r' \<longleftrightarrow> cr_Partial r \<or> length pairs < length ds
              \<or> list_ex (host_no_data registry cycleID cs) pairs))"

lemma report_missing:
  assumes "lookupActualHost d m n = None"
  shows "\<exists>w. lp_result (process_host deps s cid m n d st) =
    add_warning w (upd_stats (\<lambda>s. s\<lparr>ds_SkippedHostsNoActualHost := ds_SkippedHostsNoActualHost s + 1\<rparr>)
      (lp_result st\<lparr>cr_Partial := True\<rparr>))"
  using assms by (auto simp: process_host_def)

lemma report_compared:
  fixes deps :: "('w, 'c) Deps" and s :: "'c Service_d" and st :: "('w, 'c) Loop" and cid :: string
  assumes "lookupActualHost d m n = Some a"
  defines "r \<equiv> lp_result st" and "r' \<equiv> lp_result (process_host deps s cid m n d st)"
    and "dr \<equiv> host_drifts (sv_registry s) cid (sv_enabledComponents s) (d, a)"
    and "nd \<equiv> host_no_data (sv_registry s) cid (sv_enabledComponents s) (d, a)"
  shows "header r' = header r"
    and "ds_ComparedHosts (cr_Stats r') = Suc (ds_ComparedHosts (cr_Stats r))"
    and "ds_SkippedHostsNoActualHost (cr_Stats r') = ds_SkippedHostsNoActualHost (cr_Stats r)"
    and "ds_SkippedHostsNoActualData (cr_Stats r') = ds_SkippedHostsNoActualData (cr_Stats r) + of_bool nd"
    and "ds_DriftsFound (cr_Stats r') = ds_DriftsFound (cr_Stats r) + dr"
    and "handled (cr_Stats r') = handled (cr_Stats r) + (dr + unregistered (sv_registry s) (sv_enabledComponents s))"
    and "ds_Errors (cr_Stats r') + length (cr_ErrorMessages r) = ds_Errors (cr_Stats r) + length (cr_ErrorMessages r')"
    and "cr_Partial r' \<longleftrightarrow> cr_Partial r \<or> nd"
proof -
  let ?r1 = "upd_stats (\<lambda>s. s\<lparr>ds_ComparedHosts := ds_ComparedHosts s + 1\<rparr>) r"
  obtain st2 sk where fold: "fold (detect_component deps (sv_registry s) (sv_reconcileCooldown s) cid d a)
      (sv_enabledComponents s) (st\<lparr>lp_result := ?r1\<rparr>, False) = (st2, sk)" by fastforce
  with assms(1) have "r' = lp_result st2" by (simp add: r'_def r_def process_host_def)
  with fold_detect_component [OF fold]
  have counts: "counts dr (dr + unregistered (sv_registry s) (sv_enabledComponents s)) ?r1 r'"
    and partial: "cr_Partial r' \<longleftrightarrow> cr_Partial ?r1 \<or> nd"
    and no_data: "ds_SkippedHostsNoActualData (cr_Stats r') = ds_SkippedHostsNoActualData (cr_Stats ?r1) + of_bool nd"
    by (simp_all add: dr_def nd_def)
  from counts show "header r' = header r"
    and "ds_ComparedHosts (cr_Stats r') = Suc (ds_ComparedHosts (cr_Stats r))"
    and "ds_SkippedHostsNoActualHost (cr_Stats r') = ds_SkippedHostsNoActualHost (cr_Stats r)"
    and "ds_DriftsFound (cr_Stats r') = ds_DriftsFound (cr_Stats r) + dr"
    and "handled (cr_Stats r') = handled (cr_Stats r) + (dr + unregistered (sv_registry s) (sv_enabledComponents s))"
    and "ds_Errors (cr_Stats r') + length (cr_ErrorMessages r) = ds_Errors (cr_Stats r) + length (cr_ErrorMessages r')"
    by (simp_all add: counts_def upd_stats_def header_def handled_def)
  from partial show "cr_Partial r' \<longleftrightarrow> cr_Partial r \<or> nd" by (simp add: upd_stats_def)
  from no_data show "ds_SkippedHostsNoActualData (cr_Stats r') = ds_SkippedHostsNoActualData (cr_Stats r) + of_bool nd"
    by (simp add: upd_stats_def)
qed

lemma fold_process_host:
  assumes "indexActualHosts hosts = (m, n)"
  shows "report (sv_registry s) cid (sv_enabledComponents s) hosts ds (lp_result st)
    (lp_result (fold (process_host deps s cid m n) ds st))"
proof (induction ds arbitrary: st)
  case Nil
  then show ?case by (simp add: report_def compared_hosts_def cycle_drifts_def)
next
  case (Cons d ds)
  let ?reg = "sv_registry s" and ?cs = "sv_enabledComponents s"
  let ?st' = "process_host deps s cid m n d st"
  note lookup = lookup_actual_host [OF assms, of d]
  note le = length_compared_hosts [of hosts ds]
  note IH = Cons.IH [of ?st', unfolded report_def Let_def]
  show ?case
  proof (cases "actual_host hosts d")
    case None
    with lookup have "lookupActualHost d m n = None" by simp
    from report_missing [OF this, of deps s cid st] obtain w where "lp_result ?st' = add_warning w
        (upd_stats (\<lambda>s. s\<lparr>ds_SkippedHostsNoActualHost := ds_SkippedHostsNoActualHost s + 1\<rparr>)
          (lp_result st\<lparr>cr_Partial := True\<rparr>))" ..
    with IH None le show ?thesis
      by (simp add: report_def Let_def compared_hosts_Cons result_defs)
  next
    case (Some a)
    with lookup have "lookupActualHost d m n = Some a" by simp
    note one = report_compared [OF this, of deps s cid st]
    from IH Some one(7) show ?thesis
      by (simp add: report_def Let_def compared_hosts_Cons cycle_drifts_def one(1-6,8))
  qed
qed

section \<open>The whole cycle\<close>

lemma finishResult_fields:
  assumes "finishResult deps r w = (r', w')"
  shows "header r' = header r" "cr_Stats r' = cr_Stats r" "cr_Partial r' = cr_Partial r"
    "cr_ErrorMessages r' = cr_ErrorMessages r" "cr_Warnings r' = cr_Warnings r"
  using assms by (auto simp: finishResult_def header_def Let_def split: prod.splits)

lemma note_metadata_fields:
  "cr_Stats (note_metadata am dm r) = cr_Stats r
   \<and> cr_ErrorMessages (note_metadata am dm r) = cr_ErrorMessages r
   \<and> cr_CycleID (note_metadata am dm r) = cr_CycleID r
   \<and> cr_Trigger (note_metadata am dm r) = cr_Trigger r
   \<and> cr_InventoryMarkedPartial (note_metadata am dm r) = amd_IsPartial am
   \<and> cr_ParserReady (note_metadata am dm r) = dmd_Ready dm
   \<and> (cr_Partial (note_metadata am dm r) \<longleftrightarrow> cr_Partial r \<or> amd_IsPartial am \<or> \<not> dmd_Ready dm)"
  by (simp add: note_metadata_def add_warning_def Let_def)

lemma compare_states_report:
  assumes "compare_states deps s actual desired r w = (r', store, w')"
  shows "report (sv_registry s) (cr_CycleID r) (sv_enabledComponents s) (ast_Hosts actual) (dst_Hosts desired)
    (upd_stats (\<lambda>st. st\<lparr>ds_DesiredHosts := length (dst_Hosts desired)\<rparr>)
      (note_metadata (ast_Metadata actual) (dst_Metadata desired) r)) r'"
proof -
  let ?r0 = "upd_stats (\<lambda>st. st\<lparr>ds_DesiredHosts := length (dst_Hosts desired)\<rparr>)
      (note_metadata (ast_Metadata actual) (dst_Metadata desired) r)"
  obtain m n where idx: "indexActualHosts (ast_Hosts actual) = (m, n)" by fastforce
  obtain timer w1 where now: "dep_now deps w = (timer, w1)" by fastforce
  let ?st = "\<lparr>lp_world = w1, lp_store = sv_cooldownStore s, lp_result = ?r0, lp_compareTimer = timer,
    lp_compareDuration = 0, lp_dispatchDuration = 0\<rparr>"
  have cid: "cr_CycleID ?r0 = cr_CycleID r" by (simp add: note_metadata_fields upd_stats_def)
  define st where "st = fold (process_host deps s (cr_CycleID r) m n) (dst_Hosts desired) ?st"
  have rep: "report (sv_registry s) (cr_CycleID r) (sv_enabledComponents s) (ast_Hosts actual) (dst_Hosts desired)
      ?r0 (lp_result st)"
    using fold_process_host [OF idx, of s "cr_CycleID r" "dst_Hosts desired" ?st deps] by (simp add: st_def)
  from assms obtain tm w2 where fin: "finishResult deps (lp_result st\<lparr>cr_StageTimings := tm\<rparr>) w2 = (r', w')"
    by (auto simp: compare_states_def Let_def idx now cid st_def split: prod.splits)
  have "header r' = header (lp_result st)" "cr_Stats r' = cr_Stats (lp_result st)"
    "cr_Partial r' = cr_Partial (lp_result st)" "cr_ErrorMessages r' = cr_ErrorMessages (lp_result st)"
    using finishResult_fields [OF fin] by (simp_all add: header_def)
  with rep show ?thesis by (simp add: report_def Let_def)
qed

text \<open>What the two services answer in a cycle that starts in the world w.\<close>

definition inventory_call :: "('w, 'c) Deps \<Rightarrow> 'w \<Rightarrow> (string, ActualState) result \<times> 'w" where
  "inventory_call deps w = dep_FetchActualState deps (snd (dep_now deps (snd (dep_now deps w))))"

definition parser_call :: "('w, 'c) Deps \<Rightarrow> 'w \<Rightarrow> (string, DesiredState_d) result \<times> 'w" where
  "parser_call deps w =
     dep_FetchDesiredState deps (snd (dep_now deps (snd (dep_now deps (snd (inventory_call deps w))))))"

definition cycle_id :: "('w, 'c) Deps \<Rightarrow> 'w \<Rightarrow> string" where
  "cycle_id deps w = FormatInt (UnixNano (UTC (fst (dep_now deps w))))"

lemma runCycle_ok:
  assumes "fst (inventory_call deps w) = Inr actual" and "fst (parser_call deps w) = Inr desired"
  shows "\<exists>r0 w7 r store w8. runCycle deps s trigger w = ((r, None), store, w8)
    \<and> compare_states deps s actual desired r0 w7 = (r, store, w8)
    \<and> cr_CycleID r0 = cycle_id deps w \<and> cr_Stats r0 = zero_stats \<and> cr_ErrorMessages r0 = []
    \<and> \<not> cr_Partial r0 \<and> cr_Trigger r0 = trigger"
  using assms
  by (auto simp: runCycle_def inventory_call_def parser_call_def cycle_id_def since_def Let_def
      new_result_def zero_result_def split: prod.splits)
    (rule exI, rule conjI, rule exI, assumption, simp)

text \<open>The error of a cycle.\<close>

lemma cycle_error_cases:
  "snd (fst (runCycle deps s trigger w)) =
     (case fst (inventory_call deps w) of
        Inl e \<Rightarrow> Some (Fetch_actual_state e)
      | Inr actual \<Rightarrow>
          (case fst (parser_call deps w) of
             Inl e \<Rightarrow> Some (Fetch_desired_state e)
           | Inr desired \<Rightarrow> None))"
  by (auto simp: runCycle_def inventory_call_def parser_call_def since_def Let_def new_result_def
      split: prod.splits sum.splits)

section \<open>A small world for the examples\<close>

text \<open>A world for the examples: a clock that ticks, and fixed answers.\<close>

definition tick :: "int \<Rightarrow> gotime \<times> int" where
  "tick w = (\<lparr>wall = w, mono = Some w\<rparr>, w + 1000)"

definition sample_desired_host :: DesiredHost_d where
  "sample_desired_host =
     \<lparr>dh_HostID = ''srv-1'', dh_FQDN = ''srv-1.local'', dh_Labels = [],
      dh_Workloads = [\<lparr>dw_Name = ''cadvisor'', dw_Enabled = True, dw_DeploymentMode = ''container'',
        dw_Image = ''img'', dw_Version = None, dw_Port = Some 8080\<rparr>]\<rparr>"

definition sample_desired :: DesiredState_d where
  "sample_desired =
     \<lparr>dst_Hosts = [sample_desired_host],
      dst_Metadata = \<lparr>dmd_Ready = True, dmd_ReadyReason = [], dmd_FilesLoaded = 1, dmd_FilesBroken = 0,
        dmd_HostsTotal = 1, dmd_WorkloadsTotal = 1, dmd_LoadedAt = None\<rparr>\<rparr>"

definition sample_actual :: ActualState where
  "sample_actual =
     \<lparr>ast_Hosts = [\<lparr>ah_HostID = '' SRV-1'', ah_FQDN = ''srv-1.local'', ah_Labels = [], ah_Status = ''ok'',
        ah_Workloads = [], ah_SourceStatus = []\<rparr>],
      ast_Metadata = \<lparr>amd_IsPartial = False, amd_TotalHosts = 1, amd_FailedHosts = 0, amd_LastSyncAt = None\<rparr>\<rparr>"

definition sample_deps :: "(int, CooldownStore) Deps" where
  "sample_deps =
     \<lparr>dep_now = tick, dep_FetchActualState = (\<lambda>w. (Inr sample_actual, w)),
      dep_FetchDesiredState = (\<lambda>w. (Inr sample_desired, w)),
      dep_SendReconcile = (\<lambda>c w. (Inr \<lparr>ra_RequestID = ''r1'', ra_AcceptedAt = None,
         ra_Component = rc_Component c, ra_FQDN = rc_FQDN c, ra_CorrelationID = rc_CorrelationID c\<rparr>, w)),
      dep_CanSend = CanSend, dep_MarkSent = MarkSent\<rparr>"

definition sample_service :: "CooldownStore Service_d" where
  "sample_service = NewService_d app_registry NewStore_cd 20000 [ComponentCadvisor, ComponentNodeExporter]"

lemma sample_answers:
  "fst (inventory_call sample_deps 0) = Inr sample_actual"
  "fst (parser_call sample_deps 0) = Inr sample_desired"
  by (simp_all add: inventory_call_def parser_call_def sample_deps_def tick_def)

section \<open>The statistics of a cycle\<close>

text \<open>All that is said below of a cycle whose fetches succeed, of one and the same result.\<close>

lemma runCycle_summary:
  assumes "fst (inventory_call deps w) = Inr actual" and "fst (parser_call deps w) = Inr desired"
  shows "\<exists>r store w'. runCycle deps s trigger w = ((r, None), store, w') \<and>
    (let pairs = compared_hosts (ast_Hosts actual) (dst_Hosts desired); st = cr_Stats r;
         no_data = host_no_data (sv_registry s) (cycle_id deps w) (sv_enabledComponents s)
     in ds_DesiredHosts st = length (dst_Hosts desired)
        \<and> ds_ComparedHosts st = length pairs
        \<and> ds_ComparedHosts st + ds_SkippedHostsNoActualHost st = ds_DesiredHosts st
        \<and> ds_SkippedHostsNoActualData st = length (filter no_data pairs)
        \<and> ds_DriftsFound st = cycle_drifts (sv_registry s) (cycle_id deps w) (sv_enabledComponents s) pairs
        \<and> (cr_Partial r \<longleftrightarrow> amd_IsPartial (ast_Metadata actual) \<or> \<not> dmd_Ready (dst_Metadata desired)
             \<or> 0 < ds_SkippedHostsNoActualHost st \<or> 0 < ds_SkippedHostsNoActualData st)
        \<and> ds_DriftsFound st + ds_ComparedHosts st * unregistered (sv_registry s) (sv_enabledComponents s) =
            ds_ReconcileSent st + ds_ReconcileSuppressed st + ds_Errors st
        \<and> ds_ReconcileSent st + ds_ReconcileSuppressed st + ds_Errors st
            \<le> ds_ComparedHosts st * length (sv_enabledComponents s)
        \<and> ds_Errors st = length (cr_ErrorMessages r))"
proof -
  from runCycle_ok [OF assms, of s trigger] obtain r0 w7 r store w8 where
    run: "runCycle deps s trigger w = ((r, None), store, w8)"
    and cmp: "compare_states deps s actual desired r0 w7 = (r, store, w8)"
    and r0: "cr_CycleID r0 = cycle_id deps w" "cr_Stats r0 = zero_stats" "\<not> cr_Partial r0"
      "cr_ErrorMessages r0 = []" by blast
  note rep = compare_states_report [OF cmp, unfolded report_def Let_def r0]
  have "cr_Partial r \<longleftrightarrow> amd_IsPartial (ast_Metadata actual) \<or> \<not> dmd_Ready (dst_Metadata desired)
      \<or> 0 < ds_SkippedHostsNoActualHost (cr_Stats r) \<or> 0 < ds_SkippedHostsNoActualData (cr_Stats r)"
    using rep by (auto simp: header_def upd_stats_def note_metadata_fields r0 zero_stats_def
        filter_empty_conv list_ex_iff)
  with rep show ?thesis
    using cycle_drifts_bound [of "sv_registry s" "cycle_id deps w" "sv_enabledComponents s"
        "compared_hosts (ast_Hosts actual) (dst_Hosts desired)"]
    by (auto simp: run Let_def header_def handled_def upd_stats_def note_metadata_fields r0 zero_stats_def)
qed

section \<open>Properties\<close>

text \<open>
  Matching a desired host: lookupActualHost finds the last actual host whose id agrees
  up to case and surrounding space, and only when there is none (or the desired id is blank)
  the last one whose host name agrees; blank ids and names never match.
\<close>
theorem lookupActualHost_spec:
  "(let (hostsByID, hostsByFQDN) = indexActualHosts hosts in lookupActualHost d hostsByID hostsByFQDN) =
     actual_host hosts d"
  by (simp add: lookup_actual_host split: prod.split)

text \<open>
  C2: the statistics of a cycle whose two fetches succeed are exactly what the two states
  say. Compared are the desired hosts with an actual host, the others are counted as
  skipped; every compared host lacking data for some enabled component counts once; the
  drifts are the pairs of a compared host and an enabled component whose detector reports
  drift. The cycle is partial exactly when the inventory or the parser says so, a host was
  skipped or data was missing.
\<close>
theorem runCycle_stats:
  assumes "fst (inventory_call deps w) = Inr actual" and "fst (parser_call deps w) = Inr desired"
  shows "\<exists>r store w'. runCycle deps s trigger w = ((r, None), store, w') \<and>
    (let pairs = compared_hosts (ast_Hosts actual) (dst_Hosts desired); st = cr_Stats r;
         no_data = host_no_data (sv_registry s) (cycle_id deps w) (sv_enabledComponents s)
     in ds_DesiredHosts st = length (dst_Hosts desired)
        \<and> ds_ComparedHosts st = length pairs
        \<and> ds_ComparedHosts st + ds_SkippedHostsNoActualHost st = ds_DesiredHosts st
        \<and> ds_SkippedHostsNoActualData st = length (filter no_data pairs)
        \<and> ds_DriftsFound st = cycle_drifts (sv_registry s) (cycle_id deps w) (sv_enabledComponents s) pairs
        \<and> (cr_Partial r \<longleftrightarrow> amd_IsPartial (ast_Metadata actual) \<or> \<not> dmd_Ready (dst_Metadata desired)
             \<or> 0 < ds_SkippedHostsNoActualHost st \<or> 0 < ds_SkippedHostsNoActualData st))"
  using runCycle_summary [OF assms, of s trigger] by (auto simp: Let_def)

theorem runCycle_stats_witness:
  "\<exists>r store w'. runCycle sample_deps sample_service ''manual'' 0 = ((r, None), store, w')
     \<and> ds_ComparedHosts (cr_Stats r) = 1 \<and> ds_DriftsFound (cr_Stats r) = 1 \<and> \<not> cr_Partial r"
proof -
  have "length (compared_hosts (ast_Hosts sample_actual) (dst_Hosts sample_desired)) = 1"
    "length (dst_Hosts sample_desired) = 1"
    "cycle_drifts (sv_registry sample_service) (cycle_id sample_deps 0) (sv_enabledComponents sample_service)
       (compared_hosts (ast_Hosts sample_actual) (dst_Hosts sample_desired)) = 1"
    "length (filter (host_no_data (sv_registry sample_service) (cycle_id sample_deps 0)
       (sv_enabledComponents sample_service)) (compared_hosts (ast_Hosts sample_actual) (dst_Hosts sample_desired))) = 0"
    "\<not> amd_IsPartial (ast_Metadata sample_actual)" "dmd_Ready (dst_Metadata sample_desired)"
    by code_simp+
  then show ?thesis
    using runCycle_stats [OF sample_answers, of sample_service "''manual''"] by (auto simp: Let_def)
qed

text \<open>
  C3: nothing is lost in a cycle whose fetches succeed: every drift found, and every enabled
  component without a detector on each compared host, ends as exactly one of a request sent,
  one suppressed, or an error, so there is at most one of these for each compared host and
  enabled component; and there is one error message per error counted.
\<close>
theorem runCycle_accounts:
  assumes "fst (inventory_call deps w) = Inr actual" and "fst (parser_call deps w) = Inr desired"
  shows "\<exists>r store w'. runCycle deps s trigger w = ((r, None), store, w') \<and>
    (let st = cr_Stats r
     in ds_DriftsFound st + ds_ComparedHosts st * unregistered (sv_registry s) (sv_enabledComponents s) =
          ds_ReconcileSent st + ds_ReconcileSuppressed st + ds_Errors st
        \<and> ds_ReconcileSent st + ds_ReconcileSuppressed st + ds_Errors st
            \<le> ds_ComparedHosts st * length (sv_enabledComponents s)
        \<and> ds_Errors st = length (cr_ErrorMessages r))"
  using runCycle_summary [OF assms, of s trigger] by (auto simp: Let_def)

theorem runCycle_accounts_witness:
  "\<exists>r store w'. runCycle sample_deps sample_service ''manual'' 0 = ((r, None), store, w')
     \<and> ds_DriftsFound (cr_Stats r) =
         ds_ReconcileSent (cr_Stats r) + ds_ReconcileSuppressed (cr_Stats r) + ds_Errors (cr_Stats r)"
proof -
  have "unregistered (sv_registry sample_service) (sv_enabledComponents sample_service) = 0" by code_simp
  then show ?thesis
    using runCycle_accounts [OF sample_answers, of sample_service "''manual''"] by (auto simp: Let_def)
qed


section \<open>The service around the cycle\<close>

lemma process_host_running: "process_host deps (s\<lparr>sv_running := b\<rparr>) = process_host deps s"
  by (rule ext)+ (simp add: process_host_def split: option.split)

lemma runCycle_running: "runCycle deps (s\<lparr>sv_running := b\<rparr>) trigger w = runCycle deps s trigger w"
proof -
  have "compare_states deps (s\<lparr>sv_running := b\<rparr>) a d r w = compare_states deps s a d r w" for a d r w
    by (simp add: compare_states_def process_host_running Let_def split: prod.split)
  then show ?thesis
    by (simp add: runCycle_def Let_def split: prod.split sum.split)
qed

text \<open>
  RunCycle on a service that is idle returns what runCycle returns, keeps the result,
  becomes ready when the cycle had no error and never stops being ready, and is idle again;
  while a cycle runs it fails at once, changes nothing and touches nothing outside.
\<close>
theorem RunCycle_lifecycle:
  "(sv_running s \<longrightarrow> RunCycle deps trigger (s, w) = ((zero_result, Some ErrCycleAlreadyRunning), s, w))
   \<and> (\<not> sv_running s \<longrightarrow>
       (let ((r, err), store, w') = runCycle deps s trigger w;
            (answer, s', w'') = RunCycle deps trigger (s, w)
        in answer = (r, err) \<and> w'' = w' \<and> \<not> sv_running s' \<and> sv_cooldownStore s' = store
           \<and> LastCycleResult s' = (r, True) \<and> IsReady_d s' = (IsReady_d s \<or> err = None)
           \<and> sv_registry s' = sv_registry s \<and> sv_enabledComponents s' = sv_enabledComponents s
           \<and> sv_reconcileCooldown s' = sv_reconcileCooldown s))"
proof -
  have "runCycle deps (s\<lparr>sv_running := b\<rparr>) trigger w = runCycle deps s trigger w" for b
    by (rule runCycle_running)
  then show ?thesis
    by (auto simp: RunCycle_def beginCycle_def finishCycle_def persistResult_def LastCycleResult_def
        IsReady_d_def Let_def split: prod.splits)
qed

theorem RunCycle_lifecycle_witness:
  "RunCycle sample_deps ''manual'' (sample_service\<lparr>sv_running := True\<rparr>, 0) =
     ((zero_result, Some ErrCycleAlreadyRunning), sample_service\<lparr>sv_running := True\<rparr>, 0)
   \<and> IsReady_d (fst (snd (RunCycle sample_deps ''manual'' (sample_service, 0))))"
proof -
  have "\<not> sv_running sample_service" by (simp add: sample_service_def NewService_d_def)
  moreover obtain r store w' where "runCycle sample_deps sample_service ''manual'' 0 = ((r, None), store, w')"
    using runCycle_ok [OF sample_answers] by blast
  ultimately show ?thesis
    using RunCycle_lifecycle [of sample_service sample_deps "''manual''" 0]
      RunCycle_lifecycle [of "sample_service\<lparr>sv_running := True\<rparr>" sample_deps "''manual''" 0]
    by (auto split: prod.splits)
qed

end
