(* ===== verification/Drift_Config.thy ===== *)
theory Drift_Config
  imports Drift_Clients Drift_Cycle Config_Common
begin

text \<open>
  DriftDetectorSvc, package config (internal/config/config.go) after viper has filled the
  structs, and the part of app.Run (internal/app/app.go) that turns a configuration into the
  detection service. The three client configurations have the same fields up to the name of
  the path and are one record; url.Parse is a parameter that gives scheme and host.
\<close>

section \<open>The configuration\<close>

record ServerConfig_d =
  sc_Host :: string
  sc_Port :: int

record LoggingConfig_d =
  lc_Level :: string

record DetectionConfig =
  dc_Interval :: int
  dc_EnabledComponents :: "string list"

record AntiSpamConfig =
  as_ReconcileCooldown :: int

record ClientsConfig =
  cc_Inventory :: ClientConfig
  cc_Parser :: ClientConfig
  cc_Reconciler :: ClientConfig

record Config_d =
  cfg_Server :: ServerConfig_d
  cfg_Logging :: LoggingConfig_d
  cfg_Detection :: DetectionConfig
  cfg_AntiSpam :: AntiSpamConfig
  cfg_Clients :: ClientsConfig

text \<open>
  The defaults, as viper fills them in for a file that sets nothing: durations are given as
  texts like 30s and arrive as nanoseconds.
\<close>

definition default_client :: "string \<Rightarrow> string \<Rightarrow> ClientConfig" where
  "default_client baseURL path = \<lparr>cl_BaseURL = baseURL, cl_Path = path, cl_Timeout = 5 * 10 ^ 9,
     cl_Retry = \<lparr>rt_MaxAttempts = 2, rt_Backoff = 300 * 10 ^ 6\<rparr>\<rparr>"

definition setDefaults_d :: Config_d where
  "setDefaults_d =
     \<lparr>cfg_Server = \<lparr>sc_Host = ''0.0.0.0'', sc_Port = 8080\<rparr>, cfg_Logging = \<lparr>lc_Level = ''info''\<rparr>,
      cfg_Detection = \<lparr>dc_Interval = 30 * 10 ^ 9, dc_EnabledComponents = [''node_exporter'', ''cadvisor'']\<rparr>,
      cfg_AntiSpam = \<lparr>as_ReconcileCooldown = 2 * 60 * 10 ^ 9\<rparr>,
      cfg_Clients =
        \<lparr>cc_Inventory = default_client ''http://localhost:8080'' ''/api/v1/hosts'',
         cc_Parser = default_client ''http://localhost:8082'' ''/api/v1/desired-state'',
         cc_Reconciler = default_client ''http://localhost:8083'' ''/api/v1/reconcile''\<rparr>\<rparr>"

section \<open>Normalisation\<close>

definition normalizePath :: "string \<Rightarrow> string" where
  "normalizePath path =
     (let trimmed = TrimSpace path
      in if trimmed = [] then []
         else if \<not> HasPrefix trimmed ''/'' then ''/'' @ trimmed
         else trimmed)"

text \<open>The loop over the enabled components: the result so far and what was seen.\<close>

definition normalize_component :: "string \<Rightarrow> string list \<times> string list \<Rightarrow> string list \<times> string list" where
  "normalize_component item acc =
     (let (normalized, seen) = acc; v = ToLower (TrimSpace item)
      in if v = [] then acc
         else if v \<in> set seen then acc
         else (normalized @ [v], v # seen))"

definition normalize_components :: "string list \<Rightarrow> string list" where
  "normalize_components items = fst (fold normalize_component items ([], []))"

definition normalize_client :: "ClientConfig \<Rightarrow> ClientConfig" where
  "normalize_client c =
     c\<lparr>cl_BaseURL := TrimRight_byte (CHR ''/'') (TrimSpace (cl_BaseURL c)), cl_Path := normalizePath (cl_Path c)\<rparr>"

definition normalize_d :: "Config_d \<Rightarrow> Config_d" where
  "normalize_d c =
     (let host = TrimSpace (sc_Host (cfg_Server c));
          level = ToLower (TrimSpace (lc_Level (cfg_Logging c)))
      in c\<lparr>cfg_Server := (cfg_Server c)\<lparr>sc_Host := if host = [] then ''0.0.0.0'' else host\<rparr>,
           cfg_Logging := \<lparr>lc_Level = if level = [] then ''info'' else level\<rparr>,
           cfg_Detection := (cfg_Detection c)
             \<lparr>dc_EnabledComponents := normalize_components (dc_EnabledComponents (cfg_Detection c))\<rparr>,
           cfg_Clients :=
             \<lparr>cc_Inventory = normalize_client (cc_Inventory (cfg_Clients c)),
              cc_Parser = normalize_client (cc_Parser (cfg_Clients c)),
              cc_Reconciler = normalize_client (cc_Reconciler (cfg_Clients c))\<rparr>\<rparr>)"

section \<open>Validation\<close>

definition validateHTTPClientConfig ::
  "(string \<Rightarrow> (string, string \<times> string) result) \<Rightarrow> string \<Rightarrow> ClientConfig \<Rightarrow> string list" where
  "validateHTTPClientConfig urlParse pre c =
     (let baseURL = cl_BaseURL c; path = cl_Path c
      in (if TrimSpace baseURL = [] then [pre @ ''.baseURL is required'']
          else (case urlParse baseURL of
                  Inl err \<Rightarrow> [pre @ ''.baseURL must be a valid absolute URL'']
                | Inr (scheme, host) \<Rightarrow>
                    if scheme = [] \<or> host = [] then [pre @ ''.baseURL must be a valid absolute URL''] else []))
       @ (if TrimSpace path = [] then [pre @ '' endpoint path is required'']
          else if \<not> HasPrefix path ''/'' then [pre @ '' endpoint path must start with '' @ [CHR 0x27, CHR ''/'', CHR 0x27]]
          else [])
       @ failed_checks
           [(cl_Timeout c \<le> 0, pre @ ''.timeout must be > 0''),
            (rt_MaxAttempts (cl_Retry c) \<le> 0, pre @ ''.retry.maxAttempts must be > 0''),
            (rt_Backoff (cl_Retry c) < 0, pre @ ''.retry.backoff must be >= 0'')])"

definition Validate_d :: "(string \<Rightarrow> (string, string \<times> string) result) \<Rightarrow> Config_d \<Rightarrow> string option" where
  "Validate_d urlParse c =
     (let port = sc_Port (cfg_Server c); components = dc_EnabledComponents (cfg_Detection c);
          errs =
            failed_checks
              [(TrimSpace (sc_Host (cfg_Server c)) = [], ''server.host is required''),
               (port \<le> 0 \<or> port > 65535, ''server.port must be in range [1..65535]''),
               (TrimSpace (lc_Level (cfg_Logging c)) = [], ''logging.level is required''),
               (dc_Interval (cfg_Detection c) \<le> 0, ''detection.interval must be > 0''),
               (as_ReconcileCooldown (cfg_AntiSpam c) < 0, ''antiSpam.reconcileCooldown must be >= 0''),
               (length components = 0, ''detection.enabledComponents must contain at least one component'')]
            @ concat (map (\<lambda>raw. case ParseComponent raw of
                  Inl err \<Rightarrow> [''detection.enabledComponents contains unsupported component: '' @ raw]
                | Inr cmp \<Rightarrow> []) components)
            @ validateHTTPClientConfig urlParse ''clients.inventory'' (cc_Inventory (cfg_Clients c))
            @ validateHTTPClientConfig urlParse ''clients.parser'' (cc_Parser (cfg_Clients c))
            @ validateHTTPClientConfig urlParse ''clients.reconciler'' (cc_Reconciler (cfg_Clients c))
      in config_error errs)"

definition Load_config ::
  "(string \<Rightarrow> (string, string) result) \<Rightarrow> (string \<Rightarrow> (string, Config_d) result)
     \<Rightarrow> (string \<Rightarrow> (string, string) result) \<Rightarrow> (string \<Rightarrow> (string, string \<times> string) result)
     \<Rightarrow> string \<Rightarrow> (string, Config_d \<times> string) result" where
  "Load_config readInConfig unmarshal filepathAbs urlParse =
     Load_with normalize_d (Validate_d urlParse) readInConfig unmarshal filepathAbs"

section \<open>Starting the service\<close>

fun parseEnabledComponents :: "string list \<Rightarrow> (string, Component list) result" where
  "parseEnabledComponents [] = Inr []"
| "parseEnabledComponents (item # items) =
     bind_result (ParseComponent item) (\<lambda>cmp.
       bind_result (parseEnabledComponents items) (\<lambda>cmps. Inr (cmp # cmps)))"

definition build_service :: "Config_d \<Rightarrow> (string, CooldownStore Service_d) result" where
  "build_service cfg =
     (case parseEnabledComponents (dc_EnabledComponents (cfg_Detection cfg)) of
        Inl err \<Rightarrow> Inl (''parse enabled components: '' @ err)
      | Inr enabledComponents \<Rightarrow>
          Inr (NewService_d app_registry NewStore_cd (as_ReconcileCooldown (cfg_AntiSpam cfg)) enabledComponents))"

section \<open>Lemmas\<close>

lemma HasPrefix_Cons: "HasPrefix s ''/'' \<longleftrightarrow> (\<exists>t. s = CHR ''/'' # t)"
  by (cases s) (auto simp: HasPrefix_def)

lemma normalizePath_cases: "normalizePath p = [] \<or> HasPrefix (normalizePath p) ''/''"
  by (auto simp: normalizePath_def HasPrefix_def Let_def)

lemma TrimRight_byte_no_suffix: "\<not> suffix [c] (TrimRight_byte c s)"
  using trim_right_stops [of "[[c]]" s]
  by (auto simp: TrimRight_byte_def starts_with_word_def suffix_to_prefix)

text \<open>What normalisation makes of the enabled components.\<close>

definition spelling :: "string \<Rightarrow> string" where
  "spelling item = ToLower (TrimSpace item)"

lemma spelling_idem [simp]: "spelling (spelling item) = spelling item"
  by (simp add: spelling_def TrimSpace_ToLower)

lemma fold_normalize_component:
  "set seen = set acc \<Longrightarrow> distinct acc \<Longrightarrow>
     (let (normalized, seen') = fold normalize_component items (acc, seen)
      in distinct normalized \<and> set seen' = set normalized
         \<and> set normalized = set acc \<union> (spelling ` set items - {[]}))"
proof (induction items arbitrary: acc seen)
  case (Cons item items)
  let ?v = "spelling item"
  consider "?v = [] \<or> ?v \<in> set seen" | "?v \<noteq> []" "?v \<notin> set seen" by blast
  then show ?case
  proof cases
    case 1
    then have "normalize_component item (acc, seen) = (acc, seen)"
      by (auto simp: normalize_component_def spelling_def Let_def)
    with Cons.IH [OF Cons.prems] Cons.prems 1 show ?thesis by (auto simp: Let_def split: prod.splits)
  next
    case 2
    then have "normalize_component item (acc, seen) = (acc @ [?v], ?v # seen)"
      by (simp add: normalize_component_def spelling_def Let_def)
    with Cons.IH [of "?v # seen" "acc @ [?v]"] Cons.prems 2 show ?thesis
      by (auto simp: Let_def split: prod.splits)
  qed
qed (simp add: Let_def)

lemma normalize_components_props:
  "distinct (normalize_components items)"
  "set (normalize_components items) = spelling ` set items - {[]}"
  using fold_normalize_component [of "[]" "[]" items]
  by (auto simp: normalize_components_def Let_def split: prod.splits)

lemma parseEnabledComponents_iff:
  "parseEnabledComponents items = Inr cs \<longleftrightarrow> list_all2 (\<lambda>item c. ParseComponent item = Inr c) items cs"
  by (induction items arbitrary: cs) (auto simp: bind_result_iffs list_all2_Cons1)

lemma parse_normalized:
  assumes "\<forall>raw \<in> set items. \<exists>c. ParseComponent raw = Inr c"
    and "set items \<subseteq> range spelling"
  shows "parseEnabledComponents items = Inr items"
proof -
  have "ParseComponent item = Inr item" if "item \<in> set items" for item
  proof -
    from that assms(2) have "spelling item = item" by auto
    moreover from that assms(1) obtain c where "ParseComponent item = Inr c" by blast
    ultimately show ?thesis by (auto simp: ParseComponent_Inr_iff spelling_def)
  qed
  then show ?thesis
    by (simp add: parseEnabledComponents_iff list_all2_same)
qed

definition client_ok :: "ClientConfig \<Rightarrow> bool" where
  "client_ok c \<longleftrightarrow>
     TrimSpace (cl_BaseURL c) \<noteq> [] \<and> \<not> suffix ''/'' (cl_BaseURL c) \<and> HasPrefix (cl_Path c) ''/''
     \<and> 0 < cl_Timeout c \<and> 0 < rt_MaxAttempts (cl_Retry c) \<and> 0 \<le> rt_Backoff (cl_Retry c)"

lemma validated_client:
  "validateHTTPClientConfig urlParse pre (normalize_client c) = [] \<Longrightarrow> client_ok (normalize_client c)"
  by (auto simp: validateHTTPClientConfig_def client_ok_def normalize_client_def TrimRight_byte_no_suffix
      Let_def split: if_splits)

lemma Load_config_Inr:
  "Load_config rd um fabs urlParse path = Inr (cfg, absPath) \<Longrightarrow>
     \<exists>c. cfg = normalize_d c \<and> Validate_d urlParse cfg = None"
  unfolding Load_config_def by (rule Load_with_Inr)

lemma validated_parts:
  assumes "Validate_d urlParse (normalize_d c) = None"
  defines "cfg \<equiv> normalize_d c"
  shows "list_all client_ok [cc_Inventory (cfg_Clients cfg), cc_Parser (cfg_Clients cfg), cc_Reconciler (cfg_Clients cfg)]"
    and "parseEnabledComponents (dc_EnabledComponents (cfg_Detection cfg)) = Inr (dc_EnabledComponents (cfg_Detection cfg))"
    and "dc_EnabledComponents (cfg_Detection cfg) \<noteq> []"
    and "0 < dc_Interval (cfg_Detection cfg)" and "0 \<le> as_ReconcileCooldown (cfg_AntiSpam cfg)"
    and "distinct (dc_EnabledComponents (cfg_Detection cfg))"
proof -
  let ?items = "dc_EnabledComponents (cfg_Detection cfg)"
  have items: "?items = normalize_components (dc_EnabledComponents (cfg_Detection c))"
    by (simp add: cfg_def normalize_d_def Let_def)
  note val = assms(1) [folded cfg_def, unfolded Validate_d_def Let_def, simplified]
  have clients: "cc_Inventory (cfg_Clients cfg) = normalize_client (cc_Inventory (cfg_Clients c))"
    "cc_Parser (cfg_Clients cfg) = normalize_client (cc_Parser (cfg_Clients c))"
    "cc_Reconciler (cfg_Clients cfg) = normalize_client (cc_Reconciler (cfg_Clients c))"
    by (simp_all add: cfg_def normalize_d_def Let_def)
  show "list_all client_ok [cc_Inventory (cfg_Clients cfg), cc_Parser (cfg_Clients cfg), cc_Reconciler (cfg_Clients cfg)]"
    using val by (auto simp: clients intro!: validated_client split: if_splits)
  show "?items \<noteq> []" "0 < dc_Interval (cfg_Detection cfg)" "0 \<le> as_ReconcileCooldown (cfg_AntiSpam cfg)"
    using val by (auto split: if_splits)
  show "distinct ?items" by (simp add: items normalize_components_props)
  have "set ?items \<subseteq> range spelling" by (auto simp: items normalize_components_props)
  moreover have "\<exists>c. ParseComponent raw = Inr c" if "raw \<in> set ?items" for raw
    using val that by (cases "ParseComponent raw") (auto split: if_splits)
  ultimately show "parseEnabledComponents ?items = Inr ?items"
    by (simp add: parse_normalized)
qed

lemma parsed_component:
  "parseEnabledComponents items = Inr cs \<Longrightarrow> c \<in> set cs \<Longrightarrow> c \<in> {ComponentNodeExporter, ComponentCadvisor}"
  by (auto simp: parseEnabledComponents_iff in_set_conv_nth list_all2_conv_all_nth ParseComponent_Inr_iff)

lemma parsed_registered:
  "parseEnabledComponents items = Inr cs \<Longrightarrow> unregistered app_registry cs = 0"
  using parsed_component [of items cs] by (auto simp: unregistered_def Get_app_registry filter_empty_conv)

lemma Load_config_service_aux:
  assumes "Load_config rd um fabs urlParse path = Inr (cfg, absPath)"
  shows "build_service cfg = Inr (NewService_d app_registry NewStore_cd (as_ReconcileCooldown (cfg_AntiSpam cfg))
      (dc_EnabledComponents (cfg_Detection cfg)))"
    and "unregistered app_registry (dc_EnabledComponents (cfg_Detection cfg)) = 0"
    and "set (dc_EnabledComponents (cfg_Detection cfg)) \<subseteq> {ComponentNodeExporter, ComponentCadvisor}"
proof -
  from Load_config_Inr [OF assms] obtain c where c: "cfg = normalize_d c" "Validate_d urlParse (normalize_d c) = None"
    by auto
  note parse = validated_parts(2) [OF c(2), folded c(1)]
  then show "build_service cfg = Inr (NewService_d app_registry NewStore_cd (as_ReconcileCooldown (cfg_AntiSpam cfg))
      (dc_EnabledComponents (cfg_Detection cfg)))"
    by (simp add: build_service_def)
  from parse show "unregistered app_registry (dc_EnabledComponents (cfg_Detection cfg)) = 0"
    by (rule parsed_registered)
  from parsed_component [OF parse]
  show "set (dc_EnabledComponents (cfg_Detection cfg)) \<subseteq> {ComponentNodeExporter, ComponentCadvisor}" by blast
qed

section \<open>Properties\<close>

text \<open>
  From a configuration that Load accepts the service is built: the components that Validate
  let through are parsed, each is known and none occurs twice, there is at least one, the
  registry has a detector for every one of them, the cooldown is not negative, the interval
  is positive, and every client has at least one attempt, an absolute path and a base URL
  without a trailing slash.
\<close>
theorem Load_config_service:
  assumes "Load_config rd um fabs urlParse path = Inr (cfg, absPath)"
  shows "\<exists>s. build_service cfg = Inr s
    \<and> sv_enabledComponents s = dc_EnabledComponents (cfg_Detection cfg)
    \<and> sv_enabledComponents s \<noteq> [] \<and> distinct (sv_enabledComponents s)
    \<and> set (sv_enabledComponents s) \<subseteq> {ComponentNodeExporter, ComponentCadvisor}
    \<and> unregistered (sv_registry s) (sv_enabledComponents s) = 0
    \<and> 0 \<le> sv_reconcileCooldown s \<and> \<not> sv_running s \<and> \<not> IsReady_d s
    \<and> 0 < dc_Interval (cfg_Detection cfg)
    \<and> list_all client_ok
        [cc_Inventory (cfg_Clients cfg), cc_Parser (cfg_Clients cfg), cc_Reconciler (cfg_Clients cfg)]"
proof -
  from Load_config_Inr [OF assms] obtain c where c: "cfg = normalize_d c" "Validate_d urlParse (normalize_d c) = None"
    by auto
  from validated_parts [OF c(2), folded c(1)] Load_config_service_aux [OF assms] show ?thesis
    by (simp add: NewService_d_def IsReady_d_def)
qed

definition sample_client :: "string \<Rightarrow> string \<Rightarrow> ClientConfig" where
  "sample_client base path = \<lparr>cl_BaseURL = base, cl_Path = path, cl_Timeout = 5000000000,
     cl_Retry = \<lparr>rt_MaxAttempts = 2, rt_Backoff = 300000000\<rparr>\<rparr>"

definition sample_config :: Config_d where
  "sample_config =
     \<lparr>cfg_Server = \<lparr>sc_Host = [], sc_Port = 8080\<rparr>, cfg_Logging = \<lparr>lc_Level = ''info''\<rparr>,
      cfg_Detection = \<lparr>dc_Interval = 30000000000,
        dc_EnabledComponents = ['' Node_Exporter'', ''cadvisor'', [], ''CADVISOR '']\<rparr>,
      cfg_AntiSpam = \<lparr>as_ReconcileCooldown = 120000000000\<rparr>,
      cfg_Clients =
        \<lparr>cc_Inventory = sample_client ''http://inventory/'' ''api/v1/hosts'',
         cc_Parser = sample_client ''http://parser'' ''/api/v1/desired-state'',
         cc_Reconciler = sample_client ''http://reconciler'' ''/api/v1/reconcile''\<rparr>\<rparr>"

abbreviation sample_load :: "(string, Config_d \<times> string) result" where
  "sample_load \<equiv> Load_config (\<lambda>p. Inr []) (\<lambda>s. Inr sample_config) (\<lambda>p. Inr p) (\<lambda>u. Inr (''http'', u)) ''app.yaml''"

theorem Load_config_service_witness:
  "\<exists>cfg s. sample_load = Inr (cfg, ''app.yaml'') \<and> build_service cfg = Inr s
     \<and> sv_enabledComponents s = [ComponentNodeExporter, ComponentCadvisor]
     \<and> unregistered (sv_registry s) (sv_enabledComponents s) = 0"
proof -
  have load: "sample_load = Inr (normalize_d sample_config, ''app.yaml'')" by code_simp
  have "dc_EnabledComponents (cfg_Detection (normalize_d sample_config)) = [ComponentNodeExporter, ComponentCadvisor]"
    by code_simp
  with load Load_config_service [OF load] show ?thesis by auto
qed

text \<open>The defaults are a configuration that starts as it is, when url.Parse takes its URLs.\<close>

lemma defaults_normal: "normalize_d setDefaults_d = setDefaults_d"
  by code_simp

lemma defaults_valid:
  assumes "list_all (\<lambda>u. \<exists>scheme host. urlParse u = Inr (scheme, host) \<and> scheme \<noteq> [] \<and> host \<noteq> [])
    [''http://localhost:8080'', ''http://localhost:8082'', ''http://localhost:8083'']"
  shows "Validate_d urlParse setDefaults_d = None"
proof -
  have texts: "TrimSpace ''0.0.0.0'' \<noteq> []" "TrimSpace ''info'' \<noteq> []"
    "ParseComponent ''node_exporter'' = Inr ComponentNodeExporter" "ParseComponent ''cadvisor'' = Inr ComponentCadvisor"
    "TrimSpace ''http://localhost:8080'' \<noteq> []" "TrimSpace ''http://localhost:8082'' \<noteq> []"
    "TrimSpace ''http://localhost:8083'' \<noteq> []" "TrimSpace ''/api/v1/hosts'' \<noteq> []"
    "TrimSpace ''/api/v1/desired-state'' \<noteq> []" "TrimSpace ''/api/v1/reconcile'' \<noteq> []"
    by code_simp+
  with assms show ?thesis
    by (auto simp: Validate_d_def validateHTTPClientConfig_def setDefaults_d_def default_client_def HasPrefix_def Let_def)
qed

end
