(* ===== verification/Drift_Sends.thy ===== *)
theory Drift_Sends
  imports Drift_Cycle
begin

text \<open>
  What a detection cycle does to the outside. To state which requests are sent, and when,
  the receiver and the cooldown store of the service are replaced by ones that also keep a
  list; the service only sees its interfaces, and \<open>RunCycle_recording\<close> shows that it
  behaves the same with them.
\<close>

section \<open>Invariants of the store through a cycle\<close>

definition dispatch_keeps :: "('c \<Rightarrow> bool) \<Rightarrow> ('w, 'c) Deps \<Rightarrow> int \<Rightarrow> bool" where
  "dispatch_keeps keep deps cd \<longleftrightarrow>
     (\<forall>c st. keep (lp_store st) \<longrightarrow> keep (lp_store (dispatch deps cd c st)))"

lemma detect_component_store:
  "dispatch_keeps keep deps cd \<Longrightarrow> keep (lp_store (fst acc)) \<Longrightarrow>
     keep (lp_store (fst (detect_component deps registry cd cid d a cmp acc)))"
  by (cases acc) (simp add: dispatch_keeps_def detect_component_verdict split: verdict.split)

lemma fold_detect_component_store:
  "dispatch_keeps keep deps cd \<Longrightarrow> keep (lp_store (fst acc)) \<Longrightarrow>
     keep (lp_store (fst (fold (detect_component deps registry cd cid d a) cs acc)))"
  by (induction cs arbitrary: acc) (simp_all add: detect_component_store)

lemma process_host_store:
  "dispatch_keeps keep deps (sv_reconcileCooldown s) \<Longrightarrow> keep (lp_store st) \<Longrightarrow>
     keep (lp_store (process_host deps s cid m n d st))"
  by (simp add: process_host_def fold_detect_component_store split: option.split)

lemma fold_process_host_store:
  "dispatch_keeps keep deps (sv_reconcileCooldown s) \<Longrightarrow> keep (lp_store st) \<Longrightarrow>
     keep (lp_store (fold (process_host deps s cid m n) ds st))"
  by (induction ds arbitrary: st) (simp_all add: process_host_store)

lemma compare_states_store:
  "dispatch_keeps keep deps (sv_reconcileCooldown s) \<Longrightarrow> keep (sv_cooldownStore s) \<Longrightarrow>
     keep (fst (snd (compare_states deps s actual desired r w)))"
  by (simp add: compare_states_def Let_def fold_process_host_store split: prod.split)

lemma runCycle_store:
  assumes "dispatch_keeps keep deps (sv_reconcileCooldown s)" and "keep (sv_cooldownStore s)"
  shows "keep (fst (snd (runCycle deps s trigger w)))"
proof -
  have "keep c" if "compare_states deps s actual desired r w = (r', c, w')" for actual desired r w r' c w'
    using compare_states_store [OF assms, of actual desired r w] that by simp
  then show ?thesis
    using assms(2) by (simp add: runCycle_def Let_def split: prod.split sum.split)
qed

section \<open>A store that keeps a list\<close>

definition recording :: "('w, 'c) Deps \<Rightarrow> ('w, 'c \<times> (string \<times> gotime) list) Deps" where
  "recording deps =
     \<lparr>dep_now = dep_now deps, dep_FetchActualState = dep_FetchActualState deps,
      dep_FetchDesiredState = dep_FetchDesiredState deps, dep_SendReconcile = dep_SendReconcile deps,
      dep_CanSend = (\<lambda>key now cd (s, sent). dep_CanSend deps key now cd s),
      dep_MarkSent = (\<lambda>key t (s, sent). (dep_MarkSent deps key t s, sent @ [(key, t)]))\<rparr>"

definition map_loop :: "('c \<Rightarrow> 'd) \<Rightarrow> ('w, 'c) Loop \<Rightarrow> ('w, 'd) Loop" where
  "map_loop f st =
     \<lparr>lp_world = lp_world st, lp_store = f (lp_store st), lp_result = lp_result st,
      lp_compareTimer = lp_compareTimer st, lp_compareDuration = lp_compareDuration st,
      lp_dispatchDuration = lp_dispatchDuration st\<rparr>"

definition map_service :: "('c \<Rightarrow> 'd) \<Rightarrow> 'c Service_d \<Rightarrow> 'd Service_d" where
  "map_service f s =
     \<lparr>sv_registry = sv_registry s, sv_cooldownStore = f (sv_cooldownStore s),
      sv_reconcileCooldown = sv_reconcileCooldown s, sv_enabledComponents = sv_enabledComponents s,
      sv_running = sv_running s, sv_ready = sv_ready s, sv_lastResult = sv_lastResult s,
      sv_hasResult = sv_hasResult s\<rparr>"

lemma recording_simps:
  "dep_now (recording deps) = dep_now deps" "since (recording deps) = since deps"
  "dep_FetchActualState (recording deps) = dep_FetchActualState deps"
  "dep_FetchDesiredState (recording deps) = dep_FetchDesiredState deps"
  "dep_SendReconcile (recording deps) = dep_SendReconcile deps"
  "dep_CanSend (recording deps) key now cd c = dep_CanSend deps key now cd (fst c)"
  "fst (dep_MarkSent (recording deps) key t c) = dep_MarkSent deps key t (fst c)"
  "finishResult (recording deps) = finishResult deps"
  by (simp_all add: recording_def since_def finishResult_def fun_eq_iff split: prod.split)

lemma map_loop_simps [simp]:
  "lp_world (map_loop f st) = lp_world st" "lp_store (map_loop f st) = f (lp_store st)"
  "lp_result (map_loop f st) = lp_result st" "lp_compareTimer (map_loop f st) = lp_compareTimer st"
  "lp_compareDuration (map_loop f st) = lp_compareDuration st"
  "lp_dispatchDuration (map_loop f st) = lp_dispatchDuration st"
  by (simp_all add: map_loop_def)

lemma map_service_simps [simp]:
  "sv_registry (map_service f s) = sv_registry s"
  "sv_cooldownStore (map_service f s) = f (sv_cooldownStore s)"
  "sv_reconcileCooldown (map_service f s) = sv_reconcileCooldown s"
  "sv_enabledComponents (map_service f s) = sv_enabledComponents s"
  "sv_running (map_service f s) = sv_running s"
  by (simp_all add: map_service_def)

lemma map_loop_result [simp]:
  "map_loop f (st\<lparr>lp_result := r\<rparr>) = map_loop f st\<lparr>lp_result := r\<rparr>"
  by (simp add: map_loop_def)

lemma dispatch_recording:
  "map_loop fst (dispatch (recording deps) cd c st) = dispatch deps cd c (map_loop fst st)"
  by (simp add: dispatch_def recording_simps map_loop_def Let_def split: prod.split sum.split)

lemma detect_component_recording:
  "map_prod (map_loop fst) id (detect_component (recording deps) registry cd cid d a cmp acc) =
     detect_component deps registry cd cid d a cmp (map_prod (map_loop fst) id acc)"
  by (cases acc) (simp add: detect_component_verdict dispatch_recording split: verdict.split)

lemma fold_detect_component_recording:
  "map_prod (map_loop fst) id (fold (detect_component (recording deps) registry cd cid d a) cs acc) =
     fold (detect_component deps registry cd cid d a) cs (map_prod (map_loop fst) id acc)"
  by (induction cs arbitrary: acc) (simp_all add: detect_component_recording)

lemma process_host_recording:
  "map_loop fst (process_host (recording deps) s cid m n d st) =
     process_host deps (map_service fst s) cid m n d (map_loop fst st)"
proof (cases "lookupActualHost d m n")
  case (Some a)
  then show ?thesis
    using fold_detect_component_recording [of deps "sv_registry s" "sv_reconcileCooldown s" cid d a
        "sv_enabledComponents s", THEN arg_cong, of fst]
    by (simp add: process_host_def)
qed (simp add: process_host_def)

lemma fold_process_host_recording:
  "map_loop fst (fold (process_host (recording deps) s cid m n) ds st) =
     fold (process_host deps (map_service fst s) cid m n) ds (map_loop fst st)"
  by (induction ds arbitrary: st) (simp_all add: process_host_recording)

lemma compare_states_recording:
  "compare_states deps (map_service fst s) actual desired r w =
     (let (r', c, w') = compare_states (recording deps) s actual desired r w in (r', fst c, w'))"
proof -
  have start: "\<lparr>lp_world = w1, lp_store = fst (sv_cooldownStore s), lp_result = r1, lp_compareTimer = t,
      lp_compareDuration = 0, lp_dispatchDuration = 0\<rparr> =
    map_loop fst \<lparr>lp_world = w1, lp_store = sv_cooldownStore s, lp_result = r1, lp_compareTimer = t,
      lp_compareDuration = 0, lp_dispatchDuration = 0\<rparr>" for w1 r1 t
    by (simp add: map_loop_def)
  show ?thesis
    by (simp add: compare_states_def Let_def recording_simps start fold_process_host_recording [symmetric]
        split: prod.split)
qed

lemma runCycle_recording:
  "runCycle deps (map_service fst s) trigger w =
     (let (r, c, w') = runCycle (recording deps) s trigger w in (r, fst c, w'))"
  by (simp add: runCycle_def recording_simps compare_states_recording Let_def split: prod.split sum.split)

lemma RunCycle_map_service:
  "RunCycle deps trigger (map_service fst s, w) =
     (let (r, s', w') = RunCycle (recording deps) trigger (s, w) in (r, map_service fst s', w'))"
proof -
  have "runCycle deps (map_service fst s\<lparr>sv_running := True\<rparr>) trigger w =
      (let (r, c, w') = runCycle (recording deps) (s\<lparr>sv_running := True\<rparr>) trigger w in (r, fst c, w'))"
    using runCycle_recording [of deps "s\<lparr>sv_running := True\<rparr>" trigger w] by (simp add: map_service_def)
  then show ?thesis
    by (simp add: RunCycle_def beginCycle_def finishCycle_def persistResult_def map_service_def Let_def
        split: prod.split)
qed

section \<open>Cycles one after the other\<close>

text \<open>The scheduler and the handler start cycles; this is a run of them.\<close>

definition run_cycles ::
  "('w, 'c) Deps \<Rightarrow> string list \<Rightarrow> 'c Service_d \<times> 'w \<Rightarrow> 'c Service_d \<times> 'w" where
  "run_cycles deps triggers st = fold (\<lambda>trigger st. snd (RunCycle deps trigger st)) triggers st"

text \<open>The dependencies with the cooldown store that app.Run puts in.\<close>

definition with_cooldown :: "('w, CooldownStore) Deps \<Rightarrow> ('w, CooldownStore) Deps" where
  "with_cooldown deps = deps\<lparr>dep_CanSend := CanSend, dep_MarkSent := MarkSent\<rparr>"

lemma dispatch_tracks:
  assumes "0 < cd" and "in_int64 cd"
  shows "dispatch_keeps (cooldown.tracks cd) (recording (with_cooldown deps)) cd"
  unfolding dispatch_keeps_def
proof (intro allI impI)
  fix c and st :: "('a, CooldownStore \<times> (string \<times> gotime) list) Loop"
  assume tracks: "cooldown.tracks cd (lp_store st)"
  obtain store sent where st: "lp_store st = (store, sent)" by fastforce
  show "cooldown.tracks cd (lp_store (dispatch (recording (with_cooldown deps)) cd c st))"
  proof (rule dispatch_cases [of "recording (with_cooldown deps)" c cd st])
    fix t
    assume can: "fst (dep_CanSend (recording (with_cooldown deps)) (dispatch_key c) (UTC t) cd (lp_store st))"
      and store': "lp_store (dispatch (recording (with_cooldown deps)) cd c st) =
        dep_MarkSent (recording (with_cooldown deps)) (dispatch_key c) (UTC t) (lp_store st)"
    from can have "guarded_send CanSend MarkSent cd (dispatch_key c, UTC t, True) (store, sent) =
        lp_store (dispatch (recording (with_cooldown deps)) cd c st)"
      unfolding store' by (simp add: guarded_send_def st recording_def with_cooldown_def)
    with cooldown.tracks_guarded_send [OF assms, of store sent "UTC t" "dispatch_key c" True] tracks st
    show ?thesis by simp
  qed (use tracks in simp_all)
qed

lemma RunCycle_store:
  assumes "dispatch_keeps keep deps (sv_reconcileCooldown s)" and "keep (sv_cooldownStore s)"
    and "RunCycle deps trigger (s, w) = (r, s', w')"
  shows "keep (sv_cooldownStore s') \<and> sv_reconcileCooldown s' = sv_reconcileCooldown s"
  using assms(2,3) runCycle_store [of keep deps "s\<lparr>sv_running := True\<rparr>" trigger w] assms(1)
  by (auto simp: RunCycle_def beginCycle_def finishCycle_def persistResult_def Let_def
      split: prod.splits if_splits)

lemma run_cycles_store:
  assumes "dispatch_keeps keep deps (sv_reconcileCooldown s)" and "keep (sv_cooldownStore s)"
  shows "keep (sv_cooldownStore (fst (run_cycles deps triggers (s, w))))"
  using assms
proof (induction triggers arbitrary: s w)
  case Nil
  then show ?case by (simp add: run_cycles_def)
next
  case (Cons trigger triggers)
  obtain r s' w' where run: "RunCycle deps trigger (s, w) = (r, s', w')" by (cases "RunCycle deps trigger (s, w)")
  from RunCycle_store [OF Cons.prems run] Cons.prems(1)
  have "keep (sv_cooldownStore (fst (run_cycles deps triggers (s', w'))))"
    by (intro Cons.IH) simp_all
  with run show ?case by (simp add: run_cycles_def)
qed

section \<open>Properties\<close>

text \<open>
  The service cannot tell a cooldown store from one that also keeps the list of the
  marks: with either, RunCycle returns the same result and error, leaves the same service
  behind and does the same to the outside world.
\<close>
theorem RunCycle_recording:
  "RunCycle deps trigger (map_service fst s, w) =
     (let (r, s', w') = RunCycle (recording deps) trigger (s, w) in (r, map_service fst s', w'))"
  by (rule RunCycle_map_service)


abbreviation recorded_service where
  "recorded_service \<equiv> NewService_d app_registry (NewStore_cd, []) 20000 [ComponentCadvisor]"


end
