(* ===== verification/Drift_App.thy ===== *)
theory Drift_App
  imports Drift_Config Drift_Sends Scheduler
begin

text \<open>
  DriftDetectorSvc, package httpapi (internal/transport/http: handlers.go, dto.go) and what
  app.Run (internal/app/app.go) does with the service: a first cycle, the periodic task of
  the scheduler, and the handlers. A handler is a function to the status code and payload.
\<close>

section \<open>Transfer objects\<close>

record ReadinessResponse_d =
  rrd_Status :: string
  rrd_LastCycleID :: string
  rrd_LastCycleAt :: "gotime option"
  rrd_LastCyclePartial :: bool

record DetectionCycleDTO =
  cd_CycleID :: string
  cd_Trigger :: string
  cd_StartedAt :: gotime
  cd_FinishedAt :: gotime
  cd_DurationMs :: int
  cd_StageTimings :: DetectionStageTimings
  cd_Partial :: bool
  cd_InventoryMarkedPartial :: bool
  cd_ParserReady :: bool
  cd_Stats :: DetectionStats
  cd_Warnings :: "string list"
  cd_ErrorMessages :: "string list"

record DetectionRunResponse =
  drr_Status :: string
  drr_Result :: DetectionCycleDTO

datatype payload_d =
    Health_d string
  | Readiness_d ReadinessResponse_d
  | APIError_d string
  | DetectionRun_d DetectionRunResponse

definition toDetectionCycleDTO :: "DetectionCycleResult \<Rightarrow> DetectionCycleDTO" where
  "toDetectionCycleDTO r =
     \<lparr>cd_CycleID = cr_CycleID r, cd_Trigger = cr_Trigger r, cd_StartedAt = cr_StartedAt r,
      cd_FinishedAt = cr_FinishedAt r, cd_DurationMs = cr_DurationMs r,
      cd_StageTimings = cr_StageTimings r, cd_Partial = cr_Partial r,
      cd_InventoryMarkedPartial = cr_InventoryMarkedPartial r, cd_ParserReady = cr_ParserReady r,
      cd_Stats = cr_Stats r, cd_Warnings = cr_Warnings r, cd_ErrorMessages = cr_ErrorMessages r\<rparr>"

section \<open>Handlers\<close>

fun cycle_error_text :: "cycle_error \<Rightarrow> string" where
  "cycle_error_text ErrCycleAlreadyRunning = ''detection cycle already running''"
| "cycle_error_text (Fetch_actual_state e) = ''fetch actual state from inventory: '' @ e"
| "cycle_error_text (Fetch_desired_state e) = ''fetch desired state from parser: '' @ e"

definition Healthz_d :: "nat \<times> payload_d" where
  "Healthz_d = (200, Health_d ''ok'')"

text \<open>The handler asks the service twice; the two answers may come from different states.\<close>

definition Readyz_d :: "'c Service_d \<Rightarrow> 'c Service_d \<Rightarrow> nat \<times> payload_d" where
  "Readyz_d s s' =
     (let (lastResult, hasResult) = LastCycleResult s;
          response = \<lparr>rrd_Status = ''ready'', rrd_LastCycleID = [], rrd_LastCycleAt = None,
            rrd_LastCyclePartial = False\<rparr>;
          response = (if hasResult then
              response\<lparr>rrd_LastCycleID := cr_CycleID lastResult,
                rrd_LastCycleAt := Some (UTC (cr_FinishedAt lastResult)),
                rrd_LastCyclePartial := cr_Partial lastResult\<rparr>
            else response)
      in if \<not> IsReady_d s' then (503, Readiness_d (response\<lparr>rrd_Status := ''not_ready''\<rparr>))
         else (200, Readiness_d response))"

definition RunDetectionCycle ::
  "('w, 'c) Deps \<Rightarrow> 'c Service_d \<times> 'w \<Rightarrow> (nat \<times> payload_d) \<times> 'c Service_d \<times> 'w" where
  "RunDetectionCycle deps state =
     (let ((result, err), state') = RunCycle deps ''manual_api'' state
      in (case err of
            Some e \<Rightarrow>
              if e = ErrCycleAlreadyRunning then (409, APIError_d ''detection cycle already running'')
              else (502, APIError_d (cycle_error_text e))
          | None \<Rightarrow> (200, DetectionRun_d \<lparr>drr_Status = ''completed'', drr_Result = toDetectionCycleDTO result\<rparr>),
          state'))"

section \<open>The application\<close>

text \<open>The first cycle of app.Run; an error is only logged.\<close>

definition startup_cycle :: "('w, 'c) Deps \<Rightarrow> 'c Service_d \<times> 'w \<Rightarrow> 'c Service_d \<times> 'w" where
  "startup_cycle deps state = snd (RunCycle deps ''startup'' state)"

definition scheduled_cycle ::
  "('w, 'c) Deps \<Rightarrow> 'c Service_d \<times> 'w \<Rightarrow> string option \<times> 'c Service_d \<times> 'w" where
  "scheduled_cycle deps state =
     (let ((_, runErr), state') = RunCycle deps ''scheduler'' state
      in (if runErr = Some ErrCycleAlreadyRunning then None else map_option cycle_error_text runErr, state'))"

section \<open>A history of cycles\<close>

fun outcomes ::
  "('w, 'c) Deps \<Rightarrow> string list \<Rightarrow> 'c Service_d \<times> 'w \<Rightarrow> (DetectionCycleResult \<times> cycle_error option) list" where
  "outcomes deps [] st = []"
| "outcomes deps (trigger # triggers) st =
     (let (answer, st') = RunCycle deps trigger st in answer # outcomes deps triggers st')"

definition succeeded :: "DetectionCycleResult \<times> cycle_error option \<Rightarrow> bool" where
  "succeeded answer \<longleftrightarrow> snd answer = None"

lemma length_outcomes [simp]: "length (outcomes deps triggers st) = length triggers"
  by (induction triggers arbitrary: st) (simp_all split: prod.split)

lemma RunCycle_idle:
  assumes "\<not> sv_running s" and "RunCycle deps trigger (s, w) = ((r, err), s', w')"
  shows "\<not> sv_running s' \<and> LastCycleResult s' = (r, True) \<and> (IsReady_d s' \<longleftrightarrow> IsReady_d s \<or> err = None)"
  using assms
  by (auto simp: RunCycle_def beginCycle_def finishCycle_def persistResult_def LastCycleResult_def
      IsReady_d_def Let_def split: prod.splits)

lemma run_cycles_Cons: "run_cycles deps (trigger # triggers) st = run_cycles deps triggers (snd (RunCycle deps trigger st))"
  by (simp add: run_cycles_def)

lemma run_cycles_history:
  "\<not> sv_running s \<Longrightarrow> run_cycles deps triggers (s, w) = (s', w') \<Longrightarrow>
     \<not> sv_running s'
     \<and> (IsReady_d s' \<longleftrightarrow> IsReady_d s \<or> list_ex succeeded (outcomes deps triggers (s, w)))
     \<and> LastCycleResult s' =
         (if triggers = [] then LastCycleResult s else (fst (last (outcomes deps triggers (s, w))), True))"
proof (induction triggers arbitrary: s w)
  case Nil
  then show ?case by (simp add: run_cycles_def)
next
  case (Cons trigger triggers)
  obtain r err s1 w1 where run: "RunCycle deps trigger (s, w) = ((r, err), s1, w1)"
    by (metis prod.exhaust)
  note idle = RunCycle_idle [OF Cons.prems(1) run]
  from Cons.prems(2) run have "run_cycles deps triggers (s1, w1) = (s', w')" by (simp add: run_cycles_Cons)
  from Cons.IH [OF _ this] idle run show ?case
    by (cases triggers) (auto simp: succeeded_def Let_def split: prod.splits)
qed

lemma funpow_scheduled_cycle:
  "((\<lambda>st. snd (scheduled_cycle deps st)) ^^ n) st = run_cycles deps (replicate n ''scheduler'') st"
proof (induction n arbitrary: st)
  case (Suc n)
  have "snd (scheduled_cycle deps st) = snd (RunCycle deps ''scheduler'' st)"
    by (simp add: scheduled_cycle_def Let_def split: prod.split)
  with Suc show ?case by (simp add: funpow_Suc_right run_cycles_Cons del: funpow.simps)
qed (simp add: run_cycles_def)

interpretation drift_schedule: periodic_task "scheduled_cycle deps" "\<lambda>(s, w). \<not> sv_running s"
  for deps :: "('w, 'c) Deps"
proof
  fix st :: "'c Service_d \<times> 'w"
  assume "case st of (s, w) \<Rightarrow> \<not> sv_running s"
  then show "case snd (scheduled_cycle deps st) of (s, w) \<Rightarrow> \<not> sv_running s"
    using RunCycle_idle [of "fst st" deps "''scheduler''" "snd st"]
    by (auto simp: scheduled_cycle_def Let_def split: prod.splits)
qed

section \<open>Properties\<close>




end
