(* ===== verification/Logger.thy ===== *)
theory Logger
  imports Prelude
begin

text \<open>
  Package logger of the three services (internal/logger/logger.go, the same code three
  times): which levels New takes. Building the zap logger is a parameter; what is logged is
  not modelled.
\<close>

datatype log_level = DebugLevel | InfoLevel | WarnLevel | ErrorLevel

definition New_logger :: "(log_level \<Rightarrow> (string, 'l) result) \<Rightarrow> string \<Rightarrow> (string, 'l) result" where
  "New_logger build level =
     (let normalized = ToLower (TrimSpace level)
      in if normalized = ''debug'' then build DebugLevel
         else if normalized = ''info'' \<or> normalized = [] then build InfoLevel
         else if normalized = ''warn'' \<or> normalized = ''warning'' then build WarnLevel
         else if normalized = ''error'' then build ErrorLevel
         else Inl (''unsupported log level: '' @ level))"

definition supported_level :: "string \<Rightarrow> bool" where
  "supported_level level \<longleftrightarrow>
     ToLower (TrimSpace level) \<in> {''debug'', ''info'', [], ''warn'', ''warning'', ''error''}"

lemma New_logger_supported:
  "supported_level level \<Longrightarrow> \<exists>l. New_logger build level = build l"
  "\<not> supported_level level \<Longrightarrow> New_logger build level = Inl (''unsupported log level: '' @ level)"
  by (auto simp: New_logger_def supported_level_def Let_def)

end
