(* ===== verification/Http_Server.thy ===== *)
theory Http_Server
  imports Prelude
begin

text \<open>
  The end of app.Run (internal/app/app.go), the same in the three services: a goroutine
  runs the HTTP server and sends its error on a channel of capacity one, and Run waits for
  the end of the context or for that error. The steps of the two goroutines and of their
  surroundings interleave; net/http enters through what it documents: ListenAndServe returns
  ErrServerClosed once Shutdown was called, any other error at any time, and Shutdown
  returns, at the latest when its context of ten seconds ends.
\<close>

datatype serve_error = ErrServerClosed | Serve_failed string

datatype server_goroutine = Listening | Sending string | Exited

datatype main_goroutine = Selecting | Shutting_down | Returned "string option"

text \<open>The last two fields say what happened: the error of the listener, and a call of Shutdown.\<close>

record server =
  srv_ctxDone :: bool
  srv_goroutine :: server_goroutine
  srv_errCh :: "string option"
  srv_main :: main_goroutine
  srv_closed :: bool
  srv_failed :: "string option"

definition started_server :: "bool \<Rightarrow> server" where
  "started_server ctxDone = \<lparr>srv_ctxDone = ctxDone, srv_goroutine = Listening, srv_errCh = None,
     srv_main = Selecting, srv_closed = False, srv_failed = None\<rparr>"

text \<open>What the goroutine does with the error of ListenAndServe.\<close>

definition after_listen :: "serve_error \<Rightarrow> server_goroutine" where
  "after_listen err = (case err of ErrServerClosed \<Rightarrow> Exited | Serve_failed e \<Rightarrow> Sending e)"

definition server_error :: "string \<Rightarrow> string" where
  "server_error err = ''http server error: '' @ err"

text \<open>The surroundings: a signal ends the context, the listener breaks.\<close>

inductive surroundings :: "server \<Rightarrow> server \<Rightarrow> bool" where
  cancel: "\<not> srv_ctxDone s \<Longrightarrow> surroundings s (s\<lparr>srv_ctxDone := True\<rparr>)"
| listen_fails: "srv_goroutine s = Listening \<Longrightarrow>
    surroundings s (s\<lparr>srv_goroutine := after_listen (Serve_failed e), srv_failed := Some e\<rparr>)"

text \<open>The program: the goroutine and Run. Sending waits while the channel is full.\<close>

inductive program :: "server \<Rightarrow> server \<Rightarrow> bool" where
  listen_closed: "srv_goroutine s = Listening \<Longrightarrow> srv_closed s \<Longrightarrow>
    program s (s\<lparr>srv_goroutine := after_listen ErrServerClosed\<rparr>)"
| send: "srv_goroutine s = Sending e \<Longrightarrow> srv_errCh s = None \<Longrightarrow>
    program s (s\<lparr>srv_goroutine := Exited, srv_errCh := Some e\<rparr>)"
| select_done: "srv_main s = Selecting \<Longrightarrow> srv_ctxDone s \<Longrightarrow>
    program s (s\<lparr>srv_main := Shutting_down, srv_closed := True\<rparr>)"
| select_error: "srv_main s = Selecting \<Longrightarrow> srv_errCh s = Some e \<Longrightarrow>
    program s (s\<lparr>srv_main := Returned (Some (server_error e)), srv_errCh := None\<rparr>)"
| shutdown: "srv_main s = Shutting_down \<Longrightarrow> program s (s\<lparr>srv_main := Returned r\<rparr>)"

inductive_cases surroundingsE: "surroundings s s'"
inductive_cases programE: "program s s'"

inductive server_reach :: "server \<Rightarrow> bool" where
  start: "server_reach (started_server d)"
| around: "server_reach s \<Longrightarrow> surroundings s s' \<Longrightarrow> server_reach s'"
| within: "server_reach s \<Longrightarrow> program s s' \<Longrightarrow> server_reach s'"

section \<open>The invariant\<close>

text \<open>
  The channel is empty while there is something to send; what was sent, and what Run
  returned because of it, is the error of the listener; Run calls Shutdown only when the
  context has ended.
\<close>

definition server_inv :: "server \<Rightarrow> bool" where
  "server_inv s \<longleftrightarrow>
     (case srv_goroutine s of
        Listening \<Rightarrow> srv_errCh s = None \<and> srv_failed s = None
      | Sending e \<Rightarrow> srv_errCh s = None \<and> srv_failed s = Some e
      | Exited \<Rightarrow> srv_failed s \<noteq> None \<or> srv_closed s)
     \<and> (case srv_errCh s of None \<Rightarrow> True | Some e \<Rightarrow> srv_failed s = Some e)
     \<and> (case srv_main s of
          Selecting \<Rightarrow> \<not> srv_closed s
        | Shutting_down \<Rightarrow> srv_closed s
        | Returned r \<Rightarrow> srv_closed s \<or> srv_goroutine s = Exited \<and> srv_errCh s = None
            \<and> (\<exists>e. srv_failed s = Some e \<and> r = Some (server_error e)))
     \<and> (srv_closed s \<longrightarrow> srv_ctxDone s)
     \<and> (srv_main s = Selecting \<longrightarrow> srv_goroutine s = Exited \<longrightarrow> srv_errCh s \<noteq> None)"

lemma program_inv: "program s s' \<Longrightarrow> server_inv s \<Longrightarrow> server_inv s'"
  by (cases rule: program.cases)
    (cases "srv_goroutine s"; cases "srv_main s"; cases "srv_errCh s"; force simp: server_inv_def after_listen_def)+

lemma server_inv: "server_reach s \<Longrightarrow> server_inv s"
proof (induction rule: server_reach.induct)
  case (start d)
  then show ?case by (simp add: server_inv_def started_server_def)
next
  case (around s s')
  from around.hyps(2) around.IH show ?case
    by (cases rule: surroundings.cases)
      (cases "srv_goroutine s"; cases "srv_main s"; cases "srv_errCh s"; force simp: server_inv_def after_listen_def)+
next
  case (within s s')
  then show ?case by (simp add: program_inv)
qed

section \<open>Progress\<close>

text \<open>What the program has left to do.\<close>

definition work_left :: "server \<Rightarrow> nat" where
  "work_left s =
     (case srv_goroutine s of Listening \<Rightarrow> 2 | Sending e \<Rightarrow> 1 | Exited \<Rightarrow> 0)
     + (case srv_main s of Selecting \<Rightarrow> 2 | Shutting_down \<Rightarrow> 1 | Returned r \<Rightarrow> 0)"

lemma work_left_le: "work_left s \<le> 4"
  by (simp add: work_left_def split: server_goroutine.split main_goroutine.split)

lemma program_works: "program s s' \<Longrightarrow> work_left s' < work_left s"
  by (cases rule: program.cases) (auto simp: work_left_def after_listen_def)

interpretation program: settling program work_left server_inv
  by unfold_locales (fact program_works, fact program_inv)

definition idle :: "server \<Rightarrow> bool" where
  "idle s \<longleftrightarrow> srv_main s = Selecting \<and> srv_goroutine s = Listening \<and> srv_errCh s = None \<and> \<not> srv_ctxDone s"

definition finished :: "server \<Rightarrow> bool" where
  "finished s \<longleftrightarrow> srv_goroutine s = Exited \<and> (case srv_main s of Returned r \<Rightarrow> True | _ \<Rightarrow> False)"

lemma stuck_cases:
  assumes "server_inv s" and "\<And>s'. \<not> program s s'"
  shows "idle s \<or> finished s"
proof -
  have main: "srv_main s \<noteq> Shutting_down" "\<not> (srv_main s = Selecting \<and> srv_ctxDone s)"
    "\<not> (srv_main s = Selecting \<and> srv_errCh s \<noteq> None)"
    and gor: "\<not> (srv_goroutine s = Listening \<and> srv_closed s)" "\<not> (srv_goroutine s = Sending e \<and> srv_errCh s = None)" for e
    using assms(2) program.intros by (blast, blast, blast, blast, blast)
  with assms(1) show ?thesis
    by (cases "srv_goroutine s"; cases "srv_main s") (auto simp: server_inv_def idle_def finished_def)
qed

lemma program_keeps: "program s s' \<Longrightarrow> srv_ctxDone s' = srv_ctxDone s \<and> srv_failed s' = srv_failed s"
  by (cases rule: program.cases) auto

lemma programs_keep:
  "program\<^sup>*\<^sup>* s s' \<Longrightarrow> (server_reach s \<longrightarrow> server_reach s') \<and> srv_ctxDone s' = srv_ctxDone s \<and> srv_failed s' = srv_failed s"
  by (induction rule: rtranclp_induct) (auto simp: program_keeps intro: server_reach.within)

lemma nothing_happened:
  assumes "server_inv s" and "\<not> srv_ctxDone s" and "srv_failed s = None"
  shows "idle s"
  using assms by (cases "srv_goroutine s"; cases "srv_main s") (auto simp: server_inv_def idle_def)

lemma idle_stuck: "idle s \<Longrightarrow> server_inv s \<Longrightarrow> \<not> program s s'"
  by (auto simp: idle_def server_inv_def elim: programE)

lemma idle_failed: "idle s \<Longrightarrow> server_inv s \<Longrightarrow> srv_failed s = None \<and> \<not> srv_ctxDone s"
  by (auto simp: idle_def server_inv_def)

lemma run_outcomes:
  assumes "server_reach s" and "srv_main s = Returned r"
  shows "srv_ctxDone s \<and> srv_closed s \<or> (\<exists>e. srv_failed s = Some e \<and> r = Some (server_error e))"
  using server_inv [OF assms(1)] assms(2) by (auto simp: server_inv_def)

section \<open>Properties\<close>



end
