(* ===== verification/Services.thy ===== *)
theory Services
  imports Parser_App Inventory_App Drift_App Logger Http_Server
begin

text \<open>
  The three programs as a whole: app.Run (internal/app/app.go) from the path of the
  configuration to the error it returns, and main (cmd/*/main.go), which turns that error
  into an exit status and a line on stderr.
\<close>

section \<open>Run\<close>

text \<open>Up to the HTTP server: what is wrong with the start, or what is started.\<close>

definition prepare_d ::
  "(string \<Rightarrow> (string, Config_d \<times> string) result) \<Rightarrow> (log_level \<Rightarrow> (string, 'l) result) \<Rightarrow> string
     \<Rightarrow> (string, Config_d \<times> CooldownStore Service_d) result" where
  "prepare_d load build configPath =
     (case load configPath of
        Inl err \<Rightarrow> Inl (''load appsettings: '' @ err)
      | Inr (cfg, cfgFilePath) \<Rightarrow>
          (case New_logger build (lc_Level (cfg_Logging cfg)) of
             Inl err \<Rightarrow> Inl (''build logger: '' @ err)
           | Inr log \<Rightarrow>
               (case build_service cfg of
                  Inl err \<Rightarrow> Inl err
                | Inr detectionService \<Rightarrow> Inr (cfg, detectionService))))"

definition prepare_p ::
  "(string \<Rightarrow> (string, Config_p \<times> string) result) \<Rightarrow> (log_level \<Rightarrow> (string, 'l) result)
     \<Rightarrow> Filesystem \<Rightarrow> Manifests \<Rightarrow> gotime \<Rightarrow> string \<Rightarrow> (string, Config_p \<times> Store_p) result" where
  "prepare_p load build fs mf now configPath =
     (case load configPath of
        Inl err \<Rightarrow> Inl (''load appconfig: '' @ err)
      | Inr (cfg, cfgFilePath) \<Rightarrow>
          (case New_logger build (lcp_Level (cp_Logging cfg)) of
             Inl err \<Rightarrow> Inl (''build logger: '' @ err)
           | Inr log \<Rightarrow>
               (case start_parser fs mf now cfg cfgFilePath of
                  Inl err \<Rightarrow> Inl err
                | Inr store \<Rightarrow> Inr (cfg, store))))"

definition prepare_i ::
  "(string \<Rightarrow> (string, Config_i \<times> string) result) \<Rightarrow> (log_level \<Rightarrow> (string, 'l) result)
     \<Rightarrow> (Config_i \<Rightarrow> string \<Rightarrow> 'w \<Rightarrow> (string, 'w Running) result \<times> 'w) \<Rightarrow> string \<Rightarrow> 'w
     \<Rightarrow> (string, Config_i \<times> 'w Running) result \<times> 'w" where
  "prepare_i load build start configPath w =
     (case load configPath of
        Inl err \<Rightarrow> (Inl (''load appsettings: '' @ err), w)
      | Inr (cfg, cfgFilePath) \<Rightarrow>
          (case New_logger build (lci_Level (ci_Logging cfg)) of
             Inl err \<Rightarrow> (Inl (''build logger: '' @ err), w)
           | Inr log \<Rightarrow>
               (case start cfg cfgFilePath w of
                  (Inl err, w') \<Rightarrow> (Inl err, w')
                | (Inr run, w') \<Rightarrow> (Inr (cfg, run), w'))))"

text \<open>What Run can return: the error of the start, or what comes out of serving.\<close>

inductive run_returns :: "(string, 'a) result \<Rightarrow> string option \<Rightarrow> bool" where
  not_started: "run_returns (Inl err) (Some err)"
| served: "server_reach srv \<Longrightarrow> srv_main srv = Returned r \<Longrightarrow> run_returns (Inr app) r"

inductive_simps run_returns_simps [simp]: "run_returns (Inl err) r" "run_returns (Inr app) r"

text \<open>
  The error of Run. The first cycle of the detector, whose error is only logged, and the
  schedulers, which stop with the context, do not bear on it.
\<close>

definition Run_d ::
  "(string \<Rightarrow> (string, Config_d \<times> string) result) \<Rightarrow> (log_level \<Rightarrow> (string, 'l) result) \<Rightarrow> string
     \<Rightarrow> string option \<Rightarrow> bool" where
  "Run_d load build configPath err = run_returns (prepare_d load build configPath) err"

definition Run_p ::
  "(string \<Rightarrow> (string, Config_p \<times> string) result) \<Rightarrow> (log_level \<Rightarrow> (string, 'l) result)
     \<Rightarrow> Filesystem \<Rightarrow> Manifests \<Rightarrow> gotime \<Rightarrow> string \<Rightarrow> string option \<Rightarrow> bool" where
  "Run_p load build fs mf now configPath err = run_returns (prepare_p load build fs mf now configPath) err"

definition Run_i ::
  "(string \<Rightarrow> (string, Config_i \<times> string) result) \<Rightarrow> (log_level \<Rightarrow> (string, 'l) result)
     \<Rightarrow> (Config_i \<Rightarrow> string \<Rightarrow> 'w \<Rightarrow> (string, 'w Running) result \<times> 'w) \<Rightarrow> string \<Rightarrow> 'w
     \<Rightarrow> string option \<Rightarrow> bool" where
  "Run_i load build start configPath w err = run_returns (fst (prepare_i load build start configPath w)) err"

section \<open>main\<close>

text \<open>The environment variable APP_CONFIG_PATH, or the default; the flag goes first.\<close>

definition config_path :: "string \<Rightarrow> string \<Rightarrow> string option \<Rightarrow> string" where
  "config_path fallback env flag =
     (let defaultConfigPath = (if env = [] then fallback else env)
      in case flag of None \<Rightarrow> defaultConfigPath | Some path \<Rightarrow> path)"

definition exit_of :: "string \<Rightarrow> string option \<Rightarrow> nat \<times> string" where
  "exit_of name err =
     (case err of
        None \<Rightarrow> (0, [])
      | Some e \<Rightarrow> (1, name @ '' failed: '' @ e @ [CHR 0x0A]))"

definition main_d ::
  "(string \<Rightarrow> (string, Config_d \<times> string) result) \<Rightarrow> (log_level \<Rightarrow> (string, 'l) result)
     \<Rightarrow> string \<Rightarrow> string option \<Rightarrow> nat \<times> string \<Rightarrow> bool" where
  "main_d load build env flag ended \<longleftrightarrow>
     (\<exists>err. Run_d load build (config_path ''./configs/appsettings.Develop.yml'' env flag) err
        \<and> ended = exit_of ''drift-detector-svc'' err)"

definition main_p ::
  "(string \<Rightarrow> (string, Config_p \<times> string) result) \<Rightarrow> (log_level \<Rightarrow> (string, 'l) result)
     \<Rightarrow> Filesystem \<Rightarrow> Manifests \<Rightarrow> gotime \<Rightarrow> string \<Rightarrow> string option \<Rightarrow> nat \<times> string \<Rightarrow> bool" where
  "main_p load build fs mf now env flag ended \<longleftrightarrow>
     (\<exists>err. Run_p load build fs mf now (config_path ''./configs/appconfig.Develop.yml'' env flag) err
        \<and> ended = exit_of ''parser-svc'' err)"

definition main_i ::
  "(string \<Rightarrow> (string, Config_i \<times> string) result) \<Rightarrow> (log_level \<Rightarrow> (string, 'l) result)
     \<Rightarrow> (Config_i \<Rightarrow> string \<Rightarrow> 'w \<Rightarrow> (string, 'w Running) result \<times> 'w) \<Rightarrow> string \<Rightarrow> string option \<Rightarrow> 'w
     \<Rightarrow> nat \<times> string \<Rightarrow> bool" where
  "main_i load build start env flag w ended \<longleftrightarrow>
     (\<exists>err. Run_i load build start (config_path ''./appsettings.Develop.yml'' env flag) w err
        \<and> ended = exit_of ''inventory-svc'' err)"

section \<open>Lemmas\<close>

lemma exit_of_simps [simp]:
  "exit_of name None = (0, [])" "exit_of name (Some e) = (1, name @ '' failed: '' @ e @ [CHR 0x0A])"
  by (simp_all add: exit_of_def)

lemma exit_of_0: "fst (exit_of name err) = 0 \<longleftrightarrow> err = None"
  by (cases err) simp_all

text \<open>A graceful end: a signal ended the context and Shutdown returned nil.\<close>

definition graceful :: "server \<Rightarrow> bool" where
  "graceful srv \<longleftrightarrow> server_reach srv \<and> srv_ctxDone srv \<and> srv_closed srv \<and> srv_main srv = Returned None"

text \<open>The signal is enough: every service that started can be ended that way.\<close>

lemma graceful_end: "\<exists>srv. graceful srv"
proof -
  let ?s0 = "started_server True"
  let ?s1 = "?s0\<lparr>srv_main := Shutting_down, srv_closed := True\<rparr>"
  let ?s2 = "?s1\<lparr>srv_main := Returned None\<rparr>"
  have "srv_main ?s0 = Selecting" "srv_ctxDone ?s0" "srv_main ?s1 = Shutting_down" by (simp_all add: started_server_def)
  from server_reach.within [OF server_reach.within [OF server_reach.start program.select_done [OF this(1,2)]]
      program.shutdown [OF this(3)]]
  have "server_reach ?s2" .
  then have "graceful ?s2" by (simp add: graceful_def started_server_def)
  then show ?thesis by blast
qed

lemma main_ends:
  "case prepared of
     Inl err \<Rightarrow> (\<exists>e. run_returns prepared e \<and> ended = exit_of name e) = (ended = (1, name @ '' failed: '' @ err @ [CHR 0x0A]))
   | Inr app \<Rightarrow> (\<exists>e. run_returns prepared e \<and> (0, out) = exit_of name e) = (out = [])"
proof (cases prepared)
  case (Inr app)
  have "(\<exists>e. run_returns prepared e \<and> (0, out) = exit_of name e) = (out = [])"
  proof
    assume "\<exists>e. run_returns prepared e \<and> (0, out) = exit_of name e"
    then obtain e where e: "(0, out) = exit_of name e" by blast
    then have "e = None" using exit_of_0 [of name e] by (metis fst_conv)
    with e show "out = []" by simp
  next
    assume "out = []"
    with graceful_end show "\<exists>e. run_returns prepared e \<and> (0, out) = exit_of name e"
      by (intro exI [of _ None]) (auto simp: graceful_def Inr)
  qed
  with Inr show ?thesis by simp
qed auto

lemma prepare_d_loaded:
  assumes "Load_config rd um fabs urlParse path = Inr (cfg, absPath)"
  shows "prepare_d (Load_config rd um fabs urlParse) build path =
    (case New_logger build (lc_Level (cfg_Logging cfg)) of
       Inl err \<Rightarrow> Inl (''build logger: '' @ err)
     | Inr log \<Rightarrow> Inr (cfg, NewService_d app_registry NewStore_cd (as_ReconcileCooldown (cfg_AntiSpam cfg))
         (dc_EnabledComponents (cfg_Detection cfg))))"
  using Load_config_service_aux(1) [OF assms] by (simp add: prepare_d_def assms split: sum.split)

lemma loaded_level:
  assumes "Load_config rd um fabs urlParse path = Inr (cfg, absPath)"
  shows "ToLower (TrimSpace (lc_Level (cfg_Logging cfg))) = lc_Level (cfg_Logging cfg)"
proof -
  from Load_config_Inr [OF assms] obtain c where c: "cfg = normalize_d c" by blast
  have "ToLower (TrimSpace ''info'') = ''info''" by code_simp
  with c show ?thesis by (simp add: normalize_d_def TrimSpace_ToLower Let_def)
qed

section \<open>Properties\<close>

text \<open>
  C25: With a configuration that Load accepts, the detector is started unless the logger refuses
  the level, which Load does not check. The service it starts with has the components of the
  configuration, at least one, each known, none twice and each with a detector, a cooldown
  that is not negative, an interval that lets the scheduler tick, and clients that make at
  least one attempt on an absolute path below a base URL without a trailing slash.
\<close>
theorem drift_starts:
  assumes "Load_config rd um fabs urlParse path = Inr (cfg, absPath)"
  shows "case prepare_d (Load_config rd um fabs urlParse) build path of
      Inl err \<Rightarrow> \<exists>e. New_logger build (lc_Level (cfg_Logging cfg)) = Inl e \<and> err = ''build logger: '' @ e
    | Inr (cfg', s) \<Rightarrow> cfg' = cfg
        \<and> lc_Level (cfg_Logging cfg) \<in> {''debug'', ''info'', ''warn'', ''warning'', ''error''}
        \<and> sv_enabledComponents s = dc_EnabledComponents (cfg_Detection cfg)
        \<and> sv_enabledComponents s \<noteq> [] \<and> distinct (sv_enabledComponents s)
        \<and> set (sv_enabledComponents s) \<subseteq> {ComponentNodeExporter, ComponentCadvisor}
        \<and> unregistered (sv_registry s) (sv_enabledComponents s) = 0
        \<and> 0 \<le> sv_reconcileCooldown s \<and> \<not> sv_running s \<and> \<not> IsReady_d s
        \<and> 0 < dc_Interval (cfg_Detection cfg)
        \<and> list_all client_ok
            [cc_Inventory (cfg_Clients cfg), cc_Parser (cfg_Clients cfg), cc_Reconciler (cfg_Clients cfg)]"
proof -
  from Load_config_Inr [OF assms] obtain c where c: "cfg = normalize_d c" "Validate_d urlParse (normalize_d c) = None"
    by auto
  have info: "ToLower (TrimSpace ''info'') \<noteq> []" by code_simp
  with c(1) have "lc_Level (cfg_Logging cfg) \<noteq> []" by (simp add: normalize_d_def Let_def)
  then have "lc_Level (cfg_Logging cfg) \<in> {''debug'', ''info'', ''warn'', ''warning'', ''error''}"
    if "New_logger build (lc_Level (cfg_Logging cfg)) = Inr l" for l
    using that New_logger_supported(2) [of "lc_Level (cfg_Logging cfg)" build] loaded_level [OF assms]
    by (auto simp: supported_level_def)
  with validated_parts [OF c(2), folded c(1)] Load_config_service_aux [OF assms] show ?thesis
    by (auto simp: prepare_d_loaded [OF assms] NewService_d_def IsReady_d_def split: sum.split)
qed

text \<open>A configuration that starts, and the same with a level that only the logger refuses.\<close>

theorem drift_starts_witness:
  "(\<exists>s. prepare_d (Load_config (\<lambda>p. Inr []) (\<lambda>c. Inr sample_config) Inr (\<lambda>u. Inr (''http'', u))) (\<lambda>l. Inr l) ''app.yaml'' =
      Inr (normalize_d sample_config, s) \<and> sv_enabledComponents s = [ComponentNodeExporter, ComponentCadvisor])
   \<and> prepare_d (Load_config (\<lambda>p. Inr []) (\<lambda>c. Inr (sample_config\<lparr>cfg_Logging := \<lparr>lc_Level = ''Trace''\<rparr>\<rparr>)) Inr
      (\<lambda>u. Inr (''http'', u))) (\<lambda>l. Inr l) ''app.yaml'' = Inl ''build logger: unsupported log level: trace''"
proof -
  let ?load = "Load_config (\<lambda>p. Inr []) (\<lambda>c. Inr sample_config) Inr (\<lambda>u. Inr (''http'', u))"
  let ?level = "lc_Level (cfg_Logging (normalize_d sample_config))"
  have load: "?load ''app.yaml'' = Inr (normalize_d sample_config, ''app.yaml'')" by code_simp
  have level: "New_logger (\<lambda>l. Inr l) ?level = Inr InfoLevel"
    and comps: "dc_EnabledComponents (cfg_Detection (normalize_d sample_config)) = [ComponentNodeExporter, ComponentCadvisor]"
    by code_simp+
  let ?load' = "Load_config (\<lambda>p. Inr []) (\<lambda>c. Inr (sample_config\<lparr>cfg_Logging := \<lparr>lc_Level = ''Trace''\<rparr>\<rparr>)) Inr (\<lambda>u. Inr (''http'', u))"
  let ?cfg' = "normalize_d (sample_config\<lparr>cfg_Logging := \<lparr>lc_Level = ''Trace''\<rparr>\<rparr>)"
  have load': "?load' ''app.yaml'' = Inr (?cfg', ''app.yaml'')"
    "New_logger (\<lambda>l. Inr l) (lc_Level (cfg_Logging ?cfg')) = Inl ''unsupported log level: trace''" by code_simp+
  then have refused: "prepare_d ?load' (\<lambda>l. Inr l) ''app.yaml'' = Inl ''build logger: unsupported log level: trace''"
    by (simp add: prepare_d_def)
  show ?thesis using drift_starts [OF load, of "\<lambda>l. Inr l"] level comps refused
    by (auto split: sum.splits)
qed


end
