(* ===== verification/Routes.thy ===== *)
theory Routes
  imports Inventory_Api Parser_Service
begin

text \<open>
  The routers of the three services (internal/transport/http/router.go): which handler is
  registered for which method and path. Dispatching is gin's and a parameter; \<open>gin_ok\<close> is
  what gin documents of it: a request goes to the one registered route it matches, where a
  segment \<open>:name\<close> matches one segment that is not empty, and \<open>*name\<close> at the end all that is
  left. The paths are URL.Path as net/http decodes it.
\<close>

section \<open>Patterns\<close>

fun segments :: "string \<Rightarrow> string list" where
  "segments [] = [[]]"
| "segments (c # cs) =
     (if c = CHR ''/'' then [] # segments cs
      else (case segments cs of [] \<Rightarrow> [[c]] | s # ss \<Rightarrow> (c # s) # ss))"

type_synonym url_params = "(string \<times> string) list"

fun match_segments :: "string list \<Rightarrow> string list \<Rightarrow> url_params option" where
  "match_segments [] [] = Some []"
| "match_segments [] (s # ss) = None"
| "match_segments (p # ps) [] = None"
| "match_segments (p # ps) (s # ss) =
     (if HasPrefix p ''*'' then Some [(drop 1 p, ''/'' @ Join (s # ss) ''/'')]
      else if HasPrefix p '':'' then
        (if s = [] then None else map_option (\<lambda>ps. (drop 1 p, s) # ps) (match_segments ps ss))
      else if p = s then match_segments ps ss
      else None)"

record 'h route =
  ro_method :: string
  ro_path :: string
  ro_handler :: 'h

definition match_route :: "'h route \<Rightarrow> string \<Rightarrow> string \<Rightarrow> ('h \<times> url_params) option" where
  "match_route r req_method path =
     (if ro_method r = req_method
      then map_option (\<lambda>params. (ro_handler r, params)) (match_segments (segments (ro_path r)) (segments path))
      else None)"

type_synonym 'h gin = "'h route list \<Rightarrow> string \<Rightarrow> string \<Rightarrow> ('h \<times> url_params) option"

definition gin_ok :: "'h gin \<Rightarrow> bool" where
  "gin_ok gin \<longleftrightarrow>
     (\<forall>routes req_method path.
        case List.map_filter (\<lambda>r. match_route r req_method path) routes of
          [] \<Rightarrow> gin routes req_method path = None
        | [served] \<Rightarrow> gin routes req_method path = Some served
        | _ \<Rightarrow> True)"

section \<open>The registrations\<close>

definition GET :: "string \<Rightarrow> 'h \<Rightarrow> 'h route" where
  "GET path handler = \<lparr>ro_method = ''GET'', ro_path = path, ro_handler = handler\<rparr>"

definition POST :: "string \<Rightarrow> 'h \<Rightarrow> 'h route" where
  "POST path handler = \<lparr>ro_method = ''POST'', ro_path = path, ro_handler = handler\<rparr>"

definition Group :: "string \<Rightarrow> 'h route list \<Rightarrow> 'h route list" where
  "Group base routes = map (\<lambda>r. r\<lparr>ro_path := base @ ro_path r\<rparr>) routes"

datatype handler_i = Healthz_route_i | Readyz_route_i | ListHosts_route_i | GetHost_route_i | Swagger_route_i

definition NewRouter_i :: "handler_i route list" where
  "NewRouter_i =
     [GET ''/healthz'' Healthz_route_i, GET ''/readyz'' Readyz_route_i]
     @ Group ''/api/v1'' [GET ''/hosts'' ListHosts_route_i, GET ''/hosts/:id'' GetHost_route_i]
     @ [GET ''/swagger/*any'' Swagger_route_i]"

datatype handler_p = Healthz_route_p | Readyz_route_p | GetDesiredState_route | ListHosts_route_p | GetHostByID_route | Swagger_route_p

definition NewRouter_p :: "handler_p route list" where
  "NewRouter_p =
     [GET ''/healthz'' Healthz_route_p, GET ''/readyz'' Readyz_route_p]
     @ Group ''/api/v1''
         [GET ''/desired-state'' GetDesiredState_route, GET ''/desired-state/hosts'' ListHosts_route_p,
          GET ''/desired-state/hosts/:hostId'' GetHostByID_route]
     @ [GET ''/swagger/*any'' Swagger_route_p]"

datatype handler_d = Healthz_route_d | Readyz_route_d | RunDetectionCycle_route | Swagger_route_d

definition NewRouter_d :: "handler_d route list" where
  "NewRouter_d =
     [GET ''/healthz'' Healthz_route_d, GET ''/readyz'' Readyz_route_d]
     @ Group ''/api/v1'' [POST ''/detection/run'' RunDetectionCycle_route]
     @ [GET ''/swagger/*any'' Swagger_route_d]"

text \<open>The swagger route redirects its root and leaves the rest to gin-swagger.\<close>

datatype swagger_answer = Redirect nat string | Swagger_files string

definition swagger_route :: "url_params \<Rightarrow> swagger_answer" where
  "swagger_route params =
     (let any = (case map_of params ''any'' of None \<Rightarrow> [] | Some v \<Rightarrow> v)
      in if any = [] \<or> any = ''/'' then Redirect 302 ''/swagger/index.html'' else Swagger_files any)"

section \<open>Lemmas on segments\<close>

lemma segments_not_Nil [simp]: "segments s \<noteq> []"
  by (induction s) (auto split: list.split)

lemma Join_segments [simp]: "Join (segments s) ''/'' = s"
proof (induction s)
  case (Cons c cs)
  obtain s ss where s: "segments cs = s # ss" by (metis list.exhaust segments_not_Nil)
  with Cons show ?case by (cases ss) auto
qed simp

lemma segments_inj: "segments s = segments t \<longleftrightarrow> s = t"
  by (metis Join_segments)

lemma segments_append: "segments (s @ CHR ''/'' # t) = segments s @ segments t"
  by (induction s) (auto split: list.split)

lemma segments_single: "CHR ''/'' \<notin> set s \<Longrightarrow> segments s = [s]"
  by (induction s) auto

lemma segments_no_slash: "x \<in> set (segments s) \<Longrightarrow> CHR ''/'' \<notin> set x"
proof (induction s arbitrary: x)
  case (Cons c cs)
  then show ?case by (auto split: if_splits list.splits)
qed simp

text \<open>A path whose segments begin like those of a base continues the base after a slash.\<close>

lemma segments_prefix:
  assumes "segments p = segments base @ s # ss"
  shows "p = base @ CHR ''/'' # Join (s # ss) ''/''"
proof -
  have "Join (xs @ s # ss) ''/'' = Join xs ''/'' @ ''/'' @ Join (s # ss) ''/''" if "xs \<noteq> []" for xs
    using that by (induction xs rule: induct_list012) (auto simp: Cons_eq_append_conv neq_Nil_conv)
  from this [of "segments base"] assms show ?thesis by (metis Join_segments append_Cons append_Nil segments_not_Nil)
qed

lemma segments_child:
  "segments p = segments base @ [s] \<longleftrightarrow> p = base @ CHR ''/'' # s \<and> CHR ''/'' \<notin> set s"
proof
  assume a: "segments p = segments base @ [s]"
  then have "CHR ''/'' \<notin> set s" by (metis in_set_conv_decomp segments_no_slash)
  with segments_prefix [OF a] show "p = base @ CHR ''/'' # s \<and> CHR ''/'' \<notin> set s" by simp
qed (simp add: segments_append segments_single)

section \<open>What a pattern matches\<close>

text \<open>What follows a base and a slash in a path.\<close>

definition child :: "string \<Rightarrow> string \<Rightarrow> string option" where
  "child base path = (if HasPrefix path (base @ ''/'') then Some (drop (length base + 1) path) else None)"

lemma child_Some: "child base path = Some s \<longleftrightarrow> path = base @ CHR ''/'' # s"
  by (auto simp: child_def HasPrefix_def prefix_def)

definition plain :: "string \<Rightarrow> bool" where
  "plain q \<longleftrightarrow> list_all (\<lambda>s. \<not> HasPrefix s ''*'' \<and> \<not> HasPrefix s '':'') (segments q)"

lemma match_plain_segments:
  "list_all (\<lambda>s. \<not> HasPrefix s ''*'' \<and> \<not> HasPrefix s '':'') ps \<Longrightarrow>
     match_segments ps ss = (if ss = ps then Some [] else None)"
  by (induction ps ss rule: match_segments.induct) auto

lemma match_param_segments:
  "list_all (\<lambda>s. \<not> HasPrefix s ''*'' \<and> \<not> HasPrefix s '':'') ps \<Longrightarrow>
     match_segments (ps @ ['':'' @ name]) ss = Some params \<longleftrightarrow> (\<exists>s. ss = ps @ [s] \<and> s \<noteq> [] \<and> params = [(name, s)])"
proof (induction ps arbitrary: ss)
  case Nil
  have "match_segments [] ss' = Some ps' \<longleftrightarrow> ss' = [] \<and> ps' = []" for ss' ps' by (cases ss') auto
  then show ?case by (cases ss) (auto simp: HasPrefix_def)
next
  case (Cons p ps)
  then show ?case by (cases ss) auto
qed

lemma match_any_segments:
  "list_all (\<lambda>s. \<not> HasPrefix s ''*'' \<and> \<not> HasPrefix s '':'') ps \<Longrightarrow>
     match_segments (ps @ [''*'' @ name]) ss = Some params \<longleftrightarrow>
       (\<exists>s rest. ss = ps @ s # rest \<and> params = [(name, ''/'' @ Join (s # rest) ''/'')])"
proof (induction ps arbitrary: ss)
  case Nil
  then show ?case by (cases ss) (auto simp: HasPrefix_def)
next
  case (Cons p ps)
  then show ?case by (cases ss) auto
qed

lemma match_plain: "plain q \<Longrightarrow> match_segments (segments q) (segments p) = (if p = q then Some [] else None)"
  by (simp add: plain_def match_plain_segments segments_inj)

lemma match_param:
  assumes "plain base" and "CHR ''/'' \<notin> set name"
  shows "match_segments (segments (base @ ''/:'' @ name)) (segments p) =
    (case child base p of
       None \<Rightarrow> None
     | Some s \<Rightarrow> if s = [] \<or> CHR ''/'' \<in> set s then None else Some [(name, s)])"
proof -
  have seg: "segments (base @ ''/:'' @ name) = segments base @ ['':'' @ name]"
    using assms(2) by (simp add: segments_append segments_single)
  have "match_segments (segments base @ ['':'' @ name]) (segments p) = Some params \<longleftrightarrow>
      (\<exists>s. child base p = Some s \<and> CHR ''/'' \<notin> set s \<and> s \<noteq> [] \<and> params = [(name, s)])" for params
    using match_param_segments [of "segments base" name "segments p" params] assms(1)
    by (auto simp: plain_def segments_child child_Some)
  then show ?thesis unfolding seg
    by (cases "match_segments (segments base @ ['':'' @ name]) (segments p)") (auto split: option.splits)
qed

lemma match_any:
  assumes "plain base" and "CHR ''/'' \<notin> set name"
  shows "match_segments (segments (base @ ''/*'' @ name)) (segments p) = map_option (\<lambda>r. [(name, CHR ''/'' # r)]) (child base p)"
proof -
  have seg: "segments (base @ ''/*'' @ name) = segments base @ [''*'' @ name]"
    using assms(2) by (simp add: segments_append segments_single)
  have "(\<exists>s rest. segments p = segments base @ s # rest \<and> r = Join (s # rest) ''/'') \<longleftrightarrow> child base p = Some r" for r
  proof
    assume "child base p = Some r"
    moreover obtain s rest where "segments r = s # rest" by (metis list.exhaust segments_not_Nil)
    ultimately show "\<exists>s rest. segments p = segments base @ s # rest \<and> r = Join (s # rest) ''/''"
      by (metis Join_segments child_Some segments_append)
  qed (auto simp: child_Some dest: segments_prefix)
  then have "match_segments (segments base @ [''*'' @ name]) (segments p) = Some params \<longleftrightarrow>
      (\<exists>r. child base p = Some r \<and> params = [(name, CHR ''/'' # r)])" for params
    using match_any_segments [of "segments base" name "segments p" params] assms(1)
    by (auto simp: plain_def)
  then show ?thesis unfolding seg
    by (cases "match_segments (segments base @ [''*'' @ name]) (segments p)"; cases "child base p") auto
qed

section \<open>The tables\<close>

lemma plain_paths:
  "plain ''/healthz'' \<and> plain ''/readyz'' \<and> plain ''/swagger'' \<and> plain ''/api/v1/hosts'' \<and> plain ''/api/v1/desired-state''
   \<and> plain ''/api/v1/desired-state/hosts'' \<and> plain ''/api/v1/detection/run''"
  by code_simp

lemmas plains = plain_paths [THEN conjunct1] plain_paths [THEN conjunct2, THEN conjunct1]

text \<open>What a request runs, in one table per service.\<close>

definition swagger_of :: "'h \<Rightarrow> string \<Rightarrow> ('h \<times> url_params) option" where
  "swagger_of handler path = map_option (\<lambda>r. (handler, [(''any'', CHR ''/'' # r)])) (child ''/swagger'' path)"

definition one_segment :: "'h \<Rightarrow> string \<Rightarrow> string \<Rightarrow> string \<Rightarrow> ('h \<times> url_params) option" where
  "one_segment handler base name path =
     (case child base path of
        None \<Rightarrow> None
      | Some s \<Rightarrow> if s = [] \<or> CHR ''/'' \<in> set s then None else Some (handler, [(name, s)]))"

definition table_i :: "string \<Rightarrow> string \<Rightarrow> (handler_i \<times> url_params) option" where
  "table_i req_method path =
     (if req_method \<noteq> ''GET'' then None
      else if path = ''/healthz'' then Some (Healthz_route_i, [])
      else if path = ''/readyz'' then Some (Readyz_route_i, [])
      else if path = ''/api/v1/hosts'' then Some (ListHosts_route_i, [])
      else if HasPrefix path ''/swagger/'' then swagger_of Swagger_route_i path
      else one_segment GetHost_route_i ''/api/v1/hosts'' ''id'' path)"

definition table_p :: "string \<Rightarrow> string \<Rightarrow> (handler_p \<times> url_params) option" where
  "table_p req_method path =
     (if req_method \<noteq> ''GET'' then None
      else if path = ''/healthz'' then Some (Healthz_route_p, [])
      else if path = ''/readyz'' then Some (Readyz_route_p, [])
      else if path = ''/api/v1/desired-state'' then Some (GetDesiredState_route, [])
      else if path = ''/api/v1/desired-state/hosts'' then Some (ListHosts_route_p, [])
      else if HasPrefix path ''/swagger/'' then swagger_of Swagger_route_p path
      else one_segment GetHostByID_route ''/api/v1/desired-state/hosts'' ''hostId'' path)"

definition table_d :: "string \<Rightarrow> string \<Rightarrow> (handler_d \<times> url_params) option" where
  "table_d req_method path =
     (if req_method = ''POST'' \<and> path = ''/api/v1/detection/run'' then Some (RunDetectionCycle_route, [])
      else if req_method \<noteq> ''GET'' then None
      else if path = ''/healthz'' then Some (Healthz_route_d, [])
      else if path = ''/readyz'' then Some (Readyz_route_d, [])
      else swagger_of Swagger_route_d path)"

lemma GET_matches:
  assumes "plain base" and "CHR ''/'' \<notin> set name"
  shows "plain q \<Longrightarrow> match_route (GET q handler) m path = (if m = ''GET'' \<and> path = q then Some (handler, []) else None)"
    and "match_route (GET (base @ ''/:'' @ name) handler) m path = (if m = ''GET'' then one_segment handler base name path else None)"
    and "match_route (GET (base @ ''/*'' @ name) handler) m path =
      (if m = ''GET'' then map_option (\<lambda>r. (handler, [(name, CHR ''/'' # r)])) (child base path) else None)"
  using match_param [OF assms, of path] match_any [OF assms, of path]
  by (auto simp: match_route_def GET_def match_plain one_segment_def option.map_comp comp_def split: option.split)

lemma GET_group: "Group base [] = []" "Group base (GET path handler # routes) = GET (base @ path) handler # Group base routes"
  "Group base (POST path handler # routes) = POST (base @ path) handler # Group base routes"
  by (simp_all add: Group_def GET_def POST_def)

lemma match_POST: "plain q \<Longrightarrow> match_route (POST q handler) m path = (if m = ''POST'' \<and> path = q then Some (handler, []) else None)"
  by (simp add: match_route_def POST_def match_plain)

lemma param_matches:
  "match_route (GET ''/api/v1/hosts/:id'' h) m path = (if m = ''GET'' then one_segment h ''/api/v1/hosts'' ''id'' path else None)"
  "match_route (GET ''/api/v1/desired-state/hosts/:hostId'' h') m path =
     (if m = ''GET'' then one_segment h' ''/api/v1/desired-state/hosts'' ''hostId'' path else None)"
  "match_route (GET ''/swagger/*any'' h'') m path = (if m = ''GET'' then swagger_of h'' path else None)"
  using GET_matches(2) [of "''/api/v1/hosts''" "''id''" h m path] plain_paths
    GET_matches(2) [of "''/api/v1/desired-state/hosts''" "''hostId''" h' m path]
    GET_matches(3) [of "''/swagger''" "''any''" h'' m path]
  by (simp_all add: swagger_of_def)

lemmas matches = param_matches plain_paths GET_matches(1) [of "''/healthz''" "[]"] match_POST

text \<open>A path below one base is neither another path nor below another base.\<close>

lemma swagger_apart:
  "swagger_of h path = Some x \<Longrightarrow> HasPrefix path ''/swagger/'' \<and> path \<noteq> ''/healthz'' \<and> path \<noteq> ''/readyz''
     \<and> path \<noteq> ''/api/v1/hosts'' \<and> path \<noteq> ''/api/v1/desired-state'' \<and> path \<noteq> ''/api/v1/desired-state/hosts''
     \<and> child ''/api/v1/hosts'' path = None \<and> child ''/api/v1/desired-state/hosts'' path = None"
  by (auto simp: swagger_of_def child_Some) (auto simp: child_def HasPrefix_def)

lemma no_swagger: "swagger_of h path = None \<longleftrightarrow> \<not> HasPrefix path ''/swagger/''"
  by (simp add: swagger_of_def child_def)

lemma one_segment_apart:
  "one_segment h ''/api/v1/hosts'' name path = Some x \<Longrightarrow> path \<noteq> ''/healthz'' \<and> path \<noteq> ''/readyz'' \<and> path \<noteq> ''/api/v1/hosts''"
  "one_segment h' ''/api/v1/desired-state/hosts'' name path = Some x' \<Longrightarrow> path \<noteq> ''/healthz'' \<and> path \<noteq> ''/readyz''
     \<and> path \<noteq> ''/api/v1/desired-state'' \<and> path \<noteq> ''/api/v1/desired-state/hosts''"
  by (auto simp: one_segment_def child_Some split: option.splits)

lemma one_segment_static:
  "path \<in> {''/healthz'', ''/readyz'', ''/api/v1/hosts''} \<Longrightarrow> one_segment h ''/api/v1/hosts'' name path = None"
  "path \<in> {''/healthz'', ''/readyz'', ''/api/v1/desired-state'', ''/api/v1/desired-state/hosts''} \<Longrightarrow>
     one_segment h' ''/api/v1/desired-state/hosts'' name path = None"
  by (auto simp: one_segment_def child_def HasPrefix_def)

lemma swagger_static:
  "path \<in> {''/healthz'', ''/readyz'', ''/api/v1/hosts'', ''/api/v1/desired-state'', ''/api/v1/desired-state/hosts'',
     ''/api/v1/detection/run''} \<Longrightarrow> swagger_of h path = None"
  by (auto simp: no_swagger HasPrefix_def)

lemma one_segment_child: "child base path = None \<Longrightarrow> one_segment h base name path = None"
  by (simp add: one_segment_def)

definition served :: "'h route list \<Rightarrow> string \<Rightarrow> string \<Rightarrow> ('h \<times> url_params) list" where
  "served routes m path = List.map_filter (\<lambda>r. match_route r m path) routes"

lemma served_Cons: "served (r # routes) m path =
    (case match_route r m path of None \<Rightarrow> served routes m path | Some x \<Rightarrow> x # served routes m path)"
  and served_Nil: "served [] m path = []"
  by (simp_all add: served_def List.map_filter_simps split: option.split)

lemma served_i: "served NewRouter_i m path = (case table_i m path of None \<Rightarrow> [] | Some x \<Rightarrow> [x])"
proof (cases "m = ''GET''")
  case True
  note defs = NewRouter_i_def GET_group append.simps matches served_Cons served_Nil table_i_def True
  show ?thesis
  proof (cases "swagger_of Swagger_route_i path")
    case None
    show ?thesis
    proof (cases "one_segment GetHost_route_i ''/api/v1/hosts'' ''id'' path")
      case (Some x)
      from one_segment_apart(1) [OF this] None [unfolded no_swagger] show ?thesis
        by (simp add: defs None Some)
    qed (simp add: defs None None [unfolded no_swagger] one_segment_static swagger_static)
  next
    case (Some x)
    from swagger_apart [OF this] show ?thesis by (simp add: defs Some one_segment_child)
  qed
qed (simp add: NewRouter_i_def GET_group matches table_i_def served_Cons served_Nil)

lemma served_p: "served NewRouter_p m path = (case table_p m path of None \<Rightarrow> [] | Some x \<Rightarrow> [x])"
proof (cases "m = ''GET''")
  case True
  note defs = NewRouter_p_def GET_group append.simps matches served_Cons served_Nil table_p_def True
  show ?thesis
  proof (cases "swagger_of Swagger_route_p path")
    case None
    show ?thesis
    proof (cases "one_segment GetHostByID_route ''/api/v1/desired-state/hosts'' ''hostId'' path")
      case (Some x)
      from one_segment_apart(2) [OF this] None [unfolded no_swagger] show ?thesis
        by (simp add: defs None Some)
    qed (simp add: defs None None [unfolded no_swagger] one_segment_static swagger_static)
  next
    case (Some x)
    from swagger_apart [OF this] show ?thesis by (simp add: defs Some one_segment_child)
  qed
qed (simp add: NewRouter_p_def GET_group matches table_p_def served_Cons served_Nil)

lemma served_d: "served NewRouter_d m path = (case table_d m path of None \<Rightarrow> [] | Some x \<Rightarrow> [x])"
proof (cases "swagger_of Swagger_route_d path")
  case None
  then show ?thesis
    by (simp add: NewRouter_d_def GET_group matches served_Cons served_Nil table_d_def swagger_static)
next
  case (Some x)
  from swagger_apart [OF this] show ?thesis
    by (auto simp: NewRouter_d_def GET_group matches served_Cons served_Nil table_d_def Some)
qed

lemma gin_served:
  assumes "gin_ok gin" and "served routes m path = (case x of None \<Rightarrow> [] | Some y \<Rightarrow> [y])"
  shows "gin routes m path = x"
proof -
  from assms(1) have "case served routes m path of [] \<Rightarrow> gin routes m path = None
      | [y] \<Rightarrow> gin routes m path = Some y | _ \<Rightarrow> True"
    by (auto simp: gin_ok_def served_def)
  with assms(2) show ?thesis by (cases x) auto
qed

section \<open>The services as servers\<close>

text \<open>
  What a request is answered: by a handler with a status and a payload, by gin when no route
  matches, or by the pages of swagger. The two stores are those of the first and of the
  second call of a handler.
\<close>

datatype 'p reply = Handled nat 'p | No_route | Swagger_page swagger_answer

definition handled :: "nat \<times> 'p \<Rightarrow> 'p reply" where
  "handled answer = Handled (fst answer) (snd answer)"

definition Param :: "url_params \<Rightarrow> string \<Rightarrow> string" where
  "Param params name = (case map_of params name of None \<Rightarrow> [] | Some v \<Rightarrow> v)"

definition serve_i ::
  "handler_i gin \<Rightarrow> Store_i \<Rightarrow> Store_i \<Rightarrow> string \<Rightarrow> string \<Rightarrow> (string, string list) gomap \<Rightarrow> payload_i reply" where
  "serve_i gin store store' req_method path url_query =
     (case gin NewRouter_i req_method path of
        None \<Rightarrow> No_route
      | Some (handler, params) \<Rightarrow>
          (case handler of
             Healthz_route_i \<Rightarrow> handled Healthz_i
           | Readyz_route_i \<Rightarrow> handled (Readyz_i store store')
           | ListHosts_route_i \<Rightarrow> handled (ListHosts_handler_i store url_query)
           | GetHost_route_i \<Rightarrow> handled (GetHost_handler_i store store' (Param params ''id''))
           | Swagger_route_i \<Rightarrow> Swagger_page (swagger_route params)))"

definition serve_p ::
  "handler_p gin \<Rightarrow> Store_p \<Rightarrow> string \<Rightarrow> string \<Rightarrow> (string, string list) gomap \<Rightarrow> payload_p reply" where
  "serve_p gin store req_method path url_query =
     (case gin NewRouter_p req_method path of
        None \<Rightarrow> No_route
      | Some (handler, params) \<Rightarrow>
          (case handler of
             Healthz_route_p \<Rightarrow> handled Healthz_p
           | Readyz_route_p \<Rightarrow> handled (Readyz_p store)
           | GetDesiredState_route \<Rightarrow> handled (GetDesiredState store)
           | ListHosts_route_p \<Rightarrow> handled (ListHosts_handler_p store url_query)
           | GetHostByID_route \<Rightarrow> handled (GetHostByID_handler_p store (Param params ''hostId''))
           | Swagger_route_p \<Rightarrow> Swagger_page (swagger_route params)))"

lemma serve_i_table:
  assumes "gin_ok gin"
  shows "serve_i gin store store' ''GET'' ''/api/v1/hosts'' url_query = handled (ListHosts_handler_i store url_query)"
    and "serve_i gin store store' ''GET'' ''/readyz'' url_query = handled (Readyz_i store store')"
    and "i \<noteq> [] \<Longrightarrow> CHR ''/'' \<notin> set i \<Longrightarrow>
      serve_i gin store store' ''GET'' (''/api/v1/hosts/'' @ i) url_query = handled (GetHost_handler_i store store' i)"
proof -
  note t = gin_served [OF assms served_i]
  show "serve_i gin store store' ''GET'' ''/api/v1/hosts'' url_query = handled (ListHosts_handler_i store url_query)"
    "serve_i gin store store' ''GET'' ''/readyz'' url_query = handled (Readyz_i store store')"
    by (simp_all add: serve_i_def t table_i_def)
  assume "i \<noteq> []" "CHR ''/'' \<notin> set i"
  then show "serve_i gin store store' ''GET'' (''/api/v1/hosts/'' @ i) url_query = handled (GetHost_handler_i store store' i)"
    by (simp add: serve_i_def t table_i_def HasPrefix_def one_segment_def child_def Param_def)
qed

lemma serve_p_table:
  assumes "gin_ok gin"
  shows "serve_p gin store ''GET'' ''/api/v1/desired-state'' url_query = handled (GetDesiredState store)"
  by (simp add: serve_p_def gin_served [OF assms served_p] table_p_def)

text \<open>A dispatcher that takes the first route that matches is one that gin may be.\<close>

definition first_match :: "'h gin" where
  "first_match routes m path = (case served routes m path of [] \<Rightarrow> None | x # xs \<Rightarrow> Some x)"

lemma first_match_ok: "gin_ok first_match"
  by (simp add: gin_ok_def first_match_def served_def split: list.split)

section \<open>Properties\<close>

text \<open>
  C37: What every request runs. No two of the registered routes match the same request, so gin
  runs exactly the handler the tables name, with the last segment as the id, once decoded
  and without a slash; every other method or path runs none. The root of the swagger pages
  is redirected.
\<close>
theorem router_tables:
  assumes "gin_ok gin_i" and "gin_ok gin_p" and "gin_ok gin_d"
  shows "gin_i NewRouter_i m path = table_i m path \<and> gin_p NewRouter_p m path = table_p m path
    \<and> gin_d NewRouter_d m path = table_d m path
    \<and> swagger_of handler ''/swagger/'' = Some (handler, [(''any'', ''/'')])
    \<and> swagger_route [(''any'', ''/'')] = Redirect 302 ''/swagger/index.html''"
  using gin_served [OF assms(1) served_i] gin_served [OF assms(2) served_p] gin_served [OF assms(3) served_d]
  by (simp add: swagger_of_def child_def HasPrefix_def swagger_route_def)

theorem router_tables_witness:
  "first_match NewRouter_i ''GET'' ''/api/v1/hosts/srv-1'' = Some (GetHost_route_i, [(''id'', ''srv-1'')])
   \<and> first_match NewRouter_p ''GET'' ''/api/v1/desired-state/hosts'' = Some (ListHosts_route_p, [])
   \<and> first_match NewRouter_d ''GET'' ''/api/v1/detection/run'' = None"
proof -
  have "table_i ''GET'' ''/api/v1/hosts/srv-1'' = Some (GetHost_route_i, [(''id'', ''srv-1'')])"
    "table_p ''GET'' ''/api/v1/desired-state/hosts'' = Some (ListHosts_route_p, [])"
    "table_d ''GET'' ''/api/v1/detection/run'' = None"
    by code_simp+
  with router_tables [OF first_match_ok first_match_ok first_match_ok, of "''GET''" "''/api/v1/hosts/srv-1''" Swagger_route_d]
    router_tables [OF first_match_ok first_match_ok first_match_ok, of "''GET''" "''/api/v1/desired-state/hosts''" Swagger_route_d]
    router_tables [OF first_match_ok first_match_ok first_match_ok, of "''GET''" "''/api/v1/detection/run''" Swagger_route_d]
  show ?thesis by (simp only:)
qed

end
