(* ===== verification/Go_Heap.thy ===== *)
theory Go_Heap
  imports Prelude
begin

text \<open>
  Pointers, maps and slices as Go shares them: a heap is the list of the cells allocated so
  far, an address is a position in it, a pointer is an address or nil. What a value looks
  like to a reader who follows its pointers is its view, the addresses it reads on the way
  are its footprint. A deep copy shows the view of the original in cells of its own.

  A cell holds one of the types of the program; reading it as another gives what a nil
  pointer gives, which Go's type checker rules out.
\<close>

type_synonym 'c heap = "'c list"
type_synonym pointer = "nat option"

definition alloc :: "'c \<Rightarrow> 'c heap \<Rightarrow> nat \<times> 'c heap" where
  "alloc c h = (length h, h @ [c])"

definition load :: "'c heap \<Rightarrow> nat \<Rightarrow> 'c option" where
  "load h a = (if a < length h then Some (h ! a) else None)"

text \<open>What a pointer points to; \<open>as_type\<close> reads the cell at its type.\<close>

definition deref :: "('c option \<Rightarrow> 'a) \<Rightarrow> 'c heap \<Rightarrow> pointer \<Rightarrow> 'a" where
  "deref as_type h p = (case p of None \<Rightarrow> as_type None | Some a \<Rightarrow> as_type (load h a))"

text \<open>The loop that clones the elements one after the other.\<close>

fun clone_each :: "('x \<Rightarrow> 'c heap \<Rightarrow> 'x \<times> 'c heap) \<Rightarrow> 'x list \<Rightarrow> 'c heap \<Rightarrow> 'x list \<times> 'c heap" where
  "clone_each clone [] h = ([], h)"
| "clone_each clone (x # xs) h =
     (let (x', h1) = clone x h; (xs', h2) = clone_each clone xs h1 in (x' # xs', h2))"

text \<open>A copy of the value of a map entry, and a new cell for a slice of copies.\<close>

definition clone_value ::
  "('x \<Rightarrow> 'c heap \<Rightarrow> 'x \<times> 'c heap) \<Rightarrow> 'k \<times> 'x \<Rightarrow> 'c heap \<Rightarrow> ('k \<times> 'x) \<times> 'c heap" where
  "clone_value clone = (\<lambda>(k, x) h. let (x', h') = clone x h in ((k, x'), h'))"

definition clone_slice ::
  "('x list \<Rightarrow> 'c) \<Rightarrow> ('c option \<Rightarrow> 'x list) \<Rightarrow> ('x \<Rightarrow> 'c heap \<Rightarrow> 'x \<times> 'c heap)
     \<Rightarrow> pointer \<Rightarrow> 'c heap \<Rightarrow> pointer \<times> 'c heap" where
  "clone_slice mk as_type clone p h =
     (let (xs, h1) = clone_each clone (deref as_type h p) h; (a, h2) = alloc (mk xs) h1 in (Some a, h2))"

text \<open>Two copies, one after the other.\<close>

definition clone_both ::
  "('x \<Rightarrow> 'c heap \<Rightarrow> 'x \<times> 'c heap) \<Rightarrow> ('y \<Rightarrow> 'c heap \<Rightarrow> 'y \<times> 'c heap)
     \<Rightarrow> 'x \<times> 'y \<Rightarrow> 'c heap \<Rightarrow> ('x \<times> 'y) \<times> 'c heap" where
  "clone_both clone1 clone2 = (\<lambda>(x, y) h. let (x', h1) = clone1 x h; (y', h2) = clone2 y h1 in ((x', y'), h2))"

section \<open>Heaps that agree\<close>

definition agree :: "nat set \<Rightarrow> 'c heap \<Rightarrow> 'c heap \<Rightarrow> bool" where
  "agree A h h' \<longleftrightarrow> (\<forall>a \<in> A. load h' a = load h a)"

lemma agree_subset: "agree A h h' \<Longrightarrow> B \<subseteq> A \<Longrightarrow> agree B h h'"
  by (auto simp: agree_def)

lemma agree_prefix: "prefix h h' \<Longrightarrow> A \<subseteq> {..<length h} \<Longrightarrow> agree A h h'"
  by (auto simp: agree_def load_def prefix_def nth_append)

lemma agree_update: "a \<notin> A \<Longrightarrow> agree A h (h[a := c])"
  by (auto simp: agree_def load_def) (metis nth_list_update_neq)

lemma alloc_simps [simp]: "fst (alloc c h) = length h" "snd (alloc c h) = h @ [c]"
  by (simp_all add: alloc_def)

lemma load_alloc [simp]: "load (h @ [c]) (length h) = Some c"
  by (simp add: load_def)

lemma deref_simps [simp]:
  "deref as_type h None = as_type None" "deref as_type h (Some a) = as_type (load h a)"
  by (simp_all add: deref_def)

lemma deref_agree: "agree (set_option p) h h' \<Longrightarrow> deref as_type h' p = deref as_type h p"
  by (cases p) (simp_all add: agree_def)

lemma prefix_length: "prefix h h' \<Longrightarrow> length h \<le> length h'"
  by (rule prefix_length_le)

section \<open>Deep copies\<close>

text \<open>
  The contract of a function that makes a deep copy: it only allocates, what it returns has
  the view that \<open>copy\<close> makes of the original's and lives in new cells alone; and a view
  depends on its footprint only.
\<close>

locale deep_copy =
  fixes clone :: "'x \<Rightarrow> 'c heap \<Rightarrow> 'x \<times> 'c heap"
    and view :: "'c heap \<Rightarrow> 'x \<Rightarrow> 'v"
    and foot :: "'c heap \<Rightarrow> 'x \<Rightarrow> nat set"
    and copy :: "'v \<Rightarrow> 'v"
  assumes extends: "prefix h (snd (clone x h))"
    and fresh: "foot (snd (clone x h)) (fst (clone x h)) \<subseteq> {length h..<length (snd (clone x h))}"
    and copies: "foot h x \<subseteq> {..<length h} \<Longrightarrow> view (snd (clone x h)) (fst (clone x h)) = copy (view h x)"
    and view_frame: "agree (foot h x) h h' \<Longrightarrow> view h' x = view h x"
    and foot_frame: "agree (foot h x) h h' \<Longrightarrow> foot h' x = foot h x"
begin

lemma kept:
  assumes "prefix h h'" and "foot h x \<subseteq> {..<length h}"
  shows "view h' x = view h x" and "foot h' x = foot h x"
  using agree_prefix [OF assms] by (simp_all add: view_frame foot_frame)

lemma clone_parts:
  assumes "clone x h = (x', h')"
  shows "prefix h h'" and "foot h' x' \<subseteq> {length h..<length h'}"
    and "foot h x \<subseteq> {..<length h} \<Longrightarrow> view h' x' = copy (view h x)"
  using extends [where h = h and x = x] fresh [where h = h and x = x] copies [where h = h and x = x] assms by simp_all

text \<open>Lists of what it copies.\<close>

lemma each_parts:
  "clone_each clone xs h = (xs', h') \<Longrightarrow>
     prefix h h' \<and> \<Union> (foot h' ` set xs') \<subseteq> {length h..<length h'}
     \<and> (\<Union> (foot h ` set xs) \<subseteq> {..<length h} \<longrightarrow> map (view h') xs' = map copy (map (view h) xs))"
proof (induction xs arbitrary: h xs' h')
  case Nil
  then show ?case by simp
next
  case (Cons x xs)
  obtain x1 h1 where x: "clone x h = (x1, h1)" by fastforce
  obtain xs2 h2 where xs: "clone_each clone xs h1 = (xs2, h2)" by fastforce
  from Cons.prems x xs have res: "xs' = x1 # xs2" "h' = h2" by simp_all
  note p = clone_parts [OF x] and ih = Cons.IH [OF xs]
  from p(1) ih have pre: "prefix h h1" "prefix h1 h2" "prefix h h2" by auto
  note len = prefix_length [OF pre(1)] prefix_length [OF pre(2)]
  have valid1: "foot h1 x1 \<subseteq> {..<length h1}" using p(2) by auto
  note k1 = kept [OF pre(2) valid1]
  have fresh: "\<Union> (foot h' ` set xs') \<subseteq> {length h..<length h'}"
    using p(2) ih k1 len by (force simp: res)
  moreover have "map (view h') xs' = map copy (map (view h) (x # xs))"
    if valid: "\<Union> (foot h ` set (x # xs)) \<subseteq> {..<length h}"
  proof -
    have k: "view h1 y = view h y" "foot h1 y = foot h y" if "y \<in> set xs" for y
      using kept [OF pre(1), of y] valid that by auto
    then have "\<Union> (foot h1 ` set xs) \<subseteq> {..<length h1}" using valid len by fastforce
    with ih have "map (view h2) xs2 = map copy (map (view h1) xs)" by blast
    with k p(3) valid k1 show ?thesis by (simp add: res)
  qed
  ultimately show ?case using pre res by blast
qed

lemma each: "deep_copy (clone_each clone) (\<lambda>h. map (view h)) (\<lambda>h xs. \<Union> (foot h ` set xs)) (map copy)"
proof
  fix h xs h'
  obtain xs' h1 where e: "clone_each clone xs h = (xs', h1)" by fastforce
  note p = each_parts [OF e]
  from p e show "prefix h (snd (clone_each clone xs h))"
    "\<Union> (foot (snd (clone_each clone xs h)) ` set (fst (clone_each clone xs h)))
       \<subseteq> {length h..<length (snd (clone_each clone xs h))}"
    by simp_all
  from p e show "\<Union> (foot h ` set xs) \<subseteq> {..<length h} \<Longrightarrow>
      map (view (snd (clone_each clone xs h))) (fst (clone_each clone xs h)) = map copy (map (view h) xs)"
    by simp
  assume a: "agree (\<Union> (foot h ` set xs)) h h'"
  have same: "view h' x = view h x" "foot h' x = foot h x" if "x \<in> set xs" for x
  proof -
    from a that have "agree (foot h x) h h'" by (auto simp: agree_def)
    then show "view h' x = view h x" "foot h' x = foot h x" by (simp_all add: view_frame foot_frame)
  qed
  then show "map (view h') xs = map (view h) xs" "\<Union> (foot h' ` set xs) = \<Union> (foot h ` set xs)"
    by (auto simp del: UN_iff intro!: arg_cong [where f = Union])
qed

text \<open>What stands in a map under a key.\<close>

lemma entry: "deep_copy (clone_value clone) (\<lambda>h (k, x). (k, view h x)) (\<lambda>h (k, x). foot h x) (\<lambda>(k, v). (k, copy v))"
  by unfold_locales
    (use extends fresh copies view_frame foot_frame in \<open>auto simp: clone_value_def case_prod_beta split: prod.splits\<close>)

text \<open>A new value that is put together from a copy.\<close>

lemma iso:
  assumes clone': "\<And>x h. clone' x h = (let (y, h') = clone (parts x) h in (build x y, h'))"
    and view': "\<And>h x. view' h x = shown x (view h (parts x))"
    and foot': "\<And>h x. foot' h x = foot h (parts x)"
    and parts: "\<And>x y. parts (build x y) = y"
    and copy': "\<And>x y v. shown (build x y) (copy v) = copy' (shown x v)"
  shows "deep_copy clone' view' foot' copy'"
proof
  fix x h h'
  obtain y h1 where c: "clone (parts x) h = (y, h1)" by fastforce
  note p = clone_parts [OF c]
  have e: "clone' x h = (build x y, h1)" by (simp add: clone' c)
  from p show "prefix h (snd (clone' x h))"
    "foot' (snd (clone' x h)) (fst (clone' x h)) \<subseteq> {length h..<length (snd (clone' x h))}"
    by (simp_all add: e foot' parts)
  from p show "foot' h x \<subseteq> {..<length h} \<Longrightarrow> view' (snd (clone' x h)) (fst (clone' x h)) = copy' (view' h x)"
    by (simp add: e foot' view' parts copy')
  assume "agree (foot' h x) h h'"
  then show "view' h' x = view' h x" "foot' h' x = foot' h x"
    by (simp_all add: foot' view' view_frame foot_frame)
qed

end

text \<open>One copy after the other.\<close>

lemma deep_copy_both:
  fixes clone1 :: "'x \<Rightarrow> 'c heap \<Rightarrow> 'x \<times> 'c heap" and clone2 :: "'y \<Rightarrow> 'c heap \<Rightarrow> 'y \<times> 'c heap"
  assumes "deep_copy clone1 view1 foot1 copy1" and "deep_copy clone2 view2 foot2 copy2"
  shows "deep_copy (clone_both clone1 clone2) (\<lambda>h p. (view1 h (fst p), view2 h (snd p)))
    (\<lambda>h p. foot1 h (fst p) \<union> foot2 h (snd p)) (map_prod copy1 copy2)"
proof
  note c1 = deep_copy.clone_parts [OF assms(1)] and c2 = deep_copy.clone_parts [OF assms(2)]
  note k1 = deep_copy.kept [OF assms(1)] and k2 = deep_copy.kept [OF assms(2)]
  fix h h' :: "'c heap" and p :: "'x \<times> 'y"
  obtain x1 h1 where x: "clone1 (fst p) h = (x1, h1)" by fastforce
  obtain y2 h2 where y: "clone2 (snd p) h1 = (y2, h2)" by fastforce
  note px = c1 [OF x] and py = c2 [OF y]
  have e: "clone_both clone1 clone2 p h = ((x1, y2), h2)"
    using x y by (simp add: clone_both_def case_prod_beta)
  have len: "length h \<le> length h1" "length h1 \<le> length h2" using px(1) py(1) by (simp_all add: prefix_length)
  have valid1: "foot1 h1 x1 \<subseteq> {..<length h1}" using px(2) by auto
  note kx = k1 [OF py(1) valid1]
  show "prefix h (snd (clone_both clone1 clone2 p h))"
    using px(1) py(1) by (auto simp: e)
  show "foot1 (snd (clone_both clone1 clone2 p h)) (fst (fst (clone_both clone1 clone2 p h)))
      \<union> foot2 (snd (clone_both clone1 clone2 p h)) (snd (fst (clone_both clone1 clone2 p h)))
      \<subseteq> {length h..<length (snd (clone_both clone1 clone2 p h))}"
    using px(2) py(2) len by (force simp: e kx)
  show "(view1 (snd (clone_both clone1 clone2 p h)) (fst (fst (clone_both clone1 clone2 p h))),
         view2 (snd (clone_both clone1 clone2 p h)) (snd (fst (clone_both clone1 clone2 p h))))
      = map_prod copy1 copy2 (view1 h (fst p), view2 h (snd p))"
    if valid: "foot1 h (fst p) \<union> foot2 h (snd p) \<subseteq> {..<length h}"
  proof -
    from valid have v2: "foot2 h (snd p) \<subseteq> {..<length h}" by simp
    note ky = k2 [OF px(1) v2]
    have "foot2 h1 (snd p) \<subseteq> {..<length h1}" using v2 len by (auto simp: ky)
    with px(3) py(3) valid show ?thesis by (simp add: e kx ky)
  qed
  assume "agree (foot1 h (fst p) \<union> foot2 h (snd p)) h h'"
  then have "agree (foot1 h (fst p)) h h'" "agree (foot2 h (snd p)) h h'" by (auto simp: agree_def)
  then show "(view1 h' (fst p), view2 h' (snd p)) = (view1 h (fst p), view2 h (snd p))"
    "foot1 h' (fst p) \<union> foot2 h' (snd p) = foot1 h (fst p) \<union> foot2 h (snd p)"
    by (simp_all add: deep_copy.view_frame [OF assms(1)] deep_copy.view_frame [OF assms(2)]
        deep_copy.foot_frame [OF assms(1)] deep_copy.foot_frame [OF assms(2)])
qed

text \<open>
  A new cell for the copies of what a cell holds, for a map once the entries are entered
  one after the other (\<open>enter\<close>; for a slice nothing is to do).
\<close>

lemma deep_copy_entered:
  assumes elem: "deep_copy clone view foot copy"
    and clone': "\<And>p h. clone' p h = (let (xs, h1) = clone_each clone (deref as_type h p) h; (a, h2) = alloc (mk xs) h1 in (Some a, h2))"
    and read: "\<And>xs. as_type (Some (mk xs)) = enter xs"
    and enter_set: "\<And>xs. set (enter xs) \<subseteq> set xs"
    and enter_view: "\<And>h xs. map (view h) (enter xs) = enter' (map (view h) xs)"
  shows "deep_copy clone' (\<lambda>h p. map (view h) (deref as_type h p))
    (\<lambda>h p. set_option p \<union> \<Union> (foot h ` set (deref as_type h p))) (\<lambda>vs. enter' (map copy vs))"
proof
  note each = deep_copy.each [OF elem]
  fix h h' and p :: pointer
  obtain xs h1 where c: "clone_each clone (deref as_type h p) h = (xs, h1)" by fastforce
  note px = deep_copy.clone_parts [OF each c]
  have e: "clone' p h = (Some (length h1), h1 @ [mk xs])"
    by (simp add: clone' c alloc_def)
  have len: "length h \<le> length h1" using px(1) by (rule prefix_length)
  have valid1: "\<Union> (foot h1 ` set xs) \<subseteq> {..<length h1}" using px(2) by fastforce
  have k: "map (view (h1 @ [mk xs])) xs = map (view h1) xs"
    "\<Union> (foot (h1 @ [mk xs]) ` set xs) = \<Union> (foot h1 ` set xs)"
    by (rule deep_copy.kept [OF each _ valid1], simp)+
  have "\<Union> (foot (h1 @ [mk xs]) ` set (enter xs)) \<subseteq> \<Union> (foot h1 ` set xs)"
    using enter_set [of xs] k(2) by blast
  with px(2) have "\<Union> (foot (h1 @ [mk xs]) ` set (enter xs)) \<subseteq> {length h..<length h1}" by (rule order_trans [rotated])
  then have "set_option (Some (length h1)) \<union> \<Union> (foot (h1 @ [mk xs]) ` set (enter xs)) \<subseteq> {length h..<length (h1 @ [mk xs])}"
    using len by (simp add: ivl_subset) (meson atLeastLessThan_subset_iff ivl_subset le_SucI order_refl order_trans)
  then show "set_option (fst (clone' p h))
      \<union> \<Union> (foot (snd (clone' p h)) ` set (deref as_type (snd (clone' p h)) (fst (clone' p h))))
      \<subseteq> {length h..<length (snd (clone' p h))}"
    unfolding e fst_conv snd_conv deref_simps load_alloc read .
  show "prefix h (snd (clone' p h))" using px(1) by (simp add: e prefix_prefix)
  show "map (view (snd (clone' p h))) (deref as_type (snd (clone' p h)) (fst (clone' p h)))
      = enter' (map copy (map (view h) (deref as_type h p)))"
    if "set_option p \<union> \<Union> (foot h ` set (deref as_type h p)) \<subseteq> {..<length h}"
  proof -
    from that have "map (view h1) xs = map copy (map (view h) (deref as_type h p))" using px(3) by blast
    then show ?thesis unfolding e fst_conv snd_conv deref_simps load_alloc read enter_view k by simp
  qed
  assume a: "agree (set_option p \<union> \<Union> (foot h ` set (deref as_type h p))) h h'"
  then have d: "deref as_type h' p = deref as_type h p" by (rule deref_agree [OF agree_subset]) simp
  from a have "agree (\<Union> (foot h ` set (deref as_type h p))) h h'" by (rule agree_subset) simp
  with d show "map (view h') (deref as_type h' p) = map (view h) (deref as_type h p)"
    "set_option p \<union> \<Union> (foot h' ` set (deref as_type h' p)) = set_option p \<union> \<Union> (foot h ` set (deref as_type h p))"
    by (simp_all add: deep_copy.view_frame [OF each] deep_copy.foot_frame [OF each])
qed

lemma deep_copy_slice:
  assumes "deep_copy clone view foot copy" and "\<And>xs. as_type (Some (mk xs)) = xs"
  shows "deep_copy (clone_slice mk as_type clone) (\<lambda>h p. map (view h) (deref as_type h p))
    (\<lambda>h p. set_option p \<union> \<Union> (foot h ` set (deref as_type h p))) (map copy)"
  using deep_copy_entered [OF assms(1), of "clone_slice mk as_type clone" as_type mk "\<lambda>xs. xs" "\<lambda>vs. vs"] assms(2)
  by (simp add: clone_slice_def)

text \<open>The same for a map, whose entries are cloned and entered into a new one.\<close>

definition clone_map ::
  "(('k, 'x) gomap \<Rightarrow> 'c) \<Rightarrow> ('c option \<Rightarrow> ('k, 'x) gomap) \<Rightarrow> ('x \<Rightarrow> 'c heap \<Rightarrow> 'x \<times> 'c heap)
     \<Rightarrow> pointer \<Rightarrow> 'c heap \<Rightarrow> pointer \<times> 'c heap" where
  "clone_map mk as_type clone p h =
     (let (entries, h1) = clone_each (clone_value clone) (deref as_type h p) h;
          (a, h2) = alloc (mk (copy_into (\<lambda>v. v) entries [])) h1
      in (Some a, h2))"

definition view_entry :: "('c heap \<Rightarrow> 'x \<Rightarrow> 'v) \<Rightarrow> 'c heap \<Rightarrow> 'k \<times> 'x \<Rightarrow> 'k \<times> 'v" where
  "view_entry view h = (\<lambda>(k, x). (k, view h x))"

definition foot_entry :: "('c heap \<Rightarrow> 'x \<Rightarrow> nat set) \<Rightarrow> 'c heap \<Rightarrow> 'k \<times> 'x \<Rightarrow> nat set" where
  "foot_entry foot h = (\<lambda>(k, x). foot h x)"

lemma map_set_view: "map (\<lambda>(k, x). (k, f x)) (map_set m k v) = map_set (map (\<lambda>(k, x). (k, f x)) m) k (f v)"
  by (induction m) auto

lemma copy_into_view:
  "map (\<lambda>(k, x). (k, f x)) (copy_into (\<lambda>v. v) m c) =
     copy_into (\<lambda>v. v) (map (\<lambda>(k, x). (k, f x)) m) (map (\<lambda>(k, x). (k, f x)) c)"
  by (induction m arbitrary: c) (auto simp: copy_into_def map_set_view)

lemma copy_into_map: "copy_into (\<lambda>v. v) (map (\<lambda>(k, x). (k, f x)) m) c = copy_into f m c"
  by (induction m arbitrary: c) (auto simp: copy_into_def)

lemma set_map_set: "set (map_set m k v) \<subseteq> insert (k, v) (set m)"
  by (induction m) auto

lemma set_copy_into: "set (copy_into (\<lambda>v. v) m c) \<subseteq> set m \<union> set c"
proof (induction m arbitrary: c)
  case (Cons p m)
  obtain k v where p: "p = (k, v)" by fastforce
  from Cons [of "map_set c k v"] set_map_set [where m = c and k = k and v = v] show ?case by (auto simp: copy_into_def p)
qed (simp add: copy_into_def)

lemma deep_copy_map:
  fixes clone :: "'x \<Rightarrow> 'c heap \<Rightarrow> 'x \<times> 'c heap" and as_type :: "'c option \<Rightarrow> ('k, 'x) gomap"
  assumes elem: "deep_copy clone view foot copy" and read: "\<And>xs. as_type (Some (mk xs)) = xs"
  shows "deep_copy (clone_map mk as_type clone) (\<lambda>h p. map (view_entry view h) (deref as_type h p))
    (\<lambda>h p. set_option p \<union> \<Union> (foot_entry foot h ` set (deref as_type h p))) (\<lambda>m. copy_into copy m [])"
  unfolding view_entry_def foot_entry_def
proof (rule deep_copy_entered [OF deep_copy.entry [OF elem], of "clone_map mk as_type clone" as_type
      "\<lambda>entries. mk (copy_into (\<lambda>v. v) entries [])" "\<lambda>m. copy_into (\<lambda>v. v) m []" "\<lambda>m. copy_into (\<lambda>v. v) m []",
      unfolded copy_into_map])
  show "set (copy_into (\<lambda>v. v) xs []) \<subseteq> set xs" for xs :: "('k \<times> 'x) list"
    using set_copy_into [of xs "[]"] by simp
qed (simp_all add: read clone_map_def copy_into_view copy_into_map)

text \<open>A new cell for a value without pointers; a nil pointer may stay nil or get a cell.\<close>

lemma deep_copy_cell:
  assumes clone: "\<And>p h. clone p h = (if stays (deref as_type h p) then (None, h)
      else let (a, h') = alloc (mk (copy (deref as_type h p))) h in (Some a, h'))"
    and read: "\<And>v. \<not> stays v \<Longrightarrow> as_type (Some (mk (copy v))) = copy v"
    and stays: "\<And>v. stays v \<Longrightarrow> as_type None = copy v"
  shows "deep_copy clone (deref as_type) (\<lambda>h p. set_option p) copy"
proof
  fix h h' and p :: pointer
  show "prefix h (snd (clone p h))" "set_option (fst (clone p h)) \<subseteq> {length h..<length (snd (clone p h))}"
    "deref as_type (snd (clone p h)) (fst (clone p h)) = copy (deref as_type h p)"
    by (auto simp: clone alloc_def read stays)
  show "agree (set_option p) h h' \<Longrightarrow> deref as_type h' p = deref as_type h p" by (rule deref_agree)
qed (rule refl)

text \<open>A part without pointers is copied by assignment.\<close>

definition assign :: "'x \<Rightarrow> 'c heap \<Rightarrow> 'x \<times> 'c heap" where
  "assign x h = (x, h)"

lemma deep_copy_assign: "deep_copy assign (\<lambda>h x. x) (\<lambda>h x. {}) (\<lambda>v. v)"
  by unfold_locales (simp_all add: assign_def)

section \<open>Indexes of copies\<close>

lemma index_into_map: "index_into key val (map f xs) m = index_into (\<lambda>x. key (f x)) (\<lambda>x. val (f x)) xs m"
  by (induction xs arbitrary: m) (simp_all add: index_into_def)

lemma view_index_into:
  "map (view_entry view h) (index_into key val xs m) =
     index_into key (\<lambda>x. view h (val x)) xs (map (view_entry view h) m)"
  by (induction xs arbitrary: m) (simp_all add: index_into_def view_entry_def map_set_view)

lemma set_index_into: "set (index_into key (\<lambda>x. x) xs m) \<subseteq> (\<lambda>x. (key x, x)) ` set xs \<union> set m"
proof (induction xs arbitrary: m)
  case (Cons x xs)
  from Cons [of "map_set m (key x) x"] set_map_set [where m = m and k = "key x" and v = x] show ?case by (auto simp: index_into_def)
qed (simp add: index_into_def)

context deep_copy
begin

text \<open>An index of the copies, by a key that the copies keep.\<close>

lemma index_parts:
  assumes "clone_each clone xs h = (xs', h')" and "\<Union> (foot h ` set xs) \<subseteq> {..<length h}"
    and key: "\<And>x. key x = key' (view h' x)" and key': "\<And>v. key' (copy v) = key' v"
  shows "map (view_entry view h') (index_into key (\<lambda>x. x) xs' []) = index_into key' copy (map (view h) xs) []"
    and "\<Union> (foot_entry foot h' ` set (index_into key (\<lambda>x. x) xs' [])) \<subseteq> {length h..<length h'}"
proof -
  note parts = each_parts [OF assms(1)]
  have "map (view_entry view h') (index_into key (\<lambda>x. x) xs' []) = index_into key' (\<lambda>v. v) (map (view h') xs') []"
    by (simp add: view_index_into index_into_map key [abs_def])
  also have "map (view h') xs' = map copy (map (view h) xs)" using parts assms(2) by blast
  also have "index_into key' (\<lambda>v. v) (map copy (map (view h) xs)) [] = index_into key' copy (map (view h) xs) []"
    by (subst index_into_map) (simp add: key')
  finally show "map (view_entry view h') (index_into key (\<lambda>x. x) xs' []) = index_into key' copy (map (view h) xs) []" .
  show "\<Union> (foot_entry foot h' ` set (index_into key (\<lambda>x. x) xs' [])) \<subseteq> {length h..<length h'}"
  proof -
    have "\<Union> (foot_entry foot h' ` set (index_into key (\<lambda>x. x) xs' [])) \<subseteq> \<Union> (foot h' ` set xs')"
      using set_index_into [of key xs' "[]"] by (force simp: foot_entry_def)
    with parts show ?thesis by blast
  qed
qed

text \<open>An index depends on its footprint only, like what it holds.\<close>

lemma entries: "deep_copy (clone_each (clone_value clone)) (\<lambda>h. map (view_entry view h))
  (\<lambda>h m. \<Union> (foot_entry foot h ` set m)) (map (\<lambda>(k, v). (k, copy v)))"
  unfolding view_entry_def foot_entry_def by (rule deep_copy.each [OF entry])

lemmas index_frame = deep_copy.view_frame [OF entries] deep_copy.foot_frame [OF entries]

text \<open>Looking up what an index holds, and copying it.\<close>

lemma index_lookup:
  "map_get (map (view_entry view h) m) k = map_option (view h) (map_get m k)"
  "map_get m k = Some x \<Longrightarrow> foot h x \<subseteq> \<Union> (foot_entry foot h ` set m)"
  by (simp add: view_entry_def map_get_map) (force simp: foot_entry_def dest: map_of_SomeD)

end

end
