(* ===== verification/Shared_Store.thy ===== *)
theory Shared_Store
  imports Go_Heap
begin

text \<open>
  The interface of the two in-memory stores (ParserSvc and InventorySvc, both
  internal/store/memory/store.go) on a heap, with the callers that share it: they build
  cells, overwrite every cell they know, and call the store. They know the cells they built
  and those of the answers they got; Go gives them no other address. The mutex makes a call
  one step.
\<close>

text \<open>What the callers see of a store: its operations, and how its values are read.\<close>

record ('c, 'snap, 'host, 'st, 'vsnap, 'vhost) heap_api =
  api_Replace :: "'snap \<Rightarrow> 'st \<Rightarrow> 'c heap \<Rightarrow> 'st \<times> 'c heap"
  api_SetReady :: "bool \<Rightarrow> 'st \<Rightarrow> 'st"
  api_GetSnapshot :: "'st \<Rightarrow> 'c heap \<Rightarrow> 'snap \<times> 'c heap"
  api_GetHost :: "'st \<Rightarrow> string \<Rightarrow> 'c heap \<Rightarrow> 'host option \<times> 'c heap"
  api_IsReady :: "'st \<Rightarrow> bool"
  api_view_snapshot :: "'c heap \<Rightarrow> 'snap \<Rightarrow> 'vsnap"
  api_foot_snapshot :: "'c heap \<Rightarrow> 'snap \<Rightarrow> nat set"
  api_view_host :: "'c heap \<Rightarrow> 'host \<Rightarrow> 'vhost"
  api_foot_host :: "'c heap \<Rightarrow> 'host \<Rightarrow> nat set"

datatype ('c, 'snap) caller_op =
  Make 'c | Overwrite nat 'c | Call_Replace 'snap | Call_SetReady bool
| Call_GetSnapshot | Call_GetHost string | Call_IsReady

text \<open>What a call says, in values: the argument as it is then, the answer as it is then.\<close>

datatype ('vsnap, 'vhost) store_event =
  Replaced 'vsnap | Ready_set bool | Snapshot_read 'vsnap
| Host_read string "'vhost option" | Ready_read bool

definition foot_option :: "('c heap \<Rightarrow> 'x \<Rightarrow> nat set) \<Rightarrow> 'c heap \<Rightarrow> 'x option \<Rightarrow> nat set" where
  "foot_option foot h p = (case p of None \<Rightarrow> {} | Some x \<Rightarrow> foot h x)"

text \<open>One step of the callers; \<open>None\<close> is one that uses an address they do not know.\<close>

fun caller_step ::
  "('c, 'snap, 'host, 'st, 'vsnap, 'vhost) heap_api \<Rightarrow> ('c, 'snap) caller_op \<Rightarrow> 'c heap \<times> 'st \<times> nat set
     \<Rightarrow> (('vsnap, 'vhost) store_event list \<times> 'c heap \<times> 'st \<times> nat set) option" where
  "caller_step api (Make c) (h, st, known) = (let (a, h') = alloc c h in Some ([], h', st, insert a known))"
| "caller_step api (Overwrite a c) (h, st, known) = (if a \<in> known then Some ([], h[a := c], st, known) else None)"
| "caller_step api (Call_Replace s) (h, st, known) =
     (if api_foot_snapshot api h s \<subseteq> known
      then let (st', h') = api_Replace api s st h in Some ([Replaced (api_view_snapshot api h s)], h', st', known)
      else None)"
| "caller_step api (Call_SetReady b) (h, st, known) = Some ([Ready_set b], h, api_SetReady api b st, known)"
| "caller_step api Call_GetSnapshot (h, st, known) =
     (let (s, h') = api_GetSnapshot api st h
      in Some ([Snapshot_read (api_view_snapshot api h' s)], h', st, known \<union> api_foot_snapshot api h' s))"
| "caller_step api (Call_GetHost i) (h, st, known) =
     (let (r, h') = api_GetHost api st i h
      in Some ([Host_read i (map_option (api_view_host api h') r)], h', st, known \<union> foot_option (api_foot_host api) h' r))"
| "caller_step api Call_IsReady (h, st, known) = Some ([Ready_read (api_IsReady api st)], h, st, known)"

fun caller_run ::
  "('c, 'snap, 'host, 'st, 'vsnap, 'vhost) heap_api \<Rightarrow> ('c, 'snap) caller_op list \<Rightarrow> 'c heap \<times> 'st \<times> nat set
     \<Rightarrow> ('vsnap, 'vhost) store_event list option" where
  "caller_run api [] w = Some []"
| "caller_run api (oper # ops) w =
     (case caller_step api oper w of
        None \<Rightarrow> None
      | Some (evs, w') \<Rightarrow> (case caller_run api ops w' of None \<Rightarrow> None | Some evs' \<Rightarrow> Some (evs @ evs')))"

text \<open>The calls answer what a store of values would answer to them.\<close>

fun answers_of_values ::
  "('vsnap \<Rightarrow> 'v \<Rightarrow> 'v) \<Rightarrow> (bool \<Rightarrow> 'v \<Rightarrow> 'v) \<Rightarrow> ('v \<Rightarrow> 'vsnap) \<Rightarrow> ('v \<Rightarrow> string \<Rightarrow> 'vhost option) \<Rightarrow> ('v \<Rightarrow> bool)
     \<Rightarrow> 'v \<Rightarrow> ('vsnap, 'vhost) store_event list \<Rightarrow> bool" where
  "answers_of_values replace set_ready get get_host is_ready st [] = True"
| "answers_of_values replace set_ready get get_host is_ready st (Replaced s # evs) =
     answers_of_values replace set_ready get get_host is_ready (replace s st) evs"
| "answers_of_values replace set_ready get get_host is_ready st (Ready_set b # evs) =
     answers_of_values replace set_ready get get_host is_ready (set_ready b st) evs"
| "answers_of_values replace set_ready get get_host is_ready st (Snapshot_read s # evs) =
     (s = get st \<and> answers_of_values replace set_ready get get_host is_ready st evs)"
| "answers_of_values replace set_ready get get_host is_ready st (Host_read i r # evs) =
     (r = get_host st i \<and> answers_of_values replace set_ready get get_host is_ready st evs)"
| "answers_of_values replace set_ready get get_host is_ready st (Ready_read b # evs) =
     (b = is_ready st \<and> answers_of_values replace set_ready get get_host is_ready st evs)"

section \<open>The contract\<close>

locale shared_store =
  fixes api :: "('c, 'snap, 'host, 'st, 'vsnap, 'vhost) heap_api"
    and view_st :: "'c heap \<Rightarrow> 'st \<Rightarrow> 'v"
    and foot_st :: "'c heap \<Rightarrow> 'st \<Rightarrow> nat set"
    and replace :: "'vsnap \<Rightarrow> 'v \<Rightarrow> 'v"
    and set_ready :: "bool \<Rightarrow> 'v \<Rightarrow> 'v"
    and get :: "'v \<Rightarrow> 'vsnap"
    and get_host :: "'v \<Rightarrow> string \<Rightarrow> 'vhost option"
    and is_ready :: "'v \<Rightarrow> bool"
  assumes replace_sim: "api_foot_snapshot api h s \<subseteq> {..<length h} \<Longrightarrow> api_Replace api s st h = (st', h') \<Longrightarrow>
      prefix h h' \<and> foot_st h' st' \<subseteq> {length h..<length h'}
      \<and> view_st h' st' = replace (api_view_snapshot api h s) (view_st h st)"
    and ready_sim: "view_st h (api_SetReady api b st) = set_ready b (view_st h st) \<and> foot_st h (api_SetReady api b st) = foot_st h st"
    and get_sim: "foot_st h st \<subseteq> {..<length h} \<Longrightarrow> api_GetSnapshot api st h = (s, h') \<Longrightarrow>
      prefix h h' \<and> api_foot_snapshot api h' s \<subseteq> {length h..<length h'} \<and> api_view_snapshot api h' s = get (view_st h st)"
    and host_sim: "foot_st h st \<subseteq> {..<length h} \<Longrightarrow> api_GetHost api st i h = (r, h') \<Longrightarrow>
      prefix h h' \<and> foot_option (api_foot_host api) h' r \<subseteq> {length h..<length h'}
      \<and> map_option (api_view_host api h') r = get_host (view_st h st) i"
    and is_ready_sim: "api_IsReady api st = is_ready (view_st h st)"
    and st_frame: "agree (foot_st h st) h h' \<Longrightarrow> view_st h' st = view_st h st \<and> foot_st h' st = foot_st h st"
begin

text \<open>The callers know none of the cells of the store, and all of both are allocated.\<close>

definition apart :: "'c heap \<times> 'st \<times> nat set \<Rightarrow> bool" where
  "apart = (\<lambda>(h, st, known). foot_st h st \<inter> known = {} \<and> foot_st h st \<union> known \<subseteq> {..<length h})"

lemma st_kept:
  assumes "prefix h h'" and "foot_st h st \<subseteq> {..<length h}"
  shows "view_st h' st = view_st h st" and "foot_st h' st = foot_st h st"
  using st_frame [OF agree_prefix [OF assms]] by simp_all

text \<open>What a step does to the store, as values.\<close>

fun effect :: "('vsnap, 'vhost) store_event list \<Rightarrow> 'v \<Rightarrow> 'v" where
  "effect [] v = v"
| "effect (Replaced s # evs) v = effect evs (replace s v)"
| "effect (Ready_set b # evs) v = effect evs (set_ready b v)"
| "effect (e # evs) v = effect evs v"

abbreviation explained :: "'v \<Rightarrow> ('vsnap, 'vhost) store_event list \<Rightarrow> bool" where
  "explained \<equiv> answers_of_values replace set_ready get get_host is_ready"

lemma explained_append: "explained v (evs @ evs') \<longleftrightarrow> explained v evs \<and> explained (effect evs v) evs'"
proof (induction evs arbitrary: v)
  case (Cons e evs)
  then show ?case by (cases e) simp_all
qed simp

lemma fresh_apart:
  assumes "apart (h, st, known)" and "prefix h h'" and "new \<subseteq> {length h..<length h'}"
  shows "apart (h', st, known \<union> new)" and "view_st h' st = view_st h st"
  using assms st_kept [OF assms(2), of st] prefix_length [OF assms(2)]
  by (fastforce simp: apart_def)+

lemma step_sim:
  assumes "apart (h, st, known)" and "caller_step api oper (h, st, known) = Some (evs, h', st', known')"
  shows "apart (h', st', known')" and "explained (view_st h st) evs" and "view_st h' st' = effect evs (view_st h st)"
proof -
  from assms(1) have valid: "foot_st h st \<subseteq> {..<length h}" and known: "known \<subseteq> {..<length h}"
    by (auto simp: apart_def)
  have "apart (h', st', known') \<and> explained (view_st h st) evs \<and> view_st h' st' = effect evs (view_st h st)"
  proof (cases oper)
    case (Make c)
    with assms(2) have "evs = []" "h' = h @ [c]" "st' = st" "known' = known \<union> {length h}" by (auto simp: alloc_def)
    then show ?thesis using fresh_apart [OF assms(1), of h' "{length h}"] by simp
  next
    case (Overwrite a c)
    with assms(2) have eqs: "evs = []" "h' = h[a := c]" "st' = st" "known' = known" "a \<in> known"
      by (auto split: if_splits)
    with assms(1) have "a \<notin> foot_st h st" by (auto simp: apart_def)
    from st_frame [OF agree_update [OF this, where c = c]] eqs assms(1) show ?thesis by (simp add: apart_def)
  next
    case (Call_Replace s)
    obtain st1 h1 where r: "api_Replace api s st h = (st1, h1)" by fastforce
    with Call_Replace assms(2) have eqs: "evs = [Replaced (api_view_snapshot api h s)]" "h' = h1" "st' = st1" "known' = known"
      and arg: "api_foot_snapshot api h s \<subseteq> {..<length h}" using known by (auto split: if_splits)
    note sim = replace_sim [OF arg r]
    then have "length h \<le> length h1" by (simp add: prefix_length)
    with sim known eqs show ?thesis by (fastforce simp: apart_def)
  next
    case (Call_SetReady b)
    with assms ready_sim show ?thesis by (auto simp: apart_def)
  next
    case Call_GetSnapshot
    obtain s h1 where r: "api_GetSnapshot api st h = (s, h1)" by fastforce
    note sim = get_sim [OF valid r]
    with r assms(2) Call_GetSnapshot fresh_apart [OF assms(1), of h1 "api_foot_snapshot api h1 s"]
    show ?thesis by auto
  next
    case (Call_GetHost i)
    obtain s h1 where r: "api_GetHost api st i h = (s, h1)" by fastforce
    note sim = host_sim [OF valid r]
    with r assms(2) Call_GetHost fresh_apart [OF assms(1), of h1 "foot_option (api_foot_host api) h1 s"]
    show ?thesis by auto
  next
    case Call_IsReady
    with assms is_ready_sim [of st h] show ?thesis by auto
  qed
  then show "apart (h', st', known')" "explained (view_st h st) evs" "view_st h' st' = effect evs (view_st h st)"
    by blast+
qed

text \<open>So no caller can change what another one, or it itself, is answered.\<close>

lemma run_explained:
  "apart (h, st, known) \<Longrightarrow> caller_run api ops (h, st, known) = Some evs \<Longrightarrow> explained (view_st h st) evs"
proof (induction ops arbitrary: h st known evs)
  case (Cons oper ops)
  from Cons.prems(2) obtain evs1 h1 st1 known1 evs2
    where s: "caller_step api oper (h, st, known) = Some (evs1, h1, st1, known1)"
      and r: "caller_run api ops (h1, st1, known1) = Some evs2" and evs: "evs = evs1 @ evs2"
    by (auto split: option.splits)
  note sim = step_sim [OF Cons.prems(1) s]
  from Cons.IH [OF sim(1) r] sim(2,3) show ?case by (simp add: evs explained_append)
qed simp

end

section \<open>The two steps of Replace, and of a lookup\<close>

lemma replace_parts:
  assumes snap: "deep_copy clone_s view_s foot_s copy_s" and host: "deep_copy clone_h view_h foot_h copy_h"
    and within: "\<And>h s. \<Union> (foot_h h ` set (hosts_of h s)) \<subseteq> foot_s h s"
    and hosts: "\<And>h s. map (view_h h) (hosts_of h s) = hosts' (view_s h s)"
    and key: "\<And>h x. key x = key' (view_h h x)" and key': "\<And>v. key' (copy_h v) = key' v"
    and c: "clone_s s h = (c, h1)" and each: "clone_each clone_h (hosts_of h1 c) h1 = (hs, h2)"
    and valid: "foot_s h s \<subseteq> {..<length h}"
  defines "index \<equiv> index_into key (\<lambda>x. x) hs []"
  shows "prefix h h2" and "view_s h2 c = copy_s (view_s h s)"
    and "map (view_entry view_h h2) index = index_into key' copy_h (hosts' (copy_s (view_s h s))) []"
    and "foot_s h2 c \<union> \<Union> (foot_entry foot_h h2 ` set index) \<subseteq> {length h..<length h2}"
proof -
  note pc = deep_copy.clone_parts [OF snap c]
  note pre2 = deep_copy.each_parts [OF host each, THEN conjunct1]
  have len: "length h \<le> length h1" "length h1 \<le> length h2" using pc(1) pre2 by (simp_all add: prefix_length)
  have validc: "foot_s h1 c \<subseteq> {..<length h1}" using pc(2) by auto
  then have validh: "\<Union> (foot_h h1 ` set (hosts_of h1 c)) \<subseteq> {..<length h1}" using within [of h1 c] by blast
  note idx = deep_copy.index_parts [OF host each validh key key', folded index_def]
  note kc = deep_copy.kept [OF snap pre2 validc]
  show "prefix h h2" using pc(1) pre2 by auto
  show "view_s h2 c = copy_s (view_s h s)" using pc(3) [OF valid] by (simp add: kc)
  show "map (view_entry view_h h2) index = index_into key' copy_h (hosts' (copy_s (view_s h s))) []"
    using idx(1) by (simp add: hosts pc(3) [OF valid])
  have "{length h1..<length h2} \<subseteq> {length h..<length h2}" "{length h..<length h1} \<subseteq> {length h..<length h2}"
    using len by auto
  with pc(2) idx(2) show "foot_s h2 c \<union> \<Union> (foot_entry foot_h h2 ` set index) \<subseteq> {length h..<length h2}"
    unfolding kc by blast
qed

lemma lookup_parts:
  assumes host: "deep_copy clone view foot copy"
    and r: "(case map_get index i of None \<Rightarrow> (None, h) | Some x \<Rightarrow> let (x', h') = clone x h in (Some x', h')) = (r, h')"
    and valid: "\<Union> (foot_entry foot h ` set index) \<subseteq> {..<length h}"
  shows "prefix h h' \<and> foot_option foot h' r \<subseteq> {length h..<length h'}
    \<and> map_option (view h') r = (case map_get (map (view_entry view h) index) i of None \<Rightarrow> None | Some v \<Rightarrow> Some (copy v))"
proof (cases "map_get index i")
  case None
  with r show ?thesis by (simp add: deep_copy.index_lookup [OF host] foot_option_def)
next
  case (Some x)
  obtain x' h1 where c: "clone x h = (x', h1)" by fastforce
  from deep_copy.index_lookup(2) [OF host Some, of h] valid have "foot h x \<subseteq> {..<length h}" by blast
  with deep_copy.clone_parts [OF host c] r Some show ?thesis
    by (auto simp: deep_copy.index_lookup [OF host] foot_option_def c)
qed

end
