(* ===== verification/Parser_Heap.thy ===== *)
theory Parser_Heap
  imports Parser_Store Shared_Store
begin

text \<open>
  ParserSvc, packages domain and memory, with the sharing that Go has: the same for the
  desired hosts as Inventory_Heap for the hosts of the inventory.
\<close>

section \<open>The structs and what their pointers point to\<close>

record PWorkload =
  hpw_Name :: string
  hpw_Enabled :: bool
  hpw_DeploymentMode :: string
  hpw_Image :: string
  hpw_Version :: pointer
  hpw_Port :: pointer

record PHost =
  hph_HostID :: string
  hph_FQDN :: string
  hph_IP :: string
  hph_Labels :: pointer
  hph_Env :: string
  hph_ManagedBy :: string
  hph_Purpose :: string
  hph_Workloads :: pointer

record PState =
  hps_Hosts :: pointer

record PSnapshot =
  hpn_State :: PState
  hpn_Metadata :: SnapshotMetadata

datatype cell_p =
  String_cell string
| Int_cell int
| Labels_cell_p "(string, string) gomap"
| Workloads_cell_p "PWorkload list"
| Hosts_cell_p "PHost list"

fun as_string :: "cell_p option \<Rightarrow> string option" where
  "as_string (Some (String_cell s)) = Some s" | "as_string _ = None"

fun as_int :: "cell_p option \<Rightarrow> int option" where
  "as_int (Some (Int_cell n)) = Some n" | "as_int _ = None"

fun as_labels_p :: "cell_p option \<Rightarrow> (string, string) gomap" where
  "as_labels_p (Some (Labels_cell_p m)) = m" | "as_labels_p _ = []"

fun as_workloads_p :: "cell_p option \<Rightarrow> PWorkload list" where
  "as_workloads_p (Some (Workloads_cell_p ws)) = ws" | "as_workloads_p _ = []"

fun as_hosts_p :: "cell_p option \<Rightarrow> PHost list" where
  "as_hosts_p (Some (Hosts_cell_p hs)) = hs" | "as_hosts_p _ = []"

section \<open>The Clone methods\<close>

definition clone_port_h :: "pointer \<Rightarrow> cell_p heap \<Rightarrow> pointer \<times> cell_p heap" where
  "clone_port_h port h =
     (case deref as_int h port of
        None \<Rightarrow> (None, h)
      | Some p \<Rightarrow> let (a, h') = alloc (Int_cell p) h in (Some a, h'))"

definition clone_version_h :: "pointer \<Rightarrow> cell_p heap \<Rightarrow> pointer \<times> cell_p heap" where
  "clone_version_h version h =
     (case deref as_string h version of
        None \<Rightarrow> (None, h)
      | Some v \<Rightarrow> let (a, h') = alloc (String_cell v) h in (Some a, h'))"

definition clone_workload_hp :: "PWorkload \<Rightarrow> cell_p heap \<Rightarrow> PWorkload \<times> cell_p heap" where
  "clone_workload_hp w h =
     (let (port, h1) = clone_port_h (hpw_Port w) h;
          (version, h2) = clone_version_h (hpw_Version w) h1
      in (\<lparr>hpw_Name = hpw_Name w, hpw_Enabled = hpw_Enabled w, hpw_DeploymentMode = hpw_DeploymentMode w,
           hpw_Image = hpw_Image w, hpw_Version = version, hpw_Port = port\<rparr>, h2))"

definition clone_labels_hp :: "pointer \<Rightarrow> cell_p heap \<Rightarrow> pointer \<times> cell_p heap" where
  "clone_labels_hp p h =
     (let (a, h') = alloc (Labels_cell_p (copy_into (\<lambda>v. v) (deref as_labels_p h p) [])) h in (Some a, h'))"

definition clone_host_hp :: "PHost \<Rightarrow> cell_p heap \<Rightarrow> PHost \<times> cell_p heap" where
  "clone_host_hp x h =
     (let (labels, h1) = clone_labels_hp (hph_Labels x) h;
          (workloads, h2) = clone_slice Workloads_cell_p as_workloads_p clone_workload_hp (hph_Workloads x) h1
      in (\<lparr>hph_HostID = hph_HostID x, hph_FQDN = hph_FQDN x, hph_IP = hph_IP x, hph_Labels = labels, hph_Env = hph_Env x,
           hph_ManagedBy = hph_ManagedBy x, hph_Purpose = hph_Purpose x, hph_Workloads = workloads\<rparr>, h2))"

definition clone_state_hp :: "PState \<Rightarrow> cell_p heap \<Rightarrow> PState \<times> cell_p heap" where
  "clone_state_hp s h =
     (let (hosts, h') = clone_slice Hosts_cell_p as_hosts_p clone_host_hp (hps_Hosts s) h in (\<lparr>hps_Hosts = hosts\<rparr>, h'))"

definition clone_snapshot_hp :: "PSnapshot \<Rightarrow> cell_p heap \<Rightarrow> PSnapshot \<times> cell_p heap" where
  "clone_snapshot_hp s h =
     (let (state, h') = clone_state_hp (hpn_State s) h in (\<lparr>hpn_State = state, hpn_Metadata = hpn_Metadata s\<rparr>, h'))"

section \<open>Views and footprints\<close>

definition view_workload_p :: "cell_p heap \<Rightarrow> PWorkload \<Rightarrow> DesiredWorkload_p" where
  "view_workload_p h w = \<lparr>pw_Name = hpw_Name w, pw_Enabled = hpw_Enabled w, pw_DeploymentMode = hpw_DeploymentMode w,
     pw_Image = hpw_Image w, pw_Version = deref as_string h (hpw_Version w), pw_Port = deref as_int h (hpw_Port w)\<rparr>"

definition foot_workload_p :: "cell_p heap \<Rightarrow> PWorkload \<Rightarrow> nat set" where
  "foot_workload_p h w = set_option (hpw_Port w) \<union> set_option (hpw_Version w)"

definition view_host_p :: "cell_p heap \<Rightarrow> PHost \<Rightarrow> DesiredHost_p" where
  "view_host_p h x = \<lparr>ph_HostID = hph_HostID x, ph_FQDN = hph_FQDN x, ph_IP = hph_IP x,
     ph_Labels = deref as_labels_p h (hph_Labels x), ph_Env = hph_Env x, ph_ManagedBy = hph_ManagedBy x,
     ph_Purpose = hph_Purpose x, ph_Workloads = map (view_workload_p h) (deref as_workloads_p h (hph_Workloads x))\<rparr>"

definition foot_host_p :: "cell_p heap \<Rightarrow> PHost \<Rightarrow> nat set" where
  "foot_host_p h x = set_option (hph_Labels x)
     \<union> (set_option (hph_Workloads x) \<union> \<Union> (foot_workload_p h ` set (deref as_workloads_p h (hph_Workloads x))))"

definition view_snapshot_p :: "cell_p heap \<Rightarrow> PSnapshot \<Rightarrow> Snapshot" where
  "view_snapshot_p h s =
     \<lparr>sn_State = \<lparr>ps_Hosts = map (view_host_p h) (deref as_hosts_p h (hps_Hosts (hpn_State s)))\<rparr>,
      sn_Metadata = hpn_Metadata s\<rparr>"

definition foot_snapshot_p :: "cell_p heap \<Rightarrow> PSnapshot \<Rightarrow> nat set" where
  "foot_snapshot_p h s = set_option (hps_Hosts (hpn_State s))
     \<union> \<Union> (foot_host_p h ` set (deref as_hosts_p h (hps_Hosts (hpn_State s))))"

section \<open>They are deep copies\<close>

lemma port_copy: "deep_copy clone_port_h (deref as_int) (\<lambda>h p. set_option p) clone_ptr"
  by (rule deep_copy_cell [where as_type = as_int and stays = "\<lambda>v. v = None" and mk = "\<lambda>v. Int_cell (the v)"])
    (auto simp: clone_port_h_def split: option.split)

lemma version_copy: "deep_copy clone_version_h (deref as_string) (\<lambda>h p. set_option p) clone_ptr"
  by (rule deep_copy_cell [where as_type = as_string and stays = "\<lambda>v. v = None" and mk = "\<lambda>v. String_cell (the v)"])
    (auto simp: clone_version_h_def split: option.split)

lemma labels_copy_p: "deep_copy clone_labels_hp (deref as_labels_p) (\<lambda>h p. set_option p) (\<lambda>m. copy_into (\<lambda>v. v) m [])"
  by (rule deep_copy_cell [where as_type = as_labels_p and stays = "\<lambda>v. False" and mk = Labels_cell_p])
    (auto simp: clone_labels_hp_def)

lemma workload_copy_p: "deep_copy clone_workload_hp view_workload_p foot_workload_p clone_workload_p"
  by (rule deep_copy.iso [OF deep_copy_both [OF port_copy version_copy],
      where parts = "\<lambda>w. (hpw_Port w, hpw_Version w)"
      and build = "\<lambda>w (p, v). \<lparr>hpw_Name = hpw_Name w, hpw_Enabled = hpw_Enabled w, hpw_DeploymentMode = hpw_DeploymentMode w,
        hpw_Image = hpw_Image w, hpw_Version = v, hpw_Port = p\<rparr>"
      and shown = "\<lambda>w (p, v). \<lparr>pw_Name = hpw_Name w, pw_Enabled = hpw_Enabled w, pw_DeploymentMode = hpw_DeploymentMode w,
        pw_Image = hpw_Image w, pw_Version = v, pw_Port = p\<rparr>"])
    (auto simp: clone_workload_hp_def view_workload_p_def foot_workload_p_def clone_both_def split: prod.splits)

lemmas workloads_copy_p = deep_copy_slice [OF workload_copy_p, of as_workloads_p Workloads_cell_p, simplified as_workloads_p.simps]

lemma host_copy_p: "deep_copy clone_host_hp view_host_p foot_host_p clone_host_p"
  by (rule deep_copy.iso [OF deep_copy_both [OF labels_copy_p workloads_copy_p],
      where parts = "\<lambda>x. (hph_Labels x, hph_Workloads x)"
      and build = "\<lambda>x (l, w). \<lparr>hph_HostID = hph_HostID x, hph_FQDN = hph_FQDN x, hph_IP = hph_IP x, hph_Labels = l,
        hph_Env = hph_Env x, hph_ManagedBy = hph_ManagedBy x, hph_Purpose = hph_Purpose x, hph_Workloads = w\<rparr>"
      and shown = "\<lambda>x (l, w). \<lparr>ph_HostID = hph_HostID x, ph_FQDN = hph_FQDN x, ph_IP = hph_IP x, ph_Labels = l,
        ph_Env = hph_Env x, ph_ManagedBy = hph_ManagedBy x, ph_Purpose = hph_Purpose x, ph_Workloads = w\<rparr>"])
    (auto simp: clone_host_hp_def view_host_p_def foot_host_p_def clone_host_p_def clone_both_def split: prod.splits)

lemmas hosts_copy_p = deep_copy_slice [OF host_copy_p, of as_hosts_p Hosts_cell_p, simplified as_hosts_p.simps]

lemma snapshot_copy_p: "deep_copy clone_snapshot_hp view_snapshot_p foot_snapshot_p clone_snapshot_p"
  by (rule deep_copy.iso [OF hosts_copy_p,
      where parts = "\<lambda>s. hps_Hosts (hpn_State s)"
      and build = "\<lambda>s hs. \<lparr>hpn_State = \<lparr>hps_Hosts = hs\<rparr>, hpn_Metadata = hpn_Metadata s\<rparr>"
      and shown = "\<lambda>s hs. \<lparr>sn_State = \<lparr>ps_Hosts = hs\<rparr>, sn_Metadata = hpn_Metadata s\<rparr>"])
    (auto simp: clone_snapshot_hp_def clone_state_hp_def view_snapshot_p_def foot_snapshot_p_def clone_snapshot_p_def
      clone_state_p_def split: prod.splits)

section \<open>The store\<close>

record HStore_p =
  hsp_snapshot :: PSnapshot
  hsp_hostsByID :: "(string, PHost) gomap"
  hsp_ready :: bool

definition NewStore_hp :: HStore_p where
  "NewStore_hp = \<lparr>hsp_snapshot = \<lparr>hpn_State = \<lparr>hps_Hosts = None\<rparr>, hpn_Metadata = sn_Metadata zero_snapshot_p\<rparr>,
     hsp_hostsByID = [], hsp_ready = False\<rparr>"

definition Replace_hp :: "PSnapshot \<Rightarrow> HStore_p \<Rightarrow> cell_p heap \<Rightarrow> HStore_p \<times> cell_p heap" where
  "Replace_hp snapshot s h =
     (let (cloned, h1) = clone_snapshot_hp snapshot h;
          (hosts, h2) = clone_each clone_host_hp (deref as_hosts_p h1 (hps_Hosts (hpn_State cloned))) h1;
          updatedHostsByID = index_into hph_HostID (\<lambda>host. host) hosts []
      in (s\<lparr>hsp_snapshot := cloned, hsp_hostsByID := updatedHostsByID\<rparr>, h2))"

definition SetReady_hp :: "bool \<Rightarrow> HStore_p \<Rightarrow> HStore_p" where
  "SetReady_hp ready s = s\<lparr>hsp_ready := ready\<rparr>"

definition IsReady_hp :: "HStore_p \<Rightarrow> bool" where
  "IsReady_hp s = hsp_ready s"

definition GetSnapshot_hp :: "HStore_p \<Rightarrow> cell_p heap \<Rightarrow> PSnapshot \<times> cell_p heap" where
  "GetSnapshot_hp s h = clone_snapshot_hp (hsp_snapshot s) h"

definition GetHost_hp :: "HStore_p \<Rightarrow> string \<Rightarrow> cell_p heap \<Rightarrow> PHost option \<times> cell_p heap" where
  "GetHost_hp s hostID h =
     (case map_get (hsp_hostsByID s) hostID of
        None \<Rightarrow> (None, h)
      | Some host \<Rightarrow> let (clone, h') = clone_host_hp host h in (Some clone, h'))"

definition view_store_p :: "cell_p heap \<Rightarrow> HStore_p \<Rightarrow> Store_p" where
  "view_store_p h s = \<lparr>stp_snapshot = view_snapshot_p h (hsp_snapshot s),
     stp_hostsByID = map (view_entry view_host_p h) (hsp_hostsByID s), stp_ready = hsp_ready s\<rparr>"

definition foot_store_p :: "cell_p heap \<Rightarrow> HStore_p \<Rightarrow> nat set" where
  "foot_store_p h s = foot_snapshot_p h (hsp_snapshot s) \<union> \<Union> (foot_entry foot_host_p h ` set (hsp_hostsByID s))"

definition parser_api :: "(cell_p, PSnapshot, PHost, HStore_p, Snapshot, DesiredHost_p) heap_api" where
  "parser_api = \<lparr>api_Replace = Replace_hp, api_SetReady = SetReady_hp, api_GetSnapshot = GetSnapshot_hp,
     api_GetHost = GetHost_hp, api_IsReady = IsReady_hp, api_view_snapshot = view_snapshot_p,
     api_foot_snapshot = foot_snapshot_p, api_view_host = view_host_p, api_foot_host = foot_host_p\<rparr>"

interpretation parser_host_clone: deep_copy clone_host_hp view_host_p foot_host_p clone_host_p
  by (rule host_copy_p)

interpretation parser_clone: deep_copy clone_snapshot_hp view_snapshot_p foot_snapshot_p clone_snapshot_p
  by (rule snapshot_copy_p)

lemma Replace_hp_sim:
  assumes "foot_snapshot_p h s \<subseteq> {..<length h}" and "Replace_hp s st h = (st', h')"
  shows "prefix h h' \<and> foot_store_p h' st' \<subseteq> {length h..<length h'}
    \<and> view_store_p h' st' = Replace_p (view_snapshot_p h s) (view_store_p h st)"
proof -
  obtain c h1 where c: "clone_snapshot_hp s h = (c, h1)" by fastforce
  obtain hs h2 where hs: "clone_each clone_host_hp (deref as_hosts_p h1 (hps_Hosts (hpn_State c))) h1 = (hs, h2)" by fastforce
  have st': "st' = st\<lparr>hsp_snapshot := c, hsp_hostsByID := index_into hph_HostID (\<lambda>host. host) hs []\<rparr>" "h' = h2"
    using assms(2) by (simp_all add: Replace_hp_def c hs)
  have sides: "\<Union> (foot_host_p h ` set (deref as_hosts_p h (hps_Hosts (hpn_State s)))) \<subseteq> foot_snapshot_p h s"
    "map (view_host_p h) (deref as_hosts_p h (hps_Hosts (hpn_State s))) = ps_Hosts (sn_State (view_snapshot_p h s))"
    "hph_HostID x = ph_HostID (view_host_p h x)" "ph_HostID (clone_host_p v) = ph_HostID v" for h s x v
    by (auto simp: foot_snapshot_p_def view_snapshot_p_def view_host_p_def)
  from replace_parts [OF snapshot_copy_p host_copy_p, where hosts_of = "\<lambda>h s. deref as_hosts_p h (hps_Hosts (hpn_State s))",
      OF sides c hs assms(1)]
  show ?thesis by (simp add: st' view_store_p_def foot_store_p_def Replace_p_def Let_def)
qed

lemma GetHost_hp_sim:
  assumes "foot_store_p h st \<subseteq> {..<length h}" and "GetHost_hp st i h = (r, h')"
  shows "prefix h h' \<and> foot_option foot_host_p h' r \<subseteq> {length h..<length h'}
    \<and> map_option (view_host_p h') r = GetHost_p (view_store_p h st) i"
  using lookup_parts [OF host_copy_p, where index = "hsp_hostsByID st"] assms
  by (simp add: GetHost_hp_def GetHost_p_def view_store_p_def foot_store_p_def)

interpretation parser_shared: shared_store parser_api view_store_p foot_store_p
  Replace_p SetReady_p GetSnapshot_p GetHost_p IsReady_p
proof
  fix h h' st st' s i r b
  show "api_foot_snapshot parser_api h s \<subseteq> {..<length h} \<Longrightarrow> api_Replace parser_api s st h = (st', h') \<Longrightarrow>
      prefix h h' \<and> foot_store_p h' st' \<subseteq> {length h..<length h'}
      \<and> view_store_p h' st' = Replace_p (api_view_snapshot parser_api h s) (view_store_p h st)"
    by (simp add: parser_api_def Replace_hp_sim)
  show "foot_store_p h st \<subseteq> {..<length h} \<Longrightarrow> api_GetHost parser_api st i h = (r, h') \<Longrightarrow>
      prefix h h' \<and> foot_option (api_foot_host parser_api) h' r \<subseteq> {length h..<length h'}
      \<and> map_option (api_view_host parser_api h') r = GetHost_p (view_store_p h st) i"
    by (simp add: parser_api_def GetHost_hp_sim)
  show "foot_store_p h st \<subseteq> {..<length h} \<Longrightarrow> api_GetSnapshot parser_api st h = (s, h') \<Longrightarrow>
      prefix h h' \<and> api_foot_snapshot parser_api h' s \<subseteq> {length h..<length h'}
      \<and> api_view_snapshot parser_api h' s = GetSnapshot_p (view_store_p h st)"
    using parser_clone.clone_parts [of "hsp_snapshot st" h s h']
    by (simp add: parser_api_def GetSnapshot_hp_def GetSnapshot_p_def view_store_p_def foot_store_p_def)
  show "view_store_p h (api_SetReady parser_api b st) = SetReady_p b (view_store_p h st)
      \<and> foot_store_p h (api_SetReady parser_api b st) = foot_store_p h st"
    "api_IsReady parser_api st = IsReady_p (view_store_p h st)"
    by (simp_all add: parser_api_def SetReady_hp_def SetReady_p_def IsReady_hp_def IsReady_p_def view_store_p_def foot_store_p_def)
  assume a: "agree (foot_store_p h st) h h'"
  then have "agree (foot_snapshot_p h (hsp_snapshot st)) h h'" "agree (\<Union> (foot_entry foot_host_p h ` set (hsp_hostsByID st))) h h'"
    by (auto simp: foot_store_p_def agree_def)
  then show "view_store_p h' st = view_store_p h st \<and> foot_store_p h' st = foot_store_p h st"
    by (simp add: view_store_p_def foot_store_p_def parser_host_clone.index_frame
        parser_clone.view_frame parser_clone.foot_frame)
qed

section \<open>Properties\<close>

lemma new_store_apart_p: "parser_shared.apart ([], NewStore_hp, {})" "view_store_p h NewStore_hp = NewStore_p"
  by (simp_all add: parser_shared.apart_def NewStore_hp_def foot_store_p_def foot_snapshot_p_def
      view_store_p_def view_snapshot_p_def NewStore_p_def zero_snapshot_p_def)

text \<open>
  C35: The store keeps the desired hosts to itself: whatever callers do to the cells they
  published and to those of the answers they got, the answers are those of a store of
  values.
\<close>
theorem parser_store_isolated:
  assumes "caller_run parser_api ops ([], NewStore_hp, {}) = Some evs"
  shows "answers_of_values Replace_p SetReady_p GetSnapshot_p GetHost_p IsReady_p NewStore_p evs"
  using parser_shared.run_explained [OF new_store_apart_p(1) assms] by (simp add: new_store_apart_p(2))

definition sample_phost :: PHost where
  "sample_phost = \<lparr>hph_HostID = ''h1'', hph_FQDN = ''h1.local'', hph_IP = [], hph_Labels = None, hph_Env = [],
     hph_ManagedBy = [], hph_Purpose = [], hph_Workloads = Some 1\<rparr>"

definition sample_pworkload :: PWorkload where
  "sample_pworkload = \<lparr>hpw_Name = ''cadvisor'', hpw_Enabled = True, hpw_DeploymentMode = ''container'', hpw_Image = [],
     hpw_Version = None, hpw_Port = Some 0\<rparr>"

text \<open>The port of a published workload is overwritten.\<close>

definition sample_calls_p :: "(cell_p, PSnapshot) caller_op list" where
  "sample_calls_p =
     [Make (Int_cell 8080), Make (Workloads_cell_p [sample_pworkload]), Make (Hosts_cell_p [sample_phost]),
      Call_Replace ((hsp_snapshot NewStore_hp)\<lparr>hpn_State := \<lparr>hps_Hosts = Some 2\<rparr>\<rparr>), Overwrite 0 (Int_cell 1), Call_GetHost ''h1'']"

theorem parser_store_isolated_witness:
  "case caller_run parser_api sample_calls_p ([], NewStore_hp, {}) of
     None \<Rightarrow> False
   | Some evs \<Rightarrow> answers_of_values Replace_p SetReady_p GetSnapshot_p GetHost_p IsReady_p NewStore_p evs \<and> length evs = 2
       \<and> (case last evs of Host_read i (Some host) \<Rightarrow> map pw_Port (ph_Workloads host) = [Some 8080] | _ \<Rightarrow> False)"
proof -
  have "case caller_run parser_api sample_calls_p ([], NewStore_hp, {}) of
     None \<Rightarrow> False
   | Some evs \<Rightarrow> length evs = 2 \<and> (case last evs of Host_read i (Some host) \<Rightarrow> map pw_Port (ph_Workloads host) = [Some 8080] | _ \<Rightarrow> False)"
    by code_simp
  then show ?thesis using parser_store_isolated [of sample_calls_p] by (auto split: option.splits)
qed

end
