(* ===== verification/Inventory_Heap.thy ===== *)
theory Inventory_Heap
  imports Inventory_Store Shared_Store
begin

text \<open>
  InventorySvc, packages domain and memory, with the sharing that Go has: hosts, workloads
  and statuses as structs that hold pointers, the Clone methods and the store on the heap,
  and the proof that they behave as the operations on values of Inventory_Store, whatever
  the callers do to the hosts they pass and get. The map hostsByID and the two structs of
  the store never leave it, so they stand in the store itself.
\<close>

section \<open>The structs and what their pointers point to\<close>

record HWorkload =
  hw_ID :: string
  hw_Name :: string
  hw_Image :: string
  hw_Runtime :: string
  hw_Source :: string
  hw_LastSeenAt :: pointer

record HSourceStatus =
  hso_Source :: string
  hso_Enabled :: bool
  hso_Status :: SourceStatusType
  hso_ObservedAt :: pointer
  hso_Error :: string

record HHost =
  hh_ID :: string
  hh_FQDN :: string
  hh_Labels :: pointer
  hh_Workloads :: pointer
  hh_LastObservedAt :: pointer
  hh_Status :: HostStatus
  hh_SourceStatus :: pointer
  hh_Errors :: pointer

record HMetadata =
  hm_IsPartial :: bool
  hm_TotalHosts :: nat
  hm_FailedHosts :: nat
  hm_LastSyncAt :: pointer
  hm_LastSuccessfulSyncAt :: pointer
  hm_LastFullSyncAt :: pointer
  hm_LastPartialSyncAt :: pointer
  hm_SyncDurationMs :: int

record HSnapshot =
  hsn_Hosts :: pointer
  hsn_Metadata :: HMetadata

datatype cell_i =
  Time_cell gotime
| Labels_cell "(string, string) gomap"
| Statuses_cell "(string, HSourceStatus) gomap"
| Errors_cell "string list"
| Workloads_cell "HWorkload list"
| Hosts_cell "HHost list"

text \<open>A nil map or slice reads as an empty one, a nil time as none.\<close>

fun as_time :: "cell_i option \<Rightarrow> gotime option" where
  "as_time (Some (Time_cell t)) = Some t" | "as_time _ = None"

fun as_labels :: "cell_i option \<Rightarrow> (string, string) gomap" where
  "as_labels (Some (Labels_cell m)) = m" | "as_labels _ = []"

fun as_statuses :: "cell_i option \<Rightarrow> (string, HSourceStatus) gomap" where
  "as_statuses (Some (Statuses_cell m)) = m" | "as_statuses _ = []"

fun as_errors :: "cell_i option \<Rightarrow> string list" where
  "as_errors (Some (Errors_cell es)) = es" | "as_errors _ = []"

fun as_workloads :: "cell_i option \<Rightarrow> HWorkload list" where
  "as_workloads (Some (Workloads_cell ws)) = ws" | "as_workloads _ = []"

fun as_hosts :: "cell_i option \<Rightarrow> HHost list" where
  "as_hosts (Some (Hosts_cell hs)) = hs" | "as_hosts _ = []"

section \<open>The Clone methods\<close>

definition cloneTimePtr :: "pointer \<Rightarrow> cell_i heap \<Rightarrow> pointer \<times> cell_i heap" where
  "cloneTimePtr value h =
     (case deref as_time h value of
        None \<Rightarrow> (None, h)
      | Some clone \<Rightarrow> let (a, h') = alloc (Time_cell clone) h in (Some a, h'))"

definition clone_labels_h :: "pointer \<Rightarrow> cell_i heap \<Rightarrow> pointer \<times> cell_i heap" where
  "clone_labels_h p h =
     (let (a, h') = alloc (Labels_cell (copy_into (\<lambda>v. v) (deref as_labels h p) [])) h in (Some a, h'))"

definition clone_errors_h :: "pointer \<Rightarrow> cell_i heap \<Rightarrow> pointer \<times> cell_i heap" where
  "clone_errors_h p h =
     (let errors = deref as_errors h p;
          (a, h') = alloc (Errors_cell (go_copy (replicate (length errors) []) errors)) h
      in (Some a, h'))"

definition clone_status_h :: "HSourceStatus \<Rightarrow> cell_i heap \<Rightarrow> HSourceStatus \<times> cell_i heap" where
  "clone_status_h status h =
     (let (observedAt, h') = cloneTimePtr (hso_ObservedAt status) h in (status\<lparr>hso_ObservedAt := observedAt\<rparr>, h'))"

definition clone_workload_h :: "HWorkload \<Rightarrow> cell_i heap \<Rightarrow> HWorkload \<times> cell_i heap" where
  "clone_workload_h workload h =
     (let (lastSeenAt, h') = cloneTimePtr (hw_LastSeenAt workload) h in (workload\<lparr>hw_LastSeenAt := lastSeenAt\<rparr>, h'))"

definition Clone_host_h :: "HHost \<Rightarrow> cell_i heap \<Rightarrow> HHost \<times> cell_i heap" where
  "Clone_host_h host h =
     (let (clonedLabels, h1) = clone_labels_h (hh_Labels host) h;
          (clonedSourceStatus, h2) = clone_map Statuses_cell as_statuses clone_status_h (hh_SourceStatus host) h1;
          (clonedErrors, h3) = clone_errors_h (hh_Errors host) h2;
          (clonedWorkloads, h4) = clone_slice Workloads_cell as_workloads clone_workload_h (hh_Workloads host) h3;
          (lastObservedAt, h5) = cloneTimePtr (hh_LastObservedAt host) h4
      in (\<lparr>hh_ID = hh_ID host, hh_FQDN = hh_FQDN host, hh_Labels = clonedLabels, hh_Workloads = clonedWorkloads,
           hh_LastObservedAt = lastObservedAt, hh_Status = hh_Status host, hh_SourceStatus = clonedSourceStatus,
           hh_Errors = clonedErrors\<rparr>, h5))"

definition clone_metadata_h :: "HMetadata \<Rightarrow> cell_i heap \<Rightarrow> HMetadata \<times> cell_i heap" where
  "clone_metadata_h md h =
     (let (lastSyncAt, h1) = cloneTimePtr (hm_LastSyncAt md) h;
          (lastSuccessfulSyncAt, h2) = cloneTimePtr (hm_LastSuccessfulSyncAt md) h1;
          (lastFullSyncAt, h3) = cloneTimePtr (hm_LastFullSyncAt md) h2;
          (lastPartialSyncAt, h4) = cloneTimePtr (hm_LastPartialSyncAt md) h3
      in (md\<lparr>hm_LastSyncAt := lastSyncAt, hm_LastSuccessfulSyncAt := lastSuccessfulSyncAt,
             hm_LastFullSyncAt := lastFullSyncAt, hm_LastPartialSyncAt := lastPartialSyncAt\<rparr>, h4))"

definition Clone_snapshot_h :: "HSnapshot \<Rightarrow> cell_i heap \<Rightarrow> HSnapshot \<times> cell_i heap" where
  "Clone_snapshot_h s h =
     (let (clonedHosts, h1) = clone_slice Hosts_cell as_hosts Clone_host_h (hsn_Hosts s) h;
          (metadata, h2) = clone_metadata_h (hsn_Metadata s) h1
      in (\<lparr>hsn_Hosts = clonedHosts, hsn_Metadata = metadata\<rparr>, h2))"

section \<open>Views and footprints\<close>

definition view_status :: "cell_i heap \<Rightarrow> HSourceStatus \<Rightarrow> SourceStatus" where
  "view_status h s = \<lparr>so_Source = hso_Source s, so_Enabled = hso_Enabled s, so_Status = hso_Status s,
     so_ObservedAt = deref as_time h (hso_ObservedAt s), so_Error = hso_Error s\<rparr>"

definition foot_status :: "cell_i heap \<Rightarrow> HSourceStatus \<Rightarrow> nat set" where
  "foot_status h s = set_option (hso_ObservedAt s)"

definition view_workload :: "cell_i heap \<Rightarrow> HWorkload \<Rightarrow> Workload" where
  "view_workload h w = \<lparr>iw_ID = hw_ID w, iw_Name = hw_Name w, iw_Image = hw_Image w, iw_Runtime = hw_Runtime w,
     iw_Source = hw_Source w, iw_LastSeenAt = deref as_time h (hw_LastSeenAt w)\<rparr>"

definition foot_workload :: "cell_i heap \<Rightarrow> HWorkload \<Rightarrow> nat set" where
  "foot_workload h w = set_option (hw_LastSeenAt w)"

definition view_host :: "cell_i heap \<Rightarrow> HHost \<Rightarrow> Host" where
  "view_host h x = \<lparr>ih_ID = hh_ID x, ih_FQDN = hh_FQDN x, ih_Labels = deref as_labels h (hh_Labels x),
     ih_Workloads = map (view_workload h) (deref as_workloads h (hh_Workloads x)),
     ih_LastObservedAt = deref as_time h (hh_LastObservedAt x), ih_Status = hh_Status x,
     ih_SourceStatus = map (view_entry view_status h) (deref as_statuses h (hh_SourceStatus x)),
     ih_Errors = deref as_errors h (hh_Errors x)\<rparr>"

definition foot_host :: "cell_i heap \<Rightarrow> HHost \<Rightarrow> nat set" where
  "foot_host h x = set_option (hh_Labels x)
     \<union> ((set_option (hh_SourceStatus x) \<union> \<Union> (foot_entry foot_status h ` set (deref as_statuses h (hh_SourceStatus x))))
     \<union> (set_option (hh_Errors x)
     \<union> ((set_option (hh_Workloads x) \<union> \<Union> (foot_workload h ` set (deref as_workloads h (hh_Workloads x))))
     \<union> set_option (hh_LastObservedAt x))))"

definition view_metadata :: "cell_i heap \<Rightarrow> HMetadata \<Rightarrow> InventoryMetadata" where
  "view_metadata h md = \<lparr>im_IsPartial = hm_IsPartial md, im_TotalHosts = hm_TotalHosts md,
     im_FailedHosts = hm_FailedHosts md, im_LastSyncAt = deref as_time h (hm_LastSyncAt md),
     im_LastSuccessfulSyncAt = deref as_time h (hm_LastSuccessfulSyncAt md),
     im_LastFullSyncAt = deref as_time h (hm_LastFullSyncAt md),
     im_LastPartialSyncAt = deref as_time h (hm_LastPartialSyncAt md), im_SyncDurationMs = hm_SyncDurationMs md\<rparr>"

definition foot_metadata :: "cell_i heap \<Rightarrow> HMetadata \<Rightarrow> nat set" where
  "foot_metadata h md = set_option (hm_LastSyncAt md) \<union> (set_option (hm_LastSuccessfulSyncAt md)
     \<union> (set_option (hm_LastFullSyncAt md) \<union> set_option (hm_LastPartialSyncAt md)))"

definition view_snapshot :: "cell_i heap \<Rightarrow> HSnapshot \<Rightarrow> InventorySnapshot" where
  "view_snapshot h s = \<lparr>is_Hosts = map (view_host h) (deref as_hosts h (hsn_Hosts s)),
     is_Metadata = view_metadata h (hsn_Metadata s)\<rparr>"

definition foot_snapshot :: "cell_i heap \<Rightarrow> HSnapshot \<Rightarrow> nat set" where
  "foot_snapshot h s = (set_option (hsn_Hosts s) \<union> \<Union> (foot_host h ` set (deref as_hosts h (hsn_Hosts s))))
     \<union> foot_metadata h (hsn_Metadata s)"

section \<open>They are deep copies\<close>

lemma time_copy: "deep_copy cloneTimePtr (deref as_time) (\<lambda>h p. set_option p) clone_ptr"
  by (rule deep_copy_cell [where as_type = as_time and stays = "\<lambda>v. v = None" and mk = "\<lambda>v. Time_cell (the v)"])
    (auto simp: cloneTimePtr_def split: option.split)

lemma labels_copy: "deep_copy clone_labels_h (deref as_labels) (\<lambda>h p. set_option p) (\<lambda>m. copy_into (\<lambda>v. v) m [])"
  by (rule deep_copy_cell [where as_type = as_labels and stays = "\<lambda>v. False" and mk = Labels_cell])
    (auto simp: clone_labels_h_def)

lemma errors_copy: "deep_copy clone_errors_h (deref as_errors) (\<lambda>h p. set_option p) (\<lambda>es. go_copy (replicate (length es) []) es)"
  by (rule deep_copy_cell [where as_type = as_errors and stays = "\<lambda>v. False" and mk = Errors_cell])
    (auto simp: clone_errors_h_def)

lemma status_copy: "deep_copy clone_status_h view_status foot_status (\<lambda>s. s\<lparr>so_ObservedAt := clone_ptr (so_ObservedAt s)\<rparr>)"
  by (rule deep_copy.iso [OF time_copy, where parts = hso_ObservedAt and build = "\<lambda>s p. s\<lparr>hso_ObservedAt := p\<rparr>"
      and shown = "\<lambda>s t. \<lparr>so_Source = hso_Source s, so_Enabled = hso_Enabled s, so_Status = hso_Status s,
        so_ObservedAt = t, so_Error = hso_Error s\<rparr>"])
    (simp_all add: clone_status_h_def view_status_def foot_status_def)

lemma workload_copy: "deep_copy clone_workload_h view_workload foot_workload (\<lambda>w. w\<lparr>iw_LastSeenAt := clone_ptr (iw_LastSeenAt w)\<rparr>)"
  by (rule deep_copy.iso [OF time_copy, where parts = hw_LastSeenAt and build = "\<lambda>w p. w\<lparr>hw_LastSeenAt := p\<rparr>"
      and shown = "\<lambda>w t. \<lparr>iw_ID = hw_ID w, iw_Name = hw_Name w, iw_Image = hw_Image w, iw_Runtime = hw_Runtime w,
        iw_Source = hw_Source w, iw_LastSeenAt = t\<rparr>"])
    (simp_all add: clone_workload_h_def view_workload_def foot_workload_def)

lemmas statuses_copy = deep_copy_map [OF status_copy, of as_statuses Statuses_cell, simplified]
lemmas workloads_copy = deep_copy_slice [OF workload_copy, of as_workloads Workloads_cell, simplified]
lemmas host_parts_copy = deep_copy_both [OF labels_copy deep_copy_both [OF statuses_copy deep_copy_both [OF errors_copy
  deep_copy_both [OF workloads_copy time_copy]]]]

lemma host_copy: "deep_copy Clone_host_h view_host foot_host Clone_host_i"
  by (rule deep_copy.iso [OF host_parts_copy,
      where parts = "\<lambda>x. (hh_Labels x, hh_SourceStatus x, hh_Errors x, hh_Workloads x, hh_LastObservedAt x)"
      and build = "\<lambda>x (l, s, e, w, t). \<lparr>hh_ID = hh_ID x, hh_FQDN = hh_FQDN x, hh_Labels = l, hh_Workloads = w,
        hh_LastObservedAt = t, hh_Status = hh_Status x, hh_SourceStatus = s, hh_Errors = e\<rparr>"
      and shown = "\<lambda>x (l, s, e, w, t). \<lparr>ih_ID = hh_ID x, ih_FQDN = hh_FQDN x, ih_Labels = l, ih_Workloads = w,
        ih_LastObservedAt = t, ih_Status = hh_Status x, ih_SourceStatus = s, ih_Errors = e\<rparr>"])
    (auto simp: Clone_host_h_def view_host_def foot_host_def Clone_host_i_def clone_both_def Let_def split: prod.splits)

lemmas metadata_parts_copy = deep_copy_both [OF time_copy deep_copy_both [OF time_copy deep_copy_both [OF time_copy time_copy]]]

lemma metadata_copy: "deep_copy clone_metadata_h view_metadata foot_metadata
  (\<lambda>md. md\<lparr>im_LastSyncAt := clone_ptr (im_LastSyncAt md), im_LastSuccessfulSyncAt := clone_ptr (im_LastSuccessfulSyncAt md),
     im_LastFullSyncAt := clone_ptr (im_LastFullSyncAt md), im_LastPartialSyncAt := clone_ptr (im_LastPartialSyncAt md)\<rparr>)"
  by (rule deep_copy.iso [OF metadata_parts_copy,
      where parts = "\<lambda>x. (hm_LastSyncAt x, hm_LastSuccessfulSyncAt x, hm_LastFullSyncAt x, hm_LastPartialSyncAt x)"
      and build = "\<lambda>x (a, b, c, d). x\<lparr>hm_LastSyncAt := a, hm_LastSuccessfulSyncAt := b, hm_LastFullSyncAt := c,
        hm_LastPartialSyncAt := d\<rparr>"
      and shown = "\<lambda>x (a, b, c, d). \<lparr>im_IsPartial = hm_IsPartial x, im_TotalHosts = hm_TotalHosts x,
        im_FailedHosts = hm_FailedHosts x, im_LastSyncAt = a, im_LastSuccessfulSyncAt = b, im_LastFullSyncAt = c,
        im_LastPartialSyncAt = d, im_SyncDurationMs = hm_SyncDurationMs x\<rparr>"])
    (auto simp: clone_metadata_h_def view_metadata_def foot_metadata_def clone_both_def Let_def split: prod.splits)

lemmas hosts_copy = deep_copy_slice [OF host_copy, of as_hosts Hosts_cell, simplified]

lemma snapshot_copy: "deep_copy Clone_snapshot_h view_snapshot foot_snapshot Clone_snapshot_i"
  by (rule deep_copy.iso [OF deep_copy_both [OF hosts_copy metadata_copy],
      where parts = "\<lambda>x. (hsn_Hosts x, hsn_Metadata x)"
      and build = "\<lambda>x (hs, md). \<lparr>hsn_Hosts = hs, hsn_Metadata = md\<rparr>"
      and shown = "\<lambda>x (hs, md). \<lparr>is_Hosts = hs, is_Metadata = md\<rparr>"])
    (auto simp: Clone_snapshot_h_def view_snapshot_def foot_snapshot_def Clone_snapshot_i_def clone_both_def Let_def
      split: prod.splits)

section \<open>The store\<close>

record HStore_i =
  hst_snapshot :: HSnapshot
  hst_hostsByID :: "(string, HHost) gomap"
  hst_ready :: bool

definition NewStore_h :: HStore_i where
  "NewStore_h = \<lparr>hst_snapshot = \<lparr>hsn_Hosts = None, hsn_Metadata = \<lparr>hm_IsPartial = False, hm_TotalHosts = 0,
     hm_FailedHosts = 0, hm_LastSyncAt = None, hm_LastSuccessfulSyncAt = None, hm_LastFullSyncAt = None,
     hm_LastPartialSyncAt = None, hm_SyncDurationMs = 0\<rparr>\<rparr>, hst_hostsByID = [], hst_ready = False\<rparr>"

text \<open>The loop over the cloned hosts clones each of them once more for the index.\<close>

definition Replace_h :: "HSnapshot \<Rightarrow> HStore_i \<Rightarrow> cell_i heap \<Rightarrow> HStore_i \<times> cell_i heap" where
  "Replace_h snapshot s h =
     (let (clonedSnapshot, h1) = Clone_snapshot_h snapshot h;
          (hosts, h2) = clone_each Clone_host_h (deref as_hosts h1 (hsn_Hosts clonedSnapshot)) h1;
          hostsByID = index_into hh_ID (\<lambda>host. host) hosts []
      in (s\<lparr>hst_snapshot := clonedSnapshot, hst_hostsByID := hostsByID\<rparr>, h2))"

definition GetSnapshot_h :: "HStore_i \<Rightarrow> cell_i heap \<Rightarrow> HSnapshot \<times> cell_i heap" where
  "GetSnapshot_h s h = Clone_snapshot_h (hst_snapshot s) h"

definition GetHost_h :: "HStore_i \<Rightarrow> string \<Rightarrow> cell_i heap \<Rightarrow> HHost option \<times> cell_i heap" where
  "GetHost_h s hostID h =
     (case map_get (hst_hostsByID s) hostID of
        None \<Rightarrow> (None, h)
      | Some host \<Rightarrow> let (clone, h') = Clone_host_h host h in (Some clone, h'))"

definition SetReady_h :: "bool \<Rightarrow> HStore_i \<Rightarrow> HStore_i" where
  "SetReady_h ready s = s\<lparr>hst_ready := ready\<rparr>"

definition IsReady_h :: "HStore_i \<Rightarrow> bool" where
  "IsReady_h s = hst_ready s"

definition view_store :: "cell_i heap \<Rightarrow> HStore_i \<Rightarrow> Store_i" where
  "view_store h s = \<lparr>sti_snapshot = view_snapshot h (hst_snapshot s),
     sti_hostsByID = map (view_entry view_host h) (hst_hostsByID s), sti_ready = hst_ready s\<rparr>"

definition foot_store :: "cell_i heap \<Rightarrow> HStore_i \<Rightarrow> nat set" where
  "foot_store h s = foot_snapshot h (hst_snapshot s) \<union> \<Union> (foot_entry foot_host h ` set (hst_hostsByID s))"

definition inventory_api :: "(cell_i, HSnapshot, HHost, HStore_i, InventorySnapshot, Host) heap_api" where
  "inventory_api = \<lparr>api_Replace = Replace_h, api_SetReady = SetReady_h, api_GetSnapshot = GetSnapshot_h,
     api_GetHost = GetHost_h, api_IsReady = IsReady_h, api_view_snapshot = view_snapshot,
     api_foot_snapshot = foot_snapshot, api_view_host = view_host, api_foot_host = foot_host\<rparr>"

interpretation inventory_host_clone: deep_copy Clone_host_h view_host foot_host Clone_host_i
  by (rule host_copy)

interpretation inventory_clone: deep_copy Clone_snapshot_h view_snapshot foot_snapshot Clone_snapshot_i
  by (rule snapshot_copy)


lemma Replace_h_sim:
  assumes "foot_snapshot h s \<subseteq> {..<length h}" and "Replace_h s st h = (st', h')"
  shows "prefix h h' \<and> foot_store h' st' \<subseteq> {length h..<length h'}
    \<and> view_store h' st' = Replace_i (view_snapshot h s) (view_store h st)"
proof -
  obtain c h1 where c: "Clone_snapshot_h s h = (c, h1)" by fastforce
  obtain hs h2 where hs: "clone_each Clone_host_h (deref as_hosts h1 (hsn_Hosts c)) h1 = (hs, h2)" by fastforce
  have st': "st' = st\<lparr>hst_snapshot := c, hst_hostsByID := index_into hh_ID (\<lambda>host. host) hs []\<rparr>" "h' = h2"
    using assms(2) by (simp_all add: Replace_h_def c hs)
  have sides: "\<Union> (foot_host h ` set (deref as_hosts h (hsn_Hosts s))) \<subseteq> foot_snapshot h s"
    "map (view_host h) (deref as_hosts h (hsn_Hosts s)) = is_Hosts (view_snapshot h s)"
    "hh_ID x = ih_ID (view_host h x)" "ih_ID (Clone_host_i v) = ih_ID v" for h s x v
    by (auto simp: foot_snapshot_def view_snapshot_def view_host_def Clone_host_i_def Let_def)
  from replace_parts [OF snapshot_copy host_copy, where hosts_of = "\<lambda>h s. deref as_hosts h (hsn_Hosts s)",
      OF sides c hs assms(1)]
  show ?thesis by (simp add: st' view_store_def foot_store_def Replace_i_def Let_def)
qed

lemma GetHost_h_sim:
  assumes "foot_store h st \<subseteq> {..<length h}" and "GetHost_h st i h = (r, h')"
  shows "prefix h h' \<and> foot_option foot_host h' r \<subseteq> {length h..<length h'}
    \<and> map_option (view_host h') r = GetHost_i (view_store h st) i"
  using lookup_parts [OF host_copy, where index = "hst_hostsByID st"] assms
  by (simp add: GetHost_h_def GetHost_i_def view_store_def foot_store_def)

interpretation inventory_shared: shared_store inventory_api view_store foot_store
  Replace_i SetReady_i GetSnapshot_i GetHost_i IsReady_i
proof
  fix h h' st st' s i r b
  show "api_foot_snapshot inventory_api h s \<subseteq> {..<length h} \<Longrightarrow> api_Replace inventory_api s st h = (st', h') \<Longrightarrow>
      prefix h h' \<and> foot_store h' st' \<subseteq> {length h..<length h'}
      \<and> view_store h' st' = Replace_i (api_view_snapshot inventory_api h s) (view_store h st)"
    by (simp add: inventory_api_def Replace_h_sim)
  show "foot_store h st \<subseteq> {..<length h} \<Longrightarrow> api_GetHost inventory_api st i h = (r, h') \<Longrightarrow>
      prefix h h' \<and> foot_option (api_foot_host inventory_api) h' r \<subseteq> {length h..<length h'}
      \<and> map_option (api_view_host inventory_api h') r = GetHost_i (view_store h st) i"
    by (simp add: inventory_api_def GetHost_h_sim)
  show "foot_store h st \<subseteq> {..<length h} \<Longrightarrow> api_GetSnapshot inventory_api st h = (s, h') \<Longrightarrow>
      prefix h h' \<and> api_foot_snapshot inventory_api h' s \<subseteq> {length h..<length h'}
      \<and> api_view_snapshot inventory_api h' s = GetSnapshot_i (view_store h st)"
    using inventory_clone.clone_parts [of "hst_snapshot st" h s h']
    by (simp add: inventory_api_def GetSnapshot_h_def GetSnapshot_i_def view_store_def foot_store_def)
  show "view_store h (api_SetReady inventory_api b st) = SetReady_i b (view_store h st)
      \<and> foot_store h (api_SetReady inventory_api b st) = foot_store h st"
    "api_IsReady inventory_api st = IsReady_i (view_store h st)"
    by (simp_all add: inventory_api_def SetReady_h_def SetReady_i_def IsReady_h_def IsReady_i_def view_store_def foot_store_def)
  assume a: "agree (foot_store h st) h h'"
  then have "agree (foot_snapshot h (hst_snapshot st)) h h'" "agree (\<Union> (foot_entry foot_host h ` set (hst_hostsByID st))) h h'"
    by (auto simp: foot_store_def agree_def)
  then show "view_store h' st = view_store h st \<and> foot_store h' st = foot_store h st"
    by (simp add: view_store_def foot_store_def inventory_host_clone.index_frame
        inventory_clone.view_frame inventory_clone.foot_frame)
qed

section \<open>Properties\<close>

lemma new_store_apart: "inventory_shared.apart ([], NewStore_h, {})" "view_store h NewStore_h = NewStore_i"
  by (simp_all add: inventory_shared.apart_def NewStore_h_def foot_store_def foot_snapshot_def foot_metadata_def
      view_store_def view_snapshot_def view_metadata_def NewStore_i_def zero_metadata_i_def)

text \<open>
  C15: The store keeps its hosts to itself. Callers may build snapshots from cells of their own,
  publish them, overwrite every cell they built and every cell of what the store gave them,
  in any order; what the store answers to each call is what a store of values answers that
  got the snapshots as they were when they were published.
\<close>
theorem inventory_store_isolated:
  assumes "caller_run inventory_api ops ([], NewStore_h, {}) = Some evs"
  shows "answers_of_values Replace_i SetReady_i GetSnapshot_i GetHost_i IsReady_i NewStore_i evs"
  using inventory_shared.run_explained [OF new_store_apart(1) assms] by (simp add: new_store_apart(2))

definition sample_hhost :: HHost where
  "sample_hhost = \<lparr>hh_ID = ''h1'', hh_FQDN = ''h1.local'', hh_Labels = Some 0, hh_Workloads = None,
     hh_LastObservedAt = None, hh_Status = HostStatusOK, hh_SourceStatus = None, hh_Errors = None\<rparr>"

definition sample_hsnapshot :: HSnapshot where
  "sample_hsnapshot = (hst_snapshot NewStore_h)\<lparr>hsn_Hosts := Some 1\<rparr>"

text \<open>Two labels are overwritten after the snapshot is published: the caller's and those of an answer.\<close>

definition sample_calls :: "(cell_i, HSnapshot) caller_op list" where
  "sample_calls =
     [Make (Labels_cell [(''env'', ''prod'')]), Make (Hosts_cell [sample_hhost]), Call_Replace sample_hsnapshot,
      Overwrite 0 (Labels_cell []), Call_GetSnapshot, Overwrite 11 (Labels_cell [(''env'', ''changed'')]), Call_GetHost ''h1'']"

theorem inventory_store_isolated_witness:
  "case caller_run inventory_api sample_calls ([], NewStore_h, {}) of
     None \<Rightarrow> False
   | Some evs \<Rightarrow> answers_of_values Replace_i SetReady_i GetSnapshot_i GetHost_i IsReady_i NewStore_i evs \<and> length evs = 3
       \<and> (case last evs of Host_read i (Some host) \<Rightarrow> ih_Labels host = [(''env'', ''prod'')] | _ \<Rightarrow> False)"
proof -
  have "case caller_run inventory_api sample_calls ([], NewStore_h, {}) of
     None \<Rightarrow> False
   | Some evs \<Rightarrow> length evs = 3 \<and> (case last evs of Host_read i (Some host) \<Rightarrow> ih_Labels host = [(''env'', ''prod'')] | _ \<Rightarrow> False)"
    by code_simp
  then show ?thesis using inventory_store_isolated [of sample_calls] by (auto split: option.splits)
qed

end
