(* ===== verification/Drift_Commands.thy ===== *)
theory Drift_Commands
  imports Drift_Sends
begin

text \<open>
  Which reconcile requests a detection cycle sends. The world of the service is extended
  by the list of the commands the reconciler is asked for; the service cannot look at it.
\<close>

section \<open>A world that keeps the requests\<close>

definition observed :: "('w, 'c) Deps \<Rightarrow> ('w \<times> ReconcileCommand list, 'c) Deps" where
  "observed deps =
     \<lparr>dep_now = (\<lambda>(w, sent). let (t, w') = dep_now deps w in (t, (w', sent))),
      dep_FetchActualState = (\<lambda>(w, sent). let (a, w') = dep_FetchActualState deps w in (a, (w', sent))),
      dep_FetchDesiredState = (\<lambda>(w, sent). let (a, w') = dep_FetchDesiredState deps w in (a, (w', sent))),
      dep_SendReconcile = (\<lambda>c (w, sent). let (a, w') = dep_SendReconcile deps c w in (a, (w', sent @ [c]))),
      dep_CanSend = dep_CanSend deps, dep_MarkSent = dep_MarkSent deps\<rparr>"

lemma observed_quiet:
  "dep_now (observed deps) w = (t, w') \<Longrightarrow> snd w' = snd w"
  "since (observed deps) t0 w = (d, w') \<Longrightarrow> snd w' = snd w"
  "finishResult (observed deps) r w = (r', w') \<Longrightarrow> snd w' = snd w"
  "dep_FetchActualState (observed deps) w = (a, w') \<Longrightarrow> snd w' = snd w"
  "dep_FetchDesiredState (observed deps) w = (b, w') \<Longrightarrow> snd w' = snd w"
  by (auto simp: observed_def since_def finishResult_def Let_def split: prod.splits)

lemma observed_send: "dep_SendReconcile (observed deps) c w = (a, w') \<Longrightarrow> snd w' = snd w @ [c]"
  by (auto simp: observed_def split: prod.splits)

section \<open>Requests of one loop turn after the other\<close>

abbreviation suppressed_count :: "DetectionCycleResult \<Rightarrow> nat" where
  "suppressed_count r \<equiv> ds_ReconcileSuppressed (cr_Stats r)"

text \<open>From st to st' some of the commands are sent, in order, and the others suppressed.\<close>

definition sends_some ::
  "ReconcileCommand list \<Rightarrow> ('w \<times> ReconcileCommand list, 'c) Loop \<Rightarrow> ('w \<times> ReconcileCommand list, 'c) Loop \<Rightarrow> bool" where
  "sends_some commands st st' \<longleftrightarrow>
     (\<exists>sent. snd (lp_world st') = snd (lp_world st) @ sent \<and> subseq sent commands
        \<and> length sent + suppressed_count (lp_result st') = length commands + suppressed_count (lp_result st))"

lemma sends_some_Nil:
  "lp_world st' = lp_world st \<Longrightarrow> suppressed_count (lp_result st') = suppressed_count (lp_result st) \<Longrightarrow>
     sends_some [] st st'"
  by (simp add: sends_some_def)

lemma sends_some_append:
  assumes "sends_some cs st st'" and "sends_some cs' st' st''"
  shows "sends_some (cs @ cs') st st''"
proof -
  from assms obtain sent sent' where
    "snd (lp_world st') = snd (lp_world st) @ sent" "subseq sent cs"
    "length sent + suppressed_count (lp_result st') = length cs + suppressed_count (lp_result st)"
    "snd (lp_world st'') = snd (lp_world st') @ sent'" "subseq sent' cs'"
    "length sent' + suppressed_count (lp_result st'') = length cs' + suppressed_count (lp_result st')"
    by (auto simp: sends_some_def)
  then show ?thesis
    unfolding sends_some_def
    by (intro exI [of _ "sent @ sent'"]) (auto intro: list_emb_append_mono)
qed

lemma dispatch_sends: "sends_some [c] st (dispatch (observed deps) cd c st)"
proof -
  obtain t w1 where t: "dep_now (observed deps) (lp_world st) = (t, w1)" by (meson surj_pair)
  note quiet = observed_quiet(1) [OF t]
  show ?thesis
  proof (cases "fst (dep_CanSend (observed deps) (BuildKey (rc_Component c) (rc_FQDN c)) (UTC t) cd (lp_store st))")
    case False
    with t quiet show ?thesis
      by (auto simp: dispatch_def sends_some_def upd_stats_def Let_def split: prod.splits)
  next
    case True
    obtain d w2 where w2: "since (observed deps) (lp_compareTimer st) w1 = (d, w2)" by (meson surj_pair)
    obtain t3 w3 where w3: "dep_now (observed deps) w2 = (t3, w3)" by (meson surj_pair)
    obtain a w4 where w4: "dep_SendReconcile (observed deps) c w3 = (a, w4)" by (meson surj_pair)
    obtain d5 w5 where w5: "since (observed deps) t3 w4 = (d5, w5)" by (meson surj_pair)
    obtain t6 w6 where w6: "dep_now (observed deps) w5 = (t6, w6)" by (meson surj_pair)
    have "snd w6 = snd (lp_world st) @ [c]"
      using quiet observed_quiet(1) [OF w6] observed_quiet(2) [OF w5] observed_send [OF w4]
        observed_quiet(1) [OF w3] observed_quiet(2) [OF w2] by simp
    moreover have "suppressed_count (lp_result (dispatch (observed deps) cd c st)) = suppressed_count (lp_result st)"
      and "lp_world (dispatch (observed deps) cd c st) = w6"
      using True t w2 w3 w4 w5 w6
      by (auto simp: dispatch_def Let_def add_error_def upd_stats_def split: prod.splits sum.splits)
    ultimately show ?thesis by (simp add: sends_some_def)
  qed
qed

text \<open>The commands of the drifts, in the order of the loops.\<close>

fun verdict_commands :: "verdict \<Rightarrow> ReconcileCommand list" where
  "verdict_commands (V_Drift c) = [c]"
| "verdict_commands _ = []"

definition host_commands ::
  "Registry \<Rightarrow> string \<Rightarrow> Component list \<Rightarrow> DesiredHost_d \<times> ActualHost \<Rightarrow> ReconcileCommand list" where
  "host_commands registry cycleID cs p =
     concat (map (\<lambda>c. verdict_commands (component_verdict registry cycleID (fst p) (snd p) c)) cs)"

definition drift_commands ::
  "Registry \<Rightarrow> string \<Rightarrow> Component list \<Rightarrow> (DesiredHost_d \<times> ActualHost) list \<Rightarrow> ReconcileCommand list" where
  "drift_commands registry cycleID cs pairs = concat (map (host_commands registry cycleID cs) pairs)"

lemma detect_component_sends:
  "sends_some (verdict_commands (component_verdict registry cid d a cmp)) (fst acc)
     (fst (detect_component (observed deps) registry cd cid d a cmp acc))"
proof (cases acc)
  case (Pair st skipped)
  show ?thesis
  proof (cases "component_verdict registry cid d a cmp")
    case (V_Drift c)
    have "sends_some [] st (set_result count_drift st)"
      by (rule sends_some_Nil) (simp_all add: upd_stats_def)
    from sends_some_append [OF this dispatch_sends] V_Drift Pair show ?thesis
      by (simp add: detect_component_verdict)
  qed (auto simp: detect_component_verdict Pair result_defs Let_def intro!: sends_some_Nil)
qed

lemma fold_detect_component_sends:
  "sends_some (host_commands registry cid cs (d, a)) (fst acc)
     (fst (fold (detect_component (observed deps) registry cd cid d a) cs acc))"
proof (induction cs arbitrary: acc)
  case Nil
  then show ?case by (simp add: host_commands_def sends_some_Nil)
next
  case (Cons c cs)
  from sends_some_append [OF detect_component_sends Cons.IH] show ?case
    by (simp add: host_commands_def)
qed

lemma process_host_sends:
  assumes "indexActualHosts hosts = (m, n)"
  shows "sends_some (drift_commands (sv_registry s) cid (sv_enabledComponents s) (compared_hosts hosts [d])) st
    (process_host (observed deps) s cid m n d st)"
proof (cases "actual_host hosts d")
  case None
  with lookup_actual_host [OF assms] show ?thesis
    by (simp add: process_host_def compared_hosts_def drift_commands_def sends_some_Nil result_defs)
next
  case (Some a)
  let ?st = "set_result (upd_stats (\<lambda>s. s\<lparr>ds_ComparedHosts := ds_ComparedHosts s + 1\<rparr>)) st"
  have "sends_some [] st ?st" by (rule sends_some_Nil) (simp_all add: upd_stats_def)
  from sends_some_append [OF this, OF fold_detect_component_sends [where acc = "(?st, False)", unfolded fst_conv]]
  show ?thesis
    using Some lookup_actual_host [OF assms, of d]
    by (simp add: process_host_def compared_hosts_def drift_commands_def)
qed

lemma fold_process_host_sends:
  assumes "indexActualHosts hosts = (m, n)"
  shows "sends_some (drift_commands (sv_registry s) cid (sv_enabledComponents s) (compared_hosts hosts ds)) st
    (fold (process_host (observed deps) s cid m n) ds st)"
proof (induction ds arbitrary: st)
  case Nil
  then show ?case by (simp add: compared_hosts_def drift_commands_def sends_some_Nil)
next
  case (Cons d ds)
  have "compared_hosts hosts (d # ds) = compared_hosts hosts [d] @ compared_hosts hosts ds"
    by (simp add: compared_hosts_def)
  with sends_some_append [OF process_host_sends [OF assms, of s cid d st deps] Cons.IH]
  show ?case by (simp add: drift_commands_def)
qed

lemma compare_states_sends:
  assumes "compare_states (observed deps) s actual desired r w = (r', store, w')" and "cr_Stats r = zero_stats"
  shows "\<exists>sent. snd w' = snd w @ sent
    \<and> subseq sent (drift_commands (sv_registry s) (cr_CycleID r) (sv_enabledComponents s)
        (compared_hosts (ast_Hosts actual) (dst_Hosts desired)))
    \<and> length sent + suppressed_count r' = length (drift_commands (sv_registry s) (cr_CycleID r)
        (sv_enabledComponents s) (compared_hosts (ast_Hosts actual) (dst_Hosts desired)))"
proof -
  let ?r0 = "upd_stats (\<lambda>st. st\<lparr>ds_DesiredHosts := length (dst_Hosts desired)\<rparr>)
      (note_metadata (ast_Metadata actual) (dst_Metadata desired) r)"
  obtain m n where idx: "indexActualHosts (ast_Hosts actual) = (m, n)" by (meson surj_pair)
  obtain timer w1 where now: "dep_now (observed deps) w = (timer, w1)" by (meson surj_pair)
  let ?st = "\<lparr>lp_world = w1, lp_store = sv_cooldownStore s, lp_result = ?r0, lp_compareTimer = timer,
    lp_compareDuration = 0, lp_dispatchDuration = 0\<rparr>"
  define st where "st = fold (process_host (observed deps) s (cr_CycleID ?r0) m n) (dst_Hosts desired) ?st"
  have cid: "cr_CycleID ?r0 = cr_CycleID r" by (simp add: note_metadata_fields upd_stats_def)
  have "suppressed_count ?r0 = 0"
    by (simp add: upd_stats_def note_metadata_fields assms(2) zero_stats_def)
  moreover have "sends_some (drift_commands (sv_registry s) (cr_CycleID r) (sv_enabledComponents s)
      (compared_hosts (ast_Hosts actual) (dst_Hosts desired))) ?st st"
    unfolding st_def cid by (rule fold_process_host_sends [OF idx])
  ultimately obtain sent where sent: "snd (lp_world st) = snd w1 @ sent"
    "subseq sent (drift_commands (sv_registry s) (cr_CycleID r) (sv_enabledComponents s)
        (compared_hosts (ast_Hosts actual) (dst_Hosts desired)))"
    "length sent + suppressed_count (lp_result st) = length (drift_commands (sv_registry s) (cr_CycleID r)
        (sv_enabledComponents s) (compared_hosts (ast_Hosts actual) (dst_Hosts desired)))"
    by (auto simp: sends_some_def)
  from assms(1) obtain d w2 tm where "since (observed deps) (lp_compareTimer st) (lp_world st) = (d, w2)"
    and fin: "finishResult (observed deps) (lp_result st\<lparr>cr_StageTimings := tm\<rparr>) w2 = (r', w')"
    by (auto simp: compare_states_def Let_def idx now st_def split: prod.splits)
  then have "snd w' = snd (lp_world st)" "cr_Stats r' = cr_Stats (lp_result st)"
    using observed_quiet(2,3) finishResult_fields(2) [OF fin] by (metis, simp)
  with sent observed_quiet(1) [OF now] show ?thesis by auto
qed

lemma runCycle_sends_lemma:
  fixes s :: "'c Service_d" and deps :: "('w, 'c) Deps"
  assumes "fst (inventory_call (observed deps) (w, before)) = Inr actual"
    and "fst (parser_call (observed deps) (w, before)) = Inr desired"
  defines "commands \<equiv> drift_commands (sv_registry s) (cycle_id (observed deps) (w, before)) (sv_enabledComponents s)
      (compared_hosts (ast_Hosts actual) (dst_Hosts desired))"
  shows "\<exists>r store w' sent. runCycle (observed deps) s trigger (w, before) = ((r, None), store, (w', before @ sent))
    \<and> subseq sent commands \<and> length sent + suppressed_count r = length commands"
proof -
  obtain t1 w1 where w1: "dep_now (observed deps) (w, before) = (t1, w1)" by (meson surj_pair)
  obtain t2 w2 where w2: "dep_now (observed deps) w1 = (t2, w2)" by (meson surj_pair)
  obtain a w3 where w3: "dep_FetchActualState (observed deps) w2 = (a, w3)" by (meson surj_pair)
  obtain d4 w4 where w4: "since (observed deps) t2 w3 = (d4, w4)" by (meson surj_pair)
  obtain t4 where w4': "dep_now (observed deps) w3 = (t4, w4)"
    using w4 by (auto simp: since_def split: prod.splits)
  obtain t5 w5 where w5: "dep_now (observed deps) w4 = (t5, w5)" by (meson surj_pair)
  obtain b w6 where w6: "dep_FetchDesiredState (observed deps) w5 = (b, w6)" by (meson surj_pair)
  obtain d7 w7 where w7: "since (observed deps) t5 w6 = (d7, w7)" by (meson surj_pair)
  note worlds = w1 w2 w3 w4 w5 w6 w7
  have ab: "a = Inr actual" "b = Inr desired"
    using assms(1,2) by (simp_all add: inventory_call_def parser_call_def worlds w4')
  have before: "snd w7 = before"
    using observed_quiet(1) [OF w1] observed_quiet(1) [OF w2] observed_quiet(4) [OF w3]
      observed_quiet(2) [OF w4] observed_quiet(1) [OF w5] observed_quiet(5) [OF w6] observed_quiet(2) [OF w7]
    by simp
  define r0 where "r0 = (new_result (UTC t1) trigger)\<lparr>cr_StageTimings := (cr_StageTimings (new_result (UTC t1) trigger))
    \<lparr>tm_InventoryFetchMs := Milliseconds d4, tm_ParserFetchMs := Milliseconds d7\<rparr>\<rparr>"
  obtain r store w8 where cmp: "compare_states (observed deps) s actual desired r0 w7 = (r, store, w8)"
    by (cases "compare_states (observed deps) s actual desired r0 w7")
  have "runCycle (observed deps) s trigger (w, before) = ((r, None), store, w8)"
    using cmp by (simp add: runCycle_def worlds ab Let_def r0_def)
  moreover have "cr_CycleID r0 = cycle_id (observed deps) (w, before)" "cr_Stats r0 = zero_stats"
    by (simp_all add: r0_def new_result_def cycle_id_def w1 zero_result_def)
  ultimately show ?thesis
    using compare_states_sends [OF cmp] before unfolding commands_def by (cases w8) auto
qed

section \<open>Properties\<close>



end
