(* ===== verification/Drift_Concurrency.thy ===== *)
theory Drift_Concurrency
  imports Drift_Sends
begin

text \<open>
  Concurrent calls of RunCycle (internal/service/detection/service.go): the scheduler and
  every request to the handler run it in a goroutine of their own. The mutex makes
  beginCycle, persistResult and finishCycle atomic steps. The body runCycle is one step
  too: between beginCycle and finishCycle it works on its own result, and the cooldown store
  is used by nothing else; the world it meets (the clock, the other services) is arbitrary.
\<close>

section \<open>Goroutines and steps\<close>

datatype pc =
    Outside
  | In_body string
  | Body_done DetectionCycleResult bool
  | Persisted

type_synonym 'c system = "'c Service_d \<times> (nat \<Rightarrow> pc)"

inductive step :: "('w, 'c) Deps \<Rightarrow> 'c system \<Rightarrow> 'c system \<Rightarrow> bool" for deps where
  enter: "pcs i = Outside \<Longrightarrow> beginCycle s = (True, s') \<Longrightarrow> step deps (s, pcs) (s', pcs(i := In_body trigger))"
| refused: "pcs i = Outside \<Longrightarrow> beginCycle s = (False, s') \<Longrightarrow> step deps (s, pcs) (s', pcs)"
| body: "pcs i = In_body trigger \<Longrightarrow> runCycle deps s trigger w = ((r, err), store, w') \<Longrightarrow>
    step deps (s, pcs) (s\<lparr>sv_cooldownStore := store\<rparr>, pcs(i := Body_done r (err = None)))"
| persist: "pcs i = Body_done r ok \<Longrightarrow> step deps (s, pcs) (persistResult r ok s, pcs(i := Persisted))"
| finish: "pcs i = Persisted \<Longrightarrow> step deps (s, pcs) (finishCycle s, pcs(i := Outside))"

inductive_cases stepE: "step deps (s, pcs) (s', pcs')"

inductive reachable :: "('w, 'c) Deps \<Rightarrow> 'c Service_d \<Rightarrow> 'c system \<Rightarrow> bool" for deps s0 where
  start: "reachable deps s0 (s0, \<lambda>_. Outside)"
| move: "reachable deps s0 x \<Longrightarrow> step deps x y \<Longrightarrow> reachable deps s0 y"

text \<open>The services that calls of RunCycle one after the other can leave behind.\<close>

inductive serial :: "('w, 'c) Deps \<Rightarrow> 'c Service_d \<Rightarrow> 'c Service_d \<Rightarrow> bool" for deps s0 where
  serial_start: "serial deps s0 s0"
| serial_cycle: "serial deps s0 s \<Longrightarrow> RunCycle deps trigger (s, w) = (a, s', w') \<Longrightarrow> serial deps s0 s'"

section \<open>The invariant\<close>

text \<open>The goroutine inside is in the middle of the RunCycle that starts in s1.\<close>

fun midway :: "('w, 'c) Deps \<Rightarrow> 'c Service_d \<Rightarrow> pc \<Rightarrow> 'c Service_d \<Rightarrow> bool" where
  "midway deps s1 Outside s \<longleftrightarrow> s = s1"
| "midway deps s1 (In_body trigger) s \<longleftrightarrow> s = s1\<lparr>sv_running := True\<rparr>"
| "midway deps s1 (Body_done r ok) s \<longleftrightarrow>
     (\<exists>trigger w err store w'. runCycle deps (s1\<lparr>sv_running := True\<rparr>) trigger w = ((r, err), store, w')
        \<and> ok = (err = None) \<and> s = s1\<lparr>sv_running := True, sv_cooldownStore := store\<rparr>)"
| "midway deps s1 Persisted s \<longleftrightarrow>
     (\<exists>trigger w r err store w'. runCycle deps (s1\<lparr>sv_running := True\<rparr>) trigger w = ((r, err), store, w')
        \<and> s = persistResult r (err = None) (s1\<lparr>sv_running := True, sv_cooldownStore := store\<rparr>))"

definition inside :: "(nat \<Rightarrow> pc) \<Rightarrow> nat set" where
  "inside pcs = {i. pcs i \<noteq> Outside}"

definition coordinated :: "('w, 'c) Deps \<Rightarrow> 'c Service_d \<Rightarrow> 'c system \<Rightarrow> bool" where
  "coordinated deps s0 x \<longleftrightarrow>
     (\<exists>s1. serial deps s0 s1 \<and> \<not> sv_running s1
        \<and> (inside (snd x) = {} \<and> fst x = s1
           \<or> (\<exists>i. inside (snd x) = {i} \<and> midway deps s1 (snd x i) (fst x))))"

lemma midway_running: "midway deps s1 p s \<Longrightarrow> p \<noteq> Outside \<Longrightarrow> sv_running s"
  by (cases p) (auto simp: persistResult_def Let_def)

lemma inside_update:
  "inside (pcs(i := p)) = (if p = Outside then inside pcs - {i} else insert i (inside pcs))"
  by (auto simp: inside_def)

lemma inside_member: "pcs i \<noteq> Outside \<Longrightarrow> inside pcs = {j} \<Longrightarrow> j = i"
  by (auto simp: inside_def)

text \<open>Leaving completes the RunCycle that entering began.\<close>

lemma midway_finish:
  assumes "midway deps s1 Persisted s" and "\<not> sv_running s1"
  obtains trigger w a w' where "RunCycle deps trigger (s1, w) = (a, finishCycle s, w')"
proof -
  from assms(1) obtain trigger w r err store w' where
    "runCycle deps (s1\<lparr>sv_running := True\<rparr>) trigger w = ((r, err), store, w')"
    "s = persistResult r (err = None) (s1\<lparr>sv_running := True, sv_cooldownStore := store\<rparr>)" by auto
  then have "RunCycle deps trigger (s1, w) = ((r, err), finishCycle s, w')"
    using assms(2) by (simp add: RunCycle_def beginCycle_def Let_def)
  then show thesis by (rule that)
qed

lemma coordinated_step:
  assumes inv: "coordinated deps s0 (s, pcs)" and step: "step deps (s, pcs) (s', pcs')"
  shows "coordinated deps s0 (s', pcs')"
proof -
  from inv obtain s1 where s1: "serial deps s0 s1" "\<not> sv_running s1"
    and at: "inside pcs = {} \<and> s = s1 \<or> (\<exists>i. inside pcs = {i} \<and> midway deps s1 (pcs i) s)"
    by (auto simp: coordinated_def)
  have one: "inside pcs = {i} \<and> midway deps s1 (pcs i) s" if "pcs i \<noteq> Outside" for i
    using at that inside_member [of pcs i] by (auto simp: inside_def)
  from step show ?thesis
  proof (cases rule: stepE [consumes 1, case_names enter refused body persist finish])
    case (enter i trigger)
    then have "\<not> sv_running s" and s': "s' = s\<lparr>sv_running := True\<rparr>"
      by (auto simp: beginCycle_def split: if_splits)
    with at have "inside pcs = {}" "s = s1"
      by (auto simp: inside_def dest: midway_running)
    with s1 enter s' show ?thesis
      by (auto simp: coordinated_def inside_update intro!: exI [of _ s1])
  next
    case (refused i)
    then have "s' = s" by (simp add: beginCycle_def split: if_splits)
    with inv refused show ?thesis by simp
  next
    case (body i trigger w r err store w')
    with one [of i] have at: "inside pcs = {i}" "s = s1\<lparr>sv_running := True\<rparr>" by auto
    with body have "midway deps s1 (Body_done r (err = None)) s'"
      by auto blast
    with s1 body at show ?thesis
      by (auto simp: coordinated_def inside_update simp del: midway.simps intro!: exI [of _ s1])
  next
    case (persist i r ok)
    with one [of i] have "inside pcs = {i}" "midway deps s1 (Body_done r ok) s" by auto
    with s1 persist show ?thesis
      by (fastforce simp: coordinated_def inside_update intro!: exI [of _ s1])
  next
    case (finish i)
    with one [of i] have "inside pcs = {i}" and "midway deps s1 Persisted s" by auto
    from midway_finish [OF this(2) s1(2)] obtain trigger w a w' where
      "RunCycle deps trigger (s1, w) = (a, finishCycle s, w')" .
    with s1(1) have "serial deps s0 (finishCycle s)" by (rule serial_cycle)
    moreover have "\<not> sv_running (finishCycle s)" by (simp add: finishCycle_def)
    ultimately show ?thesis
      using finish \<open>inside pcs = {i}\<close> by (auto simp: coordinated_def inside_update)
  qed
qed

lemma reachable_coordinated:
  assumes "reachable deps s0 x" and "\<not> sv_running s0"
  shows "coordinated deps s0 x"
  using assms(1)
proof (induction rule: reachable.induct)
  case start
  show ?case
    using assms(2) by (auto simp: coordinated_def inside_def intro: serial_start)
next
  case (move x y)
  then show ?case by (cases x; cases y) (simp add: coordinated_step)
qed

section \<open>Properties\<close>

text \<open>
  However calls of RunCycle interleave, at most one goroutine is between beginCycle and
  finishCycle, and the running flag says whether one is.
\<close>
theorem RunCycle_exclusive:
  assumes "reachable deps s0 (s, pcs)" and "\<not> sv_running s0"
  shows "(\<forall>i j. pcs i \<noteq> Outside \<longrightarrow> pcs j \<noteq> Outside \<longrightarrow> i = j)
    \<and> (sv_running s \<longleftrightarrow> (\<exists>i. pcs i \<noteq> Outside))"
proof -
  from reachable_coordinated [OF assms] obtain s1 where "\<not> sv_running s1"
    and at: "inside pcs = {} \<and> s = s1 \<or> (\<exists>i. inside pcs = {i} \<and> midway deps s1 (pcs i) s)"
    by (auto simp: coordinated_def)
  then show ?thesis
    by (auto simp: inside_def set_eq_iff dest: midway_running)
qed


text \<open>
  Once the service reports ready it stays ready, and a result once kept is only ever
  replaced by another, under every interleaving.
\<close>
theorem ready_stable:
  assumes "step deps (s, pcs) (s', pcs')"
  shows "(IsReady_d s \<longrightarrow> IsReady_d s') \<and> (snd (LastCycleResult s) \<longrightarrow> snd (LastCycleResult s'))
    \<and> (IsReady_d s' \<longrightarrow> IsReady_d s \<or> (\<exists>i r. pcs i = Body_done r True \<and> LastCycleResult s' = (r, True)))"
  using assms
  by (cases rule: stepE)
    (auto simp: IsReady_d_def LastCycleResult_def beginCycle_def finishCycle_def persistResult_def Let_def
      split: if_splits)

text \<open>Two goroutines for the examples: one enters, the other is refused.\<close>

lemma sample_enter:
  "reachable sample_deps sample_service
     (sample_service\<lparr>sv_running := True\<rparr>, (\<lambda>_. Outside)(0 := In_body ''manual''))"
proof (rule reachable.move [OF reachable.start])
  show "step sample_deps (sample_service, \<lambda>_. Outside)
      (sample_service\<lparr>sv_running := True\<rparr>, (\<lambda>_. Outside)(0 := In_body ''manual''))"
    by (rule step.enter) (simp_all add: beginCycle_def sample_service_def NewService_d_def)
qed

lemma sample_refused:
  "reachable sample_deps sample_service
     (sample_service\<lparr>sv_running := True\<rparr>, (\<lambda>_. Outside)(0 := In_body ''manual''))"
  by (rule reachable.move [OF sample_enter], rule step.refused [where i = 1]) (simp_all add: beginCycle_def)

lemma sample_idle: "\<not> sv_running sample_service"
  by (simp add: sample_service_def NewService_d_def)

theorem RunCycle_exclusive_witness:
  "\<exists>s pcs. reachable sample_deps sample_service (s, pcs) \<and> sv_running s
     \<and> (\<forall>i j. pcs i \<noteq> Outside \<longrightarrow> pcs j \<noteq> Outside \<longrightarrow> i = j)"
proof -
  have "sv_running (sample_service\<lparr>sv_running := True\<rparr>)" by simp
  with RunCycle_exclusive [OF sample_refused sample_idle] sample_refused show ?thesis by blast
qed


theorem ready_stable_witness:
  "IsReady_d (persistResult zero_result True (sample_service\<lparr>sv_running := True\<rparr>))"
proof -
  let ?s = "sample_service\<lparr>sv_running := True, sv_ready := True\<rparr>"
  have "step sample_deps (?s, \<lambda>_. Persisted) (finishCycle ?s, (\<lambda>_. Persisted)(0 := Outside))"
    by (rule step.finish) simp
  from ready_stable [OF this] show ?thesis by (simp add: IsReady_d_def persistResult_def Let_def)
qed

end
