(* ===== verification/Platform.thy ===== *)
theory Platform
  imports Drift_App Inventory_App Parser_App Routes
begin

text \<open>
  The three services together: what DriftDetectorSvc sees of the hosts that InventorySvc and
  ParserSvc serve. JSON carries the payload of one to the struct of the other field by
  field name; \<open>wire_hosts\<close> and \<open>wire_desired\<close> say so, reading off the tags of the transfer
  objects on both sides (InventorySvc and ParserSvc internal/transport/http/dto.go,
  DriftDetectorSvc internal/clients). Encoding and decoding are parameters that are assumed
  to compose to that on the payload at hand; it takes strings that are valid UTF-8.
\<close>

section \<open>From the payload to the struct of the client\<close>

definition wire_source_status :: "SourceStatusDTO \<Rightarrow> sourceStatusDTO" where
  "wire_source_status s =
     \<lparr>ssd_Source = sdt_Source s, ssd_Enabled = sdt_Enabled s, ssd_Status = source_status_text (sdt_Status s),
      ssd_Error = sdt_Error s\<rparr>"

definition wire_host :: "HostDTO \<Rightarrow> hostDTO" where
  "wire_host h =
     \<lparr>hd_ID = hdt_ID h, hd_FQDN = hdt_FQDN h, hd_Labels = hdt_Labels h,
      hd_Status = host_status_text (hdt_Status h),
      hd_Workloads = map (\<lambda>w. \<lparr>wd_Name = wdt_Name w\<rparr>) (hdt_Workloads h),
      hd_SourceStatus = map (\<lambda>(k, s). (k, wire_source_status s)) (hdt_SourceStatus h)\<rparr>"

definition wire_hosts :: "HostsResponseMetadata_i \<Rightarrow> HostDTO list \<Rightarrow> hostsResponse" where
  "wire_hosts md hosts =
     \<lparr>hr_Metadata = \<lparr>hm_IsPartial = hmi_IsPartial md, hm_TotalHosts = int (hmi_TotalHosts md),
        hm_FailedHosts = int (hmi_FailedHosts md), hm_LastSyncAt = map_option UTC (hmi_LastSyncAt md)\<rparr>,
      hr_Hosts = map wire_host hosts\<rparr>"

definition wire_desired_host :: "DesiredHostDTO \<Rightarrow> desiredHostDTO" where
  "wire_desired_host h =
     \<lparr>dhd_HostID = phd_HostID h, dhd_FQDN = phd_FQDN h, dhd_Labels = phd_Labels h,
      dhd_Workloads = map (\<lambda>w. \<lparr>dwd_Name = pwd_Name w, dwd_Enabled = pwd_Enabled w,
        dwd_DeploymentMode = pwd_DeploymentMode w, dwd_Image = pwd_Image w, dwd_Version = pwd_Version w,
        dwd_Port = pwd_Port w\<rparr>) (phd_Workloads h)\<rparr>"

definition wire_desired :: "DesiredStateResponse \<Rightarrow> desiredStateResponse" where
  "wire_desired r =
     (let md = dsr_Metadata r
      in \<lparr>dsp_Metadata = \<lparr>dm_Ready = dsm_Ready md, dm_ReadyReason = dsm_ReadyReason md,
            dm_FilesLoaded = int (dsm_FilesLoaded md), dm_FilesBroken = int (dsm_FilesBroken md),
            dm_HostsTotal = int (dsm_HostsTotal md), dm_WorkloadsTotal = int (dsm_WorkloadsTotal md),
            dm_LoadedAt = Some (UTC (dsm_LoadedAt md))\<rparr>,
          dsp_State = \<lparr>dsd_Hosts = map wire_desired_host (dso_Hosts (dsr_State r))\<rparr>\<rparr>)"

section \<open>What arrives\<close>

definition actual_host_of :: "Host \<Rightarrow> ActualHost" where
  "actual_host_of h = toActualHost (wire_host (toHostDTO h))"

definition desired_host_of :: "DesiredHost_p \<Rightarrow> DesiredHost_d" where
  "desired_host_of p = toDesiredHost (wire_desired_host (toDesiredHostDTO p))"

lemma map_values_comp: "(\<lambda>(k, v). (k, g v)) \<circ> (\<lambda>(k, v). (k, f v)) = (\<lambda>(k, v). (k, g (f v)))"
  by auto

lemma actual_host_of_source:
  assumes "wf_host_i h"
  shows "map_get (ah_SourceStatus (actual_host_of h)) k = map_option (\<lambda>s.
       \<lparr>asr_Source = so_Source s, asr_Enabled = so_Enabled s, asr_Status = source_status_text (so_Status s),
        asr_Error = so_Error s\<rparr>) (map_get (ih_SourceStatus h) k)"
  using assms
  by (simp add: actual_host_of_def toActualHost_def wire_host_def toHostDTO_def wf_host_i_def
      copy_into_empty wf_map_map map_get_map map_values_comp wire_source_status_def toSourceStatusDTO_def Let_def)

lemma actual_host_of_fields:
  assumes "wf_host_i h"
  shows "ah_HostID (actual_host_of h) = ih_ID h" "ah_FQDN (actual_host_of h) = ih_FQDN h"
    "ah_Labels (actual_host_of h) = ih_Labels h" "ah_Status (actual_host_of h) = host_status_text (ih_Status h)"
    "ah_Workloads (actual_host_of h) = map (\<lambda>w. \<lparr>aw_Name = iw_Name w\<rparr>) (ih_Workloads h)"
  using assms
  by (simp_all add: actual_host_of_def toActualHost_def wire_host_def toHostDTO_def toWorkloadDTO_def wf_host_i_def
      copy_into_empty wf_map_map comp_def Let_def)

lemma desired_host_of_fields:
  assumes "wf_map (ph_Labels p)"
  shows "dh_HostID (desired_host_of p) = ph_HostID p" "dh_FQDN (desired_host_of p) = ph_FQDN p"
    "dh_Labels (desired_host_of p) = ph_Labels p"
  using assms
  by (simp_all add: desired_host_of_def toDesiredHost_def wire_desired_host_def toDesiredHostDTO_def
      copy_into_empty wf_map_map)

lemma desired_host_of_workloads:
  "dh_Workloads (desired_host_of p) =
     map (\<lambda>w. \<lparr>dw_Name = pw_Name w, dw_Enabled = pw_Enabled w, dw_DeploymentMode = pw_DeploymentMode w,
       dw_Image = pw_Image w, dw_Version = pw_Version w, dw_Port = pw_Port w\<rparr>) (ph_Workloads p)"
  by (simp add: desired_host_of_def toDesiredHost_def wire_desired_host_def toDesiredHostDTO_def
      toDesiredWorkloadDTO_def)

lemma HasWorkload_of:
  "wf_host_i h \<Longrightarrow> HasWorkload (actual_host_of h) cmp =
     list_ex (\<lambda>w. EqualFold (TrimSpace (iw_Name w)) cmp) (ih_Workloads h)"
  by (simp add: HasWorkload_def actual_host_of_fields list_ex_iff)

lemma ok_texts:
  "EqualFold (TrimSpace ''ok'') ''ok''" "\<not> EqualFold (TrimSpace ''error'') ''ok''"
  "\<not> EqualFold (TrimSpace ''disabled'') ''ok''"
  by code_simp+

lemma IsSourceHealthy_of:
  assumes "wf_host_i h"
  shows "IsSourceHealthy (actual_host_of h) source =
     (case map_get (ih_SourceStatus h) source of
        None \<Rightarrow> False | Some s \<Rightarrow> so_Enabled s \<and> so_Status s = SourceStatusOK)"
proof (cases "map_get (ih_SourceStatus h) source")
  case (Some s)
  with assms ok_texts show ?thesis
    by (cases "so_Status s") (simp_all add: IsSourceHealthy_def actual_host_of_source)
qed (use assms in \<open>simp add: IsSourceHealthy_def actual_host_of_source\<close>)

text \<open>A wanted component, read off the host of ParserSvc.\<close>

definition wants :: "DesiredHost_p \<Rightarrow> Component \<Rightarrow> bool" where
  "wants p cmp \<longleftrightarrow>
     (case find (\<lambda>w. EqualFold (TrimSpace (pw_Name w)) cmp) (ph_Workloads p) of
        None \<Rightarrow> False
      | Some w \<Rightarrow> pw_Enabled w \<and> EqualFold (TrimSpace (pw_DeploymentMode w)) ''container'')"

lemma find_map: "find P (map f xs) = map_option f (find (\<lambda>x. P (f x)) xs)"
  by (induction xs) simp_all

lemma wanted_workload_of: "(wanted_workload (desired_host_of p) cmp = None) = (\<not> wants p cmp)"
  by (simp add: wanted_workload_def DesiredWorkload_of_def desired_host_of_workloads find_map wants_def
      split: option.split)

section \<open>The host that a sync with the sources of app.Run makes\<close>

text \<open>The answer of cAdvisor for a host, if it is enabled and could be asked.\<close>

definition cadvisor_data ::
  "('w \<Rightarrow> gotime \<times> 'w) \<Rightarrow> (string \<Rightarrow> 'w \<Rightarrow> http_answer \<times> 'w) \<Rightarrow> Unmarshal \<Rightarrow> CAdvisorConfig
     \<Rightarrow> HostSeed \<Rightarrow> 'w \<Rightarrow> SourceData option" where
  "cadvisor_data now get un cfg seed w =
     (case fst (CollectHost now get un cfg seed w) of Inl e \<Rightarrow> None | Inr d \<Rightarrow> Some d)"

definition runs :: "SourceData option \<Rightarrow> Component \<Rightarrow> bool" where
  "runs data cmp \<longleftrightarrow>
     (case data of None \<Rightarrow> False
      | Some d \<Rightarrow> list_ex (\<lambda>w. EqualFold (TrimSpace (iw_Name w)) cmp) (sd_Workloads d))"

definition synced_host ::
  "('w \<Rightarrow> gotime \<times> 'w) \<Rightarrow> (string \<Rightarrow> 'w \<Rightarrow> http_answer \<times> 'w) \<Rightarrow> Unmarshal \<Rightarrow> CAdvisorConfig
     \<Rightarrow> bool \<Rightarrow> bool \<Rightarrow> HostSeed \<Rightarrow> 'w \<Rightarrow> Host" where
  "synced_host now get un cfg netbox other seed w =
     fst (sync_host (buildSources now get un cfg netbox other) seed w)"

lemma synced_host_parts:
  fixes now :: "'w \<Rightarrow> gotime \<times> 'w" and get un cfg netbox other seed w
  defines "h \<equiv> synced_host now get un cfg netbox other seed w"
  shows "wf_host_i h"
    and "ih_Workloads h =
      (case cadvisor_data now get un cfg seed w of None \<Rightarrow> [] | Some d \<Rightarrow> cloneWorkloads (sd_Workloads d))"
    and "(case map_get (ih_SourceStatus h) ''cadvisor'' of
        None \<Rightarrow> False | Some s \<Rightarrow> so_Enabled s \<and> so_Status s = SourceStatusOK)
      = (cadvisor_data now get un cfg seed w \<noteq> None)"
proof -
  obtain as w' where as: "ask_sources seed (buildSources now get un cfg netbox other) w = (as, w')" by (meson surj_pair)
  then have h: "h = host_after seed as" by (simp add: h_def synced_host_def sync_host_after)
  show "wf_host_i h" by (simp add: h host_after_wf)
  obtain a v where collect: "CollectHost now get un cfg seed w = (a, v)" by (meson surj_pair)
  let ?n = "if netbox then Some (Inl ''source \"netbox\" is enabled but not implemented in MVP'') else None"
  let ?o = "if other then Some (Inl ''source \"otherSources\" is enabled but not implemented in MVP'') else None"
  have as_eq: "as = [(''cadvisor'', if cf_IsEnabled cfg then Some a else None), (''netbox'', ?n), (''otherSources'', ?o)]"
    using as collect by (auto simp: buildSources_def NewSource_def PlaceholderSource_def sourceName_def split: if_splits)
  have disabled: "\<not> cf_IsEnabled cfg \<Longrightarrow> \<exists>e. a = Inl e" using collect by (auto simp: CollectHost_def)
  show "ih_Workloads h =
      (case cadvisor_data now get un cfg seed w of None \<Rightarrow> [] | Some d \<Rightarrow> cloneWorkloads (sd_Workloads d))"
    using disabled
    by (auto simp: h host_after_def as_eq answered_def cadvisor_data_def collect split: sum.split)
  show "(case map_get (ih_SourceStatus h) ''cadvisor'' of
        None \<Rightarrow> False | Some s \<Rightarrow> so_Enabled s \<and> so_Status s = SourceStatusOK)
      = (cadvisor_data now get un cfg seed w \<noteq> None)"
    using disabled
    by (auto simp: h host_after_def as_eq map_get_index_into last_with_def answer_status_def cadvisor_data_def collect
        split: sum.split)
qed

lemma synced_host_healthy:
  "IsSourceHealthy (actual_host_of (synced_host now get un cfg netbox other seed w)) ''cadvisor'' =
     (cadvisor_data now get un cfg seed w \<noteq> None)"
  by (simp add: IsSourceHealthy_of synced_host_parts)

lemma synced_host_runs:
  "HasWorkload (actual_host_of (synced_host now get un cfg netbox other seed w)) cmp =
     runs (cadvisor_data now get un cfg seed w) cmp"
  by (simp add: HasWorkload_of synced_host_parts runs_def cloneWorkloads_def list_ex_iff split: option.split)

section \<open>Properties\<close>

text \<open>
  C6: end to end, from the answer of cAdvisor on a host and the host of the parsed manifests
  to the verdicts of the two detectors. A wanted cadvisor is reported as drift unless
  cAdvisor answered and lists it, so also when it is disabled or cannot be reached; a wanted
  node_exporter is drift exactly when cAdvisor answered and does not list it, and is
  reported as missing data when it did not answer. The other sources change nothing.
\<close>
theorem platform_detect:
  "let data = cadvisor_data now get un cfg seed w;
       a = actual_host_of (synced_host now get un cfg netbox other seed w); d = desired_host_of p;
       cad = Detect_cadvisor cid d a; ne = Detect_node_exporter cid d a
   in dr_Drift cad = (wants p ComponentCadvisor \<and> \<not> runs data ComponentCadvisor)
      \<and> \<not> dr_MissingActualData cad
      \<and> dr_Drift ne = (wants p ComponentNodeExporter \<and> data \<noteq> None \<and> \<not> runs data ComponentNodeExporter)
      \<and> dr_MissingActualData ne = (wants p ComponentNodeExporter \<and> data = None)"
proof -
  let ?data = "cadvisor_data now get un cfg seed w"
  have none: "runs None cmp = False" for cmp by (simp add: runs_def)
  show ?thesis
    using wanted_workload_of [of p ComponentCadvisor] wanted_workload_of [of p ComponentNodeExporter]
    by (cases "wanted_workload (desired_host_of p) ComponentCadvisor";
        cases "wanted_workload (desired_host_of p) ComponentNodeExporter"; cases ?data)
      (simp_all add: detect_eqs workloadSourceCadvisor_def synced_host_healthy synced_host_runs none
        no_result_def Let_def)
qed

text \<open>What comes over the wire from a server: gin answers by itself where no route matches.\<close>

definition over_http :: "('p \<Rightarrow> string) \<Rightarrow> 'p reply \<Rightarrow> http_answer" where
  "over_http marshal reply =
     (case reply of
        Handled status payload \<Rightarrow> Answer (int status) (marshal payload) None
      | No_route \<Rightarrow> Answer 404 ''404 page not found'' None
      | Swagger_page (Redirect status location) \<Rightarrow> Answer (int status) location None
      | Swagger_page (Swagger_files path) \<Rightarrow> Answer 200 path None)"

definition hosts_payload :: "Store_i \<Rightarrow> payload_i" where
  "hosts_payload store = snd (ListHosts_handler_i store [])"

definition desired_payload :: "Store_p \<Rightarrow> payload_p" where
  "desired_payload store = snd (GetDesiredState store)"

lemma hosts_payload:
  assumes "wf_snapshot_i (GetSnapshot_i store)"
  shows "ListHosts_handler_i store [] =
    (200, Hosts_i (toHostsResponseMetadata (GetMetadata store) (length (is_Hosts (GetSnapshot_i store))))
      (map toHostDTO (is_Hosts (GetSnapshot_i store))))"
  using assms
  by (simp add: ListHosts_handler_i_def ListHosts_i_def parseLabelFilters_def FilterHostsByLabels_def
      GetMetadata_def wf_snapshot_i_def Clone_hosts_i_id Let_def)


definition sample_inventory :: Store_i where
  "sample_inventory = Replace_i \<lparr>is_Hosts = [sample_host_i], is_Metadata = zero_metadata_i\<rparr> NewStore_i"

text \<open>A transport that carries the two requests to the two servers.\<close>

definition sample_transport :: "nat Transport" where
  "sample_transport =
     \<lparr>tr_send = (\<lambda>url body n.
        (if url = ''http://inventory/api/v1/hosts''
         then over_http (\<lambda>p. ''hosts'') (serve_i first_match sample_inventory sample_inventory ''GET'' ''/api/v1/hosts'' [])
         else over_http (\<lambda>p. ''state'') (serve_p first_match NewStore_p ''GET'' ''/api/v1/desired-state'' []), n + 1)),
      tr_wait = (\<lambda>d n. (True, n)), tr_ctxErr = (\<lambda>n. ''context canceled'')\<rparr>"


end
