(* ===== verification/Platform_Cycle.thy ===== *)
theory Platform_Cycle
  imports Platform
begin

text \<open>
  A whole detection cycle in terms of what the other two services hold: the hosts of
  InventorySvc and the desired hosts of ParserSvc, without the types of the detector.
\<close>

section \<open>Matching over the two stores\<close>

definition inventory_host :: "Host list \<Rightarrow> DesiredHost_p \<Rightarrow> Host option" where
  "inventory_host hosts p =
     (let find_by = (\<lambda>key k. if k = [] then None else last_with (\<lambda>h. normal_name (key h)) k hosts)
      in case find_by ih_ID (normal_name (ph_HostID p)) of
           Some h \<Rightarrow> Some h
         | None \<Rightarrow> find_by ih_FQDN (normal_name (ph_FQDN p)))"

definition platform_pairs :: "Host list \<Rightarrow> DesiredHost_p list \<Rightarrow> (DesiredHost_p \<times> Host) list" where
  "platform_pairs hosts ps =
     concat (map (\<lambda>p. case inventory_host hosts p of None \<Rightarrow> [] | Some h \<Rightarrow> [(p, h)]) ps)"

lemma last_with_map: "last_with key k (map f xs) = map_option f (last_with (\<lambda>x. key (f x)) k xs)"
  by (induction xs rule: rev_induct) (simp_all add: last_with_snoc)

lemma host_names:
  "ah_HostID (actual_host_of h) = ih_ID h" "ah_FQDN (actual_host_of h) = ih_FQDN h"
  "dh_HostID (desired_host_of p) = ph_HostID p" "dh_FQDN (desired_host_of p) = ph_FQDN p"
  by (simp_all add: actual_host_of_def toActualHost_def wire_host_def toHostDTO_def desired_host_of_def
      toDesiredHost_def wire_desired_host_def toDesiredHostDTO_def Let_def)

lemma actual_host_map:
  "actual_host (map actual_host_of hosts) (desired_host_of p) = map_option actual_host_of (inventory_host hosts p)"
  by (simp add: actual_host_def inventory_host_def last_with_map host_names Let_def split: option.split)

lemma compared_hosts_map:
  "compared_hosts (map actual_host_of hosts) (map desired_host_of ps) =
     map (\<lambda>(p, h). (desired_host_of p, actual_host_of h)) (platform_pairs hosts ps)"
  by (induction ps)
    (simp_all add: compared_hosts_def platform_pairs_def actual_host_map split: option.split)

lemma platform_pairs_host:
  "(p, h) \<in> set (platform_pairs hosts ps) \<Longrightarrow> h \<in> set hosts"
  by (auto simp: platform_pairs_def inventory_host_def Let_def dest: last_with_SomeD last_with_SomeD [OF sym]
      split: option.splits if_splits)

section \<open>What is reported\<close>

definition observed_host :: "Host \<Rightarrow> bool" where
  "observed_host h \<longleftrightarrow>
     (case map_get (ih_SourceStatus h) ''cadvisor'' of
        None \<Rightarrow> False | Some s \<Rightarrow> so_Enabled s \<and> so_Status s = SourceStatusOK)"

definition host_runs :: "Host \<Rightarrow> Component \<Rightarrow> bool" where
  "host_runs h cmp \<longleftrightarrow> list_ex (\<lambda>w. EqualFold (TrimSpace (iw_Name w)) cmp) (ih_Workloads h)"

definition reported :: "Component \<Rightarrow> DesiredHost_p \<times> Host \<Rightarrow> bool" where
  "reported cmp pair \<longleftrightarrow>
     (let (p, h) = pair
      in wants p cmp \<and> (if cmp = ComponentCadvisor then \<not> (observed_host h \<and> host_runs h cmp)
                        else observed_host h \<and> \<not> host_runs h cmp))"

definition unobserved :: "Component list \<Rightarrow> DesiredHost_p \<times> Host \<Rightarrow> bool" where
  "unobserved cs pair \<longleftrightarrow>
     ComponentNodeExporter \<in> set cs \<and> wants (fst pair) ComponentNodeExporter \<and> \<not> observed_host (snd pair)"

lemma component_names: "ComponentCadvisor \<noteq> ComponentNodeExporter"
  by (simp add: ComponentCadvisor_def ComponentNodeExporter_def)

lemma verdict_reported:
  assumes "wf_host_i h" and "cmp \<in> {ComponentNodeExporter, ComponentCadvisor}"
  shows "is_drift (component_verdict app_registry cid (desired_host_of p) (actual_host_of h) cmp) = reported cmp (p, h)"
    and "is_no_data (component_verdict app_registry cid (desired_host_of p) (actual_host_of h) cmp) =
      (cmp = ComponentNodeExporter \<and> wants p cmp \<and> \<not> observed_host h)"
proof -
  have healthy: "IsSourceHealthy (actual_host_of h) workloadSourceCadvisor = observed_host h"
    by (simp add: IsSourceHealthy_of [OF assms(1)] workloadSourceCadvisor_def observed_host_def)
  have has: "HasWorkload (actual_host_of h) c = host_runs h c" for c
    by (simp add: HasWorkload_of [OF assms(1)] host_runs_def)
  note defs = component_verdict_def Get_app_registry component_names component_names [symmetric] reported_def
    NewCadvisorDetector_def NewNodeExporterDetector_def detect_eqs healthy has
  from assms(2) consider "cmp = ComponentCadvisor" | "cmp = ComponentNodeExporter" by blast
  then have "is_drift (component_verdict app_registry cid (desired_host_of p) (actual_host_of h) cmp) = reported cmp (p, h)
    \<and> is_no_data (component_verdict app_registry cid (desired_host_of p) (actual_host_of h) cmp) =
      (cmp = ComponentNodeExporter \<and> wants p cmp \<and> \<not> observed_host h)"
  proof cases
    case 1
    with wanted_workload_of [of p cmp] show ?thesis
      by (cases "wanted_workload (desired_host_of p) ComponentCadvisor") (simp_all add: defs)
  next
    case 2
    with wanted_workload_of [of p cmp] show ?thesis
      by (cases "wanted_workload (desired_host_of p) ComponentNodeExporter") (simp_all add: defs)
  qed
  then show "is_drift (component_verdict app_registry cid (desired_host_of p) (actual_host_of h) cmp) = reported cmp (p, h)"
    "is_no_data (component_verdict app_registry cid (desired_host_of p) (actual_host_of h) cmp) =
      (cmp = ComponentNodeExporter \<and> wants p cmp \<and> \<not> observed_host h)" by simp_all
qed

lemma host_drifts_reported:
  assumes "wf_host_i h" and "set cs \<subseteq> {ComponentNodeExporter, ComponentCadvisor}"
  shows "host_drifts app_registry cid cs (desired_host_of p, actual_host_of h) =
      length (filter (\<lambda>c. reported c (p, h)) cs)"
    and "host_no_data app_registry cid cs (desired_host_of p, actual_host_of h) = unobserved cs (p, h)"
proof -
  have "filter (\<lambda>c. is_drift (component_verdict app_registry cid (desired_host_of p) (actual_host_of h) c)) cs =
      filter (\<lambda>c. reported c (p, h)) cs"
    using assms verdict_reported(1) by (intro filter_cong) auto
  then show "host_drifts app_registry cid cs (desired_host_of p, actual_host_of h) =
      length (filter (\<lambda>c. reported c (p, h)) cs)"
    by (simp add: host_drifts_def)
  have "is_no_data (component_verdict app_registry cid (desired_host_of p) (actual_host_of h) c) =
      (c = ComponentNodeExporter \<and> wants p c \<and> \<not> observed_host h)" if "c \<in> set cs" for c
    using assms that by (intro verdict_reported(2)) auto
  then show "host_no_data app_registry cid cs (desired_host_of p, actual_host_of h) = unobserved cs (p, h)"
    by (auto simp: host_no_data_def unobserved_def list_ex_iff)
qed

definition reports :: "Component list \<Rightarrow> (DesiredHost_p \<times> Host) list \<Rightarrow> nat" where
  "reports cs pairs = sum_list (map (\<lambda>pair. length (filter (\<lambda>c. reported c pair) cs)) pairs)"

lemma cycle_drifts_reports:
  assumes "\<forall>(p, h) \<in> set pairs. wf_host_i h" and "set cs \<subseteq> {ComponentNodeExporter, ComponentCadvisor}"
  shows "cycle_drifts app_registry cid cs (map (\<lambda>(p, h). (desired_host_of p, actual_host_of h)) pairs) = reports cs pairs"
    and "length (filter (host_no_data app_registry cid cs \<circ> (\<lambda>(p, h). (desired_host_of p, actual_host_of h))) pairs)
      = length (filter (unobserved cs) pairs)"
  using assms(1)
  by (induction pairs) (auto simp: cycle_drifts_def reports_def host_drifts_reported [OF _ assms(2)])

section \<open>Properties\<close>

text \<open>
  C1: a cycle over what the inventory and the parser hold, for a service with the components
  a validated configuration can have: it compares the desired hosts that have a host in the
  inventory, and finds drift exactly for the wanted components that are not running there:
  a node_exporter only where cAdvisor could be asked, a cadvisor also where it could not.
  Each drift ends as sent, suppressed or failed. So when every wanted component runs on an
  observed host, the platform is at rest: nothing is sent and nothing is skipped for lack of
  data.
\<close>
theorem platform_cycle:
  assumes "fst (inventory_call deps w) = Inr \<lparr>ast_Hosts = map actual_host_of hosts, ast_Metadata = amd\<rparr>"
    and "fst (parser_call deps w) = Inr \<lparr>dst_Hosts = map desired_host_of ps, dst_Metadata = dmd\<rparr>"
    and "list_all wf_host_i hosts" and "sv_registry s = app_registry"
    and "set (sv_enabledComponents s) \<subseteq> {ComponentNodeExporter, ComponentCadvisor}"
  shows "\<exists>r store w'. runCycle deps s trigger w = ((r, None), store, w') \<and>
    (let pairs = platform_pairs hosts ps; cs = sv_enabledComponents s; st = cr_Stats r
     in ds_ComparedHosts st = length pairs
        \<and> ds_DriftsFound st = reports cs pairs
        \<and> ds_ReconcileSent st + ds_ReconcileSuppressed st + ds_Errors st = reports cs pairs
        \<and> ds_SkippedHostsNoActualData st = length (filter (unobserved cs) pairs))"
proof -
  let ?pairs = "platform_pairs hosts ps" and ?cs = "sv_enabledComponents s"
  have "\<forall>(p, h) \<in> set ?pairs. wf_host_i h"
    using assms(3) by (auto simp: list_all_iff dest: platform_pairs_host)
  note counts = cycle_drifts_reports [OF this assms(5)]
  have "unregistered app_registry ?cs = 0"
    using assms(5) by (auto simp: unregistered_def Get_app_registry filter_empty_conv)
  with runCycle_summary [OF assms(1,2), of s trigger] show ?thesis
    by (auto simp: compared_hosts_map counts assms(4) Let_def)
qed

definition wanted_host :: DesiredHost_p where
  "wanted_host =
     \<lparr>ph_HostID = ''h1'', ph_FQDN = ''h1.local'', ph_IP = [], ph_Labels = [], ph_Env = ''dev'', ph_ManagedBy = ''a'',
      ph_Purpose = ''b'', ph_Workloads =
        [\<lparr>pw_Name = ''cadvisor'', pw_Enabled = True, pw_DeploymentMode = ''container'', pw_Image = ''img'',
           pw_Version = None, pw_Port = Some 8080\<rparr>,
         \<lparr>pw_Name = ''node_exporter'', pw_Enabled = True, pw_DeploymentMode = ''container'', pw_Image = ''img'',
           pw_Version = None, pw_Port = None\<rparr>]\<rparr>"

abbreviation platform_deps :: "(int, CooldownStore) Deps" where
  "platform_deps \<equiv> sample_deps
     \<lparr>dep_FetchActualState := (\<lambda>w. (Inr \<lparr>ast_Hosts = map actual_host_of [sample_host_i], ast_Metadata = ast_Metadata sample_actual\<rparr>, w)),
      dep_FetchDesiredState := (\<lambda>w. (Inr \<lparr>dst_Hosts = map desired_host_of [wanted_host], dst_Metadata = dst_Metadata sample_desired\<rparr>, w))\<rparr>"

text \<open>A host that cAdvisor has not answered for: cadvisor is reported, node_exporter is not.\<close>

theorem platform_cycle_witness:
  "\<exists>r store w'. runCycle platform_deps sample_service ''manual'' 0 = ((r, None), store, w')
     \<and> ds_DriftsFound (cr_Stats r) = 1 \<and> ds_SkippedHostsNoActualData (cr_Stats r) = 1"
proof -
  have calls: "fst (inventory_call platform_deps 0) =
      Inr \<lparr>ast_Hosts = map actual_host_of [sample_host_i], ast_Metadata = ast_Metadata sample_actual\<rparr>"
    "fst (parser_call platform_deps 0) =
      Inr \<lparr>dst_Hosts = map desired_host_of [wanted_host], dst_Metadata = dst_Metadata sample_desired\<rparr>"
    by (simp_all add: inventory_call_def parser_call_def sample_deps_def tick_def)
  have service: "list_all wf_host_i [sample_host_i]" "sv_registry sample_service = app_registry"
    "sv_enabledComponents sample_service = [ComponentCadvisor, ComponentNodeExporter]"
    by (simp_all add: wf_host_i_def sample_host_i_def wf_map_def sample_service_def NewService_d_def)
  then have enabled: "set (sv_enabledComponents sample_service) \<subseteq> {ComponentNodeExporter, ComponentCadvisor}" by simp
  have "reports [ComponentCadvisor, ComponentNodeExporter] (platform_pairs [sample_host_i] [wanted_host]) = 1"
    "length (filter (unobserved [ComponentCadvisor, ComponentNodeExporter]) (platform_pairs [sample_host_i] [wanted_host])) = 1"
    by code_simp+
  with platform_cycle [OF calls service(1,2) enabled, of "''manual''"] service(3) show ?thesis
    by (auto simp: Let_def)
qed

end
