(* ===== verification/Reconciler_Queue.thy ===== *)
theory Reconciler_Queue
  imports Prelude
begin

text \<open>
  ReconcilerSvc, app/execution/task\_queue.py: the queue of jobs and its workers. The tasks
  of asyncio interleave where they await; between two awaits a task is one step. A put that
  waits for room is in \<open>tq_putters\<close> until it puts its job or its time is over, and when
  several things can happen the steps leave open which comes first.
\<close>

section \<open>The state\<close>

datatype 'job item = Job 'job | Sentinel

text \<open>A worker waits in get, runs the handler on a job, or has returned.\<close>

datatype 'job worker = Getting | Handling 'job | Ended

text \<open>
  Where stop is: not called, in join, past the await of join although not yet resumed,
  with n sentinels left to put (after the last it gathers the workers).
\<close>

datatype stop_point = No_stop | Joining | Joined | Sending nat

record queue_config =
  qc_max_workers :: int
  qc_capacity :: int

text \<open>
  The fields of the class and of its asyncio.Queue, and three histories that nothing reads:
  the jobs that were put, those that workers took, and those whose handler is done.
\<close>

record 'job task_queue =
  tq_items :: "'job item list"
  tq_unfinished :: nat
  tq_putters :: "'job list"
  tq_workers :: "'job worker list"
  tq_running :: bool
  tq_accepting :: bool
  tq_stop :: stop_point
  tq_accepted :: "'job list"
  tq_taken :: "'job list"
  tq_done :: "'job list"

definition new_queue :: "'job task_queue" where
  "new_queue = \<lparr>tq_items = [], tq_unfinished = 0, tq_putters = [], tq_workers = [], tq_running = False,
     tq_accepting = False, tq_stop = No_stop, tq_accepted = [], tq_taken = [], tq_done = []\<rparr>"

section \<open>What the methods do between two awaits\<close>

text \<open>asyncio.Queue: full, put\_nowait, and task\_done, which wakes join at zero.\<close>

definition full :: "queue_config \<Rightarrow> 'job task_queue \<Rightarrow> bool" where
  "full cfg q \<longleftrightarrow> 0 < qc_capacity cfg \<and> qc_capacity cfg \<le> int (length (tq_items q))"

definition put_nowait :: "'job item \<Rightarrow> 'job task_queue \<Rightarrow> 'job task_queue" where
  "put_nowait x q = q\<lparr>tq_items := tq_items q @ [x], tq_unfinished := tq_unfinished q + 1\<rparr>"

definition task_done :: "'job task_queue \<Rightarrow> 'job task_queue" where
  "task_done q =
     (let unfinished = tq_unfinished q - 1
      in q\<lparr>tq_unfinished := unfinished,
           tq_stop := (if unfinished = 0 \<and> tq_stop q = Joining then Joined else tq_stop q)\<rparr>)"

definition start_queue :: "queue_config \<Rightarrow> 'job task_queue \<Rightarrow> 'job task_queue" where
  "start_queue cfg q =
     (if tq_running q then q
      else q\<lparr>tq_accepting := True, tq_running := True,
             tq_workers := replicate (nat (qc_max_workers cfg)) Getting\<rparr>)"

text \<open>enqueue up to the await of put: refused, or waiting.\<close>

datatype queue_error = QueueNotRunningError | QueueSaturatedError

definition begin_enqueue :: "'job \<Rightarrow> 'job task_queue \<Rightarrow> (queue_error, 'job task_queue) result" where
  "begin_enqueue job q =
     (if \<not> tq_running q \<or> \<not> tq_accepting q then Inl QueueNotRunningError
      else Inr (q\<lparr>tq_putters := tq_putters q @ [job]\<rparr>))"

text \<open>The put of the i-th waiting enqueue, and the end of its time, which raises QueueSaturatedError.\<close>

definition drop_nth :: "nat \<Rightarrow> 'a list \<Rightarrow> 'a list" where
  "drop_nth i xs = take i xs @ drop (Suc i) xs"

definition end_enqueue :: "nat \<Rightarrow> 'job task_queue \<Rightarrow> 'job task_queue" where
  "end_enqueue i q =
     (put_nowait (Job (tq_putters q ! i)) q)
       \<lparr>tq_putters := drop_nth i (tq_putters q), tq_accepted := tq_accepted q @ [tq_putters q ! i]\<rparr>"

definition timeout_enqueue :: "nat \<Rightarrow> 'job task_queue \<Rightarrow> 'job task_queue" where
  "timeout_enqueue i q = q\<lparr>tq_putters := drop_nth i (tq_putters q)\<rparr>"

text \<open>stop up to the await of join, which does not wait when nothing is unfinished.\<close>

definition begin_stop :: "'job task_queue \<Rightarrow> 'job task_queue" where
  "begin_stop q =
     (if \<not> tq_running q then q
      else q\<lparr>tq_accepting := False, tq_stop := (if tq_unfinished q = 0 then Joined else Joining)\<rparr>)"

definition send_sentinels :: "'job task_queue \<Rightarrow> 'job task_queue" where
  "send_sentinels q = q\<lparr>tq_stop := Sending (length (tq_workers q))\<rparr>"

definition send_sentinel :: "nat \<Rightarrow> 'job task_queue \<Rightarrow> 'job task_queue" where
  "send_sentinel n q = (put_nowait Sentinel q)\<lparr>tq_stop := Sending n\<rparr>"

definition end_stop :: "'job task_queue \<Rightarrow> 'job task_queue" where
  "end_stop q = q\<lparr>tq_workers := [], tq_running := False, tq_stop := No_stop\<rparr>"

text \<open>The loop of worker i: the item it gets, and the end of the handler, however it ends.\<close>

definition take_item :: "nat \<Rightarrow> 'job item \<Rightarrow> 'job task_queue \<Rightarrow> 'job task_queue" where
  "take_item i x q =
     (case x of
        Sentinel \<Rightarrow> task_done (q\<lparr>tq_items := tl (tq_items q), tq_workers := (tq_workers q)[i := Ended]\<rparr>)
      | Job job \<Rightarrow> q\<lparr>tq_items := tl (tq_items q), tq_workers := (tq_workers q)[i := Handling job],
                     tq_taken := tq_taken q @ [job]\<rparr>)"

definition end_handler :: "nat \<Rightarrow> 'job \<Rightarrow> 'job task_queue \<Rightarrow> 'job task_queue" where
  "end_handler i job q = task_done (q\<lparr>tq_workers := (tq_workers q)[i := Getting], tq_done := tq_done q @ [job]\<rparr>)"

section \<open>The steps\<close>

text \<open>The callers: start, a call of enqueue that has to wait, a timeout, a call of stop.\<close>

inductive calls :: "queue_config \<Rightarrow> 'job task_queue \<Rightarrow> 'job task_queue \<Rightarrow> bool" for cfg where
  starts: "calls cfg q (start_queue cfg q)"
| enqueues: "begin_enqueue job q = Inr q' \<Longrightarrow> calls cfg q q'"
| times_out: "i < length (tq_putters q) \<Longrightarrow> calls cfg q (timeout_enqueue i q)"
| stops: "tq_stop q = No_stop \<Longrightarrow> calls cfg q (begin_stop q)"

text \<open>What goes on by itself.\<close>

inductive tasks :: "queue_config \<Rightarrow> 'job task_queue \<Rightarrow> 'job task_queue \<Rightarrow> bool" for cfg where
  puts: "i < length (tq_putters q) \<Longrightarrow> \<not> full cfg q \<Longrightarrow> tasks cfg q (end_enqueue i q)"
| takes: "i < length (tq_workers q) \<Longrightarrow> tq_workers q ! i = Getting \<Longrightarrow> tq_items q = x # rest \<Longrightarrow>
    tasks cfg q (take_item i x q)"
| handles: "i < length (tq_workers q) \<Longrightarrow> tq_workers q ! i = Handling job \<Longrightarrow> tasks cfg q (end_handler i job q)"
| joins: "tq_stop q = Joined \<Longrightarrow> tasks cfg q (send_sentinels q)"
| sends: "tq_stop q = Sending (Suc n) \<Longrightarrow> \<not> full cfg q \<Longrightarrow> tasks cfg q (send_sentinel n q)"
| gathers: "tq_stop q = Sending 0 \<Longrightarrow> set (tq_workers q) \<subseteq> {Ended} \<Longrightarrow> tasks cfg q (end_stop q)"

inductive_cases callsE: "calls cfg q q'"
inductive_cases tasksE: "tasks cfg q q'"

inductive queue_reach :: "queue_config \<Rightarrow> 'job task_queue \<Rightarrow> bool" for cfg where
  created: "queue_reach cfg new_queue"
| called: "queue_reach cfg q \<Longrightarrow> calls cfg q q' \<Longrightarrow> queue_reach cfg q'"
| run_on: "queue_reach cfg q \<Longrightarrow> tasks cfg q q' \<Longrightarrow> queue_reach cfg q'"

section \<open>The invariant\<close>

definition jobs_of :: "'job item list \<Rightarrow> 'job list" where
  "jobs_of xs = concat (map (\<lambda>x. case x of Job job \<Rightarrow> [job] | Sentinel \<Rightarrow> []) xs)"

definition sentinels :: "'job item list \<Rightarrow> nat" where
  "sentinels xs = length (filter (\<lambda>x. x = Sentinel) xs)"

definition handled :: "'job worker list \<Rightarrow> 'job list" where
  "handled ws = concat (map (\<lambda>w. case w of Handling job \<Rightarrow> [job] | _ \<Rightarrow> []) ws)"

definition ended :: "'job worker list \<Rightarrow> nat" where
  "ended ws = length (concat (map (\<lambda>w. case w of Ended \<Rightarrow> [()] | _ \<Rightarrow> []) ws))"

definition load :: "'job item list \<Rightarrow> 'job worker list \<Rightarrow> nat" where
  "load xs ws = length xs + length (handled ws)"

definition queue_inv :: "queue_config \<Rightarrow> 'job task_queue \<Rightarrow> bool" where
  "queue_inv cfg q \<longleftrightarrow>
     tq_unfinished q = load (tq_items q) (tq_workers q)
     \<and> tq_accepted q = tq_taken q @ jobs_of (tq_items q)
     \<and> mset (tq_taken q) = mset (handled (tq_workers q)) + mset (tq_done q)
     \<and> (0 < qc_capacity cfg \<longrightarrow> int (length (tq_items q)) \<le> qc_capacity cfg)
     \<and> length (tq_workers q) = (if tq_running q then nat (qc_max_workers cfg) else 0)
     \<and> (tq_accepting q \<longleftrightarrow> tq_running q \<and> tq_stop q = No_stop)
     \<and> (\<not> tq_running q \<longrightarrow> tq_stop q = No_stop)
     \<and> sentinels (tq_items q) + ended (tq_workers q) =
         (case tq_stop q of Sending n \<Rightarrow> length (tq_workers q) - n | _ \<Rightarrow> 0)
     \<and> (case tq_stop q of Sending n \<Rightarrow> n \<le> length (tq_workers q) | Joining \<Rightarrow> tq_unfinished q \<noteq> 0 | _ \<Rightarrow> True)"

lemma items_simps [simp]:
  "jobs_of [] = []" "jobs_of (xs @ [x]) = jobs_of xs @ (case x of Job job \<Rightarrow> [job] | Sentinel \<Rightarrow> [])"
  "jobs_of (x # xs) = (case x of Job job \<Rightarrow> [job] | Sentinel \<Rightarrow> []) @ jobs_of xs"
  "sentinels [] = 0" "sentinels (xs @ [x]) = sentinels xs + (if x = Sentinel then 1 else 0)"
  "sentinels (x # xs) = (if x = Sentinel then 1 else 0) + sentinels xs"
  by (simp_all add: jobs_of_def sentinels_def)

lemma workers_simps [simp]:
  "handled [] = []" "ended [] = 0" "handled (replicate n Getting) = []" "ended (replicate n Getting) = 0"
  by (simp_all add: handled_def ended_def)

lemma concat_map_update:
  assumes "i < length ws"
  shows "mset (concat (map f (ws[i := w]))) + mset (f (ws ! i)) = mset (concat (map f ws)) + mset (f w)"
proof -
  have "ws = take i ws @ ws ! i # drop (Suc i) ws" using assms by (rule id_take_nth_drop)
  then have "mset (concat (map f ws)) = mset (concat (map f (take i ws))) + mset (f (ws ! i)) + mset (concat (map f (drop (Suc i) ws)))"
    by (metis concat.simps(2) concat_append list.simps(9) map_append mset_append add.assoc)
  moreover have "ws[i := w] = take i ws @ w # drop (Suc i) ws" using assms by (rule upd_conv_take_nth_drop)
  ultimately show ?thesis by simp
qed

lemma handled_update:
  assumes "i < length ws"
  shows "mset (handled (ws[i := w])) + mset (case ws ! i of Handling job \<Rightarrow> [job] | _ \<Rightarrow> [])
    = mset (handled ws) + mset (case w of Handling job \<Rightarrow> [job] | _ \<Rightarrow> [])"
  unfolding handled_def by (rule concat_map_update [OF assms])

lemma handled_length_update:
  assumes "i < length ws"
  shows "length (handled (ws[i := w])) + (case ws ! i of Handling job \<Rightarrow> 1 | _ \<Rightarrow> 0)
    = length (handled ws) + (case w of Handling job \<Rightarrow> 1 | _ \<Rightarrow> 0)"
  using arg_cong [OF handled_update [OF assms, of w], of size] by (simp split: worker.splits)

lemma ended_update:
  assumes "i < length ws"
  shows "ended (ws[i := w]) + (case ws ! i of Ended \<Rightarrow> 1 | _ \<Rightarrow> 0) = ended ws + (case w of Ended \<Rightarrow> 1 | _ \<Rightarrow> 0)"
  using arg_cong [OF concat_map_update [OF assms, of "\<lambda>w. case w of Ended \<Rightarrow> [()] | _ \<Rightarrow> []" w], of size]
  by (simp add: ended_def split: worker.splits)

lemma handled_le: "length (handled ws) + ended ws \<le> length ws"
  by (induction ws) (auto simp: handled_def ended_def split: worker.split)

lemmas queue_ops = start_queue_def timeout_enqueue_def begin_stop_def end_enqueue_def put_nowait_def task_done_def
  send_sentinels_def send_sentinel_def end_stop_def take_item_def end_handler_def full_def Let_def

lemma load_put: "load (xs @ [x]) ws = Suc (load xs ws)"
  by (simp add: load_def)

lemma load_update:
  assumes "i < length ws"
  shows "load xs (ws[i := w]) + (case ws ! i of Handling job \<Rightarrow> 1 | _ \<Rightarrow> 0) = load xs ws + (case w of Handling job \<Rightarrow> 1 | _ \<Rightarrow> 0)"
  using handled_length_update [OF assms, of w] by (simp add: load_def)

lemma load_Cons: "load (x # xs) ws = Suc (load xs ws)"
  by (simp add: load_def)

lemma queue_inv_cong:
  assumes "queue_inv cfg q" and "tq_items q' = tq_items q" "tq_unfinished q' = tq_unfinished q"
    "tq_workers q' = tq_workers q" "tq_running q' = tq_running q" "tq_accepting q' = tq_accepting q"
    "tq_stop q' = tq_stop q" "tq_accepted q' = tq_accepted q" "tq_taken q' = tq_taken q" "tq_done q' = tq_done q"
  shows "queue_inv cfg q'"
  using assms(1) unfolding queue_inv_def assms(2-10) .

lemma calls_inv: "calls cfg q q' \<Longrightarrow> queue_inv cfg q \<Longrightarrow> queue_inv cfg q'"
proof (induction rule: calls.cases)
  case starts
  then show ?case by (auto simp: queue_inv_def start_queue_def load_def)
next
  case (enqueues job q0)
  then show ?case by (auto simp: begin_enqueue_def split: if_splits intro: queue_inv_cong [where q = q0])
next
  case (times_out i q0)
  then show ?case by (auto simp: timeout_enqueue_def intro: queue_inv_cong [where q = q0])
next
  case stops
  then show ?case by (auto simp: queue_inv_def begin_stop_def)
qed

lemma all_ended: "set ws \<subseteq> {Ended} \<Longrightarrow> handled ws = [] \<and> ended ws = length ws"
  by (induction ws) (auto simp: handled_def ended_def)

lemma take_inv:
  assumes inv: "queue_inv cfg q" and i: "i < length (tq_workers q)" "tq_workers q ! i = Getting" and x: "tq_items q = x # rest"
  shows "queue_inv cfg (take_item i x q)"
proof (cases x)
  case (Job job)
  note u = handled_update [OF i(1), of "Handling job"] load_update [OF i(1), of rest "Handling job"]
    ended_update [OF i(1), of "Handling job"]
  from inv u i x Job show ?thesis
    by (auto simp: queue_inv_def take_item_def load_Cons split: stop_point.splits)
next
  case Sentinel
  note u = handled_update [OF i(1), of Ended] load_update [OF i(1), of rest Ended] ended_update [OF i(1), of Ended]
  from inv u i x Sentinel show ?thesis
    by (auto simp: queue_inv_def take_item_def task_done_def load_Cons Let_def split: stop_point.splits)
qed

lemma tasks_inv: "tasks cfg q q' \<Longrightarrow> queue_inv cfg q \<Longrightarrow> queue_inv cfg q'"
proof (induction rule: tasks.cases)
  case (puts i q0)
  then show ?case
    by (auto simp: queue_inv_def end_enqueue_def put_nowait_def full_def load_put split: stop_point.splits)
next
  case (takes i q0 x rest)
  then show ?case by (simp add: take_inv)
next
  case (handles i q0 job)
  note u = handled_update [OF handles(3), of Getting] load_update [OF handles(3), of "tq_items q0" Getting]
    ended_update [OF handles(3), of Getting]
  from handles u show ?case
    by (auto simp: queue_inv_def end_handler_def task_done_def Let_def split: stop_point.splits)
next
  case joins
  then show ?case by (auto simp: queue_inv_def send_sentinels_def)
next
  case (sends n q0)
  then show ?case by (auto simp: queue_inv_def send_sentinel_def put_nowait_def full_def load_put)
next
  case (gathers q0)
  then have "handled (tq_workers q0) = []" "ended (tq_workers q0) = length (tq_workers q0)"
    using all_ended [of "tq_workers q0"] by simp_all
  with gathers show ?case by (auto simp: queue_inv_def end_stop_def load_def)
qed

lemma queue_inv: "queue_reach cfg q \<Longrightarrow> queue_inv cfg q"
proof (induction rule: queue_reach.induct)
  case created
  then show ?case by (simp add: queue_inv_def new_queue_def load_def)
qed (auto intro: calls_inv tasks_inv)

section \<open>Progress\<close>

text \<open>What is left to do: a job is put, taken and handled, a sentinel put and taken.\<close>

definition work :: "'job task_queue \<Rightarrow> nat" where
  "work q = 3 * length (tq_putters q) + 2 * length (jobs_of (tq_items q)) + length (handled (tq_workers q))
     + sentinels (tq_items q)
     + (case tq_stop q of No_stop \<Rightarrow> 0 | Joining \<Rightarrow> 2 * length (tq_workers q) + 3
          | Joined \<Rightarrow> 2 * length (tq_workers q) + 2 | Sending n \<Rightarrow> 2 * n + 1)"

lemma length_drop_nth: "i < length xs \<Longrightarrow> Suc (length (drop_nth i xs)) = length xs"
  by (simp add: drop_nth_def)

lemma mset_drop_nth: "i < length xs \<Longrightarrow> add_mset (xs ! i) (mset (drop_nth i xs)) = mset xs"
  using arg_cong [OF id_take_nth_drop [of i xs], of mset] by (simp add: drop_nth_def)

lemma tasks_work: "tasks cfg q q' \<Longrightarrow> work q' < work q"
proof (induction rule: tasks.cases)
  case (puts i q0)
  then show ?case using length_drop_nth [OF puts(3)]
    by (simp add: work_def end_enqueue_def put_nowait_def split: stop_point.split)
next
  case (takes i q0 x rest)
  then show ?case
    using handled_length_update [OF takes(3), of "Handling job" for job] handled_length_update [OF takes(3), of Ended]
    by (cases x) (auto simp: work_def take_item_def task_done_def Let_def split: stop_point.split)
next
  case (handles i q0 job)
  then show ?case using handled_length_update [OF handles(3), of Getting]
    by (auto simp: work_def end_handler_def task_done_def Let_def split: stop_point.split)
next
  case joins
  then show ?case by (simp add: work_def send_sentinels_def)
next
  case (sends n q0)
  then show ?case by (simp add: work_def send_sentinel_def put_nowait_def)
next
  case (gathers q0)
  then show ?case by (simp add: work_def end_stop_def)
qed

interpretation tasks: settling "tasks cfg" work "queue_inv cfg" for cfg
  by unfold_locales (fact tasks_work, fact tasks_inv)

text \<open>While the queue runs it only comes to rest with nothing left to do, and not on its way to a stop.\<close>

lemma not_ended: "set ws \<subseteq> {Getting, Ended} \<Longrightarrow> ended ws = length ws \<Longrightarrow> set ws \<subseteq> {Ended}"
proof (induction ws)
  case (Cons w ws)
  moreover have "ended ws \<le> length ws" using handled_le [of ws] by simp
  ultimately show ?case by (auto simp: ended_def)
qed simp

lemma none_ended: "set ws \<subseteq> {Getting, Ended} \<Longrightarrow> ended ws = 0 \<Longrightarrow> set ws \<subseteq> {Getting}"
  by (induction ws) (auto simp: ended_def)

lemma none_handled: "set ws \<subseteq> {Getting, Ended} \<Longrightarrow> handled ws = []"
  by (induction ws) (auto simp: handled_def)

lemma at_rest:
  assumes inv: "queue_inv cfg q" and run: "tq_running q" "1 \<le> qc_max_workers cfg" and stuck: "\<And>q'. \<not> tasks cfg q q'"
  shows "tq_stop q = No_stop \<and> tq_items q = [] \<and> tq_putters q = [] \<and> set (tq_workers q) \<subseteq> {Getting}"
proof -
  have free: "w \<noteq> Handling job" if "w \<in> set (tq_workers q)" for w job
    using that stuck tasks.handles [of _ q job cfg] by (auto simp: in_set_conv_nth)
  then have ws: "set (tq_workers q) \<subseteq> {Getting, Ended}" by (metis insertCI subsetI worker.exhaust)
  have W: "1 \<le> length (tq_workers q)" using inv run by (simp add: queue_inv_def)
  have gather: "\<not> (tq_stop q = Sending 0 \<and> ended (tq_workers q) = length (tq_workers q))"
    using stuck tasks.gathers [of q cfg] not_ended [OF ws] by blast
  have items: "tq_items q = []"
  proof (rule ccontr)
    assume "tq_items q \<noteq> []"
    then obtain x rest where "tq_items q = x # rest" by (cases "tq_items q") auto
    then have "w \<noteq> Getting" if "w \<in> set (tq_workers q)" for w
      using that stuck tasks.takes [of _ q x rest cfg] by (auto simp: in_set_conv_nth)
    then have "set (tq_workers q) \<subseteq> {Ended}" using ws by blast
    then have "ended (tq_workers q) = length (tq_workers q)" using all_ended by blast
    with inv W gather show False by (auto simp: queue_inv_def split: stop_point.splits)
  qed
  have room: "\<not> full cfg q" by (simp add: full_def items)
  have "tq_putters q = []" using stuck tasks.puts [of 0 q cfg] room by blast
  moreover have "tq_stop q = No_stop"
  proof (cases "tq_stop q")
    case Joining
    with inv none_handled [OF ws] items show ?thesis by (auto simp: queue_inv_def load_def)
  next
    case Joined
    then show ?thesis using stuck tasks.joins [of q cfg] by blast
  next
    case (Sending n)
    then have "n = 0" using stuck tasks.sends [of q _ cfg] room by (metis not0_implies_Suc)
    with Sending inv items gather show ?thesis by (simp add: queue_inv_def)
  qed
  moreover from this have "ended (tq_workers q) = 0" using inv by (simp add: queue_inv_def)
  ultimately show ?thesis using items none_ended [OF ws] by blast
qed

section \<open>A stop with no request waiting\<close>

definition closing :: "'job task_queue \<Rightarrow> bool" where
  "closing q \<longleftrightarrow> tq_putters q = [] \<and> \<not> tq_accepting q
     \<and> (case tq_stop q of
          Joining \<Rightarrow> True
        | Joined \<Rightarrow> tq_unfinished q = 0
        | Sending n \<Rightarrow> jobs_of (tq_items q) = [] \<and> handled (tq_workers q) = []
        | No_stop \<Rightarrow> \<not> tq_running q \<and> tq_items q = [])"

lemma no_items: "jobs_of xs = [] \<Longrightarrow> sentinels xs = 0 \<Longrightarrow> xs = []"
  by (cases xs) (auto split: item.splits)

lemma load_zero: "load xs ws = 0 \<Longrightarrow> xs = [] \<and> handled ws = []"
  by (simp add: load_def)

lemma handled_Nil_nth: "handled ws = [] \<Longrightarrow> i < length ws \<Longrightarrow> ws ! i \<noteq> Handling job"
  by (force simp: handled_def in_set_conv_nth)

lemma tasks_closing: "tasks cfg q q' \<Longrightarrow> queue_inv cfg q \<Longrightarrow> closing q \<Longrightarrow> closing q'"
proof (induction rule: tasks.cases)
  case puts
  then show ?case by (simp add: closing_def)
next
  case (takes i q0 x rest)
  have u: "handled ((tq_workers q0)[i := Ended]) = []" if "handled (tq_workers q0) = []"
    using handled_length_update [OF takes(3), of Ended] that takes(4) by simp
  from takes show ?case
    using load_zero [of "tq_items q0" "tq_workers q0"] u
    by (cases x) (auto simp: closing_def queue_inv_def take_item_def task_done_def Let_def split: stop_point.splits)
next
  case (handles i q0 job)
  then show ?case
    using load_zero [of "tq_items q0" "tq_workers q0"] handled_Nil_nth [OF _ handles(3), of job]
    by (auto simp: closing_def queue_inv_def end_handler_def task_done_def Let_def split: stop_point.splits)
next
  case (joins q0)
  then show ?case
    using load_zero [of "tq_items q0" "tq_workers q0"] by (auto simp: closing_def queue_inv_def send_sentinels_def)
next
  case sends
  then show ?case by (auto simp: closing_def send_sentinel_def put_nowait_def)
next
  case (gathers q0)
  then show ?case
    using no_items [of "tq_items q0"] all_ended [of "tq_workers q0"]
    by (auto simp: closing_def queue_inv_def end_stop_def)
qed

lemma begin_stop_closing:
  assumes "queue_inv cfg q" and "tq_accepting q" and "tq_putters q = []"
  shows "closing (begin_stop q)"
  using assms by (auto simp: closing_def begin_stop_def queue_inv_def)

lemma tasks_open: "tasks cfg q q' \<Longrightarrow> queue_inv cfg q \<Longrightarrow> tq_accepting q \<Longrightarrow> tq_accepting q'"
  by (induction rule: tasks.cases)
    (auto simp: queue_inv_def end_enqueue_def put_nowait_def take_item_def task_done_def end_handler_def
      send_sentinels_def send_sentinel_def end_stop_def Let_def split: item.splits)

text \<open>Nothing is accepted but what waits.\<close>

lemma tasks_accepted:
  "tasks cfg q q' \<Longrightarrow> mset (tq_accepted q') + mset (tq_putters q') = mset (tq_accepted q) + mset (tq_putters q)"
  by (induction rule: tasks.cases)
    (auto simp: end_enqueue_def put_nowait_def take_item_def task_done_def end_handler_def
      send_sentinels_def send_sentinel_def end_stop_def Let_def mset_drop_nth split: item.splits)

lemma runs:
  assumes "(tasks cfg ^^ n) q q'" and "queue_inv cfg q"
  shows "queue_inv cfg q'" and "closing q \<Longrightarrow> closing q'" and "tq_accepting q \<Longrightarrow> tq_accepting q'"
    and "mset (tq_accepted q') + mset (tq_putters q') = mset (tq_accepted q) + mset (tq_putters q)"
  using tasks.run_keeps [OF assms, of "\<lambda>q. True"] tasks.run_keeps [OF assms, of closing]
    tasks.run_keeps [OF assms, of tq_accepting]
    tasks.run_keeps [OF assms, of "\<lambda>t. mset (tq_accepted t) + mset (tq_putters t) = mset (tq_accepted q) + mset (tq_putters q)"]
    tasks_closing tasks_open tasks_accepted
  by metis+

section \<open>Properties\<close>

text \<open>
  C23: No job is lost, doubled or overtaken, whatever the callers and the tasks do: the jobs
  that were put are those the workers took, in that order, followed by those in the queue;
  every job that was taken is being handled or done, exactly once. No more than max_workers
  jobs are handled at a time, the queue never exceeds its capacity, and task_done is
  called once for each item put, so it never raises and join never returns too early.
\<close>
theorem queue_accounts:
  assumes "queue_reach cfg q"
  shows "tq_accepted q = tq_taken q @ jobs_of (tq_items q)
    \<and> mset (tq_taken q) = mset (handled (tq_workers q)) + mset (tq_done q)
    \<and> length (handled (tq_workers q)) \<le> nat (qc_max_workers cfg)
    \<and> length (tq_items q) \<le> (if 0 < qc_capacity cfg then nat (qc_capacity cfg) else length (tq_items q))
    \<and> tq_unfinished q = length (tq_items q) + length (handled (tq_workers q))"
proof -
  note inv = queue_inv [OF assms]
  moreover have "length (tq_workers q) \<le> nat (qc_max_workers cfg)" using inv by (simp add: queue_inv_def)
  then have "length (handled (tq_workers q)) \<le> nat (qc_max_workers cfg)" using handled_le [of "tq_workers q"] by simp
  ultimately show ?thesis by (auto simp: queue_inv_def load_def)
qed

definition sample_cfg :: queue_config where
  "sample_cfg = \<lparr>qc_max_workers = 1, qc_capacity = 1\<rparr>"

text \<open>A started queue, and the states in which it has taken up a job and works on it.\<close>

definition sample_started :: "string task_queue" where
  "sample_started = start_queue sample_cfg new_queue"

definition sample_waiting :: "string task_queue" where
  "sample_waiting = sample_started\<lparr>tq_putters := [''a'']\<rparr>"

definition sample_put :: "string task_queue" where
  "sample_put = end_enqueue 0 sample_waiting"

lemmas sample_defs = sample_cfg_def sample_started_def sample_waiting_def sample_put_def new_queue_def start_queue_def
  end_enqueue_def put_nowait_def drop_nth_def

lemma sample_reach: "queue_reach sample_cfg sample_waiting" "queue_reach sample_cfg sample_put"
proof -
  have "queue_reach sample_cfg sample_started"
    unfolding sample_started_def by (rule queue_reach.called [OF queue_reach.created calls.starts])
  moreover have "begin_enqueue ''a'' sample_started = Inr sample_waiting"
    by (simp add: begin_enqueue_def sample_defs)
  ultimately show w: "queue_reach sample_cfg sample_waiting"
    by (rule queue_reach.called [OF _ calls.enqueues])
  have "tasks sample_cfg sample_waiting sample_put"
    unfolding sample_put_def by (rule tasks.puts) (simp_all add: sample_defs full_def)
  with w show "queue_reach sample_cfg sample_put" by (rule queue_reach.run_on)
qed

theorem queue_accounts_witness:
  "\<exists>q. queue_reach sample_cfg q \<and> handled (tq_workers q) = [''a''] \<and> tq_accepted q = tq_taken q @ jobs_of (tq_items q)
     \<and> tq_unfinished q = 1"
proof -
  let ?q = "take_item 0 (Job ''a'') sample_put"
  have "tasks sample_cfg sample_put ?q"
    by (rule tasks.takes [where rest = "[]"]) (simp_all add: sample_defs)
  with sample_reach(2) have "queue_reach sample_cfg ?q" by (rule queue_reach.run_on)
  moreover from queue_accounts [OF this] have "tq_accepted ?q = tq_taken ?q @ jobs_of (tq_items ?q)"
    "tq_unfinished ?q = length (tq_items ?q) + length (handled (tq_workers ?q))" by blast+
  moreover have "handled (tq_workers ?q) = [''a'']" "tq_items ?q = []"
    by (simp_all add: take_item_def sample_defs handled_def)
  ultimately show ?thesis by (intro exI [of _ ?q]) simp
qed

text \<open>
  C9: Whatever was accepted is executed, and a shutdown waits for it. Let a queue with at
  least one worker accept jobs, and stop be called or not, if it is called with no request
  waiting for room. Then the tasks make a bounded number of steps by themselves, given that
  the handler returns, and never block each other: when they come to rest the handler has
  run once for each job that was accepted or waiting, and after a stop all workers have
  returned and the queue has ended, whatever the capacity and the number of workers.
\<close>
theorem queue_settles:
  fixes q :: "'job task_queue"
  assumes "queue_reach cfg q" and "1 \<le> qc_max_workers cfg" and "tq_accepting q"
    and "q1 = (if stopping then begin_stop q else q)" and "stopping \<longrightarrow> tq_putters q = []"
    and "(tasks cfg ^^ n) q1 q'"
  shows "n \<le> work q1
    \<and> (if \<exists>q''. tasks cfg q' q'' then True
       else mset (tq_done q') = mset (tq_accepted q) + mset (tq_putters q) \<and> tq_items q' = []
         \<and> (if stopping then \<not> tq_running q' \<and> tq_workers q' = [] else tq_running q' \<and> set (tq_workers q') \<subseteq> {Getting}))"
proof -
  note inv = queue_inv [OF assms(1)]
  have inv1: "queue_inv cfg q1"
    using inv calls_inv [OF calls.stops, of q cfg] assms(3) by (auto simp: assms(4) queue_inv_def [of cfg q])
  note r = runs [OF assms(6) inv1]
  have acc: "mset (tq_accepted q') + mset (tq_putters q') = mset (tq_accepted q) + mset (tq_putters q)"
    using r(4) by (simp add: assms(4) begin_stop_def split: if_splits)
  have rest: "mset (tq_done q') = mset (tq_accepted q) + mset (tq_putters q) \<and> tq_items q' = []
         \<and> (if stopping then \<not> tq_running q' \<and> tq_workers q' = [] else tq_running q' \<and> set (tq_workers q') \<subseteq> {Getting})"
    if stuck: "\<not> (\<exists>q''. tasks cfg q' q'')"
  proof (cases stopping)
    case True
    then have c: "closing q'" using begin_stop_closing [OF inv assms(3)] assms(4,5) r(2) by simp
    have "\<not> tq_running q'"
      using at_rest [OF r(1) _ assms(2)] stuck c by (auto simp: closing_def)
    with c r(1) have "tq_items q' = []" "tq_workers q' = []" "tq_putters q' = []"
      by (auto simp: closing_def queue_inv_def)
    with acc r(1) True \<open>\<not> tq_running q'\<close> show ?thesis by (auto simp: queue_inv_def)
  next
    case False
    then have "tq_accepting q'" using r(3) assms(3,4) by simp
    then have run: "tq_running q'" using r(1) by (simp add: queue_inv_def)
    have R: "tq_items q' = []" "tq_putters q' = []" "set (tq_workers q') \<subseteq> {Getting}"
      using at_rest [OF r(1) run assms(2)] stuck by blast+
    then have "handled (tq_workers q') = []" by (intro none_handled) auto
    with acc r(1) R run False show ?thesis by (auto simp: queue_inv_def)
  qed
  with tasks.run_bounded [OF assms(6)] show ?thesis by simp
qed

text \<open>A shutdown with one job in the queue, step by step.\<close>

theorem queue_settles_witness:
  "\<exists>q'. (tasks sample_cfg ^^ 6) (begin_stop sample_put) q' \<and> \<not> tq_running q' \<and> mset (tq_done q') = {#''a''#}"
proof -
  let ?q0 = "begin_stop sample_put"
  let ?q1 = "take_item 0 (Job ''a'') ?q0"
  let ?q2 = "end_handler 0 ''a'' ?q1"
  let ?q3 = "send_sentinels ?q2"
  let ?q4 = "send_sentinel 0 ?q3"
  let ?q5 = "take_item 0 Sentinel ?q4"
  let ?q6 = "end_stop ?q5"
  note defs = sample_defs begin_stop_def take_item_def end_handler_def task_done_def send_sentinels_def
    send_sentinel_def end_stop_def full_def
  have t: "tasks sample_cfg ?q0 ?q1" "tasks sample_cfg ?q1 ?q2" "tasks sample_cfg ?q2 ?q3"
    "tasks sample_cfg ?q3 ?q4" "tasks sample_cfg ?q4 ?q5" "tasks sample_cfg ?q5 ?q6"
    by (rule tasks.takes [where rest = "[]"], (simp_all add: defs)[3],
        rule tasks.handles, (simp_all add: defs)[2], rule tasks.joins, simp add: defs,
        rule tasks.sends, (simp_all add: defs)[2], rule tasks.takes [where rest = "[]"], (simp_all add: defs)[3],
        rule tasks.gathers, (simp_all add: defs)[2])
  then have run: "(tasks sample_cfg ^^ 6) ?q0 ?q6"
    by (simp add: eval_nat_numeral relcompp.simps) blast
  have "\<not> tasks sample_cfg ?q6 q''" for q'' by (auto elim!: tasksE simp: defs)
  moreover have "tq_accepting sample_put" "tq_putters sample_put = []" "tq_accepted sample_put = [''a'']"
    "1 \<le> qc_max_workers sample_cfg" by (simp_all add: sample_defs)
  ultimately have "\<not> tq_running ?q6 \<and> mset (tq_done ?q6) = {#''a''#}"
    using queue_settles [OF sample_reach(2) _ _ _ _ run, of True] by simp
  with run show ?thesis by blast
qed

end
