(* ===== verification/Reconciler_Domain.thy ===== *)
theory Reconciler_Domain
  imports Prelude
begin

text \<open>
  ReconcilerSvc (Python): the request and what pydantic checks of it (app/schemas/reconcile.py),
  execution plans and jobs (app/execution/models.py), the operators and their registry
  (app/operators). A str is its UTF-8 encoding, so that len counts the bytes that start a
  rune; a dict is a map in the order of insertion; a value of type Any is an \<open>iface\<close>. The
  package pathlib and the file system below it are a parameter.
\<close>

section \<open>Python strings\<close>

definition starts_rune :: "char \<Rightarrow> bool" where
  "starts_rune c \<longleftrightarrow> \<not> (128 \<le> (of_char c :: nat) \<and> (of_char c :: nat) < 192)"

definition py_len :: "string \<Rightarrow> nat" where
  "py_len s = length (filter starts_rune s)"

text \<open>str.strip: the spaces of Unicode, and the four separators of ASCII.\<close>

definition py_space_runes :: "string list" where
  "py_space_runes = [[CHR 0x1C], [CHR 0x1D], [CHR 0x1E], [CHR 0x1F]] @ space_runes"

definition py_strip :: "string \<Rightarrow> string" where
  "py_strip s = trim_right py_space_runes (trim_left py_space_runes s)"

text \<open>
  int of a str: a sign, digits, single underscores between digits, at most 4300 digits.
  Decimal digits of other scripts than ASCII, which int reads too, are left out.
\<close>

fun py_digits :: "bool \<Rightarrow> int \<Rightarrow> nat \<Rightarrow> string \<Rightarrow> int option" where
  "py_digits after_digit n seen [] = (if after_digit \<and> seen \<le> 4300 then Some n else None)"
| "py_digits after_digit n seen (c # cs) =
     (case digit_val c of
        Some d \<Rightarrow> py_digits True (10 * n + d) (Suc seen) cs
      | None \<Rightarrow> if c = CHR ''_'' \<and> after_digit then py_digits False n seen cs else None)"

definition py_int :: "string \<Rightarrow> int option" where
  "py_int s =
     (case py_strip s of
        [] \<Rightarrow> None
      | c # cs \<Rightarrow>
          if c = CHR ''-'' then map_option uminus (py_digits False 0 0 cs)
          else if c = CHR ''+'' then py_digits False 0 0 cs
          else py_digits False 0 0 (c # cs))"

record Pathlib =
  pa_is_absolute :: "string \<Rightarrow> bool"
  pa_join :: "string \<Rightarrow> string \<Rightarrow> string"
  pa_parent :: "string \<Rightarrow> string"
  pa_resolve :: "string \<Rightarrow> string"
  pa_exists :: "string \<Rightarrow> bool"

section \<open>The request\<close>

datatype ComponentType = NODE_EXPORTER | CADVISOR

fun component_value :: "ComponentType \<Rightarrow> string" where
  "component_value NODE_EXPORTER = ''node_exporter''"
| "component_value CADVISOR = ''cadvisor''"

definition component_of_value :: "string \<Rightarrow> ComponentType option" where
  "component_of_value v = find (\<lambda>cmp. component_value cmp = v) [NODE_EXPORTER, CADVISOR]"

text \<open>A member in an f-string: the name of the class and of the member, since Python 3.11.\<close>

fun component_text :: "ComponentType \<Rightarrow> string" where
  "component_text NODE_EXPORTER = ''ComponentType.NODE_EXPORTER''"
| "component_text CADVISOR = ''ComponentType.CADVISOR''"

record ReconcileRequest_r =
  pr_host_id :: "string option"
  pr_fqdn :: string
  pr_component :: ComponentType
  pr_correlation_id :: "string option"
  pr_parameters :: "(string, iface) gomap"

text \<open>The pattern of host names; a dollar also matches before a newline at the end.\<close>

definition fqdn_chars :: "char set" where
  "fqdn_chars = set ''ABCDEFGHIJKLMNOPQRSTUVWXYZabcdefghijklmnopqrstuvwxyz0123456789.-''"

definition FQDN_RE :: "string \<Rightarrow> bool" where
  "FQDN_RE s =
     (let body = (if s \<noteq> [] \<and> last s = CHR 0x0A then butlast s else s)
      in body \<noteq> [] \<and> set body \<subseteq> fqdn_chars)"

definition validate_fqdn :: "string \<Rightarrow> (string, string) result" where
  "validate_fqdn v =
     (let normalized = py_strip v
      in if normalized = [] then Inl ''fqdn must not be empty''
         else if \<not> FQDN_RE normalized then Inl ''fqdn must contain only letters, digits, dots and dashes''
         else Inr normalized)"

text \<open>
  The fields as pydantic takes them from a JSON object: the declared type, then the bounds
  of Field, then the validator; a default when the key is missing. The error of a field is
  its name.
\<close>

definition optional_text :: "string \<Rightarrow> nat \<Rightarrow> (string, iface) gomap \<Rightarrow> (string, string option) result" where
  "optional_text field max_length body =
     (case map_get body field of
        None \<Rightarrow> Inr None
      | Some VNil \<Rightarrow> Inr None
      | Some (VString s) \<Rightarrow> if py_len s \<le> max_length then Inr (Some s) else Inl field
      | _ \<Rightarrow> Inl field)"

definition fqdn_field :: "(string, iface) gomap \<Rightarrow> (string, string) result" where
  "fqdn_field body =
     (case map_get body ''fqdn'' of
        Some (VString s) \<Rightarrow>
          if 1 \<le> py_len s \<and> py_len s \<le> 253 then
            (case validate_fqdn s of Inl err \<Rightarrow> Inl ''fqdn'' | Inr v \<Rightarrow> Inr v)
          else Inl ''fqdn''
      | _ \<Rightarrow> Inl ''fqdn'')"

definition component_field :: "(string, iface) gomap \<Rightarrow> (string, ComponentType) result" where
  "component_field body =
     (case map_get body ''component'' of
        Some (VString s) \<Rightarrow> (case component_of_value s of None \<Rightarrow> Inl ''component'' | Some cmp \<Rightarrow> Inr cmp)
      | _ \<Rightarrow> Inl ''component'')"

definition parameters_field :: "(string, iface) gomap \<Rightarrow> (string, (string, iface) gomap) result" where
  "parameters_field body =
     (case map_get body ''parameters'' of
        None \<Rightarrow> Inr []
      | Some (VMap m) \<Rightarrow> Inr m
      | _ \<Rightarrow> Inl ''parameters'')"

definition failed_field :: "(string, 'a) result \<Rightarrow> string list" where
  "failed_field r = (case r of Inl field \<Rightarrow> [field] | Inr x \<Rightarrow> [])"

definition validate_request :: "(string, iface) gomap \<Rightarrow> (string list, ReconcileRequest_r) result" where
  "validate_request body =
     (case (optional_text ''host_id'' 128 body, fqdn_field body, component_field body,
            optional_text ''correlation_id'' 128 body, parameters_field body) of
        (Inr host_id, Inr fqdn, Inr component, Inr correlation_id, Inr parameters) \<Rightarrow>
          Inr \<lparr>pr_host_id = host_id, pr_fqdn = fqdn, pr_component = component,
               pr_correlation_id = correlation_id, pr_parameters = parameters\<rparr>
      | (host_id, fqdn, component, correlation_id, parameters) \<Rightarrow>
          Inl (failed_field host_id @ failed_field fqdn @ failed_field component
               @ failed_field correlation_id @ failed_field parameters))"

section \<open>Plans and jobs\<close>

record ExecutionPlan =
  ep_component :: ComponentType
  ep_operator_name :: string
  ep_playbook_path :: string
  ep_target_fqdn :: string
  ep_extra_vars :: "(string, iface) gomap"

record ReconcileJob =
  rj_request_id :: string
  rj_host_id :: "string option"
  rj_correlation_id :: "string option"
  rj_component :: ComponentType
  rj_fqdn :: string
  rj_plan :: ExecutionPlan
  rj_accepted_at :: gotime

section \<open>Operators\<close>

record OperatorRuntimeConfig =
  oc_enabled :: bool
  oc_playbook :: string
  oc_default_parameters :: "(string, iface) gomap"

record ReconcileOperator =
  op_component :: ComponentType
  op_operator_name :: string
  op_playbook_path :: string
  op_default_parameters :: "(string, iface) gomap"

definition NodeExporterOperator :: "Pathlib \<Rightarrow> string \<Rightarrow> OperatorRuntimeConfig \<Rightarrow> ReconcileOperator" where
  "NodeExporterOperator pa playbooks_base_dir config =
     \<lparr>op_component = NODE_EXPORTER, op_operator_name = ''node_exporter_operator'',
      op_playbook_path = pa_resolve pa (pa_join pa playbooks_base_dir (oc_playbook config)),
      op_default_parameters = oc_default_parameters config\<rparr>"

definition CadvisorOperator :: "Pathlib \<Rightarrow> string \<Rightarrow> OperatorRuntimeConfig \<Rightarrow> ReconcileOperator" where
  "CadvisorOperator pa playbooks_base_dir config =
     \<lparr>op_component = CADVISOR, op_operator_name = ''cadvisor_operator'',
      op_playbook_path = pa_resolve pa (pa_join pa playbooks_base_dir (oc_playbook config)),
      op_default_parameters = oc_default_parameters config\<rparr>"

text \<open>dict.update, and build\_execution\_plan, which the two operators share word for word.\<close>

definition dict_update :: "('k, 'v) gomap \<Rightarrow> ('k, 'v) gomap \<Rightarrow> ('k, 'v) gomap" where
  "dict_update d other = copy_into (\<lambda>v. v) other d"

definition build_execution_plan ::
  "Pathlib \<Rightarrow> ReconcileOperator \<Rightarrow> ReconcileRequest_r \<Rightarrow> (string, ExecutionPlan) result" where
  "build_execution_plan pa operator request =
     (if \<not> pa_exists pa (op_playbook_path operator) then
        Inl (''Playbook not found: '' @ op_playbook_path operator)
      else
        (let extra_vars = dict_update (op_default_parameters operator) (pr_parameters request)
         in Inr \<lparr>ep_component = pr_component request, ep_operator_name = op_operator_name operator,
                 ep_playbook_path = op_playbook_path operator, ep_target_fqdn = pr_fqdn request,
                 ep_extra_vars = extra_vars\<rparr>))"

section \<open>The registry\<close>

type_synonym OperatorRegistry = "(ComponentType, ReconcileOperator) gomap"

definition OperatorRegistry_of :: "ReconcileOperator list \<Rightarrow> OperatorRegistry" where
  "OperatorRegistry_of operators = index_into op_component (\<lambda>operator. operator) operators []"

definition get_operator :: "OperatorRegistry \<Rightarrow> ComponentType \<Rightarrow> (string, ReconcileOperator) result" where
  "get_operator registry cmp =
     (case map_get registry cmp of
        None \<Rightarrow> Inl (''No operator registered for component: '' @ component_text cmp)
      | Some operator \<Rightarrow> Inr operator)"

section \<open>Laws\<close>

lemma component_of_value_iff: "component_of_value v = Some cmp \<longleftrightarrow> v = component_value cmp"
  by (cases cmp) (auto simp: component_of_value_def)

lemma component_of_value_value [simp]: "component_of_value (component_value cmp) = Some cmp"
  by (simp add: component_of_value_iff)

lemma map_get_copy_into:
  "wf_map m \<Longrightarrow> map_get (copy_into f m c) k = (case map_get m k of None \<Rightarrow> map_get c k | Some v \<Rightarrow> Some (f v))"
proof (induction m arbitrary: c)
  case (Cons p m)
  obtain k' v where p: "p = (k', v)" by fastforce
  with Cons.prems have wf: "wf_map m" and new: "map_get m k' = None"
    by (auto simp: wf_map_def map_of_eq_None_iff)
  have "map_get (copy_into f (p # m) c) k = map_get (copy_into f m (map_set c k' (f v))) k"
    by (simp add: copy_into_def p)
  with Cons.IH [OF wf] new show ?case by (auto simp: p split: option.split)
qed (simp add: copy_into_def)

lemma dict_update_get:
  "wf_map other \<Longrightarrow> map_get (dict_update d other) k = (case map_get other k of None \<Rightarrow> map_get d k | Some v \<Rightarrow> Some v)"
  by (simp add: dict_update_def map_get_copy_into)

lemma wf_dict_update: "wf_map d \<Longrightarrow> wf_map (dict_update d other)"
  by (simp add: dict_update_def wf_copy_into)

lemma validate_request_Inr:
  "validate_request body = Inr request \<longleftrightarrow>
     optional_text ''host_id'' 128 body = Inr (pr_host_id request) \<and> fqdn_field body = Inr (pr_fqdn request)
     \<and> component_field body = Inr (pr_component request)
     \<and> optional_text ''correlation_id'' 128 body = Inr (pr_correlation_id request)
     \<and> parameters_field body = Inr (pr_parameters request)"
  by (cases request) (auto simp: validate_request_def split: sum.split)

lemma optional_text_Inr:
  "optional_text field n body = Inr v \<longleftrightarrow>
     (case map_get body field of
        None \<Rightarrow> v = None
      | Some x \<Rightarrow> x = VNil \<and> v = None \<or> (\<exists>s. x = VString s \<and> py_len s \<le> n \<and> v = Some s))"
  by (auto simp: optional_text_def split: option.split iface.split)

lemma py_strip_idem: "py_strip (py_strip s) = py_strip s"
  by (simp add: py_strip_def trim_trim)

lemma py_len_append [simp]: "py_len (s @ t) = py_len s + py_len t"
  by (simp add: py_len_def)

lemma py_len_le: "py_len s \<le> length s"
  by (simp add: py_len_def)

lemma py_len_Nil [simp]: "py_len [] = 0"
  by (simp add: py_len_def)

lemma py_strip_Nil [simp]: "py_strip [] = []"
  by (simp add: py_strip_def trim_right_def trim_left_def strip_words_id starts_with_word_def)

text \<open>The bytes of a valid host name are none of a space, so nothing is stripped from one.\<close>

lemma fqdn_chars_code: "c \<in> fqdn_chars \<Longrightarrow> 45 \<le> (of_char c :: nat) \<and> (of_char c :: nat) < 128"
  by (auto simp: fqdn_chars_def)

lemma py_space_runes_code:
  "w \<in> set py_space_runes \<Longrightarrow> c \<in> set w \<Longrightarrow> (of_char c :: nat) < 45 \<or> 128 \<le> (of_char c :: nat)"
  by (auto simp: py_space_runes_def space_runes_def)

lemma py_strip_fqdn:
  assumes "set s \<subseteq> fqdn_chars"
  shows "py_strip s = s"
proof -
  have no: "c \<notin> \<Union> (set ` set ws)" if "c \<in> set s" "\<Union> (set ` set ws) = \<Union> (set ` set py_space_runes)" for c ws
    using assms that fqdn_chars_code [of c] py_space_runes_code [of _ c] by fastforce
  have "\<not> starts_with_word py_space_runes s"
    using starts_with_word_bytes [of py_space_runes s] no [of "hd s" py_space_runes] by auto
  moreover have "\<not> starts_with_word (map rev py_space_runes) (rev s)"
    using starts_with_word_bytes [of "map rev py_space_runes" "rev s"] no [of "last s" "map rev py_space_runes"]
    by (auto simp: hd_rev dest: last_in_set)
  ultimately show ?thesis
    by (simp add: py_strip_def trim_left_def trim_right_id strip_words_id)
qed

lemma FQDN_RE_strip: "FQDN_RE (py_strip s) \<longleftrightarrow> py_strip s \<noteq> [] \<and> set (py_strip s) \<subseteq> fqdn_chars"
proof (cases "py_strip s \<noteq> [] \<and> last (py_strip s) = CHR 0x0A")
  case True
  then have "rev (py_strip s) = CHR 0x0A # tl (rev (py_strip s))"
    by (metis hd_rev list.collapse rev_is_Nil_conv)
  then have "prefix [CHR 0x0A] (rev (py_strip s))" by (metis Cons_prefix_Cons Nil_prefix)
  then have "starts_with_word (map rev py_space_runes) (rev (py_strip s))"
    unfolding starts_with_word_def by (intro bexI [of _ "[CHR 0x0A]"]) (simp_all add: py_space_runes_def space_runes_def)
  then show ?thesis using trim_right_stops by (auto simp: py_strip_def)
qed (auto simp: FQDN_RE_def Let_def)

lemma validate_fqdn_Inr: "validate_fqdn s = Inr v \<longleftrightarrow> v = py_strip s \<and> v \<noteq> [] \<and> set v \<subseteq> fqdn_chars"
  by (auto simp: validate_fqdn_def FQDN_RE_strip Let_def)

end
