(* ===== verification/Reconciler_Ansible.thy ===== *)
theory Reconciler_Ansible
  imports Reconciler_Domain
begin

text \<open>
  ReconcilerSvc, app/ansible/runner\_adapter.py and app/services/reconcile\_executor.py: what
  a job makes of the environment and its plan, and the one call of ansible-runner. The
  package ansible\_runner is a parameter on a world, absent when it is not installed; what
  is logged is left out, and with it the duration of a run, but for the verdict.
\<close>

section \<open>Configuration\<close>

record AnsibleSSHConfig =
  as_user_env_var :: string
  as_private_key_path_env_var :: string
  as_port_env_var :: string
  as_host_key_checking_env_var :: string
  as_default_port :: int

record AnsibleConfig =
  an_playbooks_base_dir :: string
  an_private_data_dir :: string
  an_run_timeout_seconds :: int
  an_ssh :: AnsibleSSHConfig

record AnsibleExecutionContext =
  cx_request_id :: string
  cx_fqdn :: string
  cx_component :: string
  cx_correlation_id :: "string option"

record AnsibleExecutionResult =
  xr_status :: string
  xr_rc :: "int option"
  xr_successful :: bool

record SSHConnectionDetails =
  sh_user :: string
  sh_private_key_path :: string
  sh_port :: int
  sh_host_key_checking :: string

text \<open>The adapter: its configuration, and the directory that \_\_init\_\_ resolves (and creates, which is left out).\<close>

record AnsibleRunnerAdapter =
  ad_config :: AnsibleConfig
  ad_private_data_dir :: string

definition AnsibleRunnerAdapter_of :: "Pathlib \<Rightarrow> AnsibleConfig \<Rightarrow> string \<Rightarrow> AnsibleRunnerAdapter" where
  "AnsibleRunnerAdapter_of pa config base_dir =
     (let base_dir = pa_resolve pa base_dir;
          private_data_dir = an_private_data_dir config;
          private_data_dir = (if \<not> pa_is_absolute pa private_data_dir then pa_join pa base_dir private_data_dir
                              else private_data_dir)
      in \<lparr>ad_config = config, ad_private_data_dir = pa_resolve pa private_data_dir\<rparr>)"

section \<open>One run\<close>

type_synonym environment = "string \<Rightarrow> string option"

definition getenv :: "environment \<Rightarrow> string \<Rightarrow> string \<Rightarrow> string" where
  "getenv env name default_value = (case env name of None \<Rightarrow> default_value | Some v \<Rightarrow> v)"

definition read_ssh_connection_details :: "environment \<Rightarrow> AnsibleSSHConfig \<Rightarrow> (string, SSHConnectionDetails) result" where
  "read_ssh_connection_details env ssh =
     (let user = py_strip (getenv env (as_user_env_var ssh) []);
          private_key_path = py_strip (getenv env (as_private_key_path_env_var ssh) []);
          port_raw = py_strip (getenv env (as_port_env_var ssh) (FormatInt (as_default_port ssh)));
          host_key_checking = py_strip (getenv env (as_host_key_checking_env_var ssh) ''False'');
          host_key_checking = (if host_key_checking = [] then ''False'' else host_key_checking)
      in if user = [] then Inl (''Missing required env var: '' @ as_user_env_var ssh)
         else if private_key_path = [] then Inl (''Missing required env var: '' @ as_private_key_path_env_var ssh)
         else (case py_int port_raw of
                 None \<Rightarrow> Inl (''Invalid SSH port in env var '' @ as_port_env_var ssh @ '': '' @ port_raw)
               | Some port \<Rightarrow>
                   Inr \<lparr>sh_user = user, sh_private_key_path = private_key_path, sh_port = port,
                        sh_host_key_checking = host_key_checking\<rparr>))"

definition build_inventory :: "string \<Rightarrow> SSHConnectionDetails \<Rightarrow> (string, iface) gomap" where
  "build_inventory fqdn ssh =
     [(''all'', VMap [(''hosts'', VMap [(fqdn, VMap
        [(''ansible_host'', VString fqdn), (''ansible_user'', VString (sh_user ssh)),
         (''ansible_port'', VInt (sh_port ssh)),
         (''ansible_ssh_private_key_file'', VString (sh_private_key_path ssh))])])])]"

definition optional_value :: "string option \<Rightarrow> iface" where
  "optional_value s = (case s of None \<Rightarrow> VNil | Some v \<Rightarrow> VString v)"

definition build_extra_vars :: "ExecutionPlan \<Rightarrow> AnsibleExecutionContext \<Rightarrow> (string, iface) gomap" where
  "build_extra_vars plan ctx =
     dict_update (ep_extra_vars plan)
       [(''reconciler_request_id'', VString (cx_request_id ctx)),
        (''reconciler_component'', VString (cx_component ctx)),
        (''reconciler_correlation_id'', optional_value (cx_correlation_id ctx))]"

text \<open>The arguments of ansible\_runner.run, and what its result has: a status and a return code.\<close>

record runner_call =
  ru_private_data_dir :: string
  ru_playbook :: string
  ru_inventory :: "(string, iface) gomap"
  ru_extravars :: "(string, iface) gomap"
  ru_envvars :: "(string, string) gomap"
  ru_ident :: string
  ru_quiet :: bool
  ru_timeout :: int

record runner_result =
  rs_status :: "string option"
  rs_rc :: "int option"

type_synonym 'w ansible_runner = "(runner_call \<Rightarrow> 'w \<Rightarrow> (string, runner_result) result \<times> 'w) option"

definition run_blocking ::
  "'w ansible_runner \<Rightarrow> environment \<Rightarrow> AnsibleRunnerAdapter \<Rightarrow> ExecutionPlan \<Rightarrow> AnsibleExecutionContext \<Rightarrow> 'w
     \<Rightarrow> (string, AnsibleExecutionResult) result \<times> 'w" where
  "run_blocking runner env adapter plan ctx w =
     (case runner of
        None \<Rightarrow> (Inl ''ansible-runner is not installed'', w)
      | Some run \<Rightarrow>
          (let ssh_config = an_ssh (ad_config adapter)
           in case read_ssh_connection_details env ssh_config of
                Inl err \<Rightarrow> (Inl err, w)
              | Inr ssh \<Rightarrow>
                  (case run
                      \<lparr>ru_private_data_dir = ad_private_data_dir adapter, ru_playbook = ep_playbook_path plan,
                       ru_inventory = build_inventory (cx_fqdn ctx) ssh, ru_extravars = build_extra_vars plan ctx,
                       ru_envvars = [(as_host_key_checking_env_var ssh_config, sh_host_key_checking ssh)],
                       ru_ident = cx_request_id ctx, ru_quiet = True,
                       ru_timeout = an_run_timeout_seconds (ad_config adapter)\<rparr> w of
                     (Inl err, w') \<Rightarrow> (Inl err, w')
                   | (Inr result, w') \<Rightarrow>
                       (let status = (case rs_status result of None \<Rightarrow> ''unknown'' | Some s \<Rightarrow> s);
                            success = (rs_rc result = Some 0 \<or> ToLower status = ''successful'')
                        in (Inr \<lparr>xr_status = status, xr_rc = rs_rc result, xr_successful = success\<rparr>, w')))))"

section \<open>The handler of the queue\<close>

text \<open>What execute logs at its end; every exception of the run is caught.\<close>

datatype execution_log = Execution_failed string | Execution_finished AnsibleExecutionResult

definition execute ::
  "'w ansible_runner \<Rightarrow> environment \<Rightarrow> AnsibleRunnerAdapter \<Rightarrow> ReconcileJob \<Rightarrow> 'w \<Rightarrow> execution_log \<times> 'w" where
  "execute runner env adapter job w =
     (let ctx = \<lparr>cx_request_id = rj_request_id job, cx_fqdn = rj_fqdn job,
                 cx_component = component_value (rj_component job), cx_correlation_id = rj_correlation_id job\<rparr>
      in case run_blocking runner env adapter (rj_plan job) ctx w of
           (Inl err, w') \<Rightarrow> (Execution_failed err, w')
         | (Inr result, w') \<Rightarrow> (Execution_finished result, w'))"

section \<open>Properties\<close>

lemma build_extra_vars_get:
  "map_get (build_extra_vars plan ctx) k =
     (if k = ''reconciler_request_id'' then Some (VString (cx_request_id ctx))
      else if k = ''reconciler_component'' then Some (VString (cx_component ctx))
      else if k = ''reconciler_correlation_id'' then Some (optional_value (cx_correlation_id ctx))
      else map_get (ep_extra_vars plan) k)"
  by (simp add: build_extra_vars_def dict_update_get wf_map_def)

text \<open>The environment has what a run needs.\<close>

definition ssh_ready :: "environment \<Rightarrow> AnsibleSSHConfig \<Rightarrow> bool" where
  "ssh_ready env ssh \<longleftrightarrow>
     py_strip (getenv env (as_user_env_var ssh) []) \<noteq> []
     \<and> py_strip (getenv env (as_private_key_path_env_var ssh) []) \<noteq> []
     \<and> py_int (getenv env (as_port_env_var ssh) (FormatInt (as_default_port ssh))) \<noteq> None"

lemma py_int_strip: "py_int (py_strip s) = py_int s"
  by (simp add: py_int_def py_strip_idem)

lemma read_ssh_ready: "ssh_ready env ssh \<longleftrightarrow> (\<exists>details. read_ssh_connection_details env ssh = Inr details)"
  by (auto simp: ssh_ready_def read_ssh_connection_details_def py_int_strip Let_def split: option.splits)

lemma read_ssh_details:
  "read_ssh_connection_details env ssh = Inr details \<Longrightarrow>
     sh_user details = py_strip (getenv env (as_user_env_var ssh) [])
     \<and> Some (sh_port details) = py_int (getenv env (as_port_env_var ssh) (FormatInt (as_default_port ssh)))
     \<and> sh_private_key_path details = py_strip (getenv env (as_private_key_path_env_var ssh) [])"
  by (auto simp: read_ssh_connection_details_def py_int_strip Let_def split: option.splits if_splits)

text \<open>A runner that records the calls made to it.\<close>

definition recording :: "(runner_call \<Rightarrow> (string, runner_result) result) \<Rightarrow> runner_call list ansible_runner" where
  "recording answer = Some (\<lambda>call calls. (answer call, calls @ [call]))"

definition job_call :: "AnsibleRunnerAdapter \<Rightarrow> ReconcileJob \<Rightarrow> SSHConnectionDetails \<Rightarrow> runner_call" where
  "job_call adapter job ssh =
     (let ctx = \<lparr>cx_request_id = rj_request_id job, cx_fqdn = rj_fqdn job,
                 cx_component = component_value (rj_component job), cx_correlation_id = rj_correlation_id job\<rparr>
      in \<lparr>ru_private_data_dir = ad_private_data_dir adapter, ru_playbook = ep_playbook_path (rj_plan job),
          ru_inventory = build_inventory (rj_fqdn job) ssh, ru_extravars = build_extra_vars (rj_plan job) ctx,
          ru_envvars = [(as_host_key_checking_env_var (an_ssh (ad_config adapter)), sh_host_key_checking ssh)],
          ru_ident = rj_request_id job, ru_quiet = True, ru_timeout = an_run_timeout_seconds (ad_config adapter)\<rparr>)"

lemma execute_ready:
  assumes "read_ssh_connection_details env (an_ssh (ad_config adapter)) = Inr ssh"
  shows "execute (recording answer) env adapter job calls =
      (case answer (job_call adapter job ssh) of
         Inl err \<Rightarrow> (Execution_failed err, calls @ [job_call adapter job ssh])
       | Inr result \<Rightarrow>
           (let status = (case rs_status result of None \<Rightarrow> ''unknown'' | Some s \<Rightarrow> s)
            in (Execution_finished \<lparr>xr_status = status, xr_rc = rs_rc result,
                  xr_successful = (rs_rc result = Some 0 \<or> ToLower status = ''successful'')\<rparr>,
                calls @ [job_call adapter job ssh])))"
  using assms by (simp add: execute_def run_blocking_def recording_def job_call_def Let_def split: sum.split)

lemma job_call_vars:
  "map_get (ru_extravars (job_call adapter job ssh)) k =
     (if k = ''reconciler_request_id'' then Some (VString (rj_request_id job))
      else if k = ''reconciler_component'' then Some (VString (component_value (rj_component job)))
      else if k = ''reconciler_correlation_id'' then Some (optional_value (rj_correlation_id job))
      else map_get (ep_extra_vars (rj_plan job)) k)"
  by (simp add: job_call_def build_extra_vars_get Let_def)

lemma job_call_simps [simp]:
  "ru_playbook (job_call adapter job ssh) = ep_playbook_path (rj_plan job)"
  "ru_inventory (job_call adapter job ssh) = build_inventory (rj_fqdn job) ssh"
  "ru_ident (job_call adapter job ssh) = rj_request_id job"
  "ru_timeout (job_call adapter job ssh) = an_run_timeout_seconds (ad_config adapter)"
  by (simp_all add: job_call_def Let_def)


end
