(* ===== verification/Reconciler_Service.thy ===== *)
theory Reconciler_Service
  imports Reconciler_Queue Reconciler_Ansible
begin

text \<open>
  ReconcilerSvc: accepting a request (app/services/reconcile\_service.py), the routes
  (app/api/routes.py), the configuration (app/config) and how the runtime is put together,
  started and stopped (app/main.py). uuid4 and the clock enter by the values they return,
  and while a request waits for room in the queue the other tasks go on, so what they make
  of it is a parameter, of which \<open>waits_for\<close> says that it is steps of Reconciler\_Queue.
  FastAPI answers 422 to a body that pydantic refuses; log output is left out.
\<close>

section \<open>enqueue\<close>

type_synonym job_queue = "ReconcileJob task_queue"

text \<open>The await of put: whether the job was put in time, and the queue when it ended.\<close>

type_synonym put_await = "job_queue \<Rightarrow> bool \<times> job_queue"

definition enqueue :: "put_await \<Rightarrow> ReconcileJob \<Rightarrow> job_queue \<Rightarrow> (queue_error, unit) result \<times> job_queue" where
  "enqueue await_put job q =
     (case begin_enqueue job q of
        Inl err \<Rightarrow> (Inl err, q)
      | Inr waiting \<Rightarrow>
          (case await_put waiting of
             (True, q') \<Rightarrow> (Inr (), q')
           | (False, q') \<Rightarrow> (Inl QueueSaturatedError, q')))"

inductive any_step :: "queue_config \<Rightarrow> job_queue \<Rightarrow> job_queue \<Rightarrow> bool" for cfg where
  call_step: "calls cfg q q' \<Longrightarrow> any_step cfg q q'"
| task_step: "tasks cfg q q' \<Longrightarrow> any_step cfg q q'"

text \<open>
  What asyncio.wait\_for and Queue.put do: other steps, and then the put of the job that
  waits or the end of its time.
\<close>

definition waits_for :: "queue_config \<Rightarrow> put_await \<Rightarrow> bool" where
  "waits_for cfg await_put \<longleftrightarrow>
     (\<forall>q job. \<exists>q' i. (any_step cfg)\<^sup>*\<^sup>* (q\<lparr>tq_putters := tq_putters q @ [job]\<rparr>) q'
        \<and> i < length (tq_putters q') \<and> tq_putters q' ! i = job
        \<and> (await_put (q\<lparr>tq_putters := tq_putters q @ [job]\<rparr>) = (True, end_enqueue i q') \<and> \<not> full cfg q'
           \<or> await_put (q\<lparr>tq_putters := tq_putters q @ [job]\<rparr>) = (False, timeout_enqueue i q')))"

section \<open>Accepting a request\<close>

datatype reconcile_error =
    Queue_error queue_error
  | OperatorNotFoundError string
  | OperatorPlanError string

record AcceptedResponse =
  ac_request_id :: string
  ac_component :: ComponentType
  ac_fqdn :: string
  ac_correlation_id :: "string option"
  ac_accepted_at :: gotime

definition accept_reconcile ::
  "Pathlib \<Rightarrow> put_await \<Rightarrow> OperatorRegistry \<Rightarrow> string \<Rightarrow> gotime \<Rightarrow> ReconcileRequest_r \<Rightarrow> job_queue
     \<Rightarrow> (reconcile_error, AcceptedResponse) result \<times> job_queue" where
  "accept_reconcile pa await_put registry request_id now request q =
     (case get_operator registry (pr_component request) of
        Inl err \<Rightarrow> (Inl (OperatorNotFoundError err), q)
      | Inr operator \<Rightarrow>
          (case build_execution_plan pa operator request of
             Inl err \<Rightarrow> (Inl (OperatorPlanError err), q)
           | Inr plan \<Rightarrow>
               (let job = \<lparr>rj_request_id = request_id, rj_host_id = pr_host_id request,
                           rj_correlation_id = pr_correlation_id request, rj_component = pr_component request,
                           rj_fqdn = pr_fqdn request, rj_plan = plan, rj_accepted_at = now\<rparr>
                in case enqueue await_put job q of
                     (Inl err, q') \<Rightarrow> (Inl (Queue_error err), q')
                   | (Inr _, q') \<Rightarrow>
                       (Inr \<lparr>ac_request_id = request_id, ac_component = pr_component request,
                             ac_fqdn = pr_fqdn request, ac_correlation_id = pr_correlation_id request,
                             ac_accepted_at = rj_accepted_at job\<rparr>, q'))))"

section \<open>The routes\<close>

datatype payload_r =
    Health_r string
  | Accepted_r AcceptedResponse
  | Detail string
  | Invalid_fields "string list"

definition reconcile ::
  "Pathlib \<Rightarrow> put_await \<Rightarrow> OperatorRegistry \<Rightarrow> string \<Rightarrow> gotime \<Rightarrow> (string, iface) gomap \<Rightarrow> job_queue
     \<Rightarrow> (nat \<times> payload_r) \<times> job_queue" where
  "reconcile pa await_put registry request_id now body q =
     (case validate_request body of
        Inl failed \<Rightarrow> ((422, Invalid_fields failed), q)
      | Inr payload \<Rightarrow>
          (case accept_reconcile pa await_put registry request_id now payload q of
             (Inr accepted, q') \<Rightarrow> ((202, Accepted_r accepted), q')
           | (Inl err, q') \<Rightarrow>
               ((case err of
                   Queue_error QueueSaturatedError \<Rightarrow> (503, Detail ''reconcile queue is full'')
                 | Queue_error QueueNotRunningError \<Rightarrow> (503, Detail ''reconcile queue is not running'')
                 | OperatorNotFoundError exc \<Rightarrow> (400, Detail exc)
                 | OperatorPlanError exc \<Rightarrow> (500, Detail ''failed to build execution plan'')), q')))"

section \<open>Configuration\<close>

record ServerConfig_r =
  sc_host :: string
  sc_port :: int

record ReconcilerRuntimeConfig =
  rr_max_parallel_reconciliations :: int
  rr_queue_capacity :: int
  rr_enqueue_timeout_seconds :: float64

record OperatorsConfig =
  os_node_exporter :: OperatorRuntimeConfig
  os_cadvisor :: OperatorRuntimeConfig

record AppConfig =
  app_server :: ServerConfig_r
  app_logging_level :: string
  app_reconciler :: ReconcilerRuntimeConfig
  app_ansible :: AnsibleConfig
  app_operators :: OperatorsConfig

text \<open>The configuration of an empty document.\<close>

definition default_app_config :: AppConfig where
  "default_app_config =
     \<lparr>app_server = \<lparr>sc_host = ''0.0.0.0'', sc_port = 8082\<rparr>, app_logging_level = ''INFO'',
      app_reconciler = \<lparr>rr_max_parallel_reconciliations = 2, rr_queue_capacity = 100, rr_enqueue_timeout_seconds = F64 1 0\<rparr>,
      app_ansible = \<lparr>an_playbooks_base_dir = ''./ansible'', an_private_data_dir = ''./.ansible-runner'',
        an_run_timeout_seconds = 900,
        an_ssh = \<lparr>as_user_env_var = ''ANSIBLE_SSH_USER'', as_private_key_path_env_var = ''ANSIBLE_SSH_PRIVATE_KEY_PATH'',
          as_port_env_var = ''ANSIBLE_SSH_PORT'', as_host_key_checking_env_var = ''ANSIBLE_HOST_KEY_CHECKING'',
          as_default_port = 22\<rparr>\<rparr>,
      app_operators =
        \<lparr>os_node_exporter = \<lparr>oc_enabled = True, oc_playbook = ''node_exporter/playbook.yml'', oc_default_parameters = []\<rparr>,
         os_cadvisor = \<lparr>oc_enabled = True, oc_playbook = ''cadvisor/playbook.yml'', oc_default_parameters = []\<rparr>\<rparr>\<rparr>"

text \<open>The bounds of the fields, and the validator of the model.\<close>

definition valid_app_config :: "Pathlib \<Rightarrow> AppConfig \<Rightarrow> bool" where
  "valid_app_config pa c \<longleftrightarrow>
     1 \<le> sc_port (app_server c) \<and> sc_port (app_server c) \<le> 65535
     \<and> 1 \<le> rr_max_parallel_reconciliations (app_reconciler c) \<and> 1 \<le> rr_queue_capacity (app_reconciler c)
     \<and> 0 < significand (rr_enqueue_timeout_seconds (app_reconciler c))
     \<and> 1 \<le> an_run_timeout_seconds (app_ansible c)
     \<and> 1 \<le> as_default_port (an_ssh (app_ansible c)) \<and> as_default_port (an_ssh (app_ansible c)) \<le> 65535
     \<and> \<not> pa_is_absolute pa (oc_playbook (os_node_exporter (app_operators c)))
     \<and> \<not> pa_is_absolute pa (oc_playbook (os_cadvisor (app_operators c)))"

text \<open>
  resolve\_config\_path and load\_app\_config. Reading and decoding the YAML text into the
  fields of the model is a parameter; \<open>read_yaml\<close> fails with the error of yaml or, on the
  left of it, with one that is not caught.
\<close>

definition APP_CONFIG_ENV_VAR :: string where "APP_CONFIG_ENV_VAR = ''APP_CONFIG_PATH''"

definition DEFAULT_APP_CONFIG_PATH :: string where
  "DEFAULT_APP_CONFIG_PATH = ''configs/appsettings.Develop.yml''"

definition resolve_config_path ::
  "Pathlib \<Rightarrow> environment \<Rightarrow> string \<Rightarrow> string \<Rightarrow> string option \<Rightarrow> (string, string) result" where
  "resolve_config_path pa env cwd project_root config_path =
     (let chosen = (case config_path of
            Some (c # cs) \<Rightarrow> c # cs
          | _ \<Rightarrow> getenv env APP_CONFIG_ENV_VAR DEFAULT_APP_CONFIG_PATH);
          raw_path = py_strip chosen
      in if raw_path = [] then Inl ''Empty app config path''
         else if \<not> pa_is_absolute pa raw_path then
           (let cwd_candidate = pa_resolve pa (pa_join pa cwd raw_path)
            in Inr (pa_resolve pa (if pa_exists pa cwd_candidate then cwd_candidate
                                   else pa_resolve pa (pa_join pa project_root raw_path))))
         else Inr (pa_resolve pa raw_path))"

definition load_app_config ::
  "Pathlib \<Rightarrow> environment \<Rightarrow> string \<Rightarrow> string \<Rightarrow> (string \<Rightarrow> (string + string, 'y) result) \<Rightarrow> ('y \<Rightarrow> AppConfig option)
     \<Rightarrow> string option \<Rightarrow> (string, AppConfig \<times> string) result" where
  "load_app_config pa env cwd project_root read_yaml decode config_path =
     bind_result (resolve_config_path pa env cwd project_root config_path) (\<lambda>resolved_path.
       if \<not> pa_exists pa resolved_path then Inl (''Config file not found: '' @ resolved_path)
       else (case read_yaml resolved_path of
               Inl (Inl uncaught) \<Rightarrow> Inl uncaught
             | Inl (Inr yaml_error) \<Rightarrow> Inl (''Invalid YAML in config: '' @ resolved_path)
             | Inr data \<Rightarrow>
                 (case decode data of
                    None \<Rightarrow> Inl (''Config validation failed for: '' @ resolved_path)
                  | Some config \<Rightarrow>
                      if valid_app_config pa config then Inr (config, resolved_path)
                      else Inl (''Config validation failed for: '' @ resolved_path))))"

section \<open>The runtime\<close>

record ApplicationRuntime =
  art_config :: AppConfig
  art_registry :: OperatorRegistry
  art_adapter :: AnsibleRunnerAdapter
  art_queue_config :: queue_config
  art_queue :: job_queue
  art_ready :: bool

definition resolve_path_r :: "Pathlib \<Rightarrow> string \<Rightarrow> string \<Rightarrow> string" where
  "resolve_path_r pa path_value base_dir =
     pa_resolve pa (if \<not> pa_is_absolute pa path_value then pa_join pa base_dir path_value else path_value)"

definition build_runtime :: "Pathlib \<Rightarrow> AppConfig \<Rightarrow> string \<Rightarrow> (string, ApplicationRuntime) result" where
  "build_runtime pa config config_path =
     (let service_root = pa_resolve pa (pa_parent pa (pa_parent pa config_path));
          playbooks_base_dir = resolve_path_r pa (an_playbooks_base_dir (app_ansible config)) service_root;
          operators =
            (if oc_enabled (os_node_exporter (app_operators config))
             then [NodeExporterOperator pa playbooks_base_dir (os_node_exporter (app_operators config))] else [])
            @ (if oc_enabled (os_cadvisor (app_operators config))
               then [CadvisorOperator pa playbooks_base_dir (os_cadvisor (app_operators config))] else [])
      in if operators = [] then Inl ''No operators enabled in configuration''
         else Inr \<lparr>art_config = config, art_registry = OperatorRegistry_of operators,
                   art_adapter = AnsibleRunnerAdapter_of pa (app_ansible config) service_root,
                   art_queue_config =
                     \<lparr>qc_max_workers = rr_max_parallel_reconciliations (app_reconciler config),
                      qc_capacity = rr_queue_capacity (app_reconciler config)\<rparr>,
                   art_queue = new_queue, art_ready = False\<rparr>)"

definition start_runtime :: "ApplicationRuntime \<Rightarrow> ApplicationRuntime" where
  "start_runtime rt = rt\<lparr>art_queue := start_queue (art_queue_config rt) (art_queue rt), art_ready := True\<rparr>"

text \<open>stop up to the await of the queue.\<close>

definition begin_stop_runtime :: "ApplicationRuntime \<Rightarrow> ApplicationRuntime" where
  "begin_stop_runtime rt = rt\<lparr>art_ready := False, art_queue := begin_stop (art_queue rt)\<rparr>"

definition healthz_r :: "nat \<times> payload_r" where
  "healthz_r = (200, Health_r ''ok'')"

definition readyz_r :: "ApplicationRuntime \<Rightarrow> nat \<times> payload_r" where
  "readyz_r rt = (if art_ready rt then (200, Health_r ''ready'') else (503, Detail ''service is not ready''))"

section \<open>What the parts compute\<close>

lemma drop_nth_snoc: "drop_nth (length xs) (xs @ [x]) = xs"
  by (simp add: drop_nth_def)

text \<open>Nothing else happens while a put waits.\<close>

definition at_once :: "queue_config \<Rightarrow> put_await" where
  "at_once cfg q =
     (let i = length (tq_putters q) - 1
      in if full cfg q then (False, timeout_enqueue i q) else (True, end_enqueue i q))"

lemma waits_at_once: "waits_for cfg (at_once cfg)"
  unfolding waits_for_def
proof (intro allI)
  fix q :: job_queue and job
  let ?q = "q\<lparr>tq_putters := tq_putters q @ [job]\<rparr>"
  show "\<exists>q' i. (any_step cfg)\<^sup>*\<^sup>* ?q q' \<and> i < length (tq_putters q') \<and> tq_putters q' ! i = job
        \<and> (at_once cfg ?q = (True, end_enqueue i q') \<and> \<not> full cfg q' \<or> at_once cfg ?q = (False, timeout_enqueue i q'))"
    by (intro exI [of _ ?q] exI [of _ "length (tq_putters q)"])
      (auto simp: at_once_def Let_def)
qed

lemma any_steps_reach: "(any_step cfg)\<^sup>*\<^sup>* q q' \<Longrightarrow> queue_reach cfg q \<Longrightarrow> queue_reach cfg q'"
  by (induction rule: rtranclp_induct) (auto elim!: any_step.cases intro: queue_reach.called queue_reach.run_on)

lemma accepting_iff: "queue_reach cfg q \<Longrightarrow> begin_enqueue job q =
    (if tq_accepting q then Inr (q\<lparr>tq_putters := tq_putters q @ [job]\<rparr>) else Inl QueueNotRunningError)"
  using queue_inv [of cfg q] by (auto simp: begin_enqueue_def queue_inv_def)

lemma enqueue_outcome:
  assumes "waits_for cfg await_put" and "queue_reach cfg q"
  shows "\<exists>q'. queue_reach cfg q'
    \<and> (if \<not> tq_accepting q then enqueue await_put job q = (Inl QueueNotRunningError, q)
       else enqueue await_put job q = (Inl QueueSaturatedError, q')
         \<or> enqueue await_put job q = (Inr (), q') \<and> tq_accepted q' \<noteq> [] \<and> last (tq_accepted q') = job)"
proof (cases "tq_accepting q")
  case False
  with assms(2) show ?thesis by (auto simp: enqueue_def accepting_iff [OF assms(2)])
next
  case True
  let ?q = "q\<lparr>tq_putters := tq_putters q @ [job]\<rparr>"
  from assms(1) obtain q1 i where steps: "(any_step cfg)\<^sup>*\<^sup>* ?q q1" and i: "i < length (tq_putters q1)" "tq_putters q1 ! i = job"
    and put: "await_put ?q = (True, end_enqueue i q1) \<and> \<not> full cfg q1 \<or> await_put ?q = (False, timeout_enqueue i q1)"
    unfolding waits_for_def by blast
  have "begin_enqueue job q = Inr ?q" using True by (simp add: accepting_iff [OF assms(2)])
  then have "queue_reach cfg ?q" by (rule queue_reach.called [OF assms(2) calls.enqueues])
  then have q1: "queue_reach cfg q1" by (rule any_steps_reach [OF steps])
  from put show ?thesis
  proof
    assume p: "await_put ?q = (True, end_enqueue i q1) \<and> \<not> full cfg q1"
    then have "queue_reach cfg (end_enqueue i q1)" using i by (auto intro: queue_reach.run_on [OF q1] tasks.puts)
    with p True i show ?thesis
      by (intro exI [of _ "end_enqueue i q1"])
        (simp add: enqueue_def accepting_iff [OF assms(2)] end_enqueue_def put_nowait_def)
  next
    assume p: "await_put ?q = (False, timeout_enqueue i q1)"
    then have "queue_reach cfg (timeout_enqueue i q1)" using i by (auto intro: queue_reach.called [OF q1] calls.times_out)
    with p True show ?thesis
      by (intro exI [of _ "timeout_enqueue i q1"]) (simp add: enqueue_def accepting_iff [OF assms(2)])
  qed
qed

section \<open>Properties\<close>

text \<open>The job of a request.\<close>

definition job_of :: "ReconcileOperator \<Rightarrow> string \<Rightarrow> gotime \<Rightarrow> ReconcileRequest_r \<Rightarrow> ReconcileJob" where
  "job_of operator request_id now request =
     \<lparr>rj_request_id = request_id, rj_host_id = pr_host_id request, rj_correlation_id = pr_correlation_id request,
      rj_component = pr_component request, rj_fqdn = pr_fqdn request,
      rj_plan = \<lparr>ep_component = pr_component request, ep_operator_name = op_operator_name operator,
        ep_playbook_path = op_playbook_path operator, ep_target_fqdn = pr_fqdn request,
        ep_extra_vars = dict_update (op_default_parameters operator) (pr_parameters request)\<rparr>,
      rj_accepted_at = now\<rparr>"


text \<open>A request for a host that the queue of a started service takes.\<close>

definition sample_paths :: Pathlib where
  "sample_paths =
     \<lparr>pa_is_absolute = (\<lambda>p. p \<noteq> [] \<and> hd p = CHR ''/''),
      pa_join = (\<lambda>a b. if b \<noteq> [] \<and> hd b = CHR ''/'' then b else a @ ''/'' @ b),
      pa_parent = (\<lambda>p. rev (tl (dropWhile (\<lambda>c. c \<noteq> CHR ''/'') (rev p)))),
      pa_resolve = (\<lambda>p. p), pa_exists = (\<lambda>p. True)\<rparr>"

definition sample_registry :: OperatorRegistry where
  "sample_registry = OperatorRegistry_of
     [CadvisorOperator sample_paths ''/app/ansible'' (os_cadvisor (app_operators default_app_config))]"

definition sample_queue_config :: queue_config where
  "sample_queue_config = \<lparr>qc_max_workers = 2, qc_capacity = 100\<rparr>"

definition sample_body :: "(string, iface) gomap" where
  "sample_body = [(''fqdn'', VString '' h1.local ''), (''component'', VString ''cadvisor'')]"


section \<open>A runtime\<close>

lemma build_runtime_Inr:
  assumes "build_runtime pa config config_path = Inr rt" and "valid_app_config pa config"
  shows "1 \<le> qc_max_workers (art_queue_config rt)" and "1 \<le> qc_capacity (art_queue_config rt)"
    and "queue_reach (art_queue_config rt) (art_queue (start_runtime rt))" and "tq_accepting (art_queue (start_runtime rt))"
    and "readyz_r rt = (503, Detail ''service is not ready'')" and "readyz_r (start_runtime rt) = (200, Health_r ''ready'')"
    and "tq_accepted (art_queue (start_runtime rt)) = []" and "tq_putters (art_queue (start_runtime rt)) = []"
proof -
  from assms have rt: "art_queue rt = new_queue" "art_ready rt = False"
    "qc_max_workers (art_queue_config rt) = rr_max_parallel_reconciliations (app_reconciler config)"
    "qc_capacity (art_queue_config rt) = rr_queue_capacity (app_reconciler config)"
    by (auto simp: build_runtime_def Let_def split: if_splits)
  show "queue_reach (art_queue_config rt) (art_queue (start_runtime rt))"
    using queue_reach.called [OF queue_reach.created calls.starts, of "art_queue_config rt"] by (simp add: start_runtime_def rt)
  show "1 \<le> qc_max_workers (art_queue_config rt)" "1 \<le> qc_capacity (art_queue_config rt)"
    "tq_accepting (art_queue (start_runtime rt))" "readyz_r rt = (503, Detail ''service is not ready'')"
    "readyz_r (start_runtime rt) = (200, Health_r ''ready'')"
    "tq_accepted (art_queue (start_runtime rt)) = []" "tq_putters (art_queue (start_runtime rt)) = []"
    using assms(2) by (simp_all add: rt start_runtime_def start_queue_def new_queue_def readyz_r_def valid_app_config_def)
qed

text \<open>The operator of a component, when the configuration enables it.\<close>

definition operator_config :: "AppConfig \<Rightarrow> ComponentType \<Rightarrow> OperatorRuntimeConfig" where
  "operator_config config cmp =
     (case cmp of NODE_EXPORTER \<Rightarrow> os_node_exporter (app_operators config) | CADVISOR \<Rightarrow> os_cadvisor (app_operators config))"

definition playbook_path :: "Pathlib \<Rightarrow> AppConfig \<Rightarrow> string \<Rightarrow> ComponentType \<Rightarrow> string" where
  "playbook_path pa config config_path cmp =
     pa_resolve pa (pa_join pa
       (resolve_path_r pa (an_playbooks_base_dir (app_ansible config))
          (pa_resolve pa (pa_parent pa (pa_parent pa config_path))))
       (oc_playbook (operator_config config cmp)))"

lemma build_runtime_operator:
  assumes "build_runtime pa config config_path = Inr rt"
  shows "if oc_enabled (operator_config config cmp)
    then \<exists>operator. map_get (art_registry rt) cmp = Some operator \<and> op_component operator = cmp
      \<and> op_playbook_path operator = playbook_path pa config config_path cmp
      \<and> op_default_parameters operator = oc_default_parameters (operator_config config cmp)
    else map_get (art_registry rt) cmp = None"
  using assms
  by (cases cmp) (auto simp: build_runtime_def Let_def operator_config_def playbook_path_def OperatorRegistry_of_def
      index_into_def NodeExporterOperator_def CadvisorOperator_def split: if_splits)

end
