(* ===== verification/Platform_Reconcile.thy ===== *)
theory Platform_Reconcile
  imports Drift_Detectors Drift_Config Reconciler_Service
begin

text \<open>
  The last leg of the platform: what a command of DriftDetectorSvc becomes in ReconcilerSvc.
  JSON carries the fields of reconcileRequest (DriftDetectorSvc internal/clients/reconciler)
  to those of ReconcileRequest (ReconcilerSvc app/schemas/reconcile.py), leaving out what is
  empty, and the response back; the encoding of strings that are valid UTF-8 and the
  transport are parameters.
\<close>

section \<open>Over the wire\<close>

definition wire_text :: "string \<Rightarrow> string \<Rightarrow> (string, iface) gomap" where
  "wire_text field v = (if v = [] then [] else [(field, VString v)])"

definition wire_reconcile :: "reconcileRequest \<Rightarrow> (string, iface) gomap" where
  "wire_reconcile r =
     wire_text ''host_id'' (rq_HostID r)
     @ [(''fqdn'', VString (rq_FQDN r)), (''component'', VString (rq_Component r))]
     @ wire_text ''correlation_id'' (rq_CorrelationID r)
     @ (if rq_Parameters r = [] then [] else [(''parameters'', VMap (rq_Parameters r))])"

definition wire_accepted :: "AcceptedResponse \<Rightarrow> reconcileAcceptedResponse" where
  "wire_accepted r =
     \<lparr>rr_RequestID = ac_request_id r, rr_AcceptedAt = Some (ac_accepted_at r),
      rr_Component = component_value (ac_component r), rr_FQDN = ac_fqdn r,
      rr_CorrelationID = (case ac_correlation_id r of None \<Rightarrow> [] | Some s \<Rightarrow> s)\<rparr>"

text \<open>The payload that SendReconcile marshals.\<close>

definition payload_of :: "ReconcileCommand \<Rightarrow> reconcileRequest" where
  "payload_of command =
     \<lparr>rq_HostID = rc_HostID command, rq_FQDN = rc_FQDN command, rq_Component = rc_Component command,
      rq_CorrelationID = rc_CorrelationID command, rq_Parameters = rc_Parameters command\<rparr>"

section \<open>Commands of the detectors\<close>

definition command_from :: "string \<Rightarrow> ComponentType \<Rightarrow> DesiredHost_d \<Rightarrow> ActualHost \<Rightarrow> ReconcileCommand option" where
  "command_from cycleID cmp d a =
     dr_ReconcileCommand (case cmp of NODE_EXPORTER \<Rightarrow> Detect_node_exporter cycleID d a | CADVISOR \<Rightarrow> Detect_cadvisor cycleID d a)"

lemma command_from_expected:
  "command_from cycleID cmp d a = Some c \<Longrightarrow>
     \<exists>w. wanted_workload d (component_value cmp) = Some w \<and> c = expected_command cycleID (component_value cmp) d a w"
  by (cases cmp) (auto simp: command_from_def Detect_node_exporter_eq Detect_cadvisor_eq no_result_def drift_result_def Let_def
      ComponentNodeExporter_def ComponentCadvisor_def split: option.splits if_splits)

text \<open>Whatever the wire does, an optional text arrives as itself.\<close>

lemma wire_get:
  "map_get (wire_reconcile r) ''host_id'' = (if rq_HostID r = [] then None else Some (VString (rq_HostID r)))"
  "map_get (wire_reconcile r) ''fqdn'' = Some (VString (rq_FQDN r))"
  "map_get (wire_reconcile r) ''component'' = Some (VString (rq_Component r))"
  "map_get (wire_reconcile r) ''correlation_id'' = (if rq_CorrelationID r = [] then None else Some (VString (rq_CorrelationID r)))"
  "map_get (wire_reconcile r) ''parameters'' = (if rq_Parameters r = [] then None else Some (VMap (rq_Parameters r)))"
  by (simp_all add: wire_reconcile_def wire_text_def)

definition some_text :: "string \<Rightarrow> string option" where
  "some_text s = (if s = [] then None else Some s)"

lemma wire_fields:
  "optional_text ''host_id'' 128 (wire_reconcile r) =
     (if py_len (rq_HostID r) \<le> 128 then Inr (some_text (rq_HostID r)) else Inl ''host_id'')"
  "optional_text ''correlation_id'' 128 (wire_reconcile r) =
     (if py_len (rq_CorrelationID r) \<le> 128 then Inr (some_text (rq_CorrelationID r)) else Inl ''correlation_id'')"
  "parameters_field (wire_reconcile r) = Inr (rq_Parameters r)"
  "component_field (wire_reconcile r) =
     (case component_of_value (rq_Component r) of None \<Rightarrow> Inl ''component'' | Some cmp \<Rightarrow> Inr cmp)"
  by (simp_all add: optional_text_def parameters_field_def component_field_def some_text_def wire_get)

lemma py_strip_nonempty: "py_strip s \<noteq> [] \<Longrightarrow> s \<noteq> []"
  by auto

lemma fqdn_field_wire:
  "fqdn_field (wire_reconcile r) = Inr v \<longleftrightarrow>
     1 \<le> py_len (rq_FQDN r) \<and> py_len (rq_FQDN r) \<le> 253 \<and> v = py_strip (rq_FQDN r) \<and> v \<noteq> [] \<and> set v \<subseteq> fqdn_chars"
  using validate_fqdn_Inr [of "rq_FQDN r" v]
  by (cases "validate_fqdn (rq_FQDN r)") (auto simp: fqdn_field_def wire_get)

section \<open>Lengths\<close>

lemma starts_rune_lower: "starts_rune (lower_byte c) = starts_rune c"
  by (auto simp: starts_rune_def lower_byte_def Let_def)

lemma py_len_ToLower [simp]: "py_len (ToLower s) = py_len s"
  by (induction s) (simp_all add: py_len_def ToLower_def starts_rune_lower)

lemma fqdn_chars_start: "c \<in> fqdn_chars \<Longrightarrow> starts_rune c"
  using fqdn_chars_code [of c] by (simp add: starts_rune_def)

lemma py_len_strip_pos: "py_strip s \<noteq> [] \<Longrightarrow> set (py_strip s) \<subseteq> fqdn_chars \<Longrightarrow> 1 \<le> py_len s"
proof -
  assume a: "py_strip s \<noteq> []" "set (py_strip s) \<subseteq> fqdn_chars"
  have "sublist (py_strip s) s"
    unfolding py_strip_def trim_left_def
    by (meson prefix_imp_sublist strip_words_suffix sublist_order.order_trans suffix_imp_sublist trim_right_prefix)
  then have sub: "set (py_strip s) \<subseteq> set s" by (rule set_mono_sublist)
  from a(1) obtain c where c: "c \<in> set (py_strip s)" by (cases "py_strip s") auto
  with a(2) sub have "c \<in> set (filter starts_rune s)" using fqdn_chars_start by auto
  then show ?thesis unfolding py_len_def by (metis One_nat_def Suc_leI length_pos_if_in_set)
qed

lemma py_len_component: "py_len (component_value cmp) = length (component_value cmp)"
  by (cases cmp) (simp_all add: py_len_def starts_rune_def)

lemma py_len_Cons: "py_len (x # s) = (if starts_rune x then 1 else 0) + py_len s"
  by (simp add: py_len_def)

section \<open>What validates\<close>

lemma command_fields:
  assumes "command_from cycleID cmp d a = Some c"
  shows "rc_FQDN c = resolveTargetFQDN d a" and "rc_Component c = component_value cmp"
    and "rc_CorrelationID c = cycleID @ '':'' @ component_value cmp @ '':'' @ ToLower (resolveTargetFQDN d a)"
  using command_from_expected [OF assms] by (auto simp: expected_command_def Let_def)

lemma command_correlation:
  assumes "command_from cycleID cmp d a = Some c"
  shows "py_len (rc_CorrelationID c) = py_len cycleID + length (component_value cmp) + py_len (resolveTargetFQDN d a) + 2"
    and "some_text (rc_CorrelationID c) = Some (rc_CorrelationID c)"
proof -
  have colon: "starts_rune (CHR '':'')"
    by (simp add: starts_rune_def)
  show "py_len (rc_CorrelationID c) = py_len cycleID + length (component_value cmp) + py_len (resolveTargetFQDN d a) + 2"
    "some_text (rc_CorrelationID c) = Some (rc_CorrelationID c)"
    by (simp_all add: command_fields [OF assms] colon py_len_component py_len_Cons some_text_def)
qed

lemma command_validates:
  assumes "command_from cycleID cmp d a = Some c"
  shows "validate_request (wire_reconcile (payload_of c)) = Inr request \<longleftrightarrow>
      py_len (rc_HostID c) \<le> 128 \<and> pr_host_id request = some_text (rc_HostID c)
      \<and> 1 \<le> py_len (rc_FQDN c) \<and> py_len (rc_FQDN c) \<le> 253 \<and> pr_fqdn request = py_strip (rc_FQDN c)
      \<and> py_strip (rc_FQDN c) \<noteq> [] \<and> set (py_strip (rc_FQDN c)) \<subseteq> fqdn_chars \<and> pr_component request = cmp
      \<and> py_len (rc_CorrelationID c) \<le> 128 \<and> pr_correlation_id request = Some (rc_CorrelationID c)
      \<and> pr_parameters request = rc_Parameters c"
proof -
  have payload: "rq_HostID (payload_of c) = rc_HostID c" "rq_FQDN (payload_of c) = rc_FQDN c"
    "rq_Component (payload_of c) = component_value cmp" "rq_CorrelationID (payload_of c) = rc_CorrelationID c"
    "rq_Parameters (payload_of c) = rc_Parameters c"
    by (simp_all add: payload_of_def command_fields [OF assms])
  show ?thesis
    unfolding validate_request_Inr wire_fields fqdn_field_wire payload
    by (auto simp: command_correlation [OF assms])
qed

section \<open>Properties\<close>

text \<open>
  C18: Which commands of the detectors the reconciler lets in. The request validates exactly
  when the host name has the characters of one, at most 253 of them, the host id at most
  128, and the host name fits, behind the id of the cycle and the name of the component,
  into the 128 characters of a correlation id; then the request is the command. The last
  condition is stricter than the bound on host names: with the 19 digits of a cycle today
  a name of 95 characters is refused for node_exporter, with 422, in every cycle.
\<close>
theorem command_admitted:
  assumes "command_from cycleID cmp d a = Some c"
  shows "let fqdn = resolveTargetFQDN d a
    in (if py_strip fqdn \<noteq> [] \<and> set (py_strip fqdn) \<subseteq> fqdn_chars \<and> py_len fqdn \<le> 253 \<and> py_len (rc_HostID c) \<le> 128
           \<and> py_len cycleID + length (component_value cmp) + py_len fqdn + 2 \<le> 128
        then validate_request (wire_reconcile (payload_of c)) =
          Inr \<lparr>pr_host_id = some_text (rc_HostID c), pr_fqdn = py_strip fqdn, pr_component = cmp,
               pr_correlation_id = Some (rc_CorrelationID c), pr_parameters = rc_Parameters c\<rparr>
        else \<exists>failed. validate_request (wire_reconcile (payload_of c)) = Inl failed)"
proof -
  let ?fqdn = "resolveTargetFQDN d a"
  note valid = command_validates [OF assms] and f = command_fields [OF assms] and len = command_correlation(1) [OF assms]
  show ?thesis
  proof (cases "py_strip ?fqdn \<noteq> [] \<and> set (py_strip ?fqdn) \<subseteq> fqdn_chars \<and> py_len ?fqdn \<le> 253 \<and> py_len (rc_HostID c) \<le> 128
           \<and> py_len cycleID + length (component_value cmp) + py_len ?fqdn + 2 \<le> 128")
    case True
    then have "1 \<le> py_len ?fqdn" using py_len_strip_pos by blast
    with True show ?thesis by (simp add: valid f(1) len)
  next
    case False
    then have "validate_request (wire_reconcile (payload_of c)) \<noteq> Inr request" for request
      using valid [of request] len f(1) by auto
    then show ?thesis using False by (cases "validate_request (wire_reconcile (payload_of c))") (auto simp: Let_def)
  qed
qed

text \<open>A host name of 95 characters, and a cycle of the year 2026.\<close>

definition long_host :: DesiredHost_d where
  "long_host =
     \<lparr>dh_HostID = ''h1'', dh_FQDN = replicate 95 (CHR ''a''), dh_Labels = [],
      dh_Workloads = [\<lparr>dw_Name = ''node_exporter'', dw_Enabled = True, dw_DeploymentMode = ''container'',
        dw_Image = ''prom/node-exporter'', dw_Version = None, dw_Port = None\<rparr>]\<rparr>"

definition bare_host :: ActualHost where
  "bare_host =
     \<lparr>ah_HostID = ''h1'', ah_FQDN = [], ah_Labels = [], ah_Status = ''ok'', ah_Workloads = [],
      ah_SourceStatus = [(''cadvisor'', \<lparr>asr_Source = ''cadvisor'', asr_Enabled = True, asr_Status = ''ok'', asr_Error = []\<rparr>)]\<rparr>"

theorem command_admitted_witness:
  "\<exists>c failed. command_from ''1774771200000000000'' NODE_EXPORTER long_host bare_host = Some c
     \<and> validate_request (wire_reconcile (payload_of c)) = Inl failed"
proof -
  have "command_from ''1774771200000000000'' NODE_EXPORTER long_host bare_host \<noteq> None" by code_simp
  then obtain c where c: "command_from ''1774771200000000000'' NODE_EXPORTER long_host bare_host = Some c" by blast
  have len: "py_len ''1774771200000000000'' + length (component_value NODE_EXPORTER)
      + py_len (resolveTargetFQDN long_host bare_host) + 2 = 129" by code_simp
  from command_admitted [OF c] have "\<exists>failed. validate_request (wire_reconcile (payload_of c)) = Inl failed"
    unfolding Let_def len by simp
  with c show ?thesis by blast
qed

section \<open>From a drift to the playbook\<close>

lemma component_not_reserved:
  "component_value cmp @ ''_image'' \<notin> {''reconciler_request_id'', ''reconciler_component'', ''reconciler_correlation_id''}"
  "component_value cmp @ ''_port'' \<notin> {''reconciler_request_id'', ''reconciler_component'', ''reconciler_correlation_id''}"
  by (cases cmp; simp)+

lemma command_parameters:
  assumes "command_from cycleID cmp d a = Some c" and "wanted_workload d (component_value cmp) = Some w"
  shows "wf_map (rc_Parameters c)"
    and "map_get (rc_Parameters c) (component_value cmp @ ''_image'') =
      (if TrimSpace (dw_Image w) = [] then None else Some (VString (TrimSpace (dw_Image w))))"
    and "map_get (rc_Parameters c) (component_value cmp @ ''_port'') = map_option VInt (dw_Port w)"
  using command_from_expected [OF assms(1)] assms(2)
  by (auto simp: expected_command_def wf_map_def Let_def split: option.split)

lemma ParseComponent_value: "ParseComponent (component_value cmp) = Inr (component_value cmp)"
proof (cases cmp)
  case NODE_EXPORTER
  moreover have "ParseComponent (component_value NODE_EXPORTER) = Inr (component_value NODE_EXPORTER)" by code_simp
  ultimately show ?thesis by simp
next
  case CADVISOR
  moreover have "ParseComponent (component_value CADVISOR) = Inr (component_value CADVISOR)" by code_simp
  ultimately show ?thesis by simp
qed

text \<open>What reconcile does with a valid request for an enabled operator whose playbook exists.\<close>

lemma reconcile_enqueues:
  assumes "validate_request body = Inr request" and "map_get registry (pr_component request) = Some operator"
    and "pa_exists pa (op_playbook_path operator)" and "waits_for qcfg await_put" and "queue_reach qcfg q" and "tq_accepting q"
  shows "reconcile pa await_put registry request_id now body q =
      ((503, Detail ''reconcile queue is full''), snd (reconcile pa await_put registry request_id now body q))
    \<or> (\<exists>q'. queue_reach qcfg q' \<and> tq_accepted q' \<noteq> [] \<and> last (tq_accepted q') = job_of operator request_id now request
        \<and> reconcile pa await_put registry request_id now body q =
          ((202, Accepted_r \<lparr>ac_request_id = request_id, ac_component = pr_component request, ac_fqdn = pr_fqdn request,
             ac_correlation_id = pr_correlation_id request, ac_accepted_at = now\<rparr>), q'))"
  using enqueue_outcome [OF assms(4,5), of "job_of operator request_id now request"] assms(1-3,6)
  by (auto simp: reconcile_def accept_reconcile_def get_operator_def build_execution_plan_def job_of_def Let_def)


text \<open>A host whose node exporter is missing, and a reconciler with the configuration of an empty file.\<close>

definition short_host :: DesiredHost_d where
  "short_host = long_host\<lparr>dh_FQDN := ''h1.local''\<rparr>"

definition sample_env :: environment where
  "sample_env = map_of [(''ANSIBLE_SSH_USER'', ''deploy''), (''ANSIBLE_SSH_PRIVATE_KEY_PATH'', ''/keys/id'')]"

definition sample_r_client :: ClientConfig where
  "sample_r_client = sample_client ''http://reconciler'' ''/api/v1/reconcile''"


end
