(* ===== verification/Platform_Delivery.thy ===== *)
theory Platform_Delivery
  imports Platform_Reconcile
begin

text \<open>
  The client of DriftDetectorSvc and the routes of ReconcilerSvc over a network that loses
  requests and answers: what the retries of SendReconcile leave in the queue of the reconciler.
  The faults to come are a list in the world, the workers go on before each delivery, and the
  ids and times of the reconciler come from a supply.
\<close>

section \<open>The network\<close>

datatype fault = Delivered | Request_lost string | Answer_lost string

text \<open>The last field counts the answers of status 202 that were lost.\<close>

record network =
  nw_faults :: "fault list"
  nw_requests :: nat
  nw_queue :: job_queue
  nw_lost :: nat

record reconciler_site =
  si_paths :: Pathlib
  si_runtime :: ApplicationRuntime
  si_parse :: "string \<Rightarrow> (string, iface) gomap"
  si_render :: "payload_r \<Rightarrow> string"
  si_fresh :: "nat \<Rightarrow> string \<times> gotime"
  si_between :: "job_queue \<Rightarrow> job_queue"

definition deliver :: "reconciler_site \<Rightarrow> string \<Rightarrow> network \<Rightarrow> (nat \<times> payload_r) \<times> network" where
  "deliver si body nw =
     (let (request_id, now) = si_fresh si (nw_requests nw);
          rt = si_runtime si;
          (answer, q) = reconcile (si_paths si) (at_once (art_queue_config rt)) (art_registry rt) request_id now
            (si_parse si body) (si_between si (nw_queue nw))
      in (answer, nw\<lparr>nw_requests := nw_requests nw + 1, nw_queue := q\<rparr>))"

definition network_send :: "reconciler_site \<Rightarrow> string \<Rightarrow> network \<Rightarrow> http_answer \<times> network" where
  "network_send si body nw =
     (let (fault, nw) = (case nw_faults nw of [] \<Rightarrow> (Delivered, nw) | f # fs \<Rightarrow> (f, nw\<lparr>nw_faults := fs\<rparr>))
      in case fault of
           Request_lost err \<Rightarrow> (Execute_failed err, nw)
         | Answer_lost err \<Rightarrow>
             (let (answer, nw) = deliver si body nw
              in (Execute_failed err, if fst answer = 202 then nw\<lparr>nw_lost := nw_lost nw + 1\<rparr> else nw))
         | Delivered \<Rightarrow>
             (let (answer, nw) = deliver si body nw
              in (Answer (int (fst answer)) (si_render si (snd answer)) None, nw)))"

text \<open>Waiting is cut short when the context ends, here by the number of requests so far.\<close>

definition network_transport :: "reconciler_site \<Rightarrow> (nat \<Rightarrow> bool) \<Rightarrow> network Transport" where
  "network_transport si alive =
     \<lparr>tr_send = (\<lambda>url body nw. case body of None \<Rightarrow> (Build_failed ''no body'', nw) | Some b \<Rightarrow> network_send si b nw),
      tr_wait = (\<lambda>d nw. (alive (nw_requests nw), nw)), tr_ctxErr = (\<lambda>nw. ''context canceled'')\<rparr>"

section \<open>What one delivery does to the queue\<close>

lemma tasks_alone:
  "(tasks cfg)\<^sup>*\<^sup>* q q' \<Longrightarrow> tq_putters q = [] \<Longrightarrow> tq_accepted q' = tq_accepted q \<and> tq_putters q' = []"
proof (induction rule: rtranclp_induct)
  case (step y z)
  then have IH: "tq_accepted y = tq_accepted q" "tq_putters y = []" by simp_all
  from step.hyps(2) have "tq_accepted z = tq_accepted y \<and> tq_putters z = tq_putters y"
    by (cases rule: tasks.cases)
      (use IH(2) in \<open>auto simp: take_item_def task_done_def end_handler_def send_sentinels_def send_sentinel_def
        put_nowait_def end_stop_def Let_def split: item.splits\<close>)
  with IH show ?case by simp
qed simp

lemma enqueue_at_once:
  assumes "tq_putters q = []"
  shows "enqueue (at_once cfg) job q =
     (if \<not> tq_running q \<or> \<not> tq_accepting q then (Inl QueueNotRunningError, q)
      else if full cfg q then (Inl QueueSaturatedError, q)
      else (Inr (), (put_nowait (Job job) q)\<lparr>tq_accepted := tq_accepted q @ [job]\<rparr>))"
  using assms
  by (auto simp: enqueue_def begin_enqueue_def at_once_def full_def timeout_enqueue_def end_enqueue_def put_nowait_def
      drop_nth_def Let_def)

text \<open>A valid request leaves one job behind, or none and an answer that is not 202.\<close>

lemma reconcile_at_once:
  assumes "validate_request body = Inr request" and "map_get registry (pr_component request) = Some operator"
    and "tq_putters q = []"
    and "reconcile pa (at_once cfg) registry request_id now body q = (answer, q')"
  shows "tq_putters q' = []"
    and "fst answer = 202 \<Longrightarrow> tq_accepted q' = tq_accepted q @ [job_of operator request_id now request]
      \<and> snd answer = Accepted_r \<lparr>ac_request_id = request_id, ac_component = pr_component request,
          ac_fqdn = pr_fqdn request, ac_correlation_id = pr_correlation_id request, ac_accepted_at = now\<rparr>"
    and "fst answer \<noteq> 202 \<Longrightarrow> tq_accepted q' = tq_accepted q"
  using assms
  by (auto simp: reconcile_def accept_reconcile_def get_operator_def build_execution_plan_def enqueue_at_once
      job_of_def put_nowait_def Let_def split: if_splits)

section \<open>What the retries do\<close>

text \<open>
  The retry loop over calls that leave at most one job each: \<open>jobs\<close> lists the jobs,
  \<open>lost\<close> counts those whose answer was lost.
\<close>

lemma attempt_loop_jobs:
  assumes call: "\<And>w r w'. ok w \<Longrightarrow> call w = (r, w') \<Longrightarrow> ok w' \<and>
      (case r of
         Inl e \<Rightarrow> jobs w' = jobs w \<and> lost w' = lost w \<or> (\<exists>j. mine j \<and> jobs w' = jobs w @ [j] \<and> lost w' = Suc (lost w))
       | Inr x \<Rightarrow> \<exists>j. mine j \<and> names x j \<and> jobs w' = jobs w @ [j] \<and> lost w' = (lost w :: nat))"
    and waits: "\<And>d w b w'. ok w \<Longrightarrow> tr_wait tr d w = (b, w') \<Longrightarrow> ok w' \<and> jobs w' = jobs w \<and> lost w' = lost w"
  shows "ok w \<Longrightarrow> attempt_loop tr call backoff n e w = (r, w') \<Longrightarrow>
    \<exists>new. jobs w' = jobs w @ new \<and> length new \<le> n \<and> (\<forall>j \<in> set new. mine j)
      \<and> lost w + length new = lost w' + (case r of Inr x \<Rightarrow> 1 | Inl err \<Rightarrow> 0)
      \<and> (case r of Inr x \<Rightarrow> new \<noteq> [] \<and> names x (last new) | Inl err \<Rightarrow> True)"
proof (induction n arbitrary: e w)
  case 0
  then show ?case by (intro exI [of _ "[]"]) auto
next
  case (Suc n)
  obtain r1 w1 where c: "call w = (r1, w1)" by fastforce
  note effect = call [OF Suc.prems(1) c]
  show ?case
  proof (cases r1)
    case (Inr x)
    with Suc.prems(2) c have "r = Inr x" "w' = w1" by simp_all
    moreover from effect Inr obtain j where "mine j" "names x j" "jobs w1 = jobs w @ [j]" "lost w1 = lost w" by auto
    ultimately show ?thesis by (intro exI [of _ "[j]"]) auto
  next
    case (Inl err)
    then obtain status msg where err: "r1 = Inl (status, msg)" by (cases err) simp
    with effect obtain first where first: "jobs w1 = jobs w @ first" "length first \<le> 1" "\<forall>j \<in> set first. mine j"
        "lost w1 = lost w + length first" and ok1: "ok w1"
      by (auto intro: that [of "[]"] that [of "[_]"])
    obtain b w2 where s: "sleepWithContext tr backoff w1 = (b, w2)" by fastforce
    with ok1 waits have w2: "ok w2" "jobs w2 = jobs w1" "lost w2 = lost w1"
      by (auto simp: sleepWithContext_def split: if_splits)
    show ?thesis
    proof (cases "shouldRetry status \<and> n \<noteq> 0 \<and> b")
      case True
      with Suc.prems(2) c err s have "attempt_loop tr call backoff n msg w2 = (r, w')" by simp
      from Suc.IH [OF w2(1) this] obtain new where new: "jobs w' = jobs w2 @ new" "length new \<le> n" "\<forall>j \<in> set new. mine j"
        "lost w2 + length new = lost w' + (case r of Inr x \<Rightarrow> 1 | Inl err \<Rightarrow> 0)"
        "case r of Inr x \<Rightarrow> new \<noteq> [] \<and> names x (last new) | Inl err \<Rightarrow> True" by blast
      with first w2 show ?thesis by (intro exI [of _ "first @ new"]) (auto split: sum.splits)
    next
      case False
      with Suc.prems(2) c err s have "(\<exists>e. r = Inl e) \<and> (w' = w1 \<or> w' = w2)"
        by (auto split: if_splits bool.splits)
      with first w2 show ?thesis by (intro exI [of _ first]) auto
    qed
  qed
qed

text \<open>The job of the i-th request, and its answer.\<close>

definition site_job :: "reconciler_site \<Rightarrow> ReconcileOperator \<Rightarrow> ReconcileRequest_r \<Rightarrow> nat \<Rightarrow> ReconcileJob" where
  "site_job si operator request i = job_of operator (fst (si_fresh si i)) (snd (si_fresh si i)) request"

definition site_accepted :: "reconciler_site \<Rightarrow> ReconcileRequest_r \<Rightarrow> nat \<Rightarrow> AcceptedResponse" where
  "site_accepted si request i =
     \<lparr>ac_request_id = fst (si_fresh si i), ac_component = pr_component request, ac_fqdn = pr_fqdn request,
      ac_correlation_id = pr_correlation_id request, ac_accepted_at = snd (si_fresh si i)\<rparr>"

text \<open>One call of the client is at most one delivery.\<close>

lemma network_call:
  assumes valid: "validate_request (si_parse si body) = Inr request"
    and operator: "map_get (art_registry (si_runtime si)) (pr_component request) = Some operator"
    and between: "\<And>q. (tasks (art_queue_config (si_runtime si)))\<^sup>*\<^sup>* q (si_between si q)"
    and decoded: "\<And>i. unmarshal (si_render si (Accepted_r (site_accepted si request i))) = Inr (wire_accepted (site_accepted si request i))"
    and idle: "tq_putters (nw_queue nw) = []"
    and call: "sendOnce (network_transport si alive) unmarshal url body nw = (r, nw')"
  shows "tq_putters (nw_queue nw') = [] \<and>
    (case r of
       Inl e \<Rightarrow> tq_accepted (nw_queue nw') = tq_accepted (nw_queue nw) \<and> nw_lost nw' = nw_lost nw
         \<or> (\<exists>j. (\<exists>i. j = site_job si operator request i)
              \<and> tq_accepted (nw_queue nw') = tq_accepted (nw_queue nw) @ [j] \<and> nw_lost nw' = Suc (nw_lost nw))
     | Inr x \<Rightarrow> \<exists>j. (\<exists>i. j = site_job si operator request i)
         \<and> rj_request_id j = ra_RequestID x
         \<and> tq_accepted (nw_queue nw') = tq_accepted (nw_queue nw) @ [j] \<and> nw_lost nw' = nw_lost nw)"
proof -
  let ?rt = "si_runtime si" and ?q = "si_between si (nw_queue nw)"
  obtain rid t where fresh: "si_fresh si (nw_requests nw) = (rid, t)" by fastforce
  obtain answer q' where rec: "reconcile (si_paths si) (at_once (art_queue_config ?rt)) (art_registry ?rt) rid t (si_parse si body) ?q =
      (answer, q')" by fastforce
  obtain status payload where answer: "answer = (status, payload)" by fastforce
  from tasks_alone [OF between idle] have q: "tq_accepted ?q = tq_accepted (nw_queue nw)" "tq_putters ?q = []" by simp_all
  note one = reconcile_at_once [OF valid operator q(2) rec]
  have deliver: "deliver si body (nw\<lparr>nw_faults := fs\<rparr>) = (answer, nw\<lparr>nw_faults := fs, nw_requests := nw_requests nw + 1, nw_queue := q'\<rparr>)"
    for fs by (simp add: deliver_def fresh rec)
  then have delivered: "deliver si body nw = (answer, nw\<lparr>nw_requests := nw_requests nw + 1, nw_queue := q'\<rparr>)"
    by (simp add: deliver_def fresh rec)
  define mine where "mine = (\<lambda>j. \<exists>i. j = site_job si operator request i)"
  have job: "mine (job_of operator rid t request)" "rj_request_id (job_of operator rid t request) = rid"
    unfolding mine_def site_job_def using fresh by (metis fst_conv snd_conv, simp add: job_of_def)
  show ?thesis
    unfolding mine_def [THEN fun_cong, symmetric]
    using call one q idle answer decoded [of "nw_requests nw"] fresh job
    by (auto simp: sendOnce_def request_once_def network_transport_def network_send_def deliver delivered
        toDomain_accepted_def wire_accepted_def site_accepted_def Let_def split: list.splits fault.splits if_splits)
qed

text \<open>
  C5: At least once, never without a trace. A network that loses requests and answers, a
  reconciler that accepts each request of the command it is given, whose workers go on in
  any way between the deliveries, and the retries of SendReconcile: however many faults
  there are, what they leave in the queue of the reconciler are at most MaxAttempts jobs,
  all for this command. When SendReconcile returns a request id, the last of them has that
  id, and there is one more job than lost answers; when it fails, there are as many jobs as
  lost answers, so that none is there if only requests were lost.
\<close>
theorem platform_delivery:
  assumes "validate_request (wire_reconcile (payload_of c)) = Inr request"
    and "map_get (art_registry (si_runtime si)) (pr_component request) = Some operator"
    and "\<And>q. (tasks (art_queue_config (si_runtime si)))\<^sup>*\<^sup>* q (si_between si q)"
    and "marshal (payload_of c) = Inr body" and "si_parse si body = wire_reconcile (payload_of c)"
    and "\<And>i. unmarshal (si_render si (Accepted_r (site_accepted si request i))) = Inr (wire_accepted (site_accepted si request i))"
    and "tq_putters (nw_queue nw) = []"
    and "SendReconcile (network_transport si alive) marshal unmarshal cfg c nw = (r, nw')"
  shows "\<exists>new. tq_accepted (nw_queue nw') = tq_accepted (nw_queue nw) @ new
    \<and> length new \<le> nat (rt_MaxAttempts (cl_Retry cfg))
    \<and> set new \<subseteq> range (site_job si operator request)
    \<and> (case r of
         Inr accepted \<Rightarrow> nw_lost nw + length new = nw_lost nw' + 1 \<and> new \<noteq> [] \<and> rj_request_id (last new) = ra_RequestID accepted
       | Inl err \<Rightarrow> nw_lost nw + length new = nw_lost nw')"
proof -
  have valid: "validate_request (si_parse si body) = Inr request" by (simp add: assms(1,5))
  let ?call = "sendOnce (network_transport si alive) unmarshal (cl_BaseURL cfg @ cl_Path cfg) body"
  obtain r1 where loop: "attempt_loop (network_transport si alive) ?call (rt_Backoff (cl_Retry cfg))
      (nat (rt_MaxAttempts (cl_Retry cfg))) ''%!w(<nil>)'' nw = (r1, nw')"
    and r: "case r1 of Inr x \<Rightarrow> r = Inr x | Inl e \<Rightarrow> \<exists>e. r = Inl e"
    using assms(8) unfolding SendReconcile_def payload_of_def [symmetric] Let_def assms(4)
    by (auto simp: with_retries_def split: prod.splits sum.splits)
  note jobs = attempt_loop_jobs [where ok = "\<lambda>nw. tq_putters (nw_queue nw) = []" and jobs = "\<lambda>nw. tq_accepted (nw_queue nw)"
      and lost = nw_lost and mine = "\<lambda>j. \<exists>i. j = site_job si operator request i"
      and names = "\<lambda>x j. rj_request_id j = ra_RequestID x" and call = ?call and tr = "network_transport si alive",
      OF network_call [where si = si, OF valid assms(2,3,6)] _ assms(7) loop]
  have "\<exists>new. tq_accepted (nw_queue nw') = tq_accepted (nw_queue nw) @ new \<and> length new \<le> nat (rt_MaxAttempts (cl_Retry cfg))
      \<and> (\<forall>j\<in>set new. \<exists>i. j = site_job si operator request i)
      \<and> nw_lost nw + length new = nw_lost nw' + (case r1 of Inl err \<Rightarrow> 0 | Inr x \<Rightarrow> 1)
      \<and> (case r1 of Inl err \<Rightarrow> True | Inr x \<Rightarrow> new \<noteq> [] \<and> rj_request_id (last new) = ra_RequestID x)"
    by (rule jobs) (auto simp: network_transport_def)
  with r show ?thesis by (auto split: sum.splits)
qed

text \<open>The answer to the first request is lost: one command, two jobs.\<close>

definition sample_site :: "ApplicationRuntime \<Rightarrow> ReconcileCommand \<Rightarrow> reconciler_site" where
  "sample_site rt c =
     \<lparr>si_paths = sample_paths, si_runtime = rt, si_parse = (\<lambda>b. wire_reconcile (payload_of c)),
      si_render = (\<lambda>p. case p of Accepted_r x \<Rightarrow> ac_request_id x | _ \<Rightarrow> []),
      si_fresh = (\<lambda>i. (replicate (Suc i) (CHR ''i''), zero_time)), si_between = (\<lambda>q. q)\<rparr>"

definition sample_unmarshal :: "ReconcileRequest_r \<Rightarrow> string \<Rightarrow> (string, reconcileAcceptedResponse) result" where
  "sample_unmarshal request b = Inr (wire_accepted
     \<lparr>ac_request_id = b, ac_component = pr_component request, ac_fqdn = pr_fqdn request,
      ac_correlation_id = pr_correlation_id request, ac_accepted_at = zero_time\<rparr>)"

definition sample_network :: "ApplicationRuntime \<Rightarrow> network" where
  "sample_network rt = \<lparr>nw_faults = [Answer_lost ''EOF''], nw_requests = 0, nw_queue = art_queue (start_runtime rt), nw_lost = 0\<rparr>"

theorem platform_delivery_witness:
  "\<exists>c rt request nw' accepted.
     command_from ''7'' NODE_EXPORTER short_host bare_host = Some c
     \<and> build_runtime sample_paths default_app_config ''/app/configs/dev.yml'' = Inr rt
     \<and> SendReconcile (network_transport (sample_site rt c) (\<lambda>n. True)) (\<lambda>p. Inr ''request'') (sample_unmarshal request)
         sample_r_client c (sample_network rt) = (Inr accepted, nw')
     \<and> length (tq_accepted (nw_queue nw')) = 2 \<and> nw_lost nw' = 1
     \<and> rj_request_id (last (tq_accepted (nw_queue nw'))) = ra_RequestID accepted"
proof -
  let ?path = "''/app/configs/dev.yml''"
  have "command_from ''7'' NODE_EXPORTER short_host bare_host \<noteq> None" by code_simp
  then obtain c where c: "command_from ''7'' NODE_EXPORTER short_host bare_host = Some c" by blast
  have "case command_from ''7'' NODE_EXPORTER short_host bare_host of None \<Rightarrow> False
     | Some c \<Rightarrow> (case validate_request (wire_reconcile (payload_of c)) of Inl e \<Rightarrow> False | Inr request \<Rightarrow> True)" by code_simp
  then obtain request where valid: "validate_request (wire_reconcile (payload_of c)) = Inr request"
    using c by (auto split: sum.splits)
  have "case build_runtime sample_paths default_app_config ?path of Inl e \<Rightarrow> False | Inr rt \<Rightarrow> True" by code_simp
  then obtain rt where rt: "build_runtime sample_paths default_app_config ?path = Inr rt" by (auto split: sum.splits)
  have "pr_component request = NODE_EXPORTER"
    using command_validates [OF c, of request] valid by simp
  with build_runtime_operator [OF rt, of NODE_EXPORTER] obtain operator
    where operator: "map_get (art_registry rt) (pr_component request) = Some operator"
    by (auto simp: operator_config_def default_app_config_def)
  let ?si = "sample_site rt c" and ?nw = "sample_network rt"
  let ?send = "SendReconcile (network_transport ?si (\<lambda>n. True)) (\<lambda>p. Inr ''request'') (sample_unmarshal request) sample_r_client c ?nw"
  have "case (build_runtime sample_paths default_app_config ?path, command_from ''7'' NODE_EXPORTER short_host bare_host) of
      (Inr rt, Some c) \<Rightarrow> (case validate_request (wire_reconcile (payload_of c)) of
          Inr request \<Rightarrow> (case SendReconcile (network_transport (sample_site rt c) (\<lambda>n. True)) (\<lambda>p. Inr ''request'')
              (sample_unmarshal request) sample_r_client c (sample_network rt) of
            (Inr accepted, nw') \<Rightarrow> nw_lost nw' = 1 | _ \<Rightarrow> False)
        | _ \<Rightarrow> False)
    | _ \<Rightarrow> False" by code_simp
  then obtain accepted nw' where send: "?send = (Inr accepted, nw')" and lost: "nw_lost nw' = 1"
    using c rt valid by (cases ?send; cases "fst ?send") auto
  have start: "tq_putters (nw_queue ?nw) = []" "tq_accepted (nw_queue ?nw) = []" "nw_lost ?nw = 0"
    using rt by (auto simp: sample_network_def start_runtime_def build_runtime_def start_queue_def new_queue_def Let_def split: if_splits)
  have "\<exists>new. tq_accepted (nw_queue nw') = tq_accepted (nw_queue ?nw) @ new
      \<and> length new \<le> nat (rt_MaxAttempts (cl_Retry sample_r_client))
      \<and> set new \<subseteq> range (site_job ?si operator request)
      \<and> (case Inr accepted :: (string, ReconcileAccepted) result of
           Inr accepted \<Rightarrow> nw_lost ?nw + length new = nw_lost nw' + 1 \<and> new \<noteq> [] \<and> rj_request_id (last new) = ra_RequestID accepted
         | Inl err \<Rightarrow> nw_lost ?nw + length new = nw_lost nw')"
    by (rule platform_delivery [OF valid _ _ _ _ _ start(1) send])
      (simp_all add: sample_site_def operator site_accepted_def sample_unmarshal_def)
  with c rt send start lost show ?thesis by (auto simp: numeral_2_eq_2)
qed

end
